(* ===== verification/Prelude.thy ===== *)
theory Prelude
  imports Main "HOL-Library.Finite_Map" "HOL-Library.List_Lexorder" "HOL-Library.Char_ord"
begin

text \<open>
  Shared vocabulary of the development: the collections of facts the component proofs use, the
  names of the model's basic types, and generic lemmas on lists, strings and finite maps.

  \<^item> \<open>emits_intros\<close>: compositional rules for "every effect of this program satisfies P";
  \<^item> \<open>results_intros\<close>: compositional rules for "every value this program returns satisfies P";
  \<^item> \<open>label_simps\<close>: lookups in the label maps the resource builders produce;
  \<^item> \<open>build_defs\<close>: the definitions of the resource builders;
  \<^item> \<open>wf_intros\<close>: preservation of well-formedness by the operations of a component.
\<close>

named_theorems emits_intros
named_theorems results_intros
named_theorems label_simps
named_theorems build_defs
named_theorems wf_intros

text \<open>
  A Go \<open>map[string]string\<close>. A nil map and an empty map behave alike under lookup, \<open>len\<close> and
  \<open>range\<close>, so both are \<open>fmempty\<close>. Where the code tells nil from empty, the model uses an option.
\<close>

type_synonym smap = "(string, string) fmap"

text \<open>Indexing a Go map with a missing key yields the zero value of the element type.\<close>

definition smap_get :: "smap \<Rightarrow> string \<Rightarrow> string" where
  "smap_get m k = (case fmlookup m k of None \<Rightarrow> '''' | Some v \<Rightarrow> v)"

text \<open>\<open>for k, v := range src { dst[k] = v }\<close>.\<close>

definition smap_merge :: "smap \<Rightarrow> smap \<Rightarrow> smap" where
  "smap_merge dst src = fmadd dst src"

lemma smap_merge_lookup [label_simps]:
  "fmlookup (smap_merge dst src) k =
     (case fmlookup src k of Some v \<Rightarrow> Some v | None \<Rightarrow> fmlookup dst k)"
  by (auto simp: smap_merge_def fmdom'I fmlookup_dom_iff split: option.splits)

text \<open>\<open>sub \<subseteq> sup\<close> as maps: what a label selector asks of the labels of an object.\<close>

definition smap_sub :: "smap \<Rightarrow> smap \<Rightarrow> bool" where
  "smap_sub a b \<longleftrightarrow> fmsubset a b"

lemma smap_sub_iff:
  "smap_sub a b \<longleftrightarrow> (\<forall>k v. fmlookup a k = Some v \<longrightarrow> fmlookup b k = Some v)"
  by (auto simp: smap_sub_def fmsubset.rep_eq map_le_def dom_def)

lemma smap_sub_refl [simp]: "smap_sub m m"
  by (simp add: smap_sub_iff)

subsection \<open>Lists\<close>

lemma takeWhile_append_stop:
  "(\<forall>x\<in>set xs. P x) \<Longrightarrow> ys \<noteq> [] \<Longrightarrow> \<not> P (hd ys) \<Longrightarrow> takeWhile P (xs @ ys) = xs"
  by (cases ys) (auto simp: takeWhile_append2)

lemma dropWhile_append_stop:
  "(\<forall>x\<in>set xs. P x) \<Longrightarrow> ys \<noteq> [] \<Longrightarrow> \<not> P (hd ys) \<Longrightarrow> dropWhile P (xs @ ys) = ys"
  by (cases ys) (auto simp: dropWhile_append2)

text \<open>Two words that end at the first separator agree in the word and in the rest.\<close>

lemma append_sep_inject:
  assumes "xs @ c # ys = xs' @ c # ys'" and "c \<notin> set xs" and "c \<notin> set xs'"
  shows "xs = xs' \<and> ys = ys'"
proof -
  have "takeWhile (\<lambda>x. x \<noteq> c) (xs @ c # ys) = takeWhile (\<lambda>x. x \<noteq> c) (xs' @ c # ys')"
    and "dropWhile (\<lambda>x. x \<noteq> c) (xs @ c # ys) = dropWhile (\<lambda>x. x \<noteq> c) (xs' @ c # ys')"
    using assms(1) by simp_all
  moreover have "\<forall>x\<in>set xs. x \<noteq> c" and "\<forall>x\<in>set xs'. x \<noteq> c"
    using assms(2,3) by auto
  ultimately show ?thesis
    by (simp add: takeWhile_append_stop dropWhile_append_stop)
qed

end
