(* ===== verification/KubeTypes.thy ===== *)
theory KubeTypes
  imports Prelude
begin

text \<open>
  The Kubernetes objects the operator builds, reads and compares, as records. Each record has the
  fields the operator reads or writes; \<open>extra\<close> fields stand for everything else a live object
  carries (fields the API server defaults, fields other controllers own), which the operator must
  carry along unchanged when it updates an object. An object the operator builds has no extra
  fields. int32 and int64 fields are \<open>int\<close>: the operator only compares, copies and prints them.
\<close>

type_synonym extra = "(string \<times> string) list"

text \<open>\<open>resource.Quantity\<close>, kept by its text; parsing it is library code (theory Runtime).\<close>

datatype Quantity = Quantity string

datatype IntOrString = FromInt32 int | FromString string

record NamespacedName =
  nnName :: string
  nnNamespace :: string

definition NN :: "string \<Rightarrow> string \<Rightarrow> NamespacedName" where
  "NN name ns = \<lparr>nnName = name, nnNamespace = ns\<rparr>"

record OwnerReference =
  orKind :: string
  orName :: string
  orController :: bool

record ObjectMeta =
  mName :: string
  mNamespace :: string
  mLabels :: smap
  mAnnotations :: smap
  mResourceVersion :: string
  mGeneration :: int
  mOwnerReferences :: "OwnerReference list"

text \<open>\<open>metav1.ObjectMeta{Name: ..., Namespace: ..., Labels: ..., Annotations: ...}\<close>.\<close>

definition new_meta :: "string \<Rightarrow> string \<Rightarrow> smap \<Rightarrow> smap \<Rightarrow> ObjectMeta" where
  "new_meta name ns labels annotations =
     \<lparr>mName = name, mNamespace = ns, mLabels = labels, mAnnotations = annotations,
      mResourceVersion = '''', mGeneration = 0, mOwnerReferences = []\<rparr>"

definition meta_key :: "ObjectMeta \<Rightarrow> NamespacedName" where
  "meta_key m = NN (mName m) (mNamespace m)"

section \<open>Conditions\<close>

datatype ConditionStatus = ConditionTrue | ConditionFalse | ConditionUnknown

record Condition =
  cdType :: string
  cdStatus :: ConditionStatus
  cdObservedGeneration :: int
  cdLastTransitionTime :: int
  cdReason :: string
  cdMessage :: string

section \<open>Pods\<close>

datatype EnvVarSource = SecretKeyRef string string | OtherEnvVarSource extra

record EnvVar =
  evName :: string
  evValue :: string
  evValueFrom :: "EnvVarSource option"

datatype EnvFromSource = ConfigMapRef string | OtherEnvFromSource extra

record ContainerPort =
  cpName :: string
  cpContainerPort :: int
  cpProtocol :: string

text \<open>A nil resource list differs from an empty one in the builders' default rule.\<close>

type_synonym ResourceList = "(string, Quantity) fmap"

record ResourceRequirements =
  rrRequests :: "ResourceList option"
  rrLimits :: "ResourceList option"

datatype ProbeHandler = GRPCAction int | TCPSocketAction IntOrString

record Probe =
  prHandler :: ProbeHandler
  prInitialDelaySeconds :: int
  prPeriodSeconds :: int

record VolumeMount =
  vmName :: string
  vmMountPath :: string

record Container =
  cName :: string
  cImage :: string
  cCommand :: "string list"
  cPorts :: "ContainerPort list"
  cEnvFrom :: "EnvFromSource list"
  cEnv :: "EnvVar list"
  cResources :: ResourceRequirements
  cLivenessProbe :: "Probe option"
  cReadinessProbe :: "Probe option"
  cVolumeMounts :: "VolumeMount list"
  cExtra :: extra

definition no_resources :: ResourceRequirements where
  "no_resources = \<lparr>rrRequests = None, rrLimits = None\<rparr>"

text \<open>The zero \<open>corev1.Container\<close> with a name and an image.\<close>

definition new_container :: "string \<Rightarrow> string \<Rightarrow> Container" where
  "new_container name img =
     \<lparr>cName = name, cImage = img, cCommand = [], cPorts = [], cEnvFrom = [], cEnv = [],
      cResources = no_resources, cLivenessProbe = None, cReadinessProbe = None,
      cVolumeMounts = [], cExtra = []\<rparr>"

record WeightedPodAffinityTerm =
  wpWeight :: int
  wpMatchLabels :: smap
  wpTopologyKey :: string

record Affinity =
  afPreferredAntiAffinity :: "WeightedPodAffinityTerm list"
  afExtra :: extra

type_synonym Toleration = extra

record PodSpec =
  psRestartPolicy :: string
  psServiceAccountName :: string
  psTerminationGracePeriodSeconds :: "int option"
  psNodeSelector :: smap
  psTolerations :: "Toleration list"
  psAffinity :: "Affinity option"
  psContainers :: "Container list"
  psExtra :: extra

definition new_pod_spec :: "string \<Rightarrow> Container list \<Rightarrow> PodSpec" where
  "new_pod_spec sa containers =
     \<lparr>psRestartPolicy = '''', psServiceAccountName = sa, psTerminationGracePeriodSeconds = None,
      psNodeSelector = fmempty, psTolerations = [], psAffinity = None, psContainers = containers,
      psExtra = []\<rparr>"

record PodTemplateSpec =
  ptLabels :: smap
  ptAnnotations :: smap
  ptSpec :: PodSpec

section \<open>Workloads\<close>

record DeploymentSpec =
  dsReplicas :: "int option"
  dsSelector :: smap
  dsTemplate :: PodTemplateSpec
  dsExtra :: extra

record DeploymentStatus =
  dtObservedGeneration :: int
  dtReplicas :: int
  dtUpdatedReplicas :: int
  dtReadyReplicas :: int
  dtAvailableReplicas :: int

definition new_deployment_status :: DeploymentStatus where
  "new_deployment_status =
     \<lparr>dtObservedGeneration = 0, dtReplicas = 0, dtUpdatedReplicas = 0, dtReadyReplicas = 0,
      dtAvailableReplicas = 0\<rparr>"

record Deployment =
  dMeta :: ObjectMeta
  dSpec :: DeploymentSpec
  dStatus :: DeploymentStatus

record PersistentVolumeClaim =
  pvcName :: string
  pvcAccessModes :: "string list"
  pvcRequests :: ResourceList
  pvcStorageClassName :: "string option"

record StatefulSetSpec =
  ssReplicas :: "int option"
  ssServiceName :: string
  ssSelector :: smap
  ssTemplate :: PodTemplateSpec
  ssVolumeClaimTemplates :: "PersistentVolumeClaim list"
  ssExtra :: extra

record StatefulSetStatus =
  stReplicas :: int
  stReadyReplicas :: int

record StatefulSet =
  sMeta :: ObjectMeta
  sSpec :: StatefulSetSpec
  sStatus :: StatefulSetStatus

record ServicePort =
  spName :: string
  spPort :: int
  spTargetPort :: IntOrString
  spProtocol :: string
  spNodePort :: int

record KServiceSpec =
  ksType :: string
  ksClusterIP :: string
  ksSelector :: smap
  ksPorts :: "ServicePort list"
  ksExtra :: extra

record Service =
  svMeta :: ObjectMeta
  svSpec :: KServiceSpec

record JobCondition =
  jcType :: string
  jcStatus :: ConditionStatus

record JobSpec =
  jsBackoffLimit :: "int option"
  jsTemplate :: PodTemplateSpec

record Job =
  jMeta :: ObjectMeta
  jSpec :: JobSpec
  jConditions :: "JobCondition list"

record ConfigMap =
  cmMeta :: ObjectMeta
  cmData :: smap

record Secret =
  scMeta :: ObjectMeta

record ServiceAccount =
  saMeta :: ObjectMeta

abbreviation JobComplete :: string where "JobComplete \<equiv> ''Complete''"
abbreviation JobFailed :: string where "JobFailed \<equiv> ''Failed''"

end
