(* ===== verification/ApiTypes.thy ===== *)
theory ApiTypes
  imports KubeTypes
begin

text \<open>
  The custom resources of the operator (api/v1alpha1): the specs and statuses of PeerDBCluster,
  PeerDBWorkerPool and PeerDBSnapshotPool, their condition types, reasons and annotations. A
  pointer field is an option. Each record has the fields of the Go struct of the same name.
\<close>

section \<open>Condition types, reasons, annotations (peerdbcluster\_types.go)\<close>

definition ConditionReady :: string where "ConditionReady = ''Ready''"
definition ConditionCatalogReady :: string where "ConditionCatalogReady = ''CatalogReady''"
definition ConditionTemporalReady :: string where "ConditionTemporalReady = ''TemporalReady''"
definition ConditionInitialized :: string where "ConditionInitialized = ''Initialized''"
definition ConditionComponentsReady :: string where "ConditionComponentsReady = ''ComponentsReady''"
definition ConditionReconciling :: string where "ConditionReconciling = ''Reconciling''"
definition ConditionDegraded :: string where "ConditionDegraded = ''Degraded''"
definition ConditionUpgradeInProgress :: string where
  "ConditionUpgradeInProgress = ''UpgradeInProgress''"
definition ConditionBackupSafe :: string where "ConditionBackupSafe = ''BackupSafe''"
definition ConditionMaintenanceMode :: string where "ConditionMaintenanceMode = ''MaintenanceMode''"

lemmas condition_type_defs =
  ConditionReady_def ConditionCatalogReady_def ConditionTemporalReady_def ConditionInitialized_def
  ConditionComponentsReady_def ConditionReconciling_def ConditionDegraded_def
  ConditionUpgradeInProgress_def ConditionBackupSafe_def ConditionMaintenanceMode_def

abbreviation ReasonPaused :: string where "ReasonPaused \<equiv> ''Paused''"
abbreviation ReasonReconciling :: string where "ReasonReconciling \<equiv> ''Reconciling''"
abbreviation ReasonReconcileComplete :: string where "ReasonReconcileComplete \<equiv> ''ReconcileComplete''"
abbreviation ReasonClusterReady :: string where "ReasonClusterReady \<equiv> ''ClusterReady''"
abbreviation ReasonClusterNotReady :: string where "ReasonClusterNotReady \<equiv> ''ClusterNotReady''"
abbreviation ReasonDependencyNotReady :: string where
  "ReasonDependencyNotReady \<equiv> ''DependencyNotReady''"
abbreviation ReasonSecretNotFound :: string where "ReasonSecretNotFound \<equiv> ''SecretNotFound''"
abbreviation ReasonSecretFound :: string where "ReasonSecretFound \<equiv> ''SecretFound''"
abbreviation ReasonConfigured :: string where "ReasonConfigured \<equiv> ''Configured''"
abbreviation ReasonJobsCompleted :: string where "ReasonJobsCompleted \<equiv> ''JobsCompleted''"
abbreviation ReasonJobsPending :: string where "ReasonJobsPending \<equiv> ''JobsPending''"
abbreviation ReasonJobFailed :: string where "ReasonJobFailed \<equiv> ''JobFailed''"
abbreviation ReasonAllReady :: string where "ReasonAllReady \<equiv> ''AllReady''"
abbreviation ReasonComponentsNotReady :: string where
  "ReasonComponentsNotReady \<equiv> ''ComponentsNotReady''"
abbreviation ReasonDeploymentCreated :: string where "ReasonDeploymentCreated \<equiv> ''DeploymentCreated''"
abbreviation ReasonDeploymentReady :: string where "ReasonDeploymentReady \<equiv> ''DeploymentReady''"
abbreviation ReasonDeploymentNotReady :: string where
  "ReasonDeploymentNotReady \<equiv> ''DeploymentNotReady''"
abbreviation ReasonStatefulSetCreated :: string where
  "ReasonStatefulSetCreated \<equiv> ''StatefulSetCreated''"
abbreviation ReasonStatefulSetReady :: string where "ReasonStatefulSetReady \<equiv> ''StatefulSetReady''"
abbreviation ReasonStatefulSetNotReady :: string where
  "ReasonStatefulSetNotReady \<equiv> ''StatefulSetNotReady''"
abbreviation ReasonClusterNotFound :: string where "ReasonClusterNotFound \<equiv> ''ClusterNotFound''"
abbreviation ReasonUpgradeInProgress :: string where "ReasonUpgradeInProgress \<equiv> ''UpgradeInProgress''"
abbreviation ReasonUpgradeComplete :: string where "ReasonUpgradeComplete \<equiv> ''UpgradeComplete''"
abbreviation ReasonDegraded :: string where "ReasonDegraded \<equiv> ''Degraded''"
abbreviation ReasonUpgradeBlocked :: string where "ReasonUpgradeBlocked \<equiv> ''UpgradeBlocked''"
abbreviation ReasonMaintenanceWindow :: string where "ReasonMaintenanceWindow \<equiv> ''MaintenanceWindow''"
abbreviation ReasonVersionSkew :: string where "ReasonVersionSkew \<equiv> ''VersionSkew''"
abbreviation ReasonBackupInProgress :: string where "ReasonBackupInProgress \<equiv> ''BackupInProgress''"
abbreviation ReasonBackupSafe :: string where "ReasonBackupSafe \<equiv> ''BackupSafe''"
abbreviation ReasonBackupUnsafe :: string where "ReasonBackupUnsafe \<equiv> ''BackupUnsafe''"
abbreviation ReasonMaintenanceStarting :: string where
  "ReasonMaintenanceStarting \<equiv> ''MaintenanceStarting''"
abbreviation ReasonMaintenanceActive :: string where "ReasonMaintenanceActive \<equiv> ''MaintenanceActive''"
abbreviation ReasonMaintenanceEnding :: string where "ReasonMaintenanceEnding \<equiv> ''MaintenanceEnding''"
abbreviation ReasonMaintenanceComplete :: string where
  "ReasonMaintenanceComplete \<equiv> ''MaintenanceComplete''"
abbreviation ReasonMaintenanceFailed :: string where "ReasonMaintenanceFailed \<equiv> ''MaintenanceFailed''"

definition AnnotationBackupInProgress :: string where
  "AnnotationBackupInProgress = ''peerdb.io/backup-in-progress''"

section \<open>PeerDBCluster\<close>

record SecretKeySelector =
  sksName :: string
  sksKey :: string

record ServiceSpec =
  svcType :: string
  svcPort :: "int option"
  svcAnnotations :: smap

record ServiceAccountConfig =
  sacCreate :: bool
  sacAnnotations :: smap

record CatalogSpec =
  catHost :: string
  catPort :: int
  catDatabase :: string
  catUser :: string
  catPasswordSecretRef :: SecretKeySelector
  catSSLMode :: string

record TemporalSpec =
  tmpAddress :: string
  tmpNamespace :: string
  tmpTLSSecretRef :: "SecretKeySelector option"

record DependenciesSpec =
  depCatalog :: CatalogSpec
  depTemporal :: TemporalSpec

record FlowAPISpec =
  faImage :: "string option"
  faReplicas :: "int option"
  faResources :: "ResourceRequirements option"
  faService :: "ServiceSpec option"

record PeerDBServerSpec =
  psvImage :: "string option"
  psvReplicas :: "int option"
  psvResources :: "ResourceRequirements option"
  psvService :: "ServiceSpec option"
  psvPasswordSecretRef :: "SecretKeySelector option"

record UISpec =
  uiImage :: "string option"
  uiReplicas :: "int option"
  uiResources :: "ResourceRequirements option"
  uiService :: "ServiceSpec option"
  uiPasswordSecretRef :: "SecretKeySelector option"
  uiNextAuthSecretRef :: "SecretKeySelector option"
  uiNextAuthURL :: "string option"

record AuthProxyCredentials =
  apcUsername :: string
  apcPasswordSecretRef :: SecretKeySelector

record AuthProxySpec =
  apImage :: "string option"
  apReplicas :: "int option"
  apResources :: "ResourceRequirements option"
  apService :: "ServiceSpec option"
  apCredentials :: AuthProxyCredentials

record ComponentsSpec =
  cmpFlowAPI :: "FlowAPISpec option"
  cmpPeerDBServer :: "PeerDBServerSpec option"
  cmpUI :: "UISpec option"
  cmpAuthProxy :: "AuthProxySpec option"

record InitJobSpec =
  ijEnabled :: "bool option"
  ijImage :: "string option"
  ijBackoffLimit :: "int option"
  ijResources :: "ResourceRequirements option"

record InitSpec =
  inTemporalNamespaceRegistration :: "InitJobSpec option"
  inTemporalSearchAttributes :: "InitJobSpec option"

record MaintenanceSpec =
  mtImage :: "string option"
  mtBackoffLimit :: "int option"
  mtResources :: "ResourceRequirements option"

text \<open>\<open>UpgradePolicy\<close> and \<open>UpgradePhase\<close> are string types: other strings are values too.\<close>

datatype UpgradePolicy = UpgradePolicyAutomatic | UpgradePolicyManual | OtherPolicy string

record MaintenanceWindow =
  mwStart :: string
  mwEnd :: string
  mwTimeZone :: "string option"

datatype UpgradePhase =
    UpgradePhaseComplete
  | UpgradePhaseWaiting
  | UpgradePhaseBlocked
  | UpgradePhaseStartMaintenance
  | UpgradePhaseConfig
  | UpgradePhaseInitJobs
  | UpgradePhaseFlowAPI
  | UpgradePhaseServer
  | UpgradePhaseUI
  | UpgradePhaseEndMaintenance
  | OtherPhase string

fun phase_string :: "UpgradePhase \<Rightarrow> string" where
  "phase_string UpgradePhaseComplete = ''Complete''"
| "phase_string UpgradePhaseWaiting = ''Waiting''"
| "phase_string UpgradePhaseBlocked = ''Blocked''"
| "phase_string UpgradePhaseStartMaintenance = ''StartMaintenance''"
| "phase_string UpgradePhaseConfig = ''Config''"
| "phase_string UpgradePhaseInitJobs = ''InitJobs''"
| "phase_string UpgradePhaseFlowAPI = ''FlowAPI''"
| "phase_string UpgradePhaseServer = ''PeerDBServer''"
| "phase_string UpgradePhaseUI = ''UI''"
| "phase_string UpgradePhaseEndMaintenance = ''EndMaintenance''"
| "phase_string (OtherPhase s) = s"

record UpgradeStatus =
  upFromVersion :: string
  upToVersion :: string
  upPhase :: UpgradePhase
  upStartedAt :: "int option"
  upMessage :: string

record EndpointStatus =
  epServerAddress :: string
  epUIAddress :: string
  epFlowAPIAddress :: string

record PeerDBClusterSpec =
  clVersion :: string
  clImagePullSecrets :: "string list"
  clServiceAccount :: "ServiceAccountConfig option"
  clDependencies :: DependenciesSpec
  clComponents :: "ComponentsSpec option"
  clInit :: "InitSpec option"
  clPaused :: bool
  clUpgradePolicy :: "UpgradePolicy option"
  clMaintenanceWindow :: "MaintenanceWindow option"
  clMaintenance :: "MaintenanceSpec option"

record PeerDBClusterStatus =
  csObservedGeneration :: int
  csConditions :: "Condition list"
  csEndpoints :: "EndpointStatus option"
  csUpgrade :: "UpgradeStatus option"

record PeerDBCluster =
  clMeta :: ObjectMeta
  clSpec :: PeerDBClusterSpec
  clStatus :: PeerDBClusterStatus

abbreviation clName :: "PeerDBCluster \<Rightarrow> string" where "clName c \<equiv> mName (clMeta c)"
abbreviation clNamespace :: "PeerDBCluster \<Rightarrow> string" where "clNamespace c \<equiv> mNamespace (clMeta c)"
abbreviation clGeneration :: "PeerDBCluster \<Rightarrow> int" where "clGeneration c \<equiv> mGeneration (clMeta c)"
abbreviation clCatalog :: "PeerDBCluster \<Rightarrow> CatalogSpec" where
  "clCatalog c \<equiv> depCatalog (clDependencies (clSpec c))"
abbreviation clTemporal :: "PeerDBCluster \<Rightarrow> TemporalSpec" where
  "clTemporal c \<equiv> depTemporal (clDependencies (clSpec c))"

section \<open>PeerDBWorkerPool\<close>

record AutoscalingSpec =
  asEnabled :: bool
  asMinReplicas :: "int option"
  asMaxReplicas :: int
  asTargetCPUUtilization :: "int option"

record PeerDBWorkerPoolSpec =
  wsClusterRef :: string
  wsImage :: string
  wsReplicas :: "int option"
  wsResources :: ResourceRequirements
  wsTemporalTaskQueue :: string
  wsAutoscaling :: "AutoscalingSpec option"
  wsNodeSelector :: smap
  wsTolerations :: "Toleration list"
  wsAffinity :: "Affinity option"
  wsExtraEnv :: "EnvVar list"
  wsPodAnnotations :: smap
  wsPodLabels :: smap

text \<open>\<open>PeerDBWorkerPoolStatus\<close> and \<open>PeerDBSnapshotPoolStatus\<close> have the same fields.\<close>

record PoolStatus =
  plObservedGeneration :: int
  plReplicas :: int
  plReadyReplicas :: int
  plConditions :: "Condition list"

record PeerDBWorkerPool =
  wpMeta :: ObjectMeta
  wpSpec :: PeerDBWorkerPoolSpec
  wpStatus :: PoolStatus

section \<open>PeerDBSnapshotPool\<close>

record SnapshotPoolStorageSpec =
  sgSize :: Quantity
  sgStorageClassName :: "string option"

record PeerDBSnapshotPoolSpec =
  spsClusterRef :: string
  spsImage :: string
  spsReplicas :: "int option"
  spsResources :: ResourceRequirements
  spsStorage :: SnapshotPoolStorageSpec
  spsTerminationGracePeriodSeconds :: "int option"
  spsNodeSelector :: smap
  spsTolerations :: "Toleration list"
  spsAffinity :: "Affinity option"
  spsExtraEnv :: "EnvVar list"
  spsPodAnnotations :: smap
  spsPodLabels :: smap

record PeerDBSnapshotPool =
  snMeta :: ObjectMeta
  snSpec :: PeerDBSnapshotPoolSpec
  snStatus :: PoolStatus

end
