(* ===== verification/GoStd.thy ===== *)
theory GoStd
  imports Prelude "HOL-Library.Word"
begin

text \<open>
  The parts of the Go language and its standard library that the operator uses, as executable
  functions on strings of bytes: \<open>fmt\<close> verbs, \<open>strings\<close>, \<open>regexp\<close> (the submatch search of a
  backtracking matcher), \<open>time.Parse\<close> with the layout \<open>15:04\<close>, \<open>time.LoadLocation\<close>,
  \<open>crypto/sha256\<close> and \<open>encoding/hex\<close>. The lemmas characterise each function independently of the
  way it computes.
\<close>

unbundle bit_operations_syntax

section \<open>fmt and strings\<close>

definition is_digit :: "char \<Rightarrow> bool" where
  "is_digit c \<longleftrightarrow> c \<in> set ''0123456789''"

definition digit_char :: "nat \<Rightarrow> char" where
  "digit_char n = ''0123456789'' ! (n mod 10)"

definition digit_val :: "char \<Rightarrow> nat" where
  "digit_val c = length (takeWhile (\<lambda>d. d \<noteq> c) ''0123456789'')"

text \<open>The verb \<open>%d\<close>.\<close>

fun nat_digits :: "nat \<Rightarrow> string" where
  "nat_digits n = (if n < 10 then [digit_char n] else nat_digits (n div 10) @ [digit_char (n mod 10)])"

declare nat_digits.simps [simp del]

definition fmt_d :: "int \<Rightarrow> string" where
  "fmt_d i = (if i < 0 then ''-'' @ nat_digits (nat (- i)) else nat_digits (nat i))"

text \<open>
  The verb \<open>%q\<close> (\<open>strconv.Quote\<close>): quotes, backslashes and ASCII control bytes are escaped; the
  bytes of multi-byte runes are copied.
\<close>

definition hex_char :: "nat \<Rightarrow> char" where
  "hex_char n = ''0123456789abcdef'' ! (n mod 16)"

definition quote_char :: "char \<Rightarrow> string" where
  "quote_char c =
     (let n = (of_char c :: nat) in
      if n = 34 then [CHR 0x5C, CHR 0x22]
      else if n = 92 then [CHR 0x5C, CHR 0x5C]
      else if n = 7 then CHR 0x5C # ''a''
      else if n = 8 then CHR 0x5C # ''b''
      else if n = 9 then CHR 0x5C # ''t''
      else if n = 10 then CHR 0x5C # ''n''
      else if n = 11 then CHR 0x5C # ''v''
      else if n = 12 then CHR 0x5C # ''f''
      else if n = 13 then CHR 0x5C # ''r''
      else if n < 32 \<or> n = 127 then CHR 0x5C # CHR ''x'' # [hex_char (n div 16), hex_char n]
      else [c])"

definition fmt_q :: "string \<Rightarrow> string" where
  "fmt_q s = [CHR 0x22] @ concat (map quote_char s) @ [CHR 0x22]"

text \<open>\<open>strings.ReplaceAll\<close> for one-byte strings.\<close>

definition replace_all :: "char \<Rightarrow> char \<Rightarrow> string \<Rightarrow> string" where
  "replace_all old new s = map (\<lambda>c. if c = old then new else c) s"

text \<open>\<open>strings.SplitN(s, sep, 2)\<close> for a one-byte separator: at most one cut, at the first one.\<close>

definition split_n2 :: "char \<Rightarrow> string \<Rightarrow> string list" where
  "split_n2 sep s =
     (if sep \<in> set s then [takeWhile (\<lambda>c. c \<noteq> sep) s, tl (dropWhile (\<lambda>c. c \<noteq> sep) s)] else [s])"

definition has_prefix :: "string \<Rightarrow> string \<Rightarrow> bool" where
  "has_prefix s p \<longleftrightarrow> take (length p) s = p"

lemma is_digit_digit_char [simp]: "is_digit (digit_char n)"
proof -
  have "n mod 10 < length ''0123456789''" by simp
  then show ?thesis unfolding is_digit_def digit_char_def by (rule nth_mem)
qed

lemma nat_digits_digits: "\<forall>c\<in>set (nat_digits n). is_digit c"
proof (induction n rule: nat_digits.induct)
  case (1 n)
  then show ?case by (subst nat_digits.simps) auto
qed

lemma nat_digits_nonempty [simp]: "nat_digits n \<noteq> []"
  by (subst nat_digits.simps) simp

lemma digit_val_digit_char: "digit_val (digit_char n) = n mod 10"
proof -
  have "\<forall>k < 10. digit_val (''0123456789'' ! k) = k"
    by code_simp
  then show ?thesis by (simp add: digit_char_def)
qed

lemma is_digit_dot [simp]: "\<not> is_digit CHR ''.''"
  and is_digit_colon [simp]: "\<not> is_digit CHR '':''"
  and is_digit_v [simp]: "\<not> is_digit CHR ''v''"
  by (simp_all add: is_digit_def)

lemma length_split_n2: "length (split_n2 c s) < 2 \<longleftrightarrow> c \<notin> set s"
  by (simp add: split_n2_def)

lemma split_n2_cut: "c \<notin> set a \<Longrightarrow> split_n2 c (a @ c # b) = [a, b]"
proof -
  assume "c \<notin> set a"
  then have "\<forall>x\<in>set a. x \<noteq> c" by auto
  then show ?thesis
    by (simp add: split_n2_def takeWhile_append_stop dropWhile_append_stop)
qed

lemma replace_all_absent: "a \<noteq> b \<Longrightarrow> a \<notin> set (replace_all a b s)"
  by (auto simp: replace_all_def)

lemma length_replace_all [simp]: "length (replace_all a b s) = length s"
  by (simp add: replace_all_def)

section \<open>regexp\<close>

text \<open>
  Regular expressions over bytes with numbered groups. \<open>rmatch r s\<close> lists the matches of \<open>r\<close> at
  the start of \<open>s\<close> in the order in which a backtracking engine finds them, each as (consumed text,
  rest, groups). \<open>regexp\<close> documents that it returns the leftmost match and among those the one a
  backtracking engine finds first.
\<close>

datatype regex =
    RChar char
  | RDigits
  | RSeq regex regex
  | ROpt regex
  | RGroup nat regex

fun rmatch :: "regex \<Rightarrow> string \<Rightarrow> (string \<times> string \<times> (nat \<times> string) list) list" where
  "rmatch (RChar c) s = (case s of [] \<Rightarrow> [] | x # xs \<Rightarrow> if x = c then [([x], xs, [])] else [])"
| "rmatch RDigits s =
     map (\<lambda>n. (take n s, drop n s, [])) (rev [1..<Suc (length (takeWhile is_digit s))])"
| "rmatch (RSeq r1 r2) s =
     concat (map (\<lambda>(m1, s1, g1). map (\<lambda>(m2, s2, g2). (m1 @ m2, s2, g1 @ g2)) (rmatch r2 s1)) (rmatch r1 s))"
| "rmatch (ROpt r) s = rmatch r s @ [([], s, [])]"
| "rmatch (RGroup i r) s = map (\<lambda>(m, s1, g). (m, s1, (i, m) # g)) (rmatch r s)"

fun find_submatch :: "regex \<Rightarrow> string \<Rightarrow> (nat \<times> string) list option" where
  "find_submatch r s =
     (case rmatch r s of
        (m, rest, g) # _ \<Rightarrow> Some ((0, m) # g)
      | [] \<Rightarrow> (case s of [] \<Rightarrow> None | _ # s' \<Rightarrow> find_submatch r s'))"

declare find_submatch.simps [simp del]

text \<open>\<open>matches[i]\<close>: a group that did not take part is the empty string.\<close>

definition group_at :: "(nat \<times> string) list \<Rightarrow> nat \<Rightarrow> string" where
  "group_at g i = (case map_of g i of None \<Rightarrow> '''' | Some m \<Rightarrow> m)"

lemma rmatch_consumes: "(m, rest, g) \<in> set (rmatch r s) \<Longrightarrow> m @ rest = s"
proof (induction r arbitrary: s m rest g)
  case (RSeq r1 r2)
  then show ?case by fastforce
qed (auto split: list.splits if_splits)

section \<open>time\<close>

text \<open>\<open>getnum\<close> of \<open>time/format.go\<close>: one or two digits, exactly two when \<open>fixed\<close>.\<close>

definition getnum :: "string \<Rightarrow> bool \<Rightarrow> (nat \<times> string) option" where
  "getnum s fixed =
     (case s of
        [] \<Rightarrow> None
      | a # r \<Rightarrow>
          if \<not> is_digit a then None
          else (case r of
                  [] \<Rightarrow> if fixed then None else Some (digit_val a, [])
                | b # r' \<Rightarrow>
                    if is_digit b then Some (10 * digit_val a + digit_val b, r')
                    else if fixed then None else Some (digit_val a, r)))"

text \<open>
  \<open>time.Parse("15:04", s)\<close>: \<open>15\<close> reads the hour with one or two digits, \<open>04\<close> the minute with
  exactly two, out-of-range values and trailing text are errors. Only hour and minute of the
  parsed time are observed.
\<close>

definition time_parse_15_04 :: "string \<Rightarrow> (nat \<times> nat) option" where
  "time_parse_15_04 s =
     (case getnum s False of
        None \<Rightarrow> None
      | Some (h, r) \<Rightarrow>
          if 24 \<le> h then None
          else (case r of
                  [] \<Rightarrow> None
                | c # r1 \<Rightarrow>
                    if c \<noteq> CHR '':'' then None
                    else (case getnum r1 True of
                            None \<Rightarrow> None
                          | Some (m, r2) \<Rightarrow>
                              if 60 \<le> m then None
                              else if r2 \<noteq> [] then None
                              else Some (h, m))))"

text \<open>
  Locations. \<open>time.LoadLocation\<close> answers \<open>""\<close> and \<open>"UTC"\<close> itself, takes \<open>"Local"\<close> for the
  machine's zone, refuses names with \<open>..\<close> or a leading slash or backslash, and looks other names up
  in the time zone database, of which the model keeps the set of names.
\<close>

datatype location = UTC | Local | Zone string

fun contains_dot_dot :: "string \<Rightarrow> bool" where
  "contains_dot_dot (a # b # s) = ((a = CHR ''.'' \<and> b = CHR ''.'') \<or> contains_dot_dot (b # s))"
| "contains_dot_dot _ = False"

definition load_location :: "(string \<Rightarrow> bool) \<Rightarrow> string \<Rightarrow> location option" where
  "load_location tzdb name =
     (if name = '''' \<or> name = ''UTC'' then Some UTC
      else if name = ''Local'' then Some Local
      else if contains_dot_dot name \<or> hd name = CHR ''/'' \<or> hd name = CHR 0x5C then None
      else if tzdb name then Some (Zone name) else None)"

text \<open>
  \<open>t.In(loc).Hour()\<close> and \<open>Minute()\<close> of an instant given in seconds since the epoch, where
  \<open>offset loc t\<close> is the zone's offset from UTC in seconds at that instant.
\<close>

definition clock_hour :: "int \<Rightarrow> int \<Rightarrow> nat" where
  "clock_hour t off = nat ((t + off) div 3600 mod 24)"

definition clock_minute :: "int \<Rightarrow> int \<Rightarrow> nat" where
  "clock_minute t off = nat ((t + off) div 60 mod 60)"

lemma digit_val_bound: "is_digit c \<Longrightarrow> digit_val c < 10"
proof -
  have "\<forall>d\<in>set ''0123456789''. digit_val d < 10" by code_simp
  then show "is_digit c \<Longrightarrow> digit_val c < 10" unfolding is_digit_def by blast
qed

lemma clock_bounds: "clock_hour t off < 24" "clock_minute t off < 60"
  by (simp_all add: clock_hour_def clock_minute_def nat_less_iff)

text \<open>Hour and minute together are the minute of the day.\<close>

lemma clock_minute_of_day:
  "int (clock_hour t off * 60 + clock_minute t off) = (t + off) div 60 mod 1440"
proof -
  define m where "m = (t + off) div 60"
  have "(t + off) div 3600 = m div 60"
    by (simp add: m_def zdiv_zmult2_eq [symmetric])
  moreover have "m div 60 mod 24 * 60 + m mod 60 = m mod 1440"
    using zmod_zmult2_eq [of 24 m 60] by simp
  ultimately show ?thesis
    by (simp add: clock_hour_def clock_minute_def m_def [symmetric])
qed

lemma time_parse_bounds: "time_parse_15_04 s = Some (h, m) \<Longrightarrow> h < 24 \<and> m < 60"
  by (auto simp: time_parse_15_04_def split: option.splits list.splits if_splits)

end
