(* ===== verification/Runtime.thy ===== *)
theory Runtime
  imports ApiTypes GoStd "HOL-Library.State_Monad"
begin

text \<open>
  What the operator's code runs against. Code that is not part of the repository is a parameter of
  the model: the Kubernetes client (controller-runtime), the apimachinery helpers on conditions,
  equality, owner references and quantities, the clock and the time zone database. They are the
  fields of the records \<open>rclient\<close>, \<open>lib\<close> and \<open>env\<close>; what a proof assumes of them is stated in
  locales (\<open>condition_lib\<close>, \<open>semantic_equality\<close>, \<open>owner_lib\<close>, \<open>resource_store\<close>), whose predicates are the
  named hypotheses of the theorems. The theory MemServer shows that they can be met.

  A controller is a program of the state monad over the API server's state and a log of effects
  (API calls, events, metrics). Every API call is a transition of the server's state, of arbitrary
  type \<open>'w\<close>: between two calls the server may change in any way the client's functions allow.
\<close>

section \<open>Library code outside the repository\<close>

datatype api_error = NotFound | Conflict | AlreadyExists | OtherError string

definition IsNotFound :: "api_error \<Rightarrow> bool" where
  "IsNotFound e \<longleftrightarrow> e = NotFound"

definition IsConflict :: "api_error \<Rightarrow> bool" where
  "IsConflict e \<longleftrightarrow> e = Conflict"

lemma IsNotFound_simps [simp]:
  "IsNotFound NotFound" "\<not> IsNotFound Conflict" "\<not> IsNotFound AlreadyExists" "\<not> IsNotFound (OtherError x)"
  by (simp_all add: IsNotFound_def)

lemma IsConflict_simps [simp]:
  "IsConflict Conflict" "\<not> IsConflict NotFound" "\<not> IsConflict AlreadyExists" "\<not> IsConflict (OtherError x)"
  by (simp_all add: IsConflict_def)

text \<open>\<open>field.Error\<close> of the validation package, as the webhooks build them.\<close>

datatype field_error =
    Required "string list" string
  | Forbidden "string list" string
  | Invalid "string list" string string

text \<open>
  The client for one kind of object. \<open>Create\<close> and \<open>Update\<close> return the object as the server stored
  it, which the client writes back into the caller's object.
\<close>

record ('w, 'o) rclient =
  rGet :: "NamespacedName \<Rightarrow> 'w \<Rightarrow> (api_error + 'o) \<times> 'w"
  rCreate :: "'o \<Rightarrow> 'w \<Rightarrow> (api_error + 'o) \<times> 'w"
  rUpdate :: "'o \<Rightarrow> 'w \<Rightarrow> (api_error + 'o) \<times> 'w"
  rStatusUpdate :: "'o \<Rightarrow> 'w \<Rightarrow> (api_error + 'o) \<times> 'w"
  rDelete :: "'o \<Rightarrow> 'w \<Rightarrow> (api_error + unit) \<times> 'w"

text \<open>
  Helpers: \<open>meta.SetStatusCondition\<close> (with the time it reads from the clock) and
  \<open>meta.FindStatusCondition\<close>; \<open>equality.Semantic.DeepEqual\<close> at the types it is used at;
  \<open>controllerutil.SetControllerReference\<close> (owner kind, owner, object); \<open>resource.MustParse\<close>,
  \<open>Quantity.IsZero\<close>; \<open>field.ErrorList.ToAggregate\<close>.
\<close>

record lib =
  SetStatusCondition :: "int \<Rightarrow> Condition list \<Rightarrow> Condition \<Rightarrow> Condition list"
  FindStatusCondition :: "Condition list \<Rightarrow> string \<Rightarrow> Condition option"
  eqMap :: "smap \<Rightarrow> smap \<Rightarrow> bool"
  eqClusterStatus :: "PeerDBClusterStatus \<Rightarrow> PeerDBClusterStatus \<Rightarrow> bool"
  eqPoolStatus :: "PoolStatus \<Rightarrow> PoolStatus \<Rightarrow> bool"
  eqDeploymentSpec :: "DeploymentSpec \<Rightarrow> DeploymentSpec \<Rightarrow> bool"
  eqPodTemplate :: "PodTemplateSpec \<Rightarrow> PodTemplateSpec \<Rightarrow> bool"
  eqReplicas :: "int option \<Rightarrow> int option \<Rightarrow> bool"
  eqServicePorts :: "ServicePort list \<Rightarrow> ServicePort list \<Rightarrow> bool"
  SetControllerReference :: "string \<Rightarrow> ObjectMeta \<Rightarrow> ObjectMeta \<Rightarrow> api_error + ObjectMeta"
  MustParse :: "string \<Rightarrow> Quantity"
  IsZero :: "Quantity \<Rightarrow> bool"
  ToAggregate :: "field_error list \<Rightarrow> string option"

record 'w env =
  elib :: lib
  clusters :: "('w, PeerDBCluster) rclient"
  workerPools :: "('w, PeerDBWorkerPool) rclient"
  snapshotPools :: "('w, PeerDBSnapshotPool) rclient"
  secrets :: "('w, Secret) rclient"
  serviceAccounts :: "('w, ServiceAccount) rclient"
  configMaps :: "('w, ConfigMap) rclient"
  deployments :: "('w, Deployment) rclient"
  statefulSets :: "('w, StatefulSet) rclient"
  services :: "('w, Service) rclient"
  jobs :: "('w, Job) rclient"
  nowOf :: "'w \<Rightarrow> int"
  zoneOffset :: "location \<Rightarrow> int \<Rightarrow> int"
  tzNames :: "string \<Rightarrow> bool"

section \<open>Effects\<close>

datatype kind =
    KCluster | KWorkerPool | KSnapshotPool | KSecret | KServiceAccount
  | KConfigMap | KDeployment | KStatefulSet | KService | KJob

datatype kobject =
    OCluster PeerDBCluster | OWorkerPool PeerDBWorkerPool | OSnapshotPool PeerDBSnapshotPool
  | OServiceAccount ServiceAccount | OConfigMap ConfigMap | ODeployment Deployment
  | OStatefulSet StatefulSet | OService Service | OJob Job

fun kind_of :: "kobject \<Rightarrow> kind" where
  "kind_of (OCluster _) = KCluster"
| "kind_of (OWorkerPool _) = KWorkerPool"
| "kind_of (OSnapshotPool _) = KSnapshotPool"
| "kind_of (OServiceAccount _) = KServiceAccount"
| "kind_of (OConfigMap _) = KConfigMap"
| "kind_of (ODeployment _) = KDeployment"
| "kind_of (OStatefulSet _) = KStatefulSet"
| "kind_of (OService _) = KService"
| "kind_of (OJob _) = KJob"

datatype effect =
    EGet kind NamespacedName
  | ECreate kobject
  | EUpdate kobject
  | EStatusUpdate kobject
  | EDelete kobject
  | EEvent string string string string
  | EGauge string string string int
  | ECounter string string

text \<open>An effect that changes an object of a kind in the cluster (status updates apart).\<close>

fun writes :: "effect \<Rightarrow> kind option" where
  "writes (ECreate ob) = Some (kind_of ob)"
| "writes (EUpdate ob) = Some (kind_of ob)"
| "writes (EDelete ob) = Some (kind_of ob)"
| "writes _ = None"

text \<open>Effects that only observe: reads, events and metrics.\<close>

fun observing :: "effect \<Rightarrow> bool" where
  "observing (EGet _ _) \<longleftrightarrow> True"
| "observing (EEvent _ _ _ _) \<longleftrightarrow> True"
| "observing (EGauge _ _ _ _) \<longleftrightarrow> True"
| "observing (ECounter _ _) \<longleftrightarrow> True"
| "observing _ \<longleftrightarrow> False"

record 'w sys =
  world :: 'w
  log :: "effect list"

type_synonym ('w, 'a) prog = "('w sys, 'a) state"
type_synonym ('w, 'a) gprog = "('w sys, api_error + 'a) state"

text \<open>One API call: a transition of the server, recorded in the log.\<close>

definition api :: "effect \<Rightarrow> ('w \<Rightarrow> 'a \<times> 'w) \<Rightarrow> ('w, 'a) prog" where
  "api e f = State (\<lambda>s. case f (world s) of (r, w) \<Rightarrow> (r, s\<lparr>world := w, log := log s @ [e]\<rparr>))"

text \<open>An event or a metric: an effect that reads nothing back.\<close>

definition emit :: "effect \<Rightarrow> ('w, unit) prog" where
  "emit e = State (\<lambda>s. ((), s\<lparr>log := log s @ [e]\<rparr>))"

definition time_now :: "'w env \<Rightarrow> ('w, int) prog" where
  "time_now E = State (\<lambda>s. (nowOf E (world s), s))"

abbreviation ret :: "'a \<Rightarrow> ('w, 'a) prog" where "ret \<equiv> State_Monad.return"
abbreviation ok :: "'a \<Rightarrow> ('w, 'a) gprog" where "ok x \<equiv> State_Monad.return (Inr x)"
abbreviation fail :: "api_error \<Rightarrow> ('w, 'a) gprog" where "fail e \<equiv> State_Monad.return (Inl e)"

text \<open>\<open>x, err := m(); if err != nil { return err }; f(x)\<close>.\<close>

definition on_ok :: "('w, 'a) gprog \<Rightarrow> ('a \<Rightarrow> ('w, 'b) gprog) \<Rightarrow> ('w, 'b) gprog" where
  "on_ok m f = State_Monad.bind m (\<lambda>r. case r of Inl e \<Rightarrow> fail e | Inr x \<Rightarrow> f x)"

text \<open>\<open>if err := lib(...); err != nil { return err }\<close> for a pure library call.\<close>

definition lift_ok :: "api_error + 'a \<Rightarrow> ('w, 'a) gprog" where
  "lift_ok r = State_Monad.return r"

definition event :: "string \<Rightarrow> string \<Rightarrow> string \<Rightarrow> string \<Rightarrow> ('w, unit) prog" where
  "event etype reason action note = emit (EEvent etype reason action note)"

abbreviation EventTypeNormal :: string where "EventTypeNormal \<equiv> ''Normal''"
abbreviation EventTypeWarning :: string where "EventTypeWarning \<equiv> ''Warning''"

lemma run_api [simp]:
  "run_state (api e f) s = (case f (world s) of (r, w) \<Rightarrow> (r, s\<lparr>world := w, log := log s @ [e]\<rparr>))"
  by (simp add: api_def)

lemma run_emit [simp]: "run_state (emit e) s = ((), s\<lparr>log := log s @ [e]\<rparr>)"
  by (simp add: emit_def)

lemma run_event [simp]:
  "run_state (event t r a n) s = ((), s\<lparr>log := log s @ [EEvent t r a n]\<rparr>)"
  by (simp add: event_def)

lemma run_time_now [simp]: "run_state (time_now E) s = (nowOf E (world s), s)"
  by (simp add: time_now_def)

lemma run_on_ok [simp]:
  "run_state (on_ok m f) s =
     (case run_state m s of (Inl e, s') \<Rightarrow> (Inl e, s') | (Inr x, s') \<Rightarrow> run_state (f x) s')"
  by (auto simp: on_ok_def split: prod.splits sum.splits)

lemma run_lift_ok [simp]: "run_state (lift_ok r) s = (r, s)"
  by (simp add: lift_ok_def)

section \<open>Reasoning about effects\<close>

text \<open>
  \<open>yields m Q\<close>: whatever the server does, running \<open>m\<close> appends to the log some effects \<open>es\<close> with
  \<open>Q r es\<close> for the result \<open>r\<close>. The rules follow the structure of programs, so that a property of
  every effect of a controller is proved by introduction.
\<close>

definition yields :: "('w, 'a) prog \<Rightarrow> ('a \<Rightarrow> effect list \<Rightarrow> bool) \<Rightarrow> bool" where
  "yields m Q \<longleftrightarrow>
     (\<forall>s. \<exists>es. log (snd (run_state m s)) = log s @ es \<and> Q (fst (run_state m s)) es)"

definition emits :: "(effect \<Rightarrow> bool) \<Rightarrow> ('w, 'a) prog \<Rightarrow> bool" where
  "emits P m \<longleftrightarrow> yields m (\<lambda>_. list_all P)"

lemma yieldsD:
  assumes "yields m Q"
  obtains es where "log (snd (run_state m s)) = log s @ es" and "Q (fst (run_state m s)) es"
  using assms by (auto simp: yields_def)

lemma yields_mono: "yields m Q \<Longrightarrow> (\<And>r es. Q r es \<Longrightarrow> Q' r es) \<Longrightarrow> yields m Q'"
  unfolding yields_def by metis

lemma yields_return: "Q x [] \<Longrightarrow> yields (State_Monad.return x) Q"
  by (simp add: yields_def)

lemma yields_bind:
  assumes "yields m (\<lambda>r es. yields (f r) (\<lambda>r' es'. Q r' (es @ es')))"
  shows "yields (State_Monad.bind m f) Q"
  unfolding yields_def
proof
  fix s :: "'a sys"
  obtain r s' where rs: "run_state m s = (r, s')" by (cases "run_state m s")
  from assms obtain es where "log (snd (run_state m s)) = log s @ es"
    and "yields (f (fst (run_state m s))) (\<lambda>r' es'. Q r' (es @ es'))"
    by (rule yieldsD [where s = s])
  then have es: "log s' = log s @ es" and f: "yields (f r) (\<lambda>r' es'. Q r' (es @ es'))"
    by (simp_all add: rs)
  from f obtain es' where "log (snd (run_state (f r) s')) = log s' @ es'"
    and "Q (fst (run_state (f r) s')) (es @ es')"
    by (rule yieldsD [where s = s'])
  then show "\<exists>es. log (snd (run_state (State_Monad.bind m f) s)) = log s @ es \<and>
      Q (fst (run_state (State_Monad.bind m f) s)) es"
    using rs es by (auto intro!: exI [of _ "es @ es'"])
qed

lemma yields_api: "(\<And>r. Q r [e]) \<Longrightarrow> yields (api e f) Q"
  by (auto simp: yields_def split: prod.splits)

lemma yields_emit: "Q () [e] \<Longrightarrow> yields (emit e) Q"
  by (simp add: yields_def)

lemma yields_time_now: "(\<And>t. Q t []) \<Longrightarrow> yields (time_now E) Q"
  by (simp add: yields_def)

lemma yields_on_ok:
  assumes "yields m (\<lambda>r es. case r of Inl e \<Rightarrow> Q (Inl e) es
      | Inr x \<Rightarrow> yields (f x) (\<lambda>r' es'. Q r' (es @ es')))"
  shows "yields (on_ok m f) Q"
  unfolding on_ok_def
proof (rule yields_bind)
  show "yields m (\<lambda>r es. yields (case r of Inl e \<Rightarrow> fail e | Inr x \<Rightarrow> f x) (\<lambda>r' es'. Q r' (es @ es')))"
    by (rule yields_mono [OF assms]) (auto split: sum.splits intro: yields_return)
qed

lemma emits_return [emits_intros]: "emits P (State_Monad.return x)"
  by (simp add: emits_def yields_return)

lemma emits_bind [emits_intros]:
  "emits P m \<Longrightarrow> (\<And>x. emits P (f x)) \<Longrightarrow> emits P (State_Monad.bind m f)"
  unfolding emits_def
  by (rule yields_bind) (force elim: yields_mono)

lemma emits_on_ok [emits_intros]:
  "emits P m \<Longrightarrow> (\<And>x. emits P (f x)) \<Longrightarrow> emits P (on_ok m f)"
  unfolding emits_def
  by (rule yields_on_ok) (force elim: yields_mono split: sum.splits)

lemma emits_api [emits_intros]: "P e \<Longrightarrow> emits P (api e f)"
  by (simp add: emits_def yields_api)

lemma emits_emit [emits_intros]: "P e \<Longrightarrow> emits P (emit e)"
  by (simp add: emits_def yields_emit)

lemma emits_event [emits_intros]: "P (EEvent t r a n) \<Longrightarrow> emits P (event t r a n)"
  by (simp add: event_def emits_emit)

lemma emits_time_now [emits_intros]: "emits P (time_now E)"
  by (simp add: emits_def yields_time_now)

lemma emits_lift_ok [emits_intros]: "emits P (lift_ok r)"
  by (simp add: lift_ok_def emits_return)

lemma emits_if [emits_intros]:
  "(b \<Longrightarrow> emits P m) \<Longrightarrow> (\<not> b \<Longrightarrow> emits P n) \<Longrightarrow> emits P (if b then m else n)"
  by simp

lemma emits_case_option [emits_intros]:
  "(x = None \<Longrightarrow> emits P m) \<Longrightarrow> (\<And>y. x = Some y \<Longrightarrow> emits P (f y)) \<Longrightarrow> emits P (case x of None \<Rightarrow> m | Some y \<Rightarrow> f y)"
  by (cases x) auto

lemma emits_case_sum [emits_intros]:
  "(\<And>e. x = Inl e \<Longrightarrow> emits P (g e)) \<Longrightarrow> (\<And>y. x = Inr y \<Longrightarrow> emits P (f y)) \<Longrightarrow>
    emits P (case x of Inl e \<Rightarrow> g e | Inr y \<Rightarrow> f y)"
  by (cases x) auto

lemma emits_case_prod [emits_intros]:
  "(\<And>a b. x = (a, b) \<Longrightarrow> emits P (f a b)) \<Longrightarrow> emits P (case x of (a, b) \<Rightarrow> f a b)"
  by (cases x) auto

lemma emits_let [emits_intros]: "emits P (f x) \<Longrightarrow> emits P (let y = x in f y)"
  by (simp add: Let_def)

lemma emits_mono: "emits P m \<Longrightarrow> (\<And>e. P e \<Longrightarrow> Q e) \<Longrightarrow> emits Q m"
  unfolding emits_def by (erule yields_mono) (auto simp: list_all_iff)

lemma emitsD:
  assumes "emits P m"
  shows "\<exists>es. log (snd (run_state m s)) = log s @ es \<and> list_all P es"
  using assms by (auto simp: emits_def yields_def)

section \<open>Reasoning about results\<close>

text \<open>
  \<open>results Q m\<close>: whatever the server does, a value that \<open>m\<close> returns without an error satisfies \<open>Q\<close>.
\<close>

definition results :: "('a \<Rightarrow> bool) \<Rightarrow> ('w, 'a) gprog \<Rightarrow> bool" where
  "results Q m \<longleftrightarrow> (\<forall>s x. fst (run_state m s) = Inr x \<longrightarrow> Q x)"

lemma resultsD: "results Q m \<Longrightarrow> run_state m s = (Inr x, s') \<Longrightarrow> Q x"
  by (auto simp: results_def dest: spec [of _ s])

lemma results_ok [results_intros]: "Q x \<Longrightarrow> results Q (ok x)"
  by (simp add: results_def)

lemma results_fail [results_intros]: "results Q (fail e)"
  by (simp add: results_def)

lemma results_bind [results_intros]: "(\<And>x. results Q (f x)) \<Longrightarrow> results Q (State_Monad.bind m f)"
  by (simp add: results_def split: prod.split)

lemma results_on_ok_inv: "results P m \<Longrightarrow> (\<And>x. P x \<Longrightarrow> results Q (f x)) \<Longrightarrow> results Q (on_ok m f)"
  by (auto simp: results_def split: prod.splits sum.splits) (metis fst_conv)

lemma results_on_ok [results_intros]: "(\<And>x. results Q (f x)) \<Longrightarrow> results Q (on_ok m f)"
  by (rule results_on_ok_inv [where P = "\<lambda>_. True"]) (simp_all add: results_def)

lemma results_if [results_intros]:
  "(b \<Longrightarrow> results Q m) \<Longrightarrow> (\<not> b \<Longrightarrow> results Q n) \<Longrightarrow> results Q (if b then m else n)"
  by simp

lemma results_case_option [results_intros]:
  "(x = None \<Longrightarrow> results Q m) \<Longrightarrow> (\<And>y. x = Some y \<Longrightarrow> results Q (f y)) \<Longrightarrow>
    results Q (case x of None \<Rightarrow> m | Some y \<Rightarrow> f y)"
  by (cases x) auto

lemma results_case_sum [results_intros]:
  "(\<And>e. x = Inl e \<Longrightarrow> results Q (g e)) \<Longrightarrow> (\<And>y. x = Inr y \<Longrightarrow> results Q (f y)) \<Longrightarrow>
    results Q (case x of Inl e \<Rightarrow> g e | Inr y \<Rightarrow> f y)"
  by (cases x) auto

lemma results_case_prod [results_intros]:
  "(\<And>a b. x = (a, b) \<Longrightarrow> results Q (f a b)) \<Longrightarrow> results Q (case x of (a, b) \<Rightarrow> f a b)"
  by (cases x) auto

lemma results_let [results_intros]: "results Q (f x) \<Longrightarrow> results Q (let y = x in f y)"
  by (simp add: Let_def)

text \<open>Effects of a program whose first part returns only values with \<open>I\<close>.\<close>

lemma emits_bind_inv:
  assumes "emits P m" and "\<And>s. I (fst (run_state m s))" and "\<And>x. I x \<Longrightarrow> emits P (f x)"
  shows "emits P (State_Monad.bind m f)"
  unfolding emits_def
proof (rule yields_bind)
  have "yields m (\<lambda>r es. list_all P es \<and> I r)"
    using assms(1,2) by (auto simp: emits_def yields_def)
  then show "yields m (\<lambda>r es. yields (f r) (\<lambda>r' es'. list_all P (es @ es')))"
    by (rule yields_mono) (use assms(3) in \<open>auto simp: emits_def elim: yields_mono\<close>)
qed

lemma emits_on_ok_inv:
  assumes "emits P m" and "results I m" and "\<And>x. I x \<Longrightarrow> emits P (f x)"
  shows "emits P (on_ok m f)"
  unfolding on_ok_def
  by (rule emits_bind_inv [OF assms(1), where I = "\<lambda>r. case r of Inl _ \<Rightarrow> True | Inr x \<Rightarrow> I x"])
    (use assms(2,3) in \<open>auto simp: results_def emits_return split: sum.splits\<close>)

section \<open>Laws of the library code\<close>

text \<open>
  \<open>meta.SetStatusCondition\<close> documents: the condition of the given type gets the new status, reason,
  message and observed generation, and is appended when missing; conditions of other types stay.
\<close>

locale condition_lib =
  fixes L :: lib
  assumes find_set_same:
    "\<exists>lt. FindStatusCondition L (SetStatusCondition L t cs c) (cdType c) =
       Some (c\<lparr>cdLastTransitionTime := lt\<rparr>)"
  and find_set_other:
    "T \<noteq> cdType c \<Longrightarrow>
       FindStatusCondition L (SetStatusCondition L t cs c) T = FindStatusCondition L cs T"
begin

text \<open>The status and the reason last recorded for a condition type.\<close>

lemma status_set:
  "map_option cdStatus (FindStatusCondition L (SetStatusCondition L t cs c) T) =
     (if T = cdType c then Some (cdStatus c) else map_option cdStatus (FindStatusCondition L cs T))"
  using find_set_same [of t cs c] find_set_other [of T c t cs] by auto

lemma reason_set:
  "map_option cdReason (FindStatusCondition L (SetStatusCondition L t cs c) T) =
     (if T = cdType c then Some (cdReason c) else map_option cdReason (FindStatusCondition L cs T))"
  using find_set_same [of t cs c] find_set_other [of T c t cs] by auto

end

text \<open>
  \<open>equality.Semantic.DeepEqual\<close> on the model's records, in which nil and empty maps and slices are
  one value. It compares quantities by value and not by their text, so of the types that contain
  quantities (pod templates and Deployment specs) nothing more is assumed than that equal values
  compare equal; at the other types it is equality.
\<close>

locale semantic_equality =
  fixes L :: lib
  assumes eq_map: "eqMap L a b \<longleftrightarrow> a = b"
    and eq_cluster_status: "eqClusterStatus L s s' \<longleftrightarrow> s = s'"
    and eq_pool_status: "eqPoolStatus L p p' \<longleftrightarrow> p = p'"
    and eq_deployment_spec: "eqDeploymentSpec L d d"
    and eq_pod_template: "eqPodTemplate L t t"
    and eq_replicas: "eqReplicas L r r' \<longleftrightarrow> r = r'"
    and eq_service_ports: "eqServicePorts L q q' \<longleftrightarrow> q = q'"

text \<open>
  \<open>SetControllerReference\<close> on an object without owners in the owner's namespace records the owner
  and touches nothing else.
\<close>

locale owner_lib =
  fixes L :: lib
  assumes set_owner:
    "mOwnerReferences m = [] \<Longrightarrow> mNamespace m = mNamespace ow \<Longrightarrow>
       SetControllerReference L k ow m =
         Inr (m\<lparr>mOwnerReferences := [\<lparr>orKind = k, orName = mName ow, orController = True\<rparr>]\<rparr>)"

text \<open>\<open>ToAggregate\<close> of an error list is nil exactly when the list is empty.\<close>

locale aggregate_lib =
  fixes L :: lib
  assumes aggregate_nil: "ToAggregate L es = None \<longleftrightarrow> es = []"

text \<open>
  A store of objects of one kind behind a client: \<open>look w n\<close> is the object the server keeps under
  \<open>n\<close> in state \<open>w\<close>, \<open>view\<close> the part of an object that a writer controls. Reads change nothing and
  answer with what is stored; a write that reports success stored the written view; a write that
  reports an error stored nothing.
\<close>

locale resource_store =
  fixes c :: "('w, 'o) rclient"
    and look :: "'w \<Rightarrow> NamespacedName \<Rightarrow> 'o option"
    and key :: "'o \<Rightarrow> NamespacedName"
    and view :: "'o \<Rightarrow> 'v"
  assumes get_found: "rGet c n w = (Inr ob, w') \<Longrightarrow>
       look w n = Some ob \<and> key ob = n \<and> look w' = look w"
    and get_missing: "rGet c n w = (Inl NotFound, w') \<Longrightarrow> look w n = None \<and> look w' = look w"
    and get_error: "rGet c n w = (Inl e, w') \<Longrightarrow> look w' = look w"
    and create_done: "rCreate c ob w = (Inr ob', w') \<Longrightarrow>
       look w (key ob) = None \<and> look w' = (look w)(key ob \<mapsto> ob') \<and> view ob' = view ob \<and> key ob' = key ob"
    and create_error: "rCreate c ob w = (Inl e, w') \<Longrightarrow> look w' = look w"
    and update_done: "rUpdate c ob w = (Inr ob', w') \<Longrightarrow>
       look w' = (look w)(key ob \<mapsto> ob') \<and> view ob' = view ob \<and> key ob' = key ob"
    and update_error: "rUpdate c ob w = (Inl e, w') \<Longrightarrow> look w' = look w"

context resource_store
begin

text \<open>An update stores the object or changes nothing, and never touches another object.\<close>

lemma update_outcome:
  assumes "rUpdate c ob w = (u, w')"
  shows "(case u of Inr ob' \<Rightarrow> look w' (key ob) = Some ob' \<and> view ob' = view ob | Inl e \<Rightarrow> look w' = look w) \<and>
    (\<forall>n. n \<noteq> key ob \<longrightarrow> look w' n = look w n)"
  using assms update_done [of ob w _ w'] update_error [of ob w _ w'] by (cases u) auto

end

text \<open>
  Status updates write the status of a stored object and nothing else that a writer controls.
\<close>

locale status_store = resource_store c look key view
  for c :: "('w, 'o) rclient" and look :: "'w \<Rightarrow> NamespacedName \<Rightarrow> 'o option"
    and key :: "'o \<Rightarrow> NamespacedName" and view :: "'o \<Rightarrow> 'v" +
  fixes status :: "'o \<Rightarrow> 's"
  assumes status_done: "rStatusUpdate c ob w = (Inr ob', w') \<Longrightarrow>
       (\<exists>old. look w (key ob) = Some old \<and> view ob' = view old) \<and>
       look w' = (look w)(key ob \<mapsto> ob') \<and> status ob' = status ob \<and> key ob' = key ob"
    and status_error: "rStatusUpdate c ob w = (Inl e, w') \<Longrightarrow> look w' = look w"

text \<open>A deleted object is gone; deleting one that is gone is reported as \<open>NotFound\<close>.\<close>

locale deletable_store = resource_store c look key view
  for c :: "('w, 'o) rclient" and look :: "'w \<Rightarrow> NamespacedName \<Rightarrow> 'o option"
    and key :: "'o \<Rightarrow> NamespacedName" and view :: "'o \<Rightarrow> 'v" +
  assumes delete_done: "rDelete c ob w = (Inr (), w') \<Longrightarrow> look w' = (look w)(key ob := None)"
    and delete_gone: "rDelete c ob w = (Inl NotFound, w') \<Longrightarrow> look w (key ob) = None \<and> look w' = look w"

end
