(* ===== verification/MemServer.thy ===== *)
theory MemServer
  imports Runtime
begin

text \<open>
  A concrete API server and library, so that the hypotheses on the parameters of the model can be
  met and programs can be run on concrete inputs. The server keeps a list of objects per kind, at
  most one per name and namespace. It enforces what the operator relies on: \<open>Create\<close> of a taken name
  fails with \<open>AlreadyExists\<close>, \<open>Update\<close> of a missing object with \<open>NotFound\<close> and with a stale resource
  version with \<open>Conflict\<close>; a successful write gets a new resource version; the generation grows when
  the spec changes; \<open>Update\<close> keeps the stored status and a status update keeps the rest.
\<close>

record memw =
  meClusters :: "PeerDBCluster list"
  meWorkerPools :: "PeerDBWorkerPool list"
  meSnapshotPools :: "PeerDBSnapshotPool list"
  meSecrets :: "Secret list"
  meServiceAccounts :: "ServiceAccount list"
  meConfigMaps :: "ConfigMap list"
  meDeployments :: "Deployment list"
  meStatefulSets :: "StatefulSet list"
  meServices :: "Service list"
  meJobs :: "Job list"
  meRV :: int
  meNow :: int

text \<open>How the server handles one kind: where its objects are, and what status and spec are.\<close>

record 'o slot =
  slGet :: "memw \<Rightarrow> 'o list"
  slPut :: "'o list \<Rightarrow> memw \<Rightarrow> memw"
  slMeta :: "'o \<Rightarrow> ObjectMeta"
  slSetMeta :: "ObjectMeta \<Rightarrow> 'o \<Rightarrow> 'o"
  slSameSpec :: "'o \<Rightarrow> 'o \<Rightarrow> bool"
  slWithStatusOf :: "'o \<Rightarrow> 'o \<Rightarrow> 'o"

definition slKey :: "'o slot \<Rightarrow> 'o \<Rightarrow> NamespacedName" where
  "slKey sl ob = meta_key (slMeta sl ob)"

definition mem_look :: "'o slot \<Rightarrow> memw \<Rightarrow> NamespacedName \<Rightarrow> 'o option" where
  "mem_look sl w n = find (\<lambda>ob. slKey sl ob = n) (slGet sl w)"

definition mem_store :: "'o slot \<Rightarrow> 'o \<Rightarrow> int \<Rightarrow> memw \<Rightarrow> 'o \<times> memw" where
  "mem_store sl ob gen w =
     (let ob' = slSetMeta sl ((slMeta sl ob)\<lparr>mResourceVersion := fmt_d (meRV w), mGeneration := gen\<rparr>) ob
      in (ob', slPut sl (ob' # filter (\<lambda>x. slKey sl x \<noteq> slKey sl ob) (slGet sl w))
            (w\<lparr>meRV := meRV w + 1\<rparr>)))"

definition mem_get :: "'o slot \<Rightarrow> NamespacedName \<Rightarrow> memw \<Rightarrow> (api_error + 'o) \<times> memw" where
  "mem_get sl n w = (case mem_look sl w n of None \<Rightarrow> (Inl NotFound, w) | Some ob \<Rightarrow> (Inr ob, w))"

definition mem_create :: "'o slot \<Rightarrow> 'o \<Rightarrow> memw \<Rightarrow> (api_error + 'o) \<times> memw" where
  "mem_create sl ob w =
     (case mem_look sl w (slKey sl ob) of
        Some _ \<Rightarrow> (Inl AlreadyExists, w)
      | None \<Rightarrow> (case mem_store sl ob 1 w of (ob', w') \<Rightarrow> (Inr ob', w')))"

definition stale :: "'o slot \<Rightarrow> 'o \<Rightarrow> 'o \<Rightarrow> bool" where
  "stale sl old ob \<longleftrightarrow> mResourceVersion (slMeta sl ob) \<noteq> '''' \<and>
     mResourceVersion (slMeta sl ob) \<noteq> mResourceVersion (slMeta sl old)"

definition mem_update :: "'o slot \<Rightarrow> 'o \<Rightarrow> memw \<Rightarrow> (api_error + 'o) \<times> memw" where
  "mem_update sl ob w =
     (case mem_look sl w (slKey sl ob) of
        None \<Rightarrow> (Inl NotFound, w)
      | Some old \<Rightarrow>
          if stale sl old ob then (Inl Conflict, w)
          else (case mem_store sl (slWithStatusOf sl old ob)
                       (mGeneration (slMeta sl old) + (if slSameSpec sl old ob then 0 else 1)) w of
                  (ob', w') \<Rightarrow> (Inr ob', w')))"

definition mem_status_update :: "'o slot \<Rightarrow> 'o \<Rightarrow> memw \<Rightarrow> (api_error + 'o) \<times> memw" where
  "mem_status_update sl ob w =
     (case mem_look sl w (slKey sl ob) of
        None \<Rightarrow> (Inl NotFound, w)
      | Some old \<Rightarrow>
          if stale sl old ob then (Inl Conflict, w)
          else (case mem_store sl (slWithStatusOf sl ob old) (mGeneration (slMeta sl old)) w of
                  (ob', w') \<Rightarrow> (Inr ob', w')))"

definition mem_delete :: "'o slot \<Rightarrow> 'o \<Rightarrow> memw \<Rightarrow> (api_error + unit) \<times> memw" where
  "mem_delete sl ob w =
     (case mem_look sl w (slKey sl ob) of
        None \<Rightarrow> (Inl NotFound, w)
      | Some _ \<Rightarrow> (Inr (), slPut sl (filter (\<lambda>x. slKey sl x \<noteq> slKey sl ob) (slGet sl w)) w))"

definition mem_client :: "'o slot \<Rightarrow> (memw, 'o) rclient" where
  "mem_client sl = \<lparr>rGet = mem_get sl, rCreate = mem_create sl, rUpdate = mem_update sl,
     rStatusUpdate = mem_status_update sl, rDelete = mem_delete sl\<rparr>"

section \<open>The slots\<close>

definition cluster_slot :: "PeerDBCluster slot" where
  "cluster_slot = \<lparr>slGet = meClusters, slPut = (\<lambda>xs w. w\<lparr>meClusters := xs\<rparr>), slMeta = clMeta,
     slSetMeta = (\<lambda>m ob. ob\<lparr>clMeta := m\<rparr>), slSameSpec = (\<lambda>a b. clSpec a = clSpec b),
     slWithStatusOf = (\<lambda>a b. b\<lparr>clStatus := clStatus a\<rparr>)\<rparr>"

definition worker_pool_slot :: "PeerDBWorkerPool slot" where
  "worker_pool_slot = \<lparr>slGet = meWorkerPools, slPut = (\<lambda>xs w. w\<lparr>meWorkerPools := xs\<rparr>), slMeta = wpMeta,
     slSetMeta = (\<lambda>m ob. ob\<lparr>wpMeta := m\<rparr>), slSameSpec = (\<lambda>a b. wpSpec a = wpSpec b),
     slWithStatusOf = (\<lambda>a b. b\<lparr>wpStatus := wpStatus a\<rparr>)\<rparr>"

definition snapshot_pool_slot :: "PeerDBSnapshotPool slot" where
  "snapshot_pool_slot = \<lparr>slGet = meSnapshotPools, slPut = (\<lambda>xs w. w\<lparr>meSnapshotPools := xs\<rparr>),
     slMeta = snMeta, slSetMeta = (\<lambda>m ob. ob\<lparr>snMeta := m\<rparr>),
     slSameSpec = (\<lambda>a b. snSpec a = snSpec b),
     slWithStatusOf = (\<lambda>a b. b\<lparr>snStatus := snStatus a\<rparr>)\<rparr>"

definition secret_slot :: "Secret slot" where
  "secret_slot = \<lparr>slGet = meSecrets, slPut = (\<lambda>xs w. w\<lparr>meSecrets := xs\<rparr>), slMeta = scMeta,
     slSetMeta = (\<lambda>m ob. ob\<lparr>scMeta := m\<rparr>), slSameSpec = (\<lambda>a b. True),
     slWithStatusOf = (\<lambda>a b. b)\<rparr>"

definition service_account_slot :: "ServiceAccount slot" where
  "service_account_slot = \<lparr>slGet = meServiceAccounts, slPut = (\<lambda>xs w. w\<lparr>meServiceAccounts := xs\<rparr>),
     slMeta = saMeta, slSetMeta = (\<lambda>m ob. ob\<lparr>saMeta := m\<rparr>), slSameSpec = (\<lambda>a b. True),
     slWithStatusOf = (\<lambda>a b. b)\<rparr>"

definition config_map_slot :: "ConfigMap slot" where
  "config_map_slot = \<lparr>slGet = meConfigMaps, slPut = (\<lambda>xs w. w\<lparr>meConfigMaps := xs\<rparr>), slMeta = cmMeta,
     slSetMeta = (\<lambda>m ob. ob\<lparr>cmMeta := m\<rparr>), slSameSpec = (\<lambda>a b. True),
     slWithStatusOf = (\<lambda>a b. b)\<rparr>"

definition deployment_slot :: "Deployment slot" where
  "deployment_slot = \<lparr>slGet = meDeployments, slPut = (\<lambda>xs w. w\<lparr>meDeployments := xs\<rparr>), slMeta = dMeta,
     slSetMeta = (\<lambda>m ob. ob\<lparr>dMeta := m\<rparr>), slSameSpec = (\<lambda>a b. dSpec a = dSpec b),
     slWithStatusOf = (\<lambda>a b. b\<lparr>dStatus := dStatus a\<rparr>)\<rparr>"

definition stateful_set_slot :: "StatefulSet slot" where
  "stateful_set_slot = \<lparr>slGet = meStatefulSets, slPut = (\<lambda>xs w. w\<lparr>meStatefulSets := xs\<rparr>),
     slMeta = sMeta, slSetMeta = (\<lambda>m ob. ob\<lparr>sMeta := m\<rparr>), slSameSpec = (\<lambda>a b. sSpec a = sSpec b),
     slWithStatusOf = (\<lambda>a b. b\<lparr>sStatus := sStatus a\<rparr>)\<rparr>"

definition service_slot :: "Service slot" where
  "service_slot = \<lparr>slGet = meServices, slPut = (\<lambda>xs w. w\<lparr>meServices := xs\<rparr>), slMeta = svMeta,
     slSetMeta = (\<lambda>m ob. ob\<lparr>svMeta := m\<rparr>), slSameSpec = (\<lambda>a b. svSpec a = svSpec b),
     slWithStatusOf = (\<lambda>a b. b)\<rparr>"

definition job_slot :: "Job slot" where
  "job_slot = \<lparr>slGet = meJobs, slPut = (\<lambda>xs w. w\<lparr>meJobs := xs\<rparr>), slMeta = jMeta,
     slSetMeta = (\<lambda>m ob. ob\<lparr>jMeta := m\<rparr>), slSameSpec = (\<lambda>a b. jSpec a = jSpec b),
     slWithStatusOf = (\<lambda>a b. b\<lparr>jConditions := jConditions a\<rparr>)\<rparr>"

lemmas slot_defs =
  cluster_slot_def worker_pool_slot_def snapshot_pool_slot_def secret_slot_def
  service_account_slot_def config_map_slot_def deployment_slot_def stateful_set_slot_def
  service_slot_def job_slot_def

section \<open>The helper library\<close>

text \<open>\<open>meta.SetStatusCondition\<close> on a list of conditions: update in place or append.\<close>

fun set_condition :: "int \<Rightarrow> Condition list \<Rightarrow> Condition \<Rightarrow> Condition list" where
  "set_condition t [] c = [c\<lparr>cdLastTransitionTime := t\<rparr>]"
| "set_condition t (x # xs) c =
     (if cdType x = cdType c
      then c\<lparr>cdLastTransitionTime := (if cdStatus x = cdStatus c then cdLastTransitionTime x else t)\<rparr> # xs
      else x # set_condition t xs c)"

definition find_condition :: "Condition list \<Rightarrow> string \<Rightarrow> Condition option" where
  "find_condition cs T = find (\<lambda>c. cdType c = T) cs"

definition mem_lib :: lib where
  "mem_lib = \<lparr>SetStatusCondition = set_condition, FindStatusCondition = find_condition,
     eqMap = (=), eqClusterStatus = (=), eqPoolStatus = (=), eqDeploymentSpec = (=),
     eqPodTemplate = (=), eqReplicas = (=), eqServicePorts = (=),
     SetControllerReference = (\<lambda>k ow m.
       if mNamespace m \<noteq> mNamespace ow then Inl (OtherError ''cross-namespace owner'')
       else if mOwnerReferences m \<noteq> [] then Inl (OtherError ''already owned'')
       else Inr (m\<lparr>mOwnerReferences := [\<lparr>orKind = k, orName = mName ow, orController = True\<rparr>]\<rparr>)),
     MustParse = Quantity, IsZero = (\<lambda>q. q = Quantity ''0''),
     ToAggregate = (\<lambda>es. if es = [] then None else Some ''invalid'')\<rparr>"

definition mem_env :: "memw env" where
  "mem_env = \<lparr>elib = mem_lib, clusters = mem_client cluster_slot,
     workerPools = mem_client worker_pool_slot, snapshotPools = mem_client snapshot_pool_slot,
     secrets = mem_client secret_slot, serviceAccounts = mem_client service_account_slot,
     configMaps = mem_client config_map_slot, deployments = mem_client deployment_slot,
     statefulSets = mem_client stateful_set_slot, services = mem_client service_slot,
     jobs = mem_client job_slot, nowOf = meNow, zoneOffset = (\<lambda>_ _. 0), tzNames = (\<lambda>_. False)\<rparr>"

definition empty_memw :: memw where
  "empty_memw = \<lparr>meClusters = [], meWorkerPools = [], meSnapshotPools = [], meSecrets = [],
     meServiceAccounts = [], meConfigMaps = [], meDeployments = [], meStatefulSets = [],
     meServices = [], meJobs = [], meRV = 1, meNow = 0\<rparr>"

lemmas mem_defs =
  mem_env_def mem_client_def mem_get_def mem_create_def mem_update_def mem_status_update_def
  mem_delete_def mem_look_def mem_store_def slKey_def stale_def empty_memw_def

lemma mem_env_simps [simp]:
  "elib mem_env = mem_lib" "nowOf mem_env = meNow"
  "clusters mem_env = mem_client cluster_slot" "workerPools mem_env = mem_client worker_pool_slot"
  "snapshotPools mem_env = mem_client snapshot_pool_slot" "secrets mem_env = mem_client secret_slot"
  "serviceAccounts mem_env = mem_client service_account_slot"
  "configMaps mem_env = mem_client config_map_slot"
  "deployments mem_env = mem_client deployment_slot"
  "statefulSets mem_env = mem_client stateful_set_slot"
  "services mem_env = mem_client service_slot" "jobs mem_env = mem_client job_slot"
  by (simp_all add: mem_env_def)

section \<open>The laws hold\<close>

lemma find_set_condition_same:
  "\<exists>lt. find_condition (set_condition t cs c) (cdType c) = Some (c\<lparr>cdLastTransitionTime := lt\<rparr>)"
  by (induction cs) (auto simp: find_condition_def)

lemma find_set_condition_other:
  "T \<noteq> cdType c \<Longrightarrow> find_condition (set_condition t cs c) T = find_condition cs T"
  by (induction cs) (auto simp: find_condition_def)

interpretation mem_cond: condition_lib mem_lib
  by unfold_locales (simp_all add: mem_lib_def find_set_condition_same find_set_condition_other)

interpretation mem_eq: semantic_equality mem_lib
  by unfold_locales (simp_all add: mem_lib_def)

interpretation mem_owner: owner_lib mem_lib
  by unfold_locales (simp add: mem_lib_def)

interpretation mem_agg: aggregate_lib mem_lib
  by unfold_locales (simp add: mem_lib_def)

text \<open>
  A slot is well-behaved when its accessors are a lens on the server state that leaves the
  resource version counter alone, and \<open>view\<close> sees neither the status nor what the server stamps.
\<close>

locale mem_slot =
  fixes sl :: "'o slot" and view :: "'o \<Rightarrow> 'v"
  assumes get_put: "slGet sl (slPut sl xs w) = xs"
    and get_rv: "slGet sl (w\<lparr>meRV := i\<rparr>) = slGet sl w"
    and meta_set: "slMeta sl (slSetMeta sl m ob) = m"
    and meta_status: "slMeta sl (slWithStatusOf sl old ob) = slMeta sl ob"
    and view_meta: "view (slSetMeta sl ((slMeta sl ob)\<lparr>mResourceVersion := rv, mGeneration := g\<rparr>) ob) = view ob"
    and view_status: "view (slWithStatusOf sl old ob) = view ob"
begin

lemma key_status: "slKey sl (slWithStatusOf sl old ob) = slKey sl ob"
  by (simp add: slKey_def meta_status)

lemma find_filter_other:
  "n \<noteq> k \<Longrightarrow> find (\<lambda>x. slKey sl x = n) (filter (\<lambda>x. slKey sl x \<noteq> k) xs) = find (\<lambda>x. slKey sl x = n) xs"
  by (induction xs) auto

lemma look_store:
  assumes "mem_store sl ob g w = (ob', w')"
  shows "mem_look sl w' = (mem_look sl w)(slKey sl ob \<mapsto> ob') \<and> view ob' = view ob \<and> slKey sl ob' = slKey sl ob"
  using assms
  by (auto simp: mem_store_def Let_def mem_look_def get_put get_rv fun_eq_iff slKey_def meta_set
      meta_key_def view_meta find_filter_other [unfolded slKey_def meta_key_def])

end

sublocale mem_slot \<subseteq> store: resource_store "mem_client sl" "mem_look sl" "slKey sl" view
proof (unfold_locales, goal_cases)
  case (1 n w ob w')
  then have "mem_look sl w n = Some ob" "w' = w"
    by (auto simp: mem_client_def mem_get_def split: option.splits)
  moreover from this have "slKey sl ob = n"
    by (auto simp: mem_look_def find_Some_iff)
  ultimately show ?case by simp
next
  case (2 n w w')
  then show ?case by (auto simp: mem_client_def mem_get_def split: option.splits)
next
  case (3 n w e w')
  then show ?case by (auto simp: mem_client_def mem_get_def split: option.splits)
next
  case (4 ob w ob' w')
  then have "mem_look sl w (slKey sl ob) = None" and "mem_store sl ob 1 w = (ob', w')"
    by (auto simp: mem_client_def mem_create_def split: option.splits prod.splits)
  then show ?case using look_store by blast
next
  case (5 ob w e w')
  then show ?case by (auto simp: mem_client_def mem_create_def split: option.splits prod.splits)
next
  case (6 ob w ob' w')
  then obtain old g where "mem_store sl (slWithStatusOf sl old ob) g w = (ob', w')"
    by (auto simp: mem_client_def mem_update_def split: option.splits prod.splits if_splits)
  from look_store [OF this] show ?case by (simp add: key_status view_status)
next
  case (7 ob w e w')
  then show ?case
    by (auto simp: mem_client_def mem_update_def split: option.splits prod.splits if_splits)
qed

text \<open>What the operator controls of each kind of object.\<close>

definition config_map_view :: "ConfigMap \<Rightarrow> smap \<times> smap" where
  "config_map_view cm = (cmData cm, mLabels (cmMeta cm))"

definition service_account_view :: "ServiceAccount \<Rightarrow> smap \<times> smap" where
  "service_account_view sa = (mLabels (saMeta sa), mAnnotations (saMeta sa))"

definition service_view :: "Service \<Rightarrow> KServiceSpec \<times> smap \<times> smap" where
  "service_view sv = (svSpec sv, mLabels (svMeta sv), mAnnotations (svMeta sv))"

definition deployment_view :: "Deployment \<Rightarrow> DeploymentSpec \<times> smap \<times> OwnerReference list" where
  "deployment_view d = (dSpec d, mLabels (dMeta d), mOwnerReferences (dMeta d))"

definition stateful_set_view :: "StatefulSet \<Rightarrow> StatefulSetSpec \<times> smap" where
  "stateful_set_view s = (sSpec s, mLabels (sMeta s))"

interpretation mem_cm: mem_slot config_map_slot config_map_view
  by unfold_locales (simp_all add: config_map_slot_def config_map_view_def)

interpretation mem_sa: mem_slot service_account_slot service_account_view
  by unfold_locales (simp_all add: service_account_slot_def service_account_view_def)

interpretation mem_svc: mem_slot service_slot service_view
  by unfold_locales (simp_all add: service_slot_def service_view_def)

interpretation mem_dep: mem_slot deployment_slot deployment_view
  by unfold_locales (simp_all add: deployment_slot_def deployment_view_def)

interpretation mem_sts: mem_slot stateful_set_slot stateful_set_view
  by unfold_locales (simp_all add: stateful_set_slot_def stateful_set_view_def)

interpretation mem_job: mem_slot job_slot jSpec
  by unfold_locales (simp_all add: job_slot_def)

interpretation mem_cluster: mem_slot cluster_slot clSpec
  by unfold_locales (simp_all add: cluster_slot_def)

interpretation mem_secret: mem_slot secret_slot "\<lambda>s. mLabels (scMeta s)"
  by unfold_locales (simp_all add: secret_slot_def)

interpretation mem_wp: mem_slot worker_pool_slot wpSpec
  by unfold_locales (simp_all add: worker_pool_slot_def)

interpretation mem_sp: mem_slot snapshot_pool_slot snSpec
  by unfold_locales (simp_all add: snapshot_pool_slot_def)

text \<open>The key of an object is its name and namespace.\<close>

lemma slot_keys:
  "slKey config_map_slot = (\<lambda>x. meta_key (cmMeta x))"
  "slKey service_account_slot = (\<lambda>x. meta_key (saMeta x))"
  "slKey service_slot = (\<lambda>x. meta_key (svMeta x))"
  "slKey deployment_slot = (\<lambda>x. meta_key (dMeta x))"
  "slKey stateful_set_slot = (\<lambda>x. meta_key (sMeta x))"
  "slKey job_slot = (\<lambda>x. meta_key (jMeta x))"
  "slKey cluster_slot = (\<lambda>x. meta_key (clMeta x))"
  "slKey secret_slot = (\<lambda>x. meta_key (scMeta x))"
  "slKey worker_pool_slot = (\<lambda>x. meta_key (wpMeta x))"
  "slKey snapshot_pool_slot = (\<lambda>x. meta_key (snMeta x))"
  by (simp_all add: fun_eq_iff slKey_def slot_defs)

lemmas mem_stores =
  mem_cm.store.resource_store_axioms [unfolded slot_keys]
  mem_sa.store.resource_store_axioms [unfolded slot_keys]
  mem_svc.store.resource_store_axioms [unfolded slot_keys]
  mem_dep.store.resource_store_axioms [unfolded slot_keys]
  mem_sts.store.resource_store_axioms [unfolded slot_keys]
  mem_job.store.resource_store_axioms [unfolded slot_keys]
  mem_cluster.store.resource_store_axioms [unfolded slot_keys]
  mem_secret.store.resource_store_axioms [unfolded slot_keys]
  mem_wp.store.resource_store_axioms [unfolded slot_keys]
  mem_sp.store.resource_store_axioms [unfolded slot_keys]

text \<open>Status updates and deletions of the server.\<close>

context mem_slot
begin

lemma mem_deletes: "deletable_store (mem_client sl) (mem_look sl) (slKey sl) view"
proof (unfold_locales, goal_cases)
  case (1 ob w w')
  then show ?case
    by (auto simp: mem_client_def mem_delete_def mem_look_def get_put fun_eq_iff find_filter_other
        find_None_iff split: option.splits)
next
  case (2 ob w w')
  then show ?case by (auto simp: mem_client_def mem_delete_def split: option.splits)
qed

end

lemma mem_cluster_status: "status_store (mem_client cluster_slot) (mem_look cluster_slot) (slKey cluster_slot) clSpec clStatus"
proof (unfold_locales, goal_cases)
  case (1 ob w ob' w')
  then obtain old where old: "mem_look cluster_slot w (slKey cluster_slot ob) = Some old"
    and st: "mem_store cluster_slot (slWithStatusOf cluster_slot ob old) (mGeneration (slMeta cluster_slot old)) w = (ob', w')"
    by (auto simp: mem_client_def mem_status_update_def split: option.splits prod.splits if_splits)
  have "slKey cluster_slot (slWithStatusOf cluster_slot ob old) = slKey cluster_slot ob"
    using old by (auto simp: mem_look_def find_Some_iff slKey_def cluster_slot_def)
  with mem_cluster.look_store [OF st] old st show ?case
    by (auto simp: mem_store_def Let_def cluster_slot_def)
next
  case (2 ob w e w')
  then show ?case
    by (auto simp: mem_client_def mem_status_update_def split: option.splits prod.splits if_splits)
qed

interpretation mem_jobs: deletable_store "mem_client job_slot" "mem_look job_slot" "slKey job_slot" jSpec
  by (rule mem_job.mem_deletes)

interpretation mem_clusters: status_store "mem_client cluster_slot" "mem_look cluster_slot" "slKey cluster_slot" clSpec clStatus
  by (rule mem_cluster_status)

lemmas mem_job_deletes = mem_job.mem_deletes [unfolded slot_keys]
lemmas mem_cluster_statuses = mem_cluster_status [unfolded slot_keys]

end
