(* ===== verification/Samples.thy ===== *)
theory Samples
  imports MemServer
begin

text \<open>
  Concrete resources used to show that the hypotheses of the theorems can be met: a cluster like
  config/samples/peerdb\_v1alpha1\_peerdbcluster.yaml, a worker pool and a snapshot pool that refer
  to it, and the state of an API server that holds them.
\<close>

definition sample_catalog :: CatalogSpec where
  "sample_catalog = \<lparr>catHost = ''catalog'', catPort = 5432, catDatabase = ''peerdb'', catUser = ''peerdb'',
     catPasswordSecretRef = \<lparr>sksName = ''peerdb-catalog'', sksKey = ''password''\<rparr>, catSSLMode = ''require''\<rparr>"

definition sample_spec :: PeerDBClusterSpec where
  "sample_spec = \<lparr>clVersion = ''v0.36.7'', clImagePullSecrets = [], clServiceAccount = None,
     clDependencies = \<lparr>depCatalog = sample_catalog,
       depTemporal = \<lparr>tmpAddress = ''temporal:7233'', tmpNamespace = ''peerdb'', tmpTLSSecretRef = None\<rparr>\<rparr>,
     clComponents = None, clInit = None, clPaused = False, clUpgradePolicy = None,
     clMaintenanceWindow = None, clMaintenance = None\<rparr>"

definition sample_status :: PeerDBClusterStatus where
  "sample_status = \<lparr>csObservedGeneration = 0, csConditions = [], csEndpoints = None, csUpgrade = None\<rparr>"

definition sample_cluster :: PeerDBCluster where
  "sample_cluster = \<lparr>clMeta = new_meta ''peerdb'' ''default'' fmempty fmempty, clSpec = sample_spec,
     clStatus = sample_status\<rparr>"

definition sample_worker_pool :: PeerDBWorkerPool where
  "sample_worker_pool = \<lparr>wpMeta = new_meta ''workers'' ''default'' fmempty fmempty,
     wpSpec = \<lparr>wsClusterRef = ''peerdb'', wsImage = '''', wsReplicas = Some 2, wsResources = no_resources,
       wsTemporalTaskQueue = '''', wsAutoscaling = None, wsNodeSelector = fmempty, wsTolerations = [],
       wsAffinity = None, wsExtraEnv = [], wsPodAnnotations = fmempty, wsPodLabels = fmempty\<rparr>,
     wpStatus = \<lparr>plObservedGeneration = 0, plReplicas = 0, plReadyReplicas = 0, plConditions = []\<rparr>\<rparr>"

definition sample_snapshot_pool :: PeerDBSnapshotPool where
  "sample_snapshot_pool = \<lparr>snMeta = new_meta ''snapshots'' ''default'' fmempty fmempty,
     snSpec = \<lparr>spsClusterRef = ''peerdb'', spsImage = '''', spsReplicas = Some 1,
       spsResources = no_resources, spsStorage = \<lparr>sgSize = Quantity ''100Gi'', sgStorageClassName = None\<rparr>,
       spsTerminationGracePeriodSeconds = None, spsNodeSelector = fmempty, spsTolerations = [],
       spsAffinity = None, spsExtraEnv = [], spsPodAnnotations = fmempty, spsPodLabels = fmempty\<rparr>,
     snStatus = \<lparr>plObservedGeneration = 0, plReplicas = 0, plReadyReplicas = 0, plConditions = []\<rparr>\<rparr>"

definition sample_secret :: Secret where
  "sample_secret = \<lparr>scMeta = (new_meta ''peerdb-catalog'' ''default'' fmempty fmempty)\<lparr>mResourceVersion := ''7''\<rparr>\<rparr>"

text \<open>The cluster during a backup.\<close>

definition fenced_cluster :: PeerDBCluster where
  "fenced_cluster = sample_cluster\<lparr>clMeta := (clMeta sample_cluster)
     \<lparr>mAnnotations := fmap_of_list [(AnnotationBackupInProgress, ''true'')]\<rparr>\<rparr>"

lemmas sample_defs =
  sample_catalog_def sample_spec_def sample_status_def sample_cluster_def sample_worker_pool_def
  sample_snapshot_pool_def sample_secret_def new_meta_def

text \<open>A server that holds the given cluster (and the catalog secret), with an empty log.\<close>

definition sys_with :: "PeerDBCluster \<Rightarrow> memw sys" where
  "sys_with c = \<lparr>world = empty_memw\<lparr>meClusters := [c], meSecrets := [sample_secret]\<rparr>, log = []\<rparr>"

end
