(* ===== verification/VersionSkew.thy ===== *)
theory VersionSkew
  imports GoStd
begin

text \<open>
  api/v1alpha1/version\_skew.go: the major.minor part of a version string or of an image tag, found
  by the regular expression \<open>v?(\d+)\.(\d+)(?:\.\d+)?\<close>. The lemmas relate the regular expression to
  a direct scan for the first "digits dot digits" and give its value on well-formed versions.
\<close>

definition versionRegex :: regex where
  "versionRegex =
     RSeq (ROpt (RChar CHR ''v''))
       (RSeq (RGroup 1 RDigits)
         (RSeq (RChar CHR ''.'')
           (RSeq (RGroup 2 RDigits) (ROpt (RSeq (RChar CHR ''.'') RDigits)))))"

datatype version_error =
    CannotParseVersion string
  | ImageHasNoTag string
  | ImageUsesDigest string
  | CannotParseTag string

definition MajorMinorFromVersion :: "string \<Rightarrow> version_error + string" where
  "MajorMinorFromVersion version =
     (case find_submatch versionRegex version of
        None \<Rightarrow> Inl (CannotParseVersion version)
      | Some matches \<Rightarrow> Inr (group_at matches 1 @ ''.'' @ group_at matches 2))"

definition MajorMinorFromImage :: "string \<Rightarrow> version_error + string" where
  "MajorMinorFromImage img =
     (let parts = split_n2 CHR '':'' img in
      if length parts < 2 then Inl (ImageHasNoTag img)
      else let tag = parts ! 1 in
        if has_prefix tag ''sha256:'' then Inl (ImageUsesDigest img)
        else (case find_submatch versionRegex tag of
                None \<Rightarrow> Inl (CannotParseTag tag)
              | Some matches \<Rightarrow> Inr (group_at matches 1 @ ''.'' @ group_at matches 2)))"

section \<open>The regular expression as a scan\<close>

text \<open>"digits dot digits" at the start of a string.\<close>

definition mm_here :: "string \<Rightarrow> (string \<times> string) option" where
  "mm_here s =
     (let d1 = takeWhile is_digit s; r = dropWhile is_digit s in
      if d1 = [] \<or> r = [] \<or> hd r \<noteq> CHR ''.'' \<or> takeWhile is_digit (tl r) = [] then None
      else Some (d1, takeWhile is_digit (tl r)))"

text \<open>Its leftmost occurrence.\<close>

fun find_mm :: "string \<Rightarrow> (string \<times> string) option" where
  "find_mm [] = None"
| "find_mm (c # s) = (case mm_here (c # s) of Some p \<Rightarrow> Some p | None \<Rightarrow> find_mm s)"

lemma mm_here_Nil [simp]: "mm_here [] = None"
  by (simp add: mm_here_def)

lemma mm_here_nondigit: "\<not> is_digit c \<Longrightarrow> mm_here (c # s) = None"
  by (simp add: mm_here_def)

text \<open>The choices for \<open>\d+\<close>, longest first.\<close>

lemma digit_choices:
  assumes "takeWhile is_digit s \<noteq> []"
  shows "rmatch RDigits s =
     (takeWhile is_digit s, dropWhile is_digit s, []) #
       map (\<lambda>n. (take n s, drop n s, [])) (rev [1..<length (takeWhile is_digit s)])"
proof -
  define k where "k = length (takeWhile is_digit s)"
  have "1 \<le> k" using assms by (cases "takeWhile is_digit s") (simp_all add: k_def)
  then have "[1..<Suc k] = [1..<k] @ [k]" by simp
  moreover have "take k s = takeWhile is_digit s" "drop k s = dropWhile is_digit s"
    by (simp_all add: k_def takeWhile_eq_take [symmetric] dropWhile_eq_drop [symmetric])
  ultimately show ?thesis
    by (simp only: rmatch.simps k_def [symmetric] rev_append rev.simps list.map append.simps)
qed

lemma no_digit_choices: "takeWhile is_digit s = [] \<Longrightarrow> rmatch RDigits s = []"
  by simp

declare rmatch.simps(2) [simp del]

text \<open>A pattern that cannot start with a digit rules out every shorter choice.\<close>

lemma concat_digits:
  assumes "\<And>n. n < length (takeWhile is_digit s) \<Longrightarrow> f (take n s, drop n s, []) = []"
  shows "concat (map f (rmatch RDigits s)) =
     (if takeWhile is_digit s = [] then [] else f (takeWhile is_digit s, dropWhile is_digit s, []))"
proof (cases "takeWhile is_digit s = []")
  case False
  have "concat (map f (map (\<lambda>n. (take n s, drop n s, [])) (rev [1..<length (takeWhile is_digit s)]))) = []"
    using assms by auto
  with False show ?thesis by (simp add: digit_choices)
qed (simp add: no_digit_choices)

definition minorRegex :: regex where
  "minorRegex = RSeq (RGroup 2 RDigits) (ROpt (RSeq (RChar CHR ''.'') RDigits))"

lemma patch_groups: "(m, r, g) \<in> set (rmatch (ROpt (RSeq (RChar c) RDigits)) s) \<Longrightarrow> g = []"
  by (auto simp: rmatch.simps(2) split: list.splits if_splits)

definition first_groups :: "regex \<Rightarrow> string \<Rightarrow> (nat \<times> string) list option" where
  "first_groups r s = (case rmatch r s of [] \<Rightarrow> None | (m, rest, g) # _ \<Rightarrow> Some g)"

lemma first_minor:
  "first_groups minorRegex s =
     (if takeWhile is_digit s = [] then None else Some [(2, takeWhile is_digit s)])"
proof (cases "takeWhile is_digit s = []")
  case True
  then show ?thesis by (simp add: first_groups_def minorRegex_def no_digit_choices)
next
  case False
  let ?o = "rmatch (ROpt (RSeq (RChar CHR ''.'') RDigits)) (dropWhile is_digit s)"
  have "?o \<noteq> []" by simp
  then obtain m r g xs where o: "?o = (m, r, g) # xs" by (metis list.exhaust prod_cases3)
  then have "g = []" using patch_groups by (metis list.set_intros(1))
  with o False show ?thesis
    by (simp add: first_groups_def minorRegex_def digit_choices del: rmatch.simps(4))
qed

lemma drop_in_digits:
  assumes "n < length (takeWhile is_digit s)"
  shows "\<exists>c r. drop n s = c # r \<and> is_digit c"
proof -
  have "drop n s = drop n (takeWhile is_digit s) @ dropWhile is_digit s"
    using assms by (metis append_eq_append_conv_if drop_append takeWhile_dropWhile_id
        diff_is_0_eq' drop0 less_imp_le_nat)
  moreover have "drop n (takeWhile is_digit s) = takeWhile is_digit s ! n # drop (Suc n) (takeWhile is_digit s)"
    using assms by (rule Cons_nth_drop_Suc [symmetric])
  moreover have "is_digit (takeWhile is_digit s ! n)"
    using assms by (meson nth_mem set_takeWhileD)
  ultimately show ?thesis by simp
qed

declare rmatch.simps [simp del]

definition majorRegex :: regex where
  "majorRegex = RSeq (RGroup 1 RDigits) (RSeq (RChar CHR ''.'') minorRegex)"

lemma versionRegex_eq: "versionRegex = RSeq (ROpt (RChar CHR ''v'')) majorRegex"
  by (simp add: versionRegex_def majorRegex_def minorRegex_def)

lemma rmatch_dot:
  "rmatch (RSeq (RChar c) r) s =
     (case s of [] \<Rightarrow> [] | x # xs \<Rightarrow> if x = c then map (\<lambda>(m, s2, g). (x # m, s2, g)) (rmatch r xs) else [])"
  by (auto simp: rmatch.simps(1,3) split: list.splits)

lemma rmatch_major:
  "rmatch majorRegex s =
     (if takeWhile is_digit s = [] then []
      else map (\<lambda>(m2, s2, g2). (takeWhile is_digit s @ m2, s2, (1, takeWhile is_digit s) # g2))
             (rmatch (RSeq (RChar CHR ''.'') minorRegex) (dropWhile is_digit s)))"
proof -
  define f where "f = (\<lambda>(m1, s1, g1 :: (nat \<times> string) list).
     map (\<lambda>(m2, s2, g2). (m1 @ m2, s2, (1, m1) # g1 @ g2)) (rmatch (RSeq (RChar CHR ''.'') minorRegex) s1))"
  have "rmatch majorRegex s = concat (map f (rmatch RDigits s))"
    by (simp only: majorRegex_def rmatch.simps(3) [of "RGroup 1 RDigits"] rmatch.simps(5) map_map)
      (rule arg_cong [of _ _ concat], rule map_cong, auto simp: f_def comp_def)
  also have "\<dots> = (if takeWhile is_digit s = [] then []
      else f (takeWhile is_digit s, dropWhile is_digit s, []))"
  proof (rule concat_digits)
    fix n assume "n < length (takeWhile is_digit s)"
    then obtain c r where "drop n s = c # r" "is_digit c" using drop_in_digits by blast
    then show "f (take n s, drop n s, []) = []"
      by (auto simp: f_def rmatch_dot)
  qed
  finally show ?thesis by (simp add: f_def)
qed

lemma first_dot:
  "first_groups (RSeq (RChar c) r) s =
     (case s of [] \<Rightarrow> None | x # xs \<Rightarrow> if x = c then first_groups r xs else None)"
  by (auto simp: first_groups_def rmatch_dot split: list.splits)

lemma first_major:
  "first_groups majorRegex s = map_option (\<lambda>(a, b). [(1, a), (2, b)]) (mm_here s)"
proof (cases "takeWhile is_digit s = []")
  case True
  then show ?thesis by (simp add: first_groups_def rmatch_major mm_here_def)
next
  case False
  have "first_groups majorRegex s =
      map_option (\<lambda>g. (1, takeWhile is_digit s) # g)
        (first_groups (RSeq (RChar CHR ''.'') minorRegex) (dropWhile is_digit s))"
    using False by (auto simp: first_groups_def rmatch_major split: list.splits)
  with False show ?thesis
    by (cases "dropWhile is_digit s") (auto simp: first_dot first_minor mm_here_def)
qed

lemma first_version:
  "first_groups versionRegex s =
     (case s of
        CHR ''v'' # s' \<Rightarrow> first_groups majorRegex s'
      | _ \<Rightarrow> first_groups majorRegex s)"
proof (cases "\<exists>s'. s = CHR ''v'' # s'")
  case True
  then obtain s' where s: "s = CHR ''v'' # s'" ..
  have "rmatch majorRegex (CHR ''v'' # s') = []" by (simp add: rmatch_major)
  then show ?thesis
    by (auto simp: s versionRegex_eq first_groups_def rmatch.simps split: list.splits)
next
  case False
  then have "rmatch (ROpt (RChar CHR ''v'')) s = [([], s, [])]"
    by (auto simp: rmatch.simps split: list.splits)
  then have "rmatch versionRegex s = rmatch majorRegex s"
    by (simp add: versionRegex_eq rmatch.simps(3) [of "ROpt r" for r])
  with False show ?thesis
    by (auto simp: first_groups_def split: list.splits char.splits bool.splits)
qed

lemma find_submatch_version:
  "map_option tl (find_submatch versionRegex s) = map_option (\<lambda>(a, b). [(1, a), (2, b)]) (find_mm s)"
proof (induction s)
  case Nil
  have "rmatch versionRegex [] = []"
    using first_version [of "[]"] first_major [of "[]"] by (auto simp: first_groups_def split: list.splits)
  then show ?case by (simp add: find_submatch.simps)
next
  case (Cons c s)
  have step: "map_option tl (find_submatch versionRegex (c # s)) =
      (case first_groups versionRegex (c # s) of Some g \<Rightarrow> Some g
       | None \<Rightarrow> map_option tl (find_submatch versionRegex s))"
    by (subst find_submatch.simps) (auto simp: first_groups_def split: list.splits)
  show ?case
  proof (cases "c = CHR ''v''")
    case True
    then have "first_groups versionRegex (c # s) = map_option (\<lambda>(a, b). [(1, a), (2, b)]) (mm_here s)"
      by (simp add: first_version first_major)
    with True step Cons.IH show ?thesis
      by (cases s) (auto simp: mm_here_nondigit split: option.splits)
  next
    case False
    then have "first_groups versionRegex (c # s) = map_option (\<lambda>(a, b). [(1, a), (2, b)]) (mm_here (c # s))"
      using first_version [of "c # s"] by (auto simp: first_major split: char.splits bool.splits)
    with step Cons.IH show ?thesis by (auto split: option.splits)
  qed
qed

section \<open>Major and minor\<close>

lemma submatch_mm:
  "(case find_submatch versionRegex s of None \<Rightarrow> Inl e
     | Some ms \<Rightarrow> Inr (group_at ms 1 @ ''.'' @ group_at ms 2)) =
   (case find_mm s of None \<Rightarrow> Inl e | Some (a, b) \<Rightarrow> Inr (a @ ''.'' @ b))"
proof -
  have hd0: "find_submatch versionRegex s = Some ms \<Longrightarrow> \<exists>m g. ms = (0, m) # g" for ms
    by (induction s) (auto simp: find_submatch.simps [of versionRegex "[]"]
        find_submatch.simps [of versionRegex "x # xs" for x xs] split: list.splits)
  show ?thesis
  proof (cases "find_submatch versionRegex s")
    case None
    then show ?thesis using find_submatch_version [of s] by auto
  next
    case (Some ms)
    then obtain m g where "ms = (0, m) # g" using hd0 by blast
    with Some find_submatch_version [of s] show ?thesis
      by (cases "find_mm s") (auto simp: group_at_def)
  qed
qed

lemma MajorMinorFromVersion_scan:
  "MajorMinorFromVersion v =
     (case find_mm v of None \<Rightarrow> Inl (CannotParseVersion v) | Some (a, b) \<Rightarrow> Inr (a @ ''.'' @ b))"
  by (simp only: MajorMinorFromVersion_def submatch_mm)

lemma MajorMinorFromImage_cut:
  assumes "CHR '':'' \<notin> set repo"
  shows "MajorMinorFromImage (repo @ CHR '':'' # tag) =
     (if has_prefix tag ''sha256:'' then Inl (ImageUsesDigest (repo @ CHR '':'' # tag))
      else case find_mm tag of None \<Rightarrow> Inl (CannotParseTag tag) | Some (a, b) \<Rightarrow> Inr (a @ ''.'' @ b))"
  using assms
  by (simp only: MajorMinorFromImage_def split_n2_cut [OF assms] Let_def submatch_mm) (simp split: option.split)

lemma find_mm_skip: "\<forall>c\<in>set pre. \<not> is_digit c \<Longrightarrow> find_mm (pre @ s) = find_mm s"
  by (induction pre) (auto simp: mm_here_nondigit)

lemma takeWhile_digits_stop:
  assumes "\<forall>c\<in>set d. is_digit c" and "rest = [] \<or> \<not> is_digit (hd rest)"
  shows "takeWhile is_digit (d @ rest) = d" and "dropWhile is_digit (d @ rest) = rest"
  using assms by (cases rest; simp add: takeWhile_append2 dropWhile_append2)+

text \<open>Digits, a dot, digits, then anything that is not a digit.\<close>

lemma find_mm_digits:
  assumes "\<forall>c\<in>set a. is_digit c" "a \<noteq> []" "\<forall>c\<in>set b. is_digit c" "b \<noteq> []"
    and "rest = [] \<or> \<not> is_digit (hd rest)"
  shows "find_mm (a @ CHR ''.'' # b @ rest) = Some (a, b)"
proof -
  have "takeWhile is_digit (a @ CHR ''.'' # b @ rest) = a"
    "dropWhile is_digit (a @ CHR ''.'' # b @ rest) = CHR ''.'' # b @ rest"
    using takeWhile_digits_stop [OF assms(1), of "CHR ''.'' # b @ rest"] by simp_all
  moreover have "takeWhile is_digit (b @ rest) = b"
    using takeWhile_digits_stop [OF assms(3,5)] by simp
  ultimately have "mm_here (a @ CHR ''.'' # b @ rest) = Some (a, b)"
    using assms(2,4) by (simp add: mm_here_def)
  with assms(2) show ?thesis by (cases a) auto
qed

text \<open>
  Extraction on well-formed versions: whatever digit-free text comes first (nothing, \<open>v\<close>,
  \<open>stable-v\<close>) and whatever follows the minor number, the result is "major.minor".
\<close>

lemma MajorMinorFromVersion_roundtrip:
  assumes "\<forall>c\<in>set pre. \<not> is_digit c" and "rest = [] \<or> \<not> is_digit (hd rest)"
  shows "MajorMinorFromVersion (pre @ nat_digits major @ ''.'' @ nat_digits minor @ rest) =
     Inr (nat_digits major @ ''.'' @ nat_digits minor)"
proof -
  have "find_mm (nat_digits major @ CHR ''.'' # nat_digits minor @ rest) =
      Some (nat_digits major, nat_digits minor)"
    using nat_digits_digits assms(2) by (intro find_mm_digits) auto
  then show ?thesis by (simp add: MajorMinorFromVersion_scan find_mm_skip [OF assms(1)])
qed

lemma MajorMinorFromVersion_roundtrip_witness:
  "MajorMinorFromVersion (''v'' @ nat_digits 0 @ ''.'' @ nat_digits 36 @ ''.7'') =
     Inr (nat_digits 0 @ ''.'' @ nat_digits 36)"
  by (rule MajorMinorFromVersion_roundtrip) simp_all

text \<open>
  What \<open>MajorMinorFromImage\<close> inspects is the text after the first colon, so for an image in a
  registry with a port a version-like path component is taken for the tag, and a digest reference
  \<open>repo@sha256:hex\<close> is not recognised as one.
\<close>

lemma MajorMinorFromImage_first_colon:
  "MajorMinorFromImage ''localhost:5000/peerdb-1.2/flow-worker:v0.36.7'' = Inr ''1.2'' \<and>
   MajorMinorFromImage ''flow-worker:v0.36.7'' = Inr ''0.36'' \<and>
   MajorMinorFromImage ''flow-worker@sha256:abc'' = Inl (CannotParseTag ''abc'')"
proof -
  have "MajorMinorFromImage (''localhost'' @ CHR '':'' # ''5000/peerdb-1.2/flow-worker:v0.36.7'') = Inr ''1.2''"
    by (subst MajorMinorFromImage_cut) (simp_all add: has_prefix_def mm_here_def is_digit_def)
  moreover have "MajorMinorFromImage (''flow-worker'' @ CHR '':'' # ''v0.36.7'') = Inr ''0.36''"
    by (subst MajorMinorFromImage_cut) (simp_all add: has_prefix_def mm_here_def is_digit_def)
  moreover have "MajorMinorFromImage (''flow-worker@sha256'' @ CHR '':'' # ''abc'') = Inl (CannotParseTag ''abc'')"
    by (subst MajorMinorFromImage_cut) (simp_all add: has_prefix_def mm_here_def is_digit_def)
  ultimately show ?thesis by simp
qed

end
