(* ===== verification/Webhooks.thy ===== *)
theory Webhooks
  imports Samples VersionSkew
begin

text \<open>
  The admission webhooks of the three custom resources (api/v1alpha1/*\_webhook.go). A defaulter is
  a function on the resource; a validator yields the list of field errors, and the request is
  admitted when \<open>ToAggregate\<close> of that list is nil. The pool validators read the referenced cluster
  through the API client to compare versions.
\<close>

section \<open>PeerDBCluster\<close>

text \<open>\<open>if p == nil { v := n; p = &v }\<close>.\<close>

definition default_int :: "int \<Rightarrow> int option \<Rightarrow> int option" where
  "default_int n p = (case p of None \<Rightarrow> Some n | Some v \<Rightarrow> Some v)"

definition default_catalog :: "CatalogSpec \<Rightarrow> CatalogSpec" where
  "default_catalog cat =
     (let cat1 = (if catPort cat = 0 then cat\<lparr>catPort := 5432\<rparr> else cat) in
      if catSSLMode cat1 = '''' then cat1\<lparr>catSSLMode := ''require''\<rparr> else cat1)"

definition default_components :: "ComponentsSpec \<Rightarrow> ComponentsSpec" where
  "default_components cmp =
     cmp\<lparr>cmpFlowAPI := map_option (\<lambda>x. x\<lparr>faReplicas := default_int 1 (faReplicas x)\<rparr>) (cmpFlowAPI cmp),
         cmpPeerDBServer := map_option (\<lambda>x. x\<lparr>psvReplicas := default_int 1 (psvReplicas x)\<rparr>) (cmpPeerDBServer cmp),
         cmpUI := map_option (\<lambda>x. x\<lparr>uiReplicas := default_int 1 (uiReplicas x)\<rparr>) (cmpUI cmp),
         cmpAuthProxy := map_option (\<lambda>x. x\<lparr>apReplicas := default_int 1 (apReplicas x)\<rparr>) (cmpAuthProxy cmp)\<rparr>"

definition PeerDBClusterDefault :: "PeerDBCluster \<Rightarrow> PeerDBCluster" where
  "PeerDBClusterDefault cluster =
     (let spec = clSpec cluster;
          deps = clDependencies spec;
          spec1 = spec\<lparr>clDependencies := deps\<lparr>depCatalog := default_catalog (depCatalog deps)\<rparr>\<rparr>;
          spec2 = (case clServiceAccount spec1 of
                     None \<Rightarrow> spec1\<lparr>clServiceAccount := Some \<lparr>sacCreate = True, sacAnnotations = fmempty\<rparr>\<rparr>
                   | Some _ \<Rightarrow> spec1);
          spec3 = spec2\<lparr>clComponents := map_option default_components (clComponents spec2)\<rparr>
      in cluster\<lparr>clSpec := spec3\<rparr>)"

definition validatePeerDBCluster :: "PeerDBCluster \<Rightarrow> field_error list" where
  "validatePeerDBCluster cluster =
     (if clVersion (clSpec cluster) = '''' then [Required [''spec'', ''version''] ''version is required''] else []) @
     (if catHost (clCatalog cluster) = ''''
      then [Required [''spec'', ''dependencies'', ''catalog'', ''host''] ''catalog host is required''] else []) @
     (if sksName (catPasswordSecretRef (clCatalog cluster)) = ''''
      then [Required [''spec'', ''dependencies'', ''catalog'', ''passwordSecretRef'', ''name'']
              ''catalog password secret name is required''] else []) @
     (if tmpAddress (clTemporal cluster) = ''''
      then [Required [''spec'', ''dependencies'', ''temporal'', ''address''] ''temporal address is required''] else []) @
     (if tmpNamespace (clTemporal cluster) = ''''
      then [Required [''spec'', ''dependencies'', ''temporal'', ''namespace''] ''temporal namespace is required''] else [])"

definition ClusterValidateCreate :: "lib \<Rightarrow> PeerDBCluster \<Rightarrow> string option" where
  "ClusterValidateCreate L cluster = ToAggregate L (validatePeerDBCluster cluster)"

definition ClusterValidateUpdate :: "lib \<Rightarrow> PeerDBCluster \<Rightarrow> PeerDBCluster \<Rightarrow> string option" where
  "ClusterValidateUpdate L oldCluster newCluster =
     ToAggregate L
       (validatePeerDBCluster newCluster @
        (if catHost (clCatalog oldCluster) \<noteq> catHost (clCatalog newCluster)
         then [Forbidden [''spec'', ''dependencies'', ''catalog'', ''host''] ''field is immutable''] else []))"

definition ClusterValidateDelete :: "PeerDBCluster \<Rightarrow> string option" where
  "ClusterValidateDelete cluster = None"

section \<open>Version skew of pinned images\<close>

definition validateVersionSkew :: "string \<Rightarrow> string \<Rightarrow> string list \<Rightarrow> field_error option" where
  "validateVersionSkew img clusterVersion fldPath =
     (if img = '''' then None
      else case MajorMinorFromVersion clusterVersion of
        Inl _ \<Rightarrow> None
      | Inr clusterMM \<Rightarrow>
          (case MajorMinorFromImage img of
             Inl _ \<Rightarrow> None
           | Inr imageMM \<Rightarrow>
               if clusterMM \<noteq> imageMM
               then Some (Invalid fldPath img
                      (''image major.minor '' @ fmt_q imageMM @
                       '' does not match cluster version major.minor '' @ fmt_q clusterMM))
               else None))"

text \<open>
  The skew check of the pool validators: made when an image is pinned, a cluster is referenced and
  the validator has a client; skipped when the cluster cannot be read.
\<close>

definition skew_errors ::
  "('w, PeerDBCluster) rclient option \<Rightarrow> string \<Rightarrow> string \<Rightarrow> string \<Rightarrow> ('w, field_error list) prog" where
  "skew_errors client img clusterRef ns =
     (case client of
        None \<Rightarrow> ret []
      | Some c \<Rightarrow>
          if img \<noteq> '''' \<and> clusterRef \<noteq> '''' then do {
            r \<leftarrow> api (EGet KCluster (NN clusterRef ns)) (rGet c (NN clusterRef ns));
            ret (case r of
                   Inl _ \<Rightarrow> []
                 | Inr cluster \<Rightarrow>
                     (case validateVersionSkew img (clVersion (clSpec cluster)) [''spec'', ''image''] of
                        None \<Rightarrow> []
                      | Some skewErr \<Rightarrow> [skewErr]))
          } else ret [])"

section \<open>PeerDBWorkerPool\<close>

definition default_autoscaling :: "AutoscalingSpec \<Rightarrow> AutoscalingSpec" where
  "default_autoscaling a =
     (if asEnabled a
      then a\<lparr>asMinReplicas := default_int 1 (asMinReplicas a),
             asTargetCPUUtilization := default_int 70 (asTargetCPUUtilization a)\<rparr>
      else a)"

definition WorkerPoolDefault :: "PeerDBWorkerPool \<Rightarrow> PeerDBWorkerPool" where
  "WorkerPoolDefault pool =
     pool\<lparr>wpSpec := (wpSpec pool)
       \<lparr>wsReplicas := default_int 2 (wsReplicas (wpSpec pool)),
        wsAutoscaling := map_option default_autoscaling (wsAutoscaling (wpSpec pool))\<rparr>\<rparr>"

definition validatePeerDBWorkerPool :: "PeerDBWorkerPool \<Rightarrow> field_error list" where
  "validatePeerDBWorkerPool pool =
     (if wsClusterRef (wpSpec pool) = '''' then [Required [''spec'', ''clusterRef''] ''clusterRef is required''] else []) @
     (case wsAutoscaling (wpSpec pool) of
        None \<Rightarrow> []
      | Some a \<Rightarrow>
          if asEnabled a then
            (case asMinReplicas a of
               None \<Rightarrow> []
             | Some mn \<Rightarrow>
                 if mn > asMaxReplicas a
                 then [Invalid [''spec'', ''autoscaling'', ''minReplicas''] (fmt_d mn)
                         ''minReplicas must be less than or equal to maxReplicas'']
                 else [])
          else [])"

definition WorkerPoolValidateCreate ::
  "lib \<Rightarrow> ('w, PeerDBCluster) rclient option \<Rightarrow> PeerDBWorkerPool \<Rightarrow> ('w, string option) prog" where
  "WorkerPoolValidateCreate L client pool = do {
     skew \<leftarrow> skew_errors client (wsImage (wpSpec pool)) (wsClusterRef (wpSpec pool)) (mNamespace (wpMeta pool));
     ret (ToAggregate L (validatePeerDBWorkerPool pool @ skew))
   }"

definition WorkerPoolValidateUpdate ::
  "lib \<Rightarrow> ('w, PeerDBCluster) rclient option \<Rightarrow> PeerDBWorkerPool \<Rightarrow> PeerDBWorkerPool \<Rightarrow> ('w, string option) prog" where
  "WorkerPoolValidateUpdate L client oldPool newPool = do {
     skew \<leftarrow> skew_errors client (wsImage (wpSpec newPool)) (wsClusterRef (wpSpec newPool)) (mNamespace (wpMeta newPool));
     ret (ToAggregate L
       (validatePeerDBWorkerPool newPool @
        (if wsClusterRef (wpSpec oldPool) \<noteq> wsClusterRef (wpSpec newPool)
         then [Forbidden [''spec'', ''clusterRef''] ''field is immutable''] else []) @
        skew))
   }"

definition WorkerPoolValidateDelete :: "PeerDBWorkerPool \<Rightarrow> string option" where
  "WorkerPoolValidateDelete pool = None"

section \<open>PeerDBSnapshotPool\<close>

definition SnapshotPoolDefault :: "PeerDBSnapshotPool \<Rightarrow> PeerDBSnapshotPool" where
  "SnapshotPoolDefault pool =
     pool\<lparr>snSpec := (snSpec pool)
       \<lparr>spsReplicas := default_int 1 (spsReplicas (snSpec pool)),
        spsTerminationGracePeriodSeconds := default_int 600 (spsTerminationGracePeriodSeconds (snSpec pool))\<rparr>\<rparr>"

definition validatePeerDBSnapshotPool :: "lib \<Rightarrow> PeerDBSnapshotPool \<Rightarrow> field_error list" where
  "validatePeerDBSnapshotPool L pool =
     (if spsClusterRef (snSpec pool) = '''' then [Required [''spec'', ''clusterRef''] ''clusterRef is required''] else []) @
     (if IsZero L (sgSize (spsStorage (snSpec pool)))
      then [Required [''spec'', ''storage'', ''size''] ''storage size must be specified and non-zero''] else [])"

definition SnapshotPoolValidateCreate ::
  "lib \<Rightarrow> ('w, PeerDBCluster) rclient option \<Rightarrow> PeerDBSnapshotPool \<Rightarrow> ('w, string option) prog" where
  "SnapshotPoolValidateCreate L client pool = do {
     skew \<leftarrow> skew_errors client (spsImage (snSpec pool)) (spsClusterRef (snSpec pool)) (mNamespace (snMeta pool));
     ret (ToAggregate L (validatePeerDBSnapshotPool L pool @ skew))
   }"

definition storage_class_changed :: "string option \<Rightarrow> string option \<Rightarrow> bool" where
  "storage_class_changed oldSC newSC \<longleftrightarrow>
     (oldSC = None) \<noteq> (newSC = None) \<or>
     (case (oldSC, newSC) of (Some a, Some b) \<Rightarrow> a \<noteq> b | _ \<Rightarrow> False)"

definition SnapshotPoolValidateUpdate ::
  "lib \<Rightarrow> ('w, PeerDBCluster) rclient option \<Rightarrow> PeerDBSnapshotPool \<Rightarrow> PeerDBSnapshotPool \<Rightarrow> ('w, string option) prog" where
  "SnapshotPoolValidateUpdate L client oldPool newPool = do {
     skew \<leftarrow> skew_errors client (spsImage (snSpec newPool)) (spsClusterRef (snSpec newPool)) (mNamespace (snMeta newPool));
     ret (ToAggregate L
       (validatePeerDBSnapshotPool L newPool @
        (if spsClusterRef (snSpec oldPool) \<noteq> spsClusterRef (snSpec newPool)
         then [Forbidden [''spec'', ''clusterRef''] ''field is immutable''] else []) @
        (if storage_class_changed (sgStorageClassName (spsStorage (snSpec oldPool)))
              (sgStorageClassName (spsStorage (snSpec newPool)))
         then [Forbidden [''spec'', ''storage'', ''storageClassName'']
                 ''field is immutable (StatefulSet volumeClaimTemplates cannot be updated)''] else []) @
        skew))
   }"

definition SnapshotPoolValidateDelete :: "PeerDBSnapshotPool \<Rightarrow> string option" where
  "SnapshotPoolValidateDelete pool = None"

section \<open>The contract of the webhooks\<close>

text \<open>
  A defaulter reaches a settled resource in one pass and leaves settled resources alone; a
  validator reports no error exactly for valid resources. Defaulting keeps a valid resource valid
  when it is \<open>sane\<close>, that is, satisfies the bounds of the resource's schema.
\<close>

locale defaulter =
  fixes dflt :: "'o \<Rightarrow> 'o" and settled :: "'o \<Rightarrow> bool"
  assumes settles: "settled (dflt x)"
    and keeps: "settled x \<Longrightarrow> dflt x = x"
begin

lemma idempotent: "dflt (dflt x) = dflt x"
  by (rule keeps [OF settles])

lemma unchanged_iff: "dflt x = x \<longleftrightarrow> settled x"
  using settles [of x] keeps by metis

end

locale validator =
  fixes validate :: "'o \<Rightarrow> field_error list" and valid :: "'o \<Rightarrow> bool"
  assumes validate_iff: "validate x = [] \<longleftrightarrow> valid x"
begin

lemma admitted_iff:
  assumes "aggregate_lib L"
  shows "ToAggregate L (validate x @ es) = None \<longleftrightarrow> valid x \<and> es = []"
  using aggregate_lib.aggregate_nil [OF assms] by (simp add: validate_iff)

end

locale webhook = defaulter dflt settled + validator validate valid
  for dflt :: "'o \<Rightarrow> 'o" and settled validate valid +
  fixes sane :: "'o \<Rightarrow> bool"
  assumes dflt_valid: "sane x \<Longrightarrow> valid x \<Longrightarrow> valid (dflt x)"
begin

lemma defaulted_admitted:
  assumes "aggregate_lib L" and "sane x" and "validate x = []"
  shows "ToAggregate L (validate (dflt x)) = None"
  using admitted_iff [OF assms(1), of "dflt x" "[]"] dflt_valid [OF assms(2)] assms(3)
  by (simp add: validate_iff)

end

definition cluster_settled :: "PeerDBCluster \<Rightarrow> bool" where
  "cluster_settled c \<longleftrightarrow>
     catPort (clCatalog c) \<noteq> 0 \<and> catSSLMode (clCatalog c) \<noteq> '''' \<and> clServiceAccount (clSpec c) \<noteq> None \<and>
     (case clComponents (clSpec c) of None \<Rightarrow> True
      | Some cmp \<Rightarrow>
          pred_option (\<lambda>x. faReplicas x \<noteq> None) (cmpFlowAPI cmp) \<and>
          pred_option (\<lambda>x. psvReplicas x \<noteq> None) (cmpPeerDBServer cmp) \<and>
          pred_option (\<lambda>x. uiReplicas x \<noteq> None) (cmpUI cmp) \<and>
          pred_option (\<lambda>x. apReplicas x \<noteq> None) (cmpAuthProxy cmp))"

definition cluster_valid :: "PeerDBCluster \<Rightarrow> bool" where
  "cluster_valid c \<longleftrightarrow>
     clVersion (clSpec c) \<noteq> '''' \<and> catHost (clCatalog c) \<noteq> '''' \<and>
     sksName (catPasswordSecretRef (clCatalog c)) \<noteq> '''' \<and>
     tmpAddress (clTemporal c) \<noteq> '''' \<and> tmpNamespace (clTemporal c) \<noteq> ''''"

definition worker_pool_settled :: "PeerDBWorkerPool \<Rightarrow> bool" where
  "worker_pool_settled p \<longleftrightarrow>
     wsReplicas (wpSpec p) \<noteq> None \<and>
     pred_option (\<lambda>a. asEnabled a \<longrightarrow> asMinReplicas a \<noteq> None \<and> asTargetCPUUtilization a \<noteq> None)
       (wsAutoscaling (wpSpec p))"

definition worker_pool_valid :: "PeerDBWorkerPool \<Rightarrow> bool" where
  "worker_pool_valid p \<longleftrightarrow>
     wsClusterRef (wpSpec p) \<noteq> '''' \<and>
     pred_option (\<lambda>a. asEnabled a \<longrightarrow> pred_option (\<lambda>mn. mn \<le> asMaxReplicas a) (asMinReplicas a))
       (wsAutoscaling (wpSpec p))"

text \<open>The schema's \<open>maxReplicas >= 1\<close>.\<close>

definition worker_pool_sane :: "PeerDBWorkerPool \<Rightarrow> bool" where
  "worker_pool_sane p \<longleftrightarrow> pred_option (\<lambda>a. 1 \<le> asMaxReplicas a) (wsAutoscaling (wpSpec p))"

definition snapshot_pool_settled :: "PeerDBSnapshotPool \<Rightarrow> bool" where
  "snapshot_pool_settled p \<longleftrightarrow>
     spsReplicas (snSpec p) \<noteq> None \<and> spsTerminationGracePeriodSeconds (snSpec p) \<noteq> None"

definition snapshot_pool_valid :: "lib \<Rightarrow> PeerDBSnapshotPool \<Rightarrow> bool" where
  "snapshot_pool_valid L p \<longleftrightarrow>
     spsClusterRef (snSpec p) \<noteq> '''' \<and> \<not> IsZero L (sgSize (spsStorage (snSpec p)))"

lemma default_int_simps [simp]:
  "default_int n None = Some n" "default_int n (Some v) = Some v" "default_int n p \<noteq> None"
  "\<exists>v. default_int n p = Some v"
  by (auto simp: default_int_def split: option.splits)

lemma default_catalog_settled:
  "catPort (default_catalog cat) \<noteq> 0" "catSSLMode (default_catalog cat) \<noteq> ''''"
  "catPort cat \<noteq> 0 \<Longrightarrow> catSSLMode cat \<noteq> '''' \<Longrightarrow> default_catalog cat = cat"
  by (simp_all add: default_catalog_def Let_def)

lemma default_catalog_frame [simp]:
  "catHost (default_catalog cat) = catHost cat"
  "catPasswordSecretRef (default_catalog cat) = catPasswordSecretRef cat"
  by (simp_all add: default_catalog_def Let_def)

text \<open>Defaulting a pointer field that is set changes nothing.\<close>

lemma default_field_id:
  assumes "pred_option (\<lambda>x. get x \<noteq> None) p"
    and "\<And>x v. get x = Some v \<Longrightarrow> upd (\<lambda>_. default_int n (get x)) x = x"
  shows "map_option (\<lambda>x. upd (\<lambda>_. default_int n (get x)) x) p = p"
  using assms by (cases p) auto

lemma default_components_id:
  assumes "pred_option (\<lambda>x. faReplicas x \<noteq> None) (cmpFlowAPI cmp)"
    and "pred_option (\<lambda>x. psvReplicas x \<noteq> None) (cmpPeerDBServer cmp)"
    and "pred_option (\<lambda>x. uiReplicas x \<noteq> None) (cmpUI cmp)"
    and "pred_option (\<lambda>x. apReplicas x \<noteq> None) (cmpAuthProxy cmp)"
  shows "default_components cmp = cmp"
proof -
  have "map_option (\<lambda>x. x\<lparr>faReplicas := default_int 1 (faReplicas x)\<rparr>) (cmpFlowAPI cmp) = cmpFlowAPI cmp"
    using assms(1) by (rule default_field_id) simp
  moreover have "map_option (\<lambda>x. x\<lparr>psvReplicas := default_int 1 (psvReplicas x)\<rparr>) (cmpPeerDBServer cmp) = cmpPeerDBServer cmp"
    using assms(2) by (rule default_field_id) simp
  moreover have "map_option (\<lambda>x. x\<lparr>uiReplicas := default_int 1 (uiReplicas x)\<rparr>) (cmpUI cmp) = cmpUI cmp"
    using assms(3) by (rule default_field_id) simp
  moreover have "map_option (\<lambda>x. x\<lparr>apReplicas := default_int 1 (apReplicas x)\<rparr>) (cmpAuthProxy cmp) = cmpAuthProxy cmp"
    using assms(4) by (rule default_field_id) simp
  ultimately show ?thesis by (simp add: default_components_def)
qed

lemma PeerDBClusterDefault_settles: "cluster_settled (PeerDBClusterDefault c)"
  by (auto simp: cluster_settled_def PeerDBClusterDefault_def Let_def default_catalog_settled
      default_components_def option.pred_set split: option.splits)

lemma PeerDBClusterDefault_keeps:
  assumes "cluster_settled c"
  shows "PeerDBClusterDefault c = c"
proof -
  have "map_option default_components (clComponents (clSpec c)) = clComponents (clSpec c)"
    using assms by (cases "clComponents (clSpec c)") (simp_all add: cluster_settled_def default_components_id)
  moreover have "default_catalog (clCatalog c) = clCatalog c"
    using assms by (simp add: cluster_settled_def default_catalog_settled)
  moreover obtain sa where "clServiceAccount (clSpec c) = Some sa"
    using assms by (auto simp: cluster_settled_def)
  ultimately show ?thesis by (simp add: PeerDBClusterDefault_def Let_def)
qed

interpretation wh_cluster: webhook PeerDBClusterDefault cluster_settled validatePeerDBCluster
  cluster_valid "\<lambda>_. True"
proof unfold_locales
  show "validatePeerDBCluster x = [] \<longleftrightarrow> cluster_valid x" for x
    by (simp add: validatePeerDBCluster_def cluster_valid_def)
  show "cluster_valid (PeerDBClusterDefault x)" if "cluster_valid x" for x
    using that
    by (auto simp: cluster_valid_def PeerDBClusterDefault_def Let_def split: option.splits)
qed (simp_all add: PeerDBClusterDefault_settles PeerDBClusterDefault_keeps)

lemma default_autoscaling_id:
  "pred_option (\<lambda>a. asEnabled a \<longrightarrow> asMinReplicas a \<noteq> None \<and> asTargetCPUUtilization a \<noteq> None) x \<Longrightarrow>
     map_option default_autoscaling x = x"
  by (cases x) (auto simp: default_autoscaling_def)

interpretation wh_worker: webhook WorkerPoolDefault worker_pool_settled validatePeerDBWorkerPool
  worker_pool_valid worker_pool_sane
proof unfold_locales
  show "worker_pool_settled (WorkerPoolDefault x)" for x
    by (auto simp: worker_pool_settled_def WorkerPoolDefault_def default_autoscaling_def option.pred_set)
  show "WorkerPoolDefault x = x" if "worker_pool_settled x" for x
    using that by (auto simp: worker_pool_settled_def WorkerPoolDefault_def default_autoscaling_id)
  show "validatePeerDBWorkerPool x = [] \<longleftrightarrow> worker_pool_valid x" for x
    by (auto simp: validatePeerDBWorkerPool_def worker_pool_valid_def option.pred_set not_less
        split: option.splits)
  show "worker_pool_valid (WorkerPoolDefault x)" if "worker_pool_sane x" "worker_pool_valid x" for x
  proof (cases "wsAutoscaling (wpSpec x)")
    case (Some a)
    with that show ?thesis
      by (cases "asMinReplicas a")
        (auto simp: worker_pool_sane_def worker_pool_valid_def WorkerPoolDefault_def default_autoscaling_def)
  qed (use that in \<open>simp add: worker_pool_valid_def WorkerPoolDefault_def\<close>)
qed

interpretation wh_snapshot: webhook SnapshotPoolDefault snapshot_pool_settled
  "validatePeerDBSnapshotPool L" "snapshot_pool_valid L" "\<lambda>_. True" for L
  by unfold_locales
    (auto simp: snapshot_pool_settled_def SnapshotPoolDefault_def validatePeerDBSnapshotPool_def
      snapshot_pool_valid_def)

section \<open>Admission\<close>

text \<open>The cluster version and the image both name a major.minor, and they differ.\<close>

definition skewed :: "string \<Rightarrow> string \<Rightarrow> bool" where
  "skewed img version \<longleftrightarrow>
     (case (MajorMinorFromVersion version, MajorMinorFromImage img) of
        (Inr a, Inr b) \<Rightarrow> a \<noteq> b
      | _ \<Rightarrow> False)"

lemma skew_None_iff: "validateVersionSkew img v p = None \<longleftrightarrow> img = '''' \<or> \<not> skewed img v"
  by (auto simp: validateVersionSkew_def skewed_def split: sum.splits)

text \<open>The skew check of the pool validators finds no error.\<close>

definition no_skew ::
  "('w, PeerDBCluster) rclient option \<Rightarrow> string \<Rightarrow> string \<Rightarrow> string \<Rightarrow> 'w \<Rightarrow> bool" where
  "no_skew client img clusterRef ns w \<longleftrightarrow>
     (case client of None \<Rightarrow> True
      | Some c \<Rightarrow> img = '''' \<or> clusterRef = '''' \<or>
          (case fst (rGet c (NN clusterRef ns) w) of
             Inl _ \<Rightarrow> True
           | Inr cluster \<Rightarrow> \<not> skewed img (clVersion (clSpec cluster))))"

lemma skew_list_Nil:
  "(case validateVersionSkew img v p of None \<Rightarrow> [] | Some e \<Rightarrow> [e]) = [] \<longleftrightarrow> img = '''' \<or> \<not> skewed img v"
  unfolding skew_None_iff [of img v p, symmetric] by (simp split: option.splits)

lemma skew_errors_Nil:
  "fst (run_state (skew_errors client img ref ns) s) = [] \<longleftrightarrow> no_skew client img ref ns (world s)"
proof (cases client)
  case (Some c)
  show ?thesis
    by (cases "rGet c (NN ref ns) (world s)"; cases "fst (rGet c (NN ref ns) (world s))")
      (auto simp: Some skew_errors_def no_skew_def skew_list_Nil)
qed (simp add: skew_errors_def no_skew_def)

lemma storage_class_changed_iff: "storage_class_changed a b \<longleftrightarrow> a \<noteq> b"
  by (cases a; cases b) (simp_all add: storage_class_changed_def)

lemma run_skew_then:
  "fst (run_state (do { skew \<leftarrow> skew_errors client img ref ns; ret (f skew) }) s) =
     f (fst (run_state (skew_errors client img ref ns) s))"
  by (simp split: prod.splits)

lemma mem_agg_lib: "aggregate_lib mem_lib"
  by (rule mem_agg.aggregate_lib_axioms)

text \<open>
  The defaulting webhooks are idempotent: a second admission of a defaulted resource changes
  nothing, and a resource is changed by defaulting exactly when it leaves one of the defaulted
  fields open.
\<close>

lemma defaulting_idempotent:
  "PeerDBClusterDefault (PeerDBClusterDefault c) = PeerDBClusterDefault c \<and>
   WorkerPoolDefault (WorkerPoolDefault w) = WorkerPoolDefault w \<and>
   SnapshotPoolDefault (SnapshotPoolDefault p) = SnapshotPoolDefault p \<and>
   (PeerDBClusterDefault c = c \<longleftrightarrow> cluster_settled c) \<and>
   (WorkerPoolDefault w = w \<longleftrightarrow> worker_pool_settled w) \<and>
   (SnapshotPoolDefault p = p \<longleftrightarrow> snapshot_pool_settled p)"
  by (intro conjI wh_cluster.idempotent wh_worker.idempotent wh_snapshot.idempotent
      wh_cluster.unchanged_iff wh_worker.unchanged_iff wh_snapshot.unchanged_iff)

text \<open>
  (C39) An update of a cluster is admitted exactly when the new cluster names a version, a catalog
  host, a password secret and a Temporal address and namespace, and the catalog host is the old one.
\<close>

theorem cluster_update_admitted_iff:
  assumes "aggregate_lib L"
  shows "ClusterValidateUpdate L oldCluster newCluster = None \<longleftrightarrow>
     cluster_valid newCluster \<and> catHost (clCatalog oldCluster) = catHost (clCatalog newCluster)"
  by (simp add: ClusterValidateUpdate_def wh_cluster.admitted_iff [OF assms])

lemma cluster_update_admitted_iff_witness:
  "ClusterValidateUpdate mem_lib sample_cluster sample_cluster = None"
  unfolding cluster_update_admitted_iff [OF mem_agg_lib]
  by (simp add: cluster_valid_def sample_defs)

text \<open>
  (C40) An update of a snapshot pool is admitted exactly when the new pool is valid, refers to the
  same cluster, keeps the storage class, and a pinned image does not differ in major.minor from the
  version of the cluster it refers to (as far as that cluster can be read and both versions parsed).
\<close>

theorem snapshot_update_admitted_iff:
  assumes "aggregate_lib L"
  shows "fst (run_state (SnapshotPoolValidateUpdate L client oldPool newPool) s) = None \<longleftrightarrow>
     snapshot_pool_valid L newPool \<and>
     spsClusterRef (snSpec oldPool) = spsClusterRef (snSpec newPool) \<and>
     sgStorageClassName (spsStorage (snSpec oldPool)) = sgStorageClassName (spsStorage (snSpec newPool)) \<and>
     no_skew client (spsImage (snSpec newPool)) (spsClusterRef (snSpec newPool)) (mNamespace (snMeta newPool)) (world s)"
  unfolding SnapshotPoolValidateUpdate_def run_skew_then
  by (auto simp: wh_snapshot.admitted_iff [OF assms] storage_class_changed_iff skew_errors_Nil)

lemma snapshot_update_admitted_iff_witness:
  "fst (run_state (SnapshotPoolValidateUpdate mem_lib (Some (clusters mem_env)) sample_snapshot_pool
      sample_snapshot_pool) (sys_with sample_cluster)) = None"
  unfolding snapshot_update_admitted_iff [OF mem_agg_lib]
  by (simp add: snapshot_pool_valid_def no_skew_def sample_snapshot_pool_def mem_lib_def)

text \<open>
  A worker pool that respects the schema's bound on \<open>maxReplicas\<close> and passes validation still
  passes it after the defaulting webhook filled in \<open>minReplicas\<close>.
\<close>

lemma worker_pool_defaulted_admitted:
  assumes "aggregate_lib L" and "worker_pool_sane pool" and "validatePeerDBWorkerPool pool = []"
  shows "ToAggregate L (validatePeerDBWorkerPool (WorkerPoolDefault pool)) = None"
  using assms by (rule wh_worker.defaulted_admitted)

lemma worker_pool_defaulted_admitted_witness:
  "ToAggregate mem_lib (validatePeerDBWorkerPool (WorkerPoolDefault sample_worker_pool)) = None"
  by (rule worker_pool_defaulted_admitted [OF mem_agg_lib])
    (simp_all add: worker_pool_sane_def validatePeerDBWorkerPool_def sample_worker_pool_def)

text \<open>
  The skew error is reported exactly when an image is pinned and both its tag and the cluster
  version have a major.minor and these differ.
\<close>

lemma validateVersionSkew_iff:
  "validateVersionSkew img clusterVersion p \<noteq> None \<longleftrightarrow>
     img \<noteq> '''' \<and> (\<exists>a b. MajorMinorFromVersion clusterVersion = Inr a \<and>
        MajorMinorFromImage img = Inr b \<and> a \<noteq> b)"
  unfolding skew_None_iff by (auto simp: skewed_def split: sum.splits)

end
