(* ===== verification/GoFlags.thy ===== *)
theory GoFlags
  imports GoStd
begin

text \<open>
  The parts of the Go standard library that read a command line: \<open>strconv.ParseBool\<close>,
  \<open>time.ParseDuration\<close> with its 64-bit arithmetic, and \<open>flag.FlagSet.Parse\<close>. A flag set is an
  association list from names to flags; a flag knows whether it is boolean and how a text changes the
  variables it is bound to.
\<close>

section \<open>strconv.ParseBool\<close>

definition ParseBool :: "string \<Rightarrow> bool option" where
  "ParseBool s =
     (if s \<in> set [''1'', ''t'', ''T'', ''true'', ''TRUE'', ''True''] then Some True
      else if s \<in> set [''0'', ''f'', ''F'', ''false'', ''FALSE'', ''False''] then Some False
      else None)"

section \<open>time.ParseDuration\<close>

abbreviation two63 :: int where "two63 \<equiv> 2 ^ 63"

text \<open>
  \<open>leadingInt\<close> reads decimal digits into a \<open>uint64\<close> and fails above \<open>1<<63\<close>; \<open>leadingFraction\<close> ignores
  the digits that do not fit. Both return the rest of the text.
\<close>

fun leading_int :: "int \<Rightarrow> string \<Rightarrow> (int \<times> string) option" where
  "leading_int x [] = Some (x, [])"
| "leading_int x (c # s) =
     (if \<not> is_digit c then Some (x, c # s)
      else if x > two63 div 10 then None
      else if x * 10 + int (digit_val c) > two63 then None
      else leading_int (x * 10 + int (digit_val c)) s)"

fun leading_fraction :: "bool \<Rightarrow> int \<Rightarrow> int \<Rightarrow> string \<Rightarrow> int \<times> int \<times> string" where
  "leading_fraction overflow x scale [] = (x, scale, [])"
| "leading_fraction overflow x scale (c # s) =
     (if \<not> is_digit c then (x, scale, c # s)
      else if overflow \<or> x > (two63 - 1) div 10 \<or> x * 10 + int (digit_val c) > two63
      then leading_fraction True x scale s
      else leading_fraction False (x * 10 + int (digit_val c)) (scale * 10) s)"

text \<open>
  A positive rational rounded to a \<open>float64\<close>: 53 significant bits, to nearest, ties to even. The
  exponents that occur are far inside the range of normal numbers.
\<close>

function bits :: "int \<Rightarrow> nat" where
  "bits n = (if n \<le> 0 then 0 else Suc (bits (n div 2)))"
  by pat_completeness auto
termination
  by (relation "measure nat") auto

declare bits.simps [simp del]

definition float64 :: "int \<times> int \<Rightarrow> int \<times> int" where
  "float64 r =
     (case r of (n, d) \<Rightarrow>
        if n = 0 then (0, 1)
        else
          let scaled = (\<lambda>e :: int. if e \<ge> 0 then (n, d * 2 ^ nat e) else (n * 2 ^ nat (- e), d));
              e0 = int (bits n) - int (bits d) - 53;
              e = (case scaled e0 of (a, b) \<Rightarrow> if a \<ge> 2 ^ 53 * b then e0 + 1 else e0)
          in case scaled e of (a, b) \<Rightarrow>
               let q = a div b; r = a mod b;
                   m = (if 2 * r > b \<or> 2 * r = b \<and> odd q then q + 1 else q)
               in if e \<ge> 0 then (m * 2 ^ nat e, 1) else (m, 2 ^ nat (- e)))"

text \<open>\<open>uint64(float64(f) * (float64(unit) / scale))\<close>.\<close>

definition fraction_nanos :: "int \<Rightarrow> int \<Rightarrow> int \<Rightarrow> int" where
  "fraction_nanos f unit scale =
     (case float64 (f, 1) of (n0, d0) \<Rightarrow>
      case float64 (unit, scale) of (n1, d1) \<Rightarrow>
      case float64 (n0 * n1, d0 * d1) of (n, d) \<Rightarrow> n div d)"

text \<open>The units in nanoseconds; the two spellings of the micro sign are UTF-8.\<close>

definition duration_unit :: "string \<Rightarrow> int option" where
  "duration_unit = map_of
     [(''ns'', 1), (''us'', 1000), ([CHR 0xC2, CHR 0xB5] @ ''s'', 1000), ([CHR 0xCE, CHR 0xBC] @ ''s'', 1000),
      (''ms'', 1000000), (''s'', 1000000000), (''m'', 60 * 1000000000), (''h'', 3600 * 1000000000)]"

definition unit_char :: "char \<Rightarrow> bool" where
  "unit_char c \<longleftrightarrow> c \<noteq> CHR ''.'' \<and> \<not> is_digit c"

text \<open>One number with its unit: its value, as a \<open>uint64\<close>, and the rest.\<close>

definition duration_term :: "string \<Rightarrow> (int \<times> string) option" where
  "duration_term s =
     (if s = [] \<or> \<not> (hd s = CHR ''.'' \<or> is_digit (hd s)) then None
      else case leading_int 0 s of
        None \<Rightarrow> None
      | Some (v, s1) \<Rightarrow>
          (case (if s1 \<noteq> [] \<and> hd s1 = CHR ''.''
                 then (case leading_fraction False 0 1 (tl s1) of (f, scale, r) \<Rightarrow>
                         (f, scale, r, length r \<noteq> length (tl s1)))
                 else (0, 1, s1, False)) of
             (f, scale, s2, post) \<Rightarrow>
               let pre = (length s1 \<noteq> length s);
                   u = takeWhile unit_char s2
               in if \<not> pre \<and> \<not> post \<or> u = [] then None
                  else case duration_unit u of
                    None \<Rightarrow> None
                  | Some unit \<Rightarrow>
                      if v > two63 div unit then None
                      else if f = 0 then Some (v * unit, dropWhile unit_char s2)
                      else let w = (v * unit + fraction_nanos f unit scale) mod 2 ^ 64
                           in if w > two63 then None else Some (w, dropWhile unit_char s2)))"

lemma leading_int_rest: "leading_int x s = Some (v, r) \<Longrightarrow> length r \<le> length s"
  by (induction x s rule: leading_int.induct) (auto split: if_splits)

lemma leading_fraction_rest: "leading_fraction b x sc s = (f, scale, r) \<Longrightarrow> length r \<le> length s"
  by (induction b x sc s rule: leading_fraction.induct) (auto split: if_splits)

lemma drop_unit_shorter: "takeWhile P s \<noteq> [] \<Longrightarrow> length (dropWhile P s) < length s"
  by (cases s) (auto simp: le_imp_less_Suc length_dropWhile_le split: if_splits)

text \<open>Every term consumes a part of the text, so the loop ends.\<close>

lemma duration_term_shorter: "duration_term s = Some (v, r) \<Longrightarrow> length r < length s"
proof -
  assume run: "duration_term s = Some (v, r)"
  then obtain v1 s1 s2 where s1: "leading_int 0 s = Some (v1, s1)" and r: "r = dropWhile unit_char s2"
    and u: "takeWhile unit_char s2 \<noteq> []" and s2: "s2 = s1 \<or> (\<exists>f scale. leading_fraction False 0 1 (tl s1) = (f, scale, s2))"
    by (auto simp: duration_term_def Let_def split: if_splits option.splits prod.splits)
  from s2 have "length s2 \<le> length s1"
    by (auto dest!: leading_fraction_rest)
  with leading_int_rest [OF s1] drop_unit_shorter [OF u] r show ?thesis by simp
qed

function duration_terms :: "int \<Rightarrow> string \<Rightarrow> int option" where
  "duration_terms d s =
     (if s = [] then Some d
      else case duration_term s of
        None \<Rightarrow> None
      | Some (v, r) \<Rightarrow>
          if (d + v) mod 2 ^ 64 > two63 then None else duration_terms ((d + v) mod 2 ^ 64) r)"
  by pat_completeness auto
termination
  by (relation "measure (\<lambda>(d, s). length s)") (auto intro: duration_term_shorter)

declare duration_terms.simps [simp del]

definition ParseDuration :: "string \<Rightarrow> int option" where
  "ParseDuration s =
     (let neg = (s \<noteq> [] \<and> hd s = CHR ''-'');
          t = (if s \<noteq> [] \<and> (hd s = CHR ''-'' \<or> hd s = CHR ''+'') then tl s else s)
      in if t = ''0'' then Some 0
         else if t = [] then None
         else case duration_terms 0 t of
           None \<Rightarrow> None
         | Some d \<Rightarrow> if neg then Some (- d) else if d > two63 - 1 then None else Some d)"

lemma duration_terms_bound: "duration_terms d s = Some r \<Longrightarrow> 0 \<le> d \<and> d \<le> two63 \<Longrightarrow> 0 \<le> r \<and> r \<le> two63"
proof (induction d s rule: duration_terms.induct)
  case (1 d s)
  show ?case
  proof (cases "s = []")
    case True
    with 1 show ?thesis by (simp add: duration_terms.simps [of d "[]"])
  next
    case False
    with 1(2) obtain v t where t: "duration_term s = Some (v, t)" and le: "\<not> (d + v) mod 2 ^ 64 > two63"
      and rest: "duration_terms ((d + v) mod 2 ^ 64) t = Some r"
      by (subst (asm) duration_terms.simps) (auto split: if_splits option.splits)
    from 1(1) [OF False t refl le rest] le show ?thesis by simp
  qed
qed

text \<open>A parsed duration is an \<open>int64\<close>.\<close>

lemma ParseDuration_int64: "ParseDuration s = Some d \<Longrightarrow> - (2 ^ 63) \<le> d \<and> d < 2 ^ 63"
  using duration_terms_bound [of 0]
  by (fastforce simp: ParseDuration_def Let_def split: if_splits option.splits)

text \<open>The value of a string of digits.\<close>

abbreviation digits_value :: "int \<Rightarrow> string \<Rightarrow> int" where
  "digits_value \<equiv> foldl (\<lambda>a c. a * 10 + int (digit_val c))"

lemma digits_value_mono: "0 \<le> x \<Longrightarrow> x \<le> digits_value x ds"
proof (induction ds arbitrary: x)
  case (Cons c ds)
  then have "x * 10 + int (digit_val c) \<le> digits_value (x * 10 + int (digit_val c)) ds" by simp
  with Cons.prems show ?case by simp
qed simp

lemma nat_digits_value: "digits_value 0 (nat_digits n) = int n"
proof (induction n rule: nat_digits.induct)
  case (1 n)
  then show ?case by (subst nat_digits.simps) (simp add: digit_val_digit_char zdiv_int zmod_int)
qed

lemma leading_int_digits:
  "\<forall>c \<in> set ds. is_digit c \<Longrightarrow> rest = [] \<or> \<not> is_digit (hd rest) \<Longrightarrow> 0 \<le> x \<Longrightarrow> digits_value x ds \<le> two63 \<Longrightarrow>
     leading_int x (ds @ rest) = Some (digits_value x ds, rest)"
proof (induction ds arbitrary: x)
  case Nil
  then show ?case by (cases rest) auto
next
  case (Cons c ds)
  have "x * 10 + int (digit_val c) \<le> two63"
    using Cons.prems(3,4) digits_value_mono [of "x * 10 + int (digit_val c)" ds] by simp
  moreover from this have "\<not> x > two63 div 10" by simp
  ultimately show ?case using Cons by simp
qed

lemma ParseDuration_nanos:
  assumes "- (2 ^ 63) \<le> n" "n < 2 ^ 63"
  shows "ParseDuration (fmt_d n @ ''ns'') = Some n"
proof -
  define k where "k = nat \<bar>n\<bar>"
  have k: "int k \<le> two63" using assms by (auto simp: k_def)
  let ?s = "nat_digits k @ ''ns''"
  have ds: "\<forall>c \<in> set (nat_digits k). is_digit c" by (rule nat_digits_digits)
  obtain c cs where cs: "nat_digits k = c # cs" and c: "is_digit c"
    using ds nat_digits_nonempty [of k] by (cases "nat_digits k") auto
  have li: "leading_int 0 ?s = Some (int k, ''ns'')"
    using leading_int_digits [of "nat_digits k" "''ns''" 0] ds k by (simp add: nat_digits_value is_digit_def)
  have u: "takeWhile unit_char ''ns'' = ''ns''" "dropWhile unit_char ''ns'' = []"
    by (simp_all add: unit_char_def is_digit_def)
  have "duration_term ?s = Some (int k, [])"
    using li u k c by (simp add: duration_term_def cs duration_unit_def)
  moreover have "duration_terms (int k) [] = Some (int k)" by (simp add: duration_terms.simps)
  ultimately have terms: "duration_terms 0 ?s = Some (int k)"
    using k by (subst duration_terms.simps) simp
  have "c \<noteq> CHR ''-''" "c \<noteq> CHR ''+''" using c by (auto simp: is_digit_def)
  moreover have "?s \<noteq> ''0''" by (simp add: cs)
  ultimately show ?thesis using terms cs assms
    by (cases "n < 0") (auto simp: ParseDuration_def fmt_d_def k_def)
qed

section \<open>flag.FlagSet.Parse\<close>

text \<open>\<open>fSet\<close> is the flag's \<open>Value.Set\<close>, with \<open>None\<close> for an error.\<close>

record 'f flag =
  fIsBool :: bool
  fSet :: "string \<Rightarrow> 'f \<Rightarrow> 'f option"

type_synonym 'f flag_set = "(string \<times> 'f flag) list"

datatype flag_error =
    ErrHelp
  | BadSyntax string
  | NotDefined string
  | NeedsArgument string
  | InvalidValue string string

text \<open>How one argument is read: a flag with its name and, after an equals sign, its value.\<close>

datatype arg = Positional | Terminator | Malformed | Flag string "string option"

definition split_value :: "string \<Rightarrow> arg" where
  "split_value name =
     (case split_n2 CHR ''='' (tl name) of
        [a, b] \<Rightarrow> Flag (hd name # a) (Some b)
      | _ \<Rightarrow> Flag name None)"

definition read_arg :: "string \<Rightarrow> arg" where
  "read_arg s =
     (if length s < 2 \<or> hd s \<noteq> CHR ''-'' then Positional
      else if s = ''--'' then Terminator
      else let name = (if s ! 1 = CHR ''-'' then drop 2 s else drop 1 s)
           in if name = [] \<or> hd name = CHR ''-'' \<or> hd name = CHR ''='' then Malformed else split_value name)"

definition set_flag :: "string \<Rightarrow> 'f flag \<Rightarrow> string \<Rightarrow> 'f \<Rightarrow> flag_error + 'f" where
  "set_flag name f v st = (case fSet f v st of None \<Rightarrow> Inl (InvalidValue name v) | Some st' \<Rightarrow> Inr st')"

fun parse_args :: "'f flag_set \<Rightarrow> string list \<Rightarrow> 'f \<Rightarrow> flag_error + ('f \<times> string list)" where
  "parse_args fs [] st = Inr (st, [])"
| "parse_args fs (s # args) st =
     (case read_arg s of
        Positional \<Rightarrow> Inr (st, s # args)
      | Terminator \<Rightarrow> Inr (st, args)
      | Malformed \<Rightarrow> Inl (BadSyntax s)
      | Flag name value \<Rightarrow>
          (case map_of fs name of
             None \<Rightarrow> Inl (if name = ''help'' \<or> name = ''h'' then ErrHelp else NotDefined name)
           | Some f \<Rightarrow>
               if fIsBool f
               then (case set_flag name f (case value of None \<Rightarrow> ''true'' | Some v \<Rightarrow> v) st of
                       Inl e \<Rightarrow> Inl e | Inr st' \<Rightarrow> parse_args fs args st')
               else (case value of
                       Some v \<Rightarrow> (case set_flag name f v st of Inl e \<Rightarrow> Inl e | Inr st' \<Rightarrow> parse_args fs args st')
                     | None \<Rightarrow>
                         (case args of
                            [] \<Rightarrow> Inl (NeedsArgument name)
                          | v # args' \<Rightarrow>
                              (case set_flag name f v st of Inl e \<Rightarrow> Inl e | Inr st' \<Rightarrow> parse_args fs args' st')))))"

text \<open>\<open>flag.StringVar\<close>, \<open>BoolVar\<close> and \<open>DurationVar\<close>, given how the variable is assigned.\<close>

definition StringVar :: "(string \<Rightarrow> 'f \<Rightarrow> 'f) \<Rightarrow> 'f flag" where
  "StringVar upd = \<lparr>fIsBool = False, fSet = (\<lambda>v st. Some (upd v st))\<rparr>"

definition BoolVar :: "(bool \<Rightarrow> 'f \<Rightarrow> 'f) \<Rightarrow> 'f flag" where
  "BoolVar upd = \<lparr>fIsBool = True, fSet = (\<lambda>v st. map_option (\<lambda>b. upd b st) (ParseBool v))\<rparr>"

definition DurationVar :: "(int \<Rightarrow> 'f \<Rightarrow> 'f) \<Rightarrow> 'f flag" where
  "DurationVar upd = \<lparr>fIsBool = False, fSet = (\<lambda>v st. map_option (\<lambda>d. upd d st) (ParseDuration v))\<rparr>"

lemma fSet_DurationVar: "fSet (DurationVar upd) v st = map_option (\<lambda>d. upd d st) (ParseDuration v)"
  by (simp add: DurationVar_def)

text \<open>An argument \<open>--name=value\<close> assigns its flag, whatever the value.\<close>

definition assignment :: "string \<Rightarrow> string \<Rightarrow> string" where
  "assignment name v = ''--'' @ name @ ''='' @ v"

lemma read_assignment:
  assumes "name \<noteq> []" "hd name \<noteq> CHR ''-''" "CHR ''='' \<notin> set name"
  shows "read_arg (assignment name v) = Flag name (Some v)"
proof -
  obtain c cs where "name = c # cs" using assms(1) by (cases name) auto
  with assms split_n2_cut [of "CHR ''=''" cs v] show ?thesis
    by (auto simp: read_arg_def assignment_def split_value_def)
qed

lemma parse_assignment:
  assumes "name \<noteq> []" "hd name \<noteq> CHR ''-''" "CHR ''='' \<notin> set name"
    and "map_of fs name = Some f" "fSet f v st = Some st'"
  shows "parse_args fs (assignment name v # args) st = parse_args fs args st'"
  using assms read_assignment [of name v] by (simp add: set_flag_def)

text \<open>A property that every flag keeps holds of what was parsed.\<close>

definition keeps :: "('f \<Rightarrow> bool) \<Rightarrow> 'f flag \<Rightarrow> bool" where
  "keeps P fl \<longleftrightarrow> (\<forall>v st st'. P st \<longrightarrow> fSet fl v st = Some st' \<longrightarrow> P st')"

lemma keeps_vars:
  "(\<And>v st. P st \<Longrightarrow> P (u v st)) \<Longrightarrow> keeps P (StringVar u)"
  "(\<And>b st. P st \<Longrightarrow> P (ub b st)) \<Longrightarrow> keeps P (BoolVar ub)"
  "(\<And>d st. - (2 ^ 63) \<le> d \<Longrightarrow> d < 2 ^ 63 \<Longrightarrow> P st \<Longrightarrow> P (ud d st)) \<Longrightarrow> keeps P (DurationVar ud)"
  by (auto simp: keeps_def StringVar_def BoolVar_def DurationVar_def dest!: ParseDuration_int64)

text \<open>The arguments that read as a flag of a given name.\<close>

definition names_flag :: "string \<Rightarrow> string \<Rightarrow> bool" where
  "names_flag n s = (case read_arg s of Flag m _ \<Rightarrow> m = n | _ \<Rightarrow> False)"

text \<open>A property that the flags named on the command line keep holds of what was parsed.\<close>

lemma parse_args_invariant:
  assumes keep: "\<And>n fl. (n, fl) \<in> set fs \<Longrightarrow> list_ex (names_flag n) all \<Longrightarrow> keeps P fl"
  shows "set args \<subseteq> set all \<Longrightarrow> P st \<Longrightarrow> parse_args fs args st = Inr (st', rest) \<Longrightarrow> P st'"
proof (induction args arbitrary: st rule: length_induct)
  case (1 args)
  show ?case
  proof (cases args)
    case (Cons s as)
    have step: "P st'"
      if "parse_args fs as' st1 = Inr (st', rest)" "read_arg s = Flag n va" "map_of fs n = Some fl" "fSet fl v st = Some st1"
        "length as' < length args" "set as' \<subseteq> set as"
      for n va fl v st1 as'
    proof -
      have "list_ex (names_flag n) all"
        using that(2) 1(2) Cons by (auto simp: list_ex_iff names_flag_def intro!: bexI [of _ s])
      with keep map_of_SomeD [OF that(3)] have "keeps P fl" by blast
      with that(4) 1(3) have "P st1" by (auto simp: keeps_def)
      with 1(1) that(1,5,6) 1(2) Cons show ?thesis by auto
    qed
    with 1(3,4) Cons show ?thesis
      by (auto simp: set_flag_def split: arg.splits option.splits if_splits sum.splits list.splits)
        (erule step, assumption, assumption, assumption, simp, force)+
  qed (use 1 in simp)
qed

end
