(* ===== verification/Manager.thy ===== *)
theory Manager
  imports Runtime GoFlags
begin

text \<open>
  How the operator is put together: the flags and the start-up sequence of cmd/main.go, the
  registration of the controllers (\<open>SetupWithManager\<close>), of the webhooks
  (\<open>SetupPeerDB*WebhookWithManager\<close>), of the API types (api/v1alpha1/groupversion\_info.go and the
  \<open>init\<close> functions) and of the metrics (internal/metrics).

  The manager of controller-runtime is a parameter: the record \<open>manager\<close> has one function for each
  call that can fail, on a state of arbitrary type. The values the operator configures it with are
  records with the fields the code sets; what the code does not set keeps its zero value. The log
  lists the calls in order.
\<close>

section \<open>Flags\<close>

text \<open>The variables of \<open>main\<close> that flags are bound to. Durations are in nanoseconds.\<close>

record flags =
  metricsAddr :: string
  probeAddr :: string
  enableLeaderElection :: bool
  leaseDuration :: int
  renewDeadline :: int
  retryPeriod :: int
  syncPeriod :: int
  watchNamespace :: string
  secureMetrics :: bool
  webhookCertPath :: string
  webhookCertName :: string
  webhookCertKey :: string
  metricsCertPath :: string
  metricsCertName :: string
  metricsCertKey :: string
  enableHTTP2 :: bool

abbreviation Second :: int where "Second \<equiv> 1000000000"

definition default_flags :: flags where
  "default_flags =
     \<lparr>metricsAddr = ''0'', probeAddr = '':8081'', enableLeaderElection = False,
      leaseDuration = 15 * Second, renewDeadline = 10 * Second, retryPeriod = 2 * Second, syncPeriod = 0,
      watchNamespace = '''', secureMetrics = True,
      webhookCertPath = '''', webhookCertName = ''tls.crt'', webhookCertKey = ''tls.key'',
      metricsCertPath = '''', metricsCertName = ''tls.crt'', metricsCertKey = ''tls.key'', enableHTTP2 = False\<rparr>"

text \<open>
  The operator's flags next to those that the logging library binds (\<open>opts.BindFlags\<close>), which act on
  state of their own.
\<close>

definition on_fst :: "('a \<Rightarrow> 'a) \<Rightarrow> 'a \<times> 'z \<Rightarrow> 'a \<times> 'z" where
  "on_fst g st = (g (fst st), snd st)"

definition operator_flags :: "(flags \<times> 'z) flag_set" where
  "operator_flags =
     [(''metrics-bind-address'', StringVar (\<lambda>v. on_fst (\<lambda>f. f\<lparr>metricsAddr := v\<rparr>))),
      (''health-probe-bind-address'', StringVar (\<lambda>v. on_fst (\<lambda>f. f\<lparr>probeAddr := v\<rparr>))),
      (''leader-elect'', BoolVar (\<lambda>v. on_fst (\<lambda>f. f\<lparr>enableLeaderElection := v\<rparr>))),
      (''leader-elect-lease-duration'', DurationVar (\<lambda>v. on_fst (\<lambda>f. f\<lparr>leaseDuration := v\<rparr>))),
      (''leader-elect-renew-deadline'', DurationVar (\<lambda>v. on_fst (\<lambda>f. f\<lparr>renewDeadline := v\<rparr>))),
      (''leader-elect-retry-period'', DurationVar (\<lambda>v. on_fst (\<lambda>f. f\<lparr>retryPeriod := v\<rparr>))),
      (''sync-period'', DurationVar (\<lambda>v. on_fst (\<lambda>f. f\<lparr>syncPeriod := v\<rparr>))),
      (''watch-namespace'', StringVar (\<lambda>v. on_fst (\<lambda>f. f\<lparr>watchNamespace := v\<rparr>))),
      (''metrics-secure'', BoolVar (\<lambda>v. on_fst (\<lambda>f. f\<lparr>secureMetrics := v\<rparr>))),
      (''webhook-cert-path'', StringVar (\<lambda>v. on_fst (\<lambda>f. f\<lparr>webhookCertPath := v\<rparr>))),
      (''webhook-cert-name'', StringVar (\<lambda>v. on_fst (\<lambda>f. f\<lparr>webhookCertName := v\<rparr>))),
      (''webhook-cert-key'', StringVar (\<lambda>v. on_fst (\<lambda>f. f\<lparr>webhookCertKey := v\<rparr>))),
      (''metrics-cert-path'', StringVar (\<lambda>v. on_fst (\<lambda>f. f\<lparr>metricsCertPath := v\<rparr>))),
      (''metrics-cert-name'', StringVar (\<lambda>v. on_fst (\<lambda>f. f\<lparr>metricsCertName := v\<rparr>))),
      (''metrics-cert-key'', StringVar (\<lambda>v. on_fst (\<lambda>f. f\<lparr>metricsCertKey := v\<rparr>))),
      (''enable-http2'', BoolVar (\<lambda>v. on_fst (\<lambda>f. f\<lparr>enableHTTP2 := v\<rparr>)))]"

text \<open>
  \<open>flag.Parse\<close> with \<open>ExitOnError\<close>: the exit status is 0 for a request for help and 2 for any other
  error. Arguments after the flags are ignored by \<open>main\<close>.
\<close>

definition parse_flags :: "(flags \<times> 'z) flag_set \<Rightarrow> 'z \<Rightarrow> string list \<Rightarrow> nat + flags" where
  "parse_flags zapFlags z args =
     (case parse_args (operator_flags @ zapFlags) args (default_flags, z) of
        Inl ErrHelp \<Rightarrow> Inl 0
      | Inl _ \<Rightarrow> Inl 2
      | Inr (st, _) \<Rightarrow> Inr (fst st))"

section \<open>Options\<close>

record TLSConfig =
  NextProtos :: "string list"

type_synonym tls_option = "TLSConfig \<Rightarrow> TLSConfig"

definition disableHTTP2 :: tls_option where
  "disableHTTP2 c = c\<lparr>NextProtos := [''http/1.1'']\<rparr>"

definition tlsOpts :: "flags \<Rightarrow> tls_option list" where
  "tlsOpts f = (if \<not> enableHTTP2 f then [disableHTTP2] else [])"

record WebhookServerOptions =
  wsoTLSOpts :: "tls_option list"
  wsoCertDir :: string
  wsoCertName :: string
  wsoKeyName :: string

definition webhookServerOptions :: "flags \<Rightarrow> WebhookServerOptions" where
  "webhookServerOptions f =
     (let opts = \<lparr>wsoTLSOpts = tlsOpts f, wsoCertDir = '''', wsoCertName = '''', wsoKeyName = ''''\<rparr>
      in if length (webhookCertPath f) > 0
         then opts\<lparr>wsoCertDir := webhookCertPath f, wsoCertName := webhookCertName f, wsoKeyName := webhookCertKey f\<rparr>
         else opts)"

datatype filter_provider = WithAuthenticationAndAuthorization

record MetricsServerOptions =
  msoBindAddress :: string
  msoSecureServing :: bool
  msoTLSOpts :: "tls_option list"
  msoFilterProvider :: "filter_provider option"
  msoCertDir :: string
  msoCertName :: string
  msoKeyName :: string

definition metricsServerOptions :: "flags \<Rightarrow> MetricsServerOptions" where
  "metricsServerOptions f =
     (let opts = \<lparr>msoBindAddress = metricsAddr f, msoSecureServing = secureMetrics f, msoTLSOpts = tlsOpts f,
                  msoFilterProvider = None, msoCertDir = '''', msoCertName = '''', msoKeyName = ''''\<rparr>;
          opts1 = (if secureMetrics f then opts\<lparr>msoFilterProvider := Some WithAuthenticationAndAuthorization\<rparr> else opts)
      in if length (metricsCertPath f) > 0
         then opts1\<lparr>msoCertDir := metricsCertPath f, msoCertName := metricsCertName f, msoKeyName := metricsCertKey f\<rparr>
         else opts1)"

text \<open>\<open>DefaultNamespaces\<close> is a map from namespaces to empty configurations; nil watches all of them.\<close>

record CacheOptions =
  coDefaultNamespaces :: "string list option"
  coSyncPeriod :: "int option"

definition cacheOpts :: "flags \<Rightarrow> CacheOptions" where
  "cacheOpts f =
     \<lparr>coDefaultNamespaces = (if watchNamespace f \<noteq> '''' then Some [watchNamespace f] else None),
      coSyncPeriod = (if syncPeriod f > 0 then Some (syncPeriod f) else None)\<rparr>"

record ManagerOptions =
  moMetrics :: MetricsServerOptions
  moWebhookServer :: WebhookServerOptions
  moHealthProbeBindAddress :: string
  moLeaderElection :: bool
  moLeaderElectionID :: string
  moLeaseDuration :: int
  moRenewDeadline :: int
  moRetryPeriod :: int
  moLeaderElectionReleaseOnCancel :: bool
  moCache :: CacheOptions

definition managerOptions :: "flags \<Rightarrow> ManagerOptions" where
  "managerOptions f =
     \<lparr>moMetrics = metricsServerOptions f, moWebhookServer = webhookServerOptions f,
      moHealthProbeBindAddress = probeAddr f, moLeaderElection = enableLeaderElection f,
      moLeaderElectionID = ''c9f47d91.peerdb.io'', moLeaseDuration = leaseDuration f,
      moRenewDeadline = renewDeadline f, moRetryPeriod = retryPeriod f,
      moLeaderElectionReleaseOnCancel = True, moCache = cacheOpts f\<rparr>"

section \<open>Controllers and webhooks\<close>

text \<open>The limiters of client-go's workqueue, as they are combined; limits are per second, delays in nanoseconds.\<close>

datatype rate_limiter =
    ItemExponentialFailure int int
  | BucketLimiter nat nat
  | MaxOf "rate_limiter list"

definition retry_limiter :: rate_limiter where
  "retry_limiter = MaxOf [ItemExponentialFailure (1 * Second) (60 * Second), BucketLimiter 10 100]"

record ControllerConfig =
  ccName :: string
  ccFor :: kind
  ccOwns :: "kind list"
  ccMaxConcurrentReconciles :: nat
  ccRateLimiter :: rate_limiter

definition ClusterSetupWithManager :: ControllerConfig where
  "ClusterSetupWithManager =
     \<lparr>ccName = ''peerdbcluster'', ccFor = KCluster,
      ccOwns = [KDeployment, KService, KConfigMap, KServiceAccount, KJob],
      ccMaxConcurrentReconciles = 1, ccRateLimiter = retry_limiter\<rparr>"

definition WorkerPoolSetupWithManager :: ControllerConfig where
  "WorkerPoolSetupWithManager =
     \<lparr>ccName = ''peerdbworkerpool'', ccFor = KWorkerPool, ccOwns = [KDeployment],
      ccMaxConcurrentReconciles = 2, ccRateLimiter = retry_limiter\<rparr>"

definition SnapshotPoolSetupWithManager :: ControllerConfig where
  "SnapshotPoolSetupWithManager =
     \<lparr>ccName = ''peerdbsnapshotpool'', ccFor = KSnapshotPool, ccOwns = [KStatefulSet, KService],
      ccMaxConcurrentReconciles = 2, ccRateLimiter = retry_limiter\<rparr>"

text \<open>A webhook has a defaulter and a validator; \<open>whClient\<close> says whether the validator gets a client.\<close>

record WebhookConfig =
  whFor :: kind
  whClient :: bool

definition SetupPeerDBClusterWebhookWithManager :: WebhookConfig where
  "SetupPeerDBClusterWebhookWithManager = \<lparr>whFor = KCluster, whClient = False\<rparr>"

definition SetupPeerDBWorkerPoolWebhookWithManager :: WebhookConfig where
  "SetupPeerDBWorkerPoolWebhookWithManager = \<lparr>whFor = KWorkerPool, whClient = True\<rparr>"

definition SetupPeerDBSnapshotPoolWebhookWithManager :: WebhookConfig where
  "SetupPeerDBSnapshotPoolWebhookWithManager = \<lparr>whFor = KSnapshotPool, whClient = True\<rparr>"

section \<open>API types and metrics\<close>

text \<open>
  \<open>Builder\<close>: the group version and the functions queued for the scheme. \<open>Register\<close> queues the
  registration of its objects, here named by their types; the three \<open>init\<close> functions run in the order of
  their files.
\<close>

record Builder =
  bldGroupVersion :: "string \<times> string"
  bldQueue :: "string list list"

definition Register :: "string list \<Rightarrow> Builder \<Rightarrow> Builder" where
  "Register objects bld = bld\<lparr>bldQueue := bldQueue bld @ [objects]\<rparr>"

definition GroupVersion :: "string \<times> string" where
  "GroupVersion = (''peerdb.peerdb.io'', ''v1alpha1'')"

definition SchemeBuilder :: Builder where
  "SchemeBuilder =
     Register [''PeerDBWorkerPool'', ''PeerDBWorkerPoolList'']
     (Register [''PeerDBSnapshotPool'', ''PeerDBSnapshotPoolList'']
     (Register [''PeerDBCluster'', ''PeerDBClusterList'']
       \<lparr>bldGroupVersion = GroupVersion, bldQueue = []\<rparr>))"

text \<open>
  \<open>AddToScheme\<close> runs the queue; \<open>AddKnownTypes\<close> and \<open>AddToGroupVersion\<close> of apimachinery are
  parameters.
\<close>

definition AddToScheme ::
    "(string \<times> string \<Rightarrow> string list \<Rightarrow> 's \<Rightarrow> 's) \<Rightarrow> (string \<times> string \<Rightarrow> 's \<Rightarrow> 's) \<Rightarrow> Builder \<Rightarrow> 's \<Rightarrow> 's" where
  "AddToScheme AddKnownTypes AddToGroupVersion bld s =
     fold (\<lambda>objects s. AddToGroupVersion (bldGroupVersion bld) (AddKnownTypes (bldGroupVersion bld) objects s))
       (bldQueue bld) s"

record metric_desc =
  mdName :: string
  mdLabels :: "string list"

definition registered_metrics :: "metric_desc list" where
  "registered_metrics =
     [\<lparr>mdName = ''peerdb_cluster_ready'', mdLabels = [''name'', ''namespace'']\<rparr>,
      \<lparr>mdName = ''peerdb_reconcile_errors_total'', mdLabels = [''controller'']\<rparr>,
      \<lparr>mdName = ''peerdb_worker_pools_total'', mdLabels = [''name'', ''namespace'']\<rparr>,
      \<lparr>mdName = ''peerdb_snapshot_pools_total'', mdLabels = [''name'', ''namespace'']\<rparr>]"

section \<open>Starting\<close>

text \<open>The calls of \<open>main\<close> on the manager; each answers whether it succeeded.\<close>

record 'm manager =
  mgGetConfig :: "'m \<Rightarrow> bool \<times> 'm"
  mgNewManager :: "ManagerOptions \<Rightarrow> 'm \<Rightarrow> bool \<times> 'm"
  mgController :: "ControllerConfig \<Rightarrow> 'm \<Rightarrow> bool \<times> 'm"
  mgWebhook :: "WebhookConfig \<Rightarrow> 'm \<Rightarrow> bool \<times> 'm"
  mgAddHealthzCheck :: "string \<Rightarrow> 'm \<Rightarrow> bool \<times> 'm"
  mgAddReadyzCheck :: "string \<Rightarrow> 'm \<Rightarrow> bool \<times> 'm"
  mgStart :: "'m \<Rightarrow> bool \<times> 'm"

datatype boot_step =
    BGetConfig
  | BNewManager ManagerOptions
  | BController ControllerConfig
  | BWebhook WebhookConfig
  | BHealthz string
  | BReadyz string
  | BStart

record 'm boot =
  bworld :: 'm
  blog :: "boot_step list"

text \<open>\<open>Inl n\<close> is \<open>os.Exit(n)\<close>; \<open>Inr ()\<close> goes on, at the end it is the normal return of \<open>main\<close>.\<close>

type_synonym 'm booter = "('m boot, nat + unit) state"

text \<open>\<open>if err := call(); err != nil { os.Exit(1) }\<close>; \<open>GetConfigOrDie\<close> exits the same way.\<close>

definition or_exit :: "boot_step \<Rightarrow> ('m \<Rightarrow> bool \<times> 'm) \<Rightarrow> 'm booter" where
  "or_exit st call = State (\<lambda>b. case call (bworld b) of
     (good, w) \<Rightarrow> (if good then Inr () else Inl 1, b\<lparr>bworld := w, blog := blog b @ [st]\<rparr>))"

definition before :: "'m booter \<Rightarrow> 'm booter \<Rightarrow> 'm booter" where
  "before m n = State_Monad.bind m (\<lambda>r. case r of Inl code \<Rightarrow> State_Monad.return (Inl code) | Inr _ \<Rightarrow> n)"

definition setup_webhooks :: "'m manager \<Rightarrow> (string \<Rightarrow> string) \<Rightarrow> 'm booter" where
  "setup_webhooks M getenv =
     (if getenv ''ENABLE_WEBHOOKS'' \<noteq> ''false''
      then before (or_exit (BWebhook SetupPeerDBClusterWebhookWithManager) (mgWebhook M SetupPeerDBClusterWebhookWithManager))
          (before (or_exit (BWebhook SetupPeerDBWorkerPoolWebhookWithManager) (mgWebhook M SetupPeerDBWorkerPoolWebhookWithManager))
            (or_exit (BWebhook SetupPeerDBSnapshotPoolWebhookWithManager) (mgWebhook M SetupPeerDBSnapshotPoolWebhookWithManager)))
      else State_Monad.return (Inr ()))"

definition setup_controllers :: "'m manager \<Rightarrow> 'm booter" where
  "setup_controllers M =
     before (or_exit (BController ClusterSetupWithManager) (mgController M ClusterSetupWithManager))
    (before (or_exit (BController WorkerPoolSetupWithManager) (mgController M WorkerPoolSetupWithManager))
      (or_exit (BController SnapshotPoolSetupWithManager) (mgController M SnapshotPoolSetupWithManager)))"

definition main ::
    "'m manager \<Rightarrow> (string \<Rightarrow> string) \<Rightarrow> (flags \<times> 'z) flag_set \<Rightarrow> 'z \<Rightarrow> string list \<Rightarrow> 'm booter" where
  "main M getenv zapFlags z args =
     (case parse_flags zapFlags z args of
        Inl code \<Rightarrow> State_Monad.return (Inl code)
      | Inr f \<Rightarrow>
          before (or_exit BGetConfig (mgGetConfig M))
         (before (or_exit (BNewManager (managerOptions f)) (mgNewManager M (managerOptions f)))
         (before (setup_controllers M)
         (before (setup_webhooks M getenv)
         (before (or_exit (BHealthz ''healthz'') (mgAddHealthzCheck M ''healthz''))
         (before (or_exit (BReadyz ''readyz'') (mgAddReadyzCheck M ''readyz''))
           (or_exit BStart (mgStart M))))))))"

section \<open>What is started\<close>

text \<open>The calls of a start-up without failures.\<close>

definition startup_plan :: "flags \<Rightarrow> (string \<Rightarrow> string) \<Rightarrow> boot_step list" where
  "startup_plan f getenv =
     [BGetConfig, BNewManager (managerOptions f), BController ClusterSetupWithManager,
      BController WorkerPoolSetupWithManager, BController SnapshotPoolSetupWithManager] @
     (if getenv ''ENABLE_WEBHOOKS'' \<noteq> ''false''
      then [BWebhook SetupPeerDBClusterWebhookWithManager, BWebhook SetupPeerDBWorkerPoolWebhookWithManager,
            BWebhook SetupPeerDBSnapshotPoolWebhookWithManager]
      else []) @
     [BHealthz ''healthz'', BReadyz ''readyz'', BStart]"

text \<open>The manager's call that a step of the plan stands for.\<close>

fun attempt :: "'m manager \<Rightarrow> boot_step \<Rightarrow> 'm \<Rightarrow> bool \<times> 'm" where
  "attempt M BGetConfig = mgGetConfig M"
| "attempt M (BNewManager opts) = mgNewManager M opts"
| "attempt M (BController c) = mgController M c"
| "attempt M (BWebhook w) = mgWebhook M w"
| "attempt M (BHealthz n) = mgAddHealthzCheck M n"
| "attempt M (BReadyz n) = mgAddReadyzCheck M n"
| "attempt M BStart = mgStart M"

text \<open>The state after a list of calls that all succeed, one after the other; \<open>None\<close> when one fails.\<close>

fun all_succeed :: "'m manager \<Rightarrow> boot_step list \<Rightarrow> 'm \<Rightarrow> 'm option" where
  "all_succeed M [] w = Some w"
| "all_succeed M (st # p) w = (case attempt M st w of (good, w') \<Rightarrow> if good then all_succeed M p w' else None)"

text \<open>
  A plan is carried out up to the first failure: some calls at its beginning succeed; then either the
  plan is finished, or the next call fails, and the process exits with status 1 right after it.
\<close>

definition carried_out :: "'m manager \<Rightarrow> boot_step list \<Rightarrow> 'm boot \<Rightarrow> (nat + unit) \<times> 'm boot \<Rightarrow> bool" where
  "carried_out M p b out \<longleftrightarrow>
     (\<exists>pre rest w. p = pre @ rest \<and> all_succeed M pre (bworld b) = Some w \<and>
        (case rest of
           [] \<Rightarrow> out = (Inr (), b\<lparr>bworld := w, blog := blog b @ pre\<rparr>)
         | st # _ \<Rightarrow> \<not> fst (attempt M st w) \<and>
             out = (Inl 1, b\<lparr>bworld := snd (attempt M st w), blog := blog b @ pre @ [st]\<rparr>)))"

definition follows :: "'m manager \<Rightarrow> boot_step list \<Rightarrow> 'm booter \<Rightarrow> bool" where
  "follows M p m \<longleftrightarrow> (\<forall>b. carried_out M p b (run_state m b))"

lemma all_succeed_append:
  "all_succeed M (p @ q) w = (case all_succeed M p w of None \<Rightarrow> None | Some w' \<Rightarrow> all_succeed M q w')"
  by (induction p arbitrary: w) (auto split: prod.splits)

lemma follows_or_exit:
  assumes "call = attempt M st"
  shows "follows M [st] (or_exit st call)"
  unfolding follows_def
proof
  fix b :: "'a boot"
  obtain good w where run: "attempt M st (bworld b) = (good, w)" by fastforce
  show "carried_out M [st] b (run_state (or_exit st call) b)"
  proof (cases good)
    case True
    with run show ?thesis
      unfolding carried_out_def
      by (intro exI [of _ "[st]"] exI [of _ "[]"] exI [of _ w]) (simp add: or_exit_def assms)
  next
    case False
    with run show ?thesis
      unfolding carried_out_def
      by (intro exI [of _ "[]"] exI [of _ "[st]"] exI [of _ "bworld b"]) (simp add: or_exit_def assms)
  qed
qed

lemma follows_return: "follows M [] (State_Monad.return (Inr ()))"
  by (simp add: follows_def carried_out_def)

lemma follows_before:
  assumes "follows M p m" "follows M q n"
  shows "follows M (p @ q) (before m n)"
  unfolding follows_def
proof
  fix b :: "'a boot"
  from assms(1) obtain pre rest w where p: "p = pre @ rest" "all_succeed M pre (bworld b) = Some w"
    and out: "case rest of [] \<Rightarrow> run_state m b = (Inr (), b\<lparr>bworld := w, blog := blog b @ pre\<rparr>)
      | st # _ \<Rightarrow> \<not> fst (attempt M st w) \<and>
          run_state m b = (Inl 1, b\<lparr>bworld := snd (attempt M st w), blog := blog b @ pre @ [st]\<rparr>)"
    unfolding follows_def carried_out_def by blast
  show "carried_out M (p @ q) b (run_state (before m n) b)"
  proof (cases rest)
    case (Cons st sts)
    with p out show ?thesis
      unfolding carried_out_def
      by (intro exI [of _ pre] exI [of _ "rest @ q"] exI [of _ w]) (simp add: before_def)
  next
    case Nil
    let ?b1 = "b\<lparr>bworld := w, blog := blog b @ pre\<rparr>"
    from Nil out have run: "run_state (before m n) b = run_state n ?b1" by (simp add: before_def)
    from assms(2) obtain pre' rest' w' where q: "q = pre' @ rest'" "all_succeed M pre' (bworld ?b1) = Some w'"
      and out': "case rest' of [] \<Rightarrow> run_state n ?b1 = (Inr (), ?b1\<lparr>bworld := w', blog := blog ?b1 @ pre'\<rparr>)
        | st # _ \<Rightarrow> \<not> fst (attempt M st w') \<and>
            run_state n ?b1 = (Inl 1, ?b1\<lparr>bworld := snd (attempt M st w'), blog := blog ?b1 @ pre' @ [st]\<rparr>)"
      unfolding follows_def carried_out_def by blast
    with p Nil show ?thesis
      unfolding carried_out_def run
      by (intro exI [of _ "pre @ pre'"] exI [of _ rest'] exI [of _ w'])
        (cases rest'; simp add: all_succeed_append)
  qed
qed

lemma follows_controllers:
  "follows M [BController ClusterSetupWithManager, BController WorkerPoolSetupWithManager,
     BController SnapshotPoolSetupWithManager] (setup_controllers M)"
  unfolding setup_controllers_def
  using follows_before [OF follows_or_exit follows_before [OF follows_or_exit follows_or_exit],
      of _ M "BController _" _ "BController _" _ "BController _"]
  by simp

lemma follows_webhooks:
  "follows M (if getenv ''ENABLE_WEBHOOKS'' \<noteq> ''false''
      then [BWebhook SetupPeerDBClusterWebhookWithManager, BWebhook SetupPeerDBWorkerPoolWebhookWithManager,
            BWebhook SetupPeerDBSnapshotPoolWebhookWithManager] else []) (setup_webhooks M getenv)"
  using follows_before [OF follows_or_exit follows_before [OF follows_or_exit follows_or_exit],
      of _ M "BWebhook _" _ "BWebhook _" _ "BWebhook _"]
  by (simp add: setup_webhooks_def follows_return)

lemma follows_main:
  assumes "parse_flags zapFlags z args = Inr f"
  shows "follows M (startup_plan f getenv) (main M getenv zapFlags z args)"
proof -
  have eq: "startup_plan f getenv = [BGetConfig] @ [BNewManager (managerOptions f)] @
      [BController ClusterSetupWithManager, BController WorkerPoolSetupWithManager,
       BController SnapshotPoolSetupWithManager] @
      (if getenv ''ENABLE_WEBHOOKS'' \<noteq> ''false''
       then [BWebhook SetupPeerDBClusterWebhookWithManager, BWebhook SetupPeerDBWorkerPoolWebhookWithManager,
             BWebhook SetupPeerDBSnapshotPoolWebhookWithManager] else []) @
      [BHealthz ''healthz''] @ [BReadyz ''readyz''] @ [BStart]"
    by (simp add: startup_plan_def)
  show ?thesis
    unfolding main_def assms sum.case eq
    by (intro follows_before follows_controllers follows_webhooks follows_or_exit) (simp_all add: fun_eq_iff)
qed

text \<open>
  (C24) The operator starts all or nothing: with flags that parse, \<open>main\<close> makes the calls of the start-up
  plan in order. As long as calls succeed it goes on; when all have succeeded it returns normally; the
  first call that fails ends the process with exit status 1, and no call follows it. So the manager is
  started only when all three controllers, the webhooks (unless \<open>ENABLE_WEBHOOKS\<close> is "false") and both
  probes are set up. Flags that do not parse end the process before any call, with status 2, or 0 for
  help.
\<close>

theorem main_follows_plan:
  "case parse_flags zapFlags z args of
     Inl code \<Rightarrow> run_state (main M getenv zapFlags z args) b = (Inl code, b) \<and> code \<in> {0, 2}
   | Inr f \<Rightarrow>
       (\<exists>pre rest w. startup_plan f getenv = pre @ rest \<and> all_succeed M pre (bworld b) = Some w \<and>
          (case rest of
             [] \<Rightarrow> run_state (main M getenv zapFlags z args) b = (Inr (), b\<lparr>bworld := w, blog := blog b @ pre\<rparr>)
           | st # _ \<Rightarrow> \<not> fst (attempt M st w) \<and>
               run_state (main M getenv zapFlags z args) b =
                 (Inl 1, b\<lparr>bworld := snd (attempt M st w), blog := blog b @ pre @ [st]\<rparr>)))"
proof (cases "parse_flags zapFlags z args")
  case (Inl code)
  then show ?thesis
    by (auto simp: main_def parse_flags_def split: sum.splits flag_error.splits)
next
  case (Inr f)
  from follows_main [OF this, of M getenv] Inr show ?thesis
    by (simp add: follows_def carried_out_def)
qed

section \<open>The command line\<close>

text \<open>The arguments that set every flag, durations in nanoseconds.\<close>

definition fmt_bool :: "bool \<Rightarrow> string" where
  "fmt_bool b = (if b then ''true'' else ''false'')"

definition render_flags :: "flags \<Rightarrow> string list" where
  "render_flags f =
     [assignment ''metrics-bind-address'' (metricsAddr f),
      assignment ''health-probe-bind-address'' (probeAddr f),
      assignment ''leader-elect'' (fmt_bool (enableLeaderElection f)),
      assignment ''leader-elect-lease-duration'' (fmt_d (leaseDuration f) @ ''ns''),
      assignment ''leader-elect-renew-deadline'' (fmt_d (renewDeadline f) @ ''ns''),
      assignment ''leader-elect-retry-period'' (fmt_d (retryPeriod f) @ ''ns''),
      assignment ''sync-period'' (fmt_d (syncPeriod f) @ ''ns''),
      assignment ''watch-namespace'' (watchNamespace f),
      assignment ''metrics-secure'' (fmt_bool (secureMetrics f)),
      assignment ''webhook-cert-path'' (webhookCertPath f),
      assignment ''webhook-cert-name'' (webhookCertName f),
      assignment ''webhook-cert-key'' (webhookCertKey f),
      assignment ''metrics-cert-path'' (metricsCertPath f),
      assignment ''metrics-cert-name'' (metricsCertName f),
      assignment ''metrics-cert-key'' (metricsCertKey f),
      assignment ''enable-http2'' (fmt_bool (enableHTTP2 f))]"

definition int64 :: "int \<Rightarrow> bool" where
  "int64 d \<longleftrightarrow> - (2 ^ 63) \<le> d \<and> d < 2 ^ 63"

definition durations :: "flags \<Rightarrow> int list" where
  "durations f = [leaseDuration f, renewDeadline f, retryPeriod f, syncPeriod f]"

lemma ParseBool_fmt: "ParseBool (fmt_bool b) = Some b"
  by (simp add: ParseBool_def fmt_bool_def)

lemma flag_var_simps [simp]:
  "fSet (StringVar u) v st = Some (u v st)"
  "fSet (BoolVar ub) (fmt_bool b) st = Some (ub b st)"
  "int64 d \<Longrightarrow> fSet (DurationVar ud) (fmt_d d @ ''ns'') st = Some (ud d st)"
  by (simp_all add: StringVar_def BoolVar_def DurationVar_def ParseBool_fmt ParseDuration_nanos int64_def)

text \<open>
  (C26) The command line reaches every configuration: for all values of the flags, with durations
  that fit an \<open>int64\<close>, the rendered arguments parse back to exactly these values, whatever flags the
  logging library adds.
\<close>

theorem flags_roundtrip:
  assumes "list_all int64 (durations f)"
  shows "parse_flags zapFlags z (render_flags f) = Inr f"
proof -
  have "parse_args (operator_flags @ zapFlags) (render_flags f) (default_flags, z) = Inr ((f, z), [])"
    unfolding render_flags_def
    by (subst parse_assignment, simp, simp, simp, simp add: operator_flags_def, use assms in \<open>simp add: durations_def\<close>)+
       (simp add: on_fst_def)
  then show ?thesis by (simp add: parse_flags_def)
qed

lemma flags_roundtrip_witness:
  "parse_flags [] () (render_flags (default_flags\<lparr>watchNamespace := ''peerdb'', syncPeriod := 30 * Second\<rparr>)) =
     Inr (default_flags\<lparr>watchNamespace := ''peerdb'', syncPeriod := 30 * Second\<rparr>)"
  by (rule flags_roundtrip) (simp add: durations_def default_flags_def int64_def)

text \<open>
  (C30) The servers are hardened unless the command line says otherwise, whatever flags the logging
  library adds on state of its own: when no argument names \<open>enable-http2\<close>, the webhook and the metrics
  server speak only HTTP/1.1, from every TLS configuration they may start with; when no argument names
  \<open>metrics-secure\<close>, the metrics are served over TLS, behind authentication and authorization.
\<close>

theorem hardened_unless_named:
  assumes zap: "\<forall>(n, fl) \<in> set zapFlags. \<forall>v st st'. fSet fl v st = Some st' \<longrightarrow> fst st' = fst st"
    and parsed: "parse_flags zapFlags z args = Inr f"
  shows "(\<not> list_ex (names_flag ''enable-http2'') args \<longrightarrow>
            (\<forall>c. NextProtos (fold id (wsoTLSOpts (moWebhookServer (managerOptions f))) c) = [''http/1.1''] \<and>
                 NextProtos (fold id (msoTLSOpts (moMetrics (managerOptions f))) c) = [''http/1.1''])) \<and>
         (\<not> list_ex (names_flag ''metrics-secure'') args \<longrightarrow>
            msoSecureServing (moMetrics (managerOptions f)) \<and>
            msoFilterProvider (moMetrics (managerOptions f)) = Some WithAuthenticationAndAuthorization)"
proof -
  obtain st rest where run: "parse_args (operator_flags @ zapFlags) args (default_flags, z) = Inr (st, rest)"
    and f: "f = fst st"
    using parsed by (auto simp: parse_flags_def split: sum.splits flag_error.splits prod.splits)
  have zap_keeps: "keeps (\<lambda>st. Q (fst st)) fl" if "(n, fl) \<in> set zapFlags" for Q n fl
    using zap that by (force simp: keeps_def)
  have "\<not> enableHTTP2 f" if none: "\<not> list_ex (names_flag ''enable-http2'') args"
  proof -
    have "keeps (\<lambda>st. \<not> enableHTTP2 (fst st)) fl"
      if "(n, fl) \<in> set operator_flags" "n \<noteq> ''enable-http2''" for n and fl :: "(flags \<times> 'a) flag"
      using that by (auto simp: operator_flags_def on_fst_def intro!: keeps_vars)
    then have "keeps (\<lambda>st. \<not> enableHTTP2 (fst st)) fl"
      if "(n, fl) \<in> set (operator_flags @ zapFlags)" "list_ex (names_flag n) args" for n fl
      using that none zap_keeps [of n fl "\<lambda>g. \<not> enableHTTP2 g"] by auto
    from parse_args_invariant [OF this subset_refl _ run] f show ?thesis by (simp add: default_flags_def)
  qed
  moreover have "secureMetrics f" if none: "\<not> list_ex (names_flag ''metrics-secure'') args"
  proof -
    have "keeps (\<lambda>st. secureMetrics (fst st)) fl"
      if "(n, fl) \<in> set operator_flags" "n \<noteq> ''metrics-secure''" for n and fl :: "(flags \<times> 'a) flag"
      using that by (auto simp: operator_flags_def on_fst_def intro!: keeps_vars)
    then have "keeps (\<lambda>st. secureMetrics (fst st)) fl"
      if "(n, fl) \<in> set (operator_flags @ zapFlags)" "list_ex (names_flag n) args" for n fl
      using that none zap_keeps [of n fl secureMetrics] by auto
    from parse_args_invariant [OF this subset_refl _ run] f show ?thesis by (simp add: default_flags_def)
  qed
  ultimately show ?thesis
    by (auto simp: managerOptions_def webhookServerOptions_def metricsServerOptions_def tlsOpts_def disableHTTP2_def Let_def)
qed

lemma hardened_unless_named_witness:
  "msoFilterProvider (moMetrics (managerOptions (default_flags\<lparr>watchNamespace := ''peerdb''\<rparr>))) =
     Some WithAuthenticationAndAuthorization"
proof -
  let ?args = "[assignment ''watch-namespace'' ''peerdb'']"
  have "parse_args (operator_flags @ []) ?args (default_flags, ()) =
      parse_args (operator_flags @ []) [] (default_flags\<lparr>watchNamespace := ''peerdb''\<rparr>, ())"
    by (rule parse_assignment [where f = "StringVar (\<lambda>v. on_fst (\<lambda>f. f\<lparr>watchNamespace := v\<rparr>))"])
      (simp_all add: operator_flags_def on_fst_def)
  then have parsed: "parse_flags [] () ?args = Inr (default_flags\<lparr>watchNamespace := ''peerdb''\<rparr>)"
    by (simp add: parse_flags_def)
  have "\<not> list_ex (names_flag ''metrics-secure'') ?args"
    by (simp add: names_flag_def read_assignment)
  with hardened_unless_named [OF _ parsed] show ?thesis by auto
qed

text \<open>
  The wrap-around is real: two terms of \<open>2 ^ 63\<close> nanoseconds add up to nothing and are accepted.
\<close>

lemma ParseDuration_wraps: "ParseDuration ''9223372036854775808ns9223372036854775808ns'' = Some 0"
  by code_simp

section \<open>Registration\<close>

text \<open>
  Every API type and its list is registered under the group version, and each metric the
  controllers write is registered with the labels they give.
\<close>

lemma scheme_has_all_types:
  "AddToScheme (\<lambda>gv objects s. s @ map (Pair gv) objects) (\<lambda>_ s. s) SchemeBuilder [] =
     map (Pair (''peerdb.peerdb.io'', ''v1alpha1''))
       [''PeerDBCluster'', ''PeerDBClusterList'', ''PeerDBSnapshotPool'', ''PeerDBSnapshotPoolList'',
        ''PeerDBWorkerPool'', ''PeerDBWorkerPoolList'']"
  by (simp add: AddToScheme_def SchemeBuilder_def Register_def GroupVersion_def)

end
