(* ===== verification/Sha256.thy ===== *)
theory Sha256
  imports GoStd
begin

text \<open>
  \<open>crypto/sha256\<close> (FIPS 180-4) and \<open>encoding/hex\<close> of the Go standard library, executable on 32-bit
  words. A \<open>hash.Hash\<close> accumulates what is written to it, so it is modelled by the bytes written
  so far; \<open>Sum(nil)\<close> is the digest of those bytes.
\<close>

unbundle bit_operations_syntax

type_synonym u32 = "32 word"
type_synonym hstate = "u32 \<times> u32 \<times> u32 \<times> u32 \<times> u32 \<times> u32 \<times> u32 \<times> u32"

text \<open>
  The constants are the first 32 bits of the fractional parts of the square and cube roots of
  the first primes. The integer root is searched bit by bit, from bit \<open>b - 1\<close> down.
\<close>

primrec iroot :: "nat \<Rightarrow> int \<Rightarrow> nat \<Rightarrow> int \<Rightarrow> int" where
  "iroot k n 0 r = r"
| "iroot k n (Suc b) r = iroot k n b (if (r + 2 ^ b) ^ k \<le> n then r + 2 ^ b else r)"

definition root_fraction :: "nat \<Rightarrow> int \<Rightarrow> u32" where
  "root_fraction k p = word_of_int (iroot k (p * 2 ^ (32 * k)) 35 0)"

definition sha_primes :: "int list" where
  "sha_primes = [2, 3, 5, 7, 11, 13, 17, 19, 23, 29, 31, 37, 41, 43, 47, 53, 59, 61, 67, 71, 73, 79,
     83, 89, 97, 101, 103, 107, 109, 113, 127, 131, 137, 139, 149, 151, 157, 163, 167, 173, 179, 181,
     191, 193, 197, 199, 211, 223, 227, 229, 233, 239, 241, 251, 257, 263, 269, 271, 277, 281, 283,
     293, 307, 311]"

definition sha_K :: "u32 list" where
  "sha_K = map (root_fraction 3) sha_primes"

definition sha_H0 :: hstate where
  "sha_H0 =
     (root_fraction 2 2, root_fraction 2 3, root_fraction 2 5, root_fraction 2 7,
      root_fraction 2 11, root_fraction 2 13, root_fraction 2 17, root_fraction 2 19)"

text \<open>The search ends at the root: the largest number whose power does not exceed the argument.\<close>

lemma iroot_root:
  "r ^ k \<le> n \<Longrightarrow> n < (r + 2 ^ b) ^ k \<Longrightarrow> iroot k n b r ^ k \<le> n \<and> n < (iroot k n b r + 1) ^ k"
proof (induction b arbitrary: r)
  case (Suc b)
  have "r + 2 ^ Suc b = (r + 2 ^ b) + 2 ^ b" by simp
  with Suc.prems(2) have upper: "n < ((r + 2 ^ b) + 2 ^ b) ^ k" by (simp only:)
  show ?case
  proof (cases "(r + 2 ^ b) ^ k \<le> n")
    case True
    from Suc.IH [OF True upper] True show ?thesis by (simp only: iroot.simps if_True)
  next
    case False
    then have "n < (r + 2 ^ b) ^ k" by (simp only: not_le)
    from Suc.IH [OF Suc.prems(1) this] False show ?thesis by (simp only: iroot.simps if_False)
  qed
qed simp

text \<open>The first and the last constant, and the first word of the initial state.\<close>

lemma sha_constants:
  "hd sha_K = 0x428a2f98 \<and> last sha_K = 0xc67178f2 \<and> length sha_K = 64 \<and> fst sha_H0 = 0x6a09e667"
proof -
  have "root_fraction 3 2 = 0x428a2f98" by code_simp
  moreover have "root_fraction 3 311 = 0xc67178f2" by code_simp
  moreover have "root_fraction 2 2 = 0x6a09e667" by code_simp
  ultimately show ?thesis by (simp add: sha_K_def sha_primes_def sha_H0_def)
qed

definition rotr32 :: "nat \<Rightarrow> u32 \<Rightarrow> u32" where
  "rotr32 n w = drop_bit n w OR push_bit (32 - n) w"

definition small_sigma0 :: "u32 \<Rightarrow> u32" where
  "small_sigma0 w = rotr32 7 w XOR rotr32 18 w XOR drop_bit 3 w"

definition small_sigma1 :: "u32 \<Rightarrow> u32" where
  "small_sigma1 w = rotr32 17 w XOR rotr32 19 w XOR drop_bit 10 w"

definition big_sigma0 :: "u32 \<Rightarrow> u32" where
  "big_sigma0 w = rotr32 2 w XOR rotr32 13 w XOR rotr32 22 w"

definition big_sigma1 :: "u32 \<Rightarrow> u32" where
  "big_sigma1 w = rotr32 6 w XOR rotr32 11 w XOR rotr32 25 w"

text \<open>
  The message schedule, newest word first: each new word from the words 2, 7, 15 and 16 places
  before it.
\<close>

fun sha_schedule :: "nat \<Rightarrow> u32 list \<Rightarrow> u32 list" where
  "sha_schedule 0 ws = ws"
| "sha_schedule (Suc n) ws =
     sha_schedule n ((small_sigma1 (ws ! 1) + ws ! 6 + small_sigma0 (ws ! 14) + ws ! 15) # ws)"

fun sha_round :: "hstate \<Rightarrow> u32 \<times> u32 \<Rightarrow> hstate" where
  "sha_round (a, b, c, d, e, f, g, h) (k, w) =
     (let t1 = h + big_sigma1 e + ((e AND f) XOR (NOT e AND g)) + k + w;
          t2 = big_sigma0 a + ((a AND b) XOR (a AND c) XOR (b AND c))
      in (t1 + t2, a, b, c, d + t1, e, f, g))"

fun hstate_add :: "hstate \<Rightarrow> hstate \<Rightarrow> hstate" where
  "hstate_add (a, b, c, d, e, f, g, h) (a', b', c', d', e', f', g', h') =
     (a + a', b + b', c + c', d + d', e + e', f + f', g + g', h + h')"

fun bytes_to_words :: "int list \<Rightarrow> u32 list" where
  "bytes_to_words (a # b # c # d # r) =
     word_of_int (((a * 256 + b) * 256 + c) * 256 + d) # bytes_to_words r"
| "bytes_to_words _ = []"

definition sha_block :: "hstate \<Rightarrow> int list \<Rightarrow> hstate" where
  "sha_block st block =
     hstate_add st (foldl sha_round st (zip sha_K (rev (sha_schedule 48 (rev (bytes_to_words block))))))"

definition sha_pad :: "int list \<Rightarrow> int list" where
  "sha_pad m =
     (let bits = 8 * int (length m) in
      m @ [128] @ replicate ((119 - length m mod 64) mod 64) 0 @
      map (\<lambda>i. bits div 256 ^ i mod 256) (rev [0..<8]))"

function sha_blocks :: "int list \<Rightarrow> int list list" where
  "sha_blocks m = (if m = [] then [] else take 64 m # sha_blocks (drop 64 m))"
  by pat_completeness auto
termination
  by (relation "measure length") auto

declare sha_blocks.simps [simp del]

definition sha256 :: "string \<Rightarrow> hstate" where
  "sha256 s = foldl sha_block sha_H0 (sha_blocks (sha_pad (map of_char s)))"

text \<open>\<open>hex.EncodeToString\<close> of the digest: eight lower-case hexadecimal digits per word.\<close>

definition hex_word :: "u32 \<Rightarrow> string" where
  "hex_word w = map (\<lambda>i. hex_char (nat (uint (drop_bit (4 * i) w) mod 16))) (rev [0..<8])"

fun hex_digest :: "hstate \<Rightarrow> string" where
  "hex_digest (a, b, c, d, e, f, g, h) = concat (map hex_word [a, b, c, d, e, f, g, h])"

lemma length_hex_word [simp]: "length (hex_word w) = 8"
  by (simp add: hex_word_def)

lemma length_hex_digest [simp]: "length (hex_digest st) = 64"
  by (cases st rule: hex_digest.cases) simp

text \<open>Padding fills whole blocks, so no byte of the message is dropped.\<close>

lemma length_sha_pad: "length (sha_pad m) mod 64 = 0"
proof -
  define r where "r = length m mod 64"
  have "r < 64" by (simp add: r_def)
  then have "(r + 9 + (119 - r) mod 64) mod 64 = 0"
  proof (cases "r < 56")
    case True
    then have "119 - r = (55 - r) + 64" by simp
    with True show ?thesis by (simp only: mod_add_self2) simp
  qed simp
  then have "(length m + (9 + (119 - r) mod 64)) mod 64 = 0"
    by (metis r_def add.assoc mod_add_left_eq)
  then show ?thesis by (simp add: sha_pad_def Let_def r_def [symmetric] add.commute add.left_commute)
qed

end
