(* ===== verification/Resources.thy ===== *)
theory Resources
  imports Samples Sha256
begin

text \<open>
  The shared resources of a cluster (internal/resources): labels, the ConfigMap with the connection
  settings, the ServiceAccount, and the config hash that is stamped on every pod template so that a
  change of configuration rolls the pods.
\<close>

definition smap_of :: "(string \<times> string) list \<Rightarrow> smap" where
  "smap_of kvs = fmap_of_list kvs"

lemma fmlookup_smap_of [label_simps]: "fmlookup (smap_of kvs) k = map_of kvs k"
  by (simp add: smap_of_def fmlookup_of_list)

lemma smap_sub_of:
  assumes "distinct (map fst kvs)"
  shows "smap_sub (smap_of kvs) m \<longleftrightarrow> list_all (\<lambda>(k, v). fmlookup m k = Some v) kvs"
  using assms by (auto simp: smap_sub_iff fmlookup_smap_of list_all_iff dest: map_of_SomeD)

section \<open>labels.go, annotations.go, helpers.go\<close>

definition AnnotationConfigHash :: string where
  "AnnotationConfigHash = ''peerdb.peerdb.io/config-hash''"

definition CommonLabels :: "string \<Rightarrow> string \<Rightarrow> smap" where
  "CommonLabels clusterName component = smap_of
     [(''app.kubernetes.io/name'', ''peerdb''),
      (''app.kubernetes.io/instance'', clusterName),
      (''app.kubernetes.io/component'', component),
      (''app.kubernetes.io/managed-by'', ''peerdb-operator'')]"

definition SelectorLabels :: "string \<Rightarrow> string \<Rightarrow> smap" where
  "SelectorLabels clusterName component = smap_of
     [(''app.kubernetes.io/name'', ''peerdb''),
      (''app.kubernetes.io/instance'', clusterName),
      (''app.kubernetes.io/component'', component)]"

text \<open>The selector labels are among the common labels.\<close>

lemma selector_sub_common: "smap_sub (SelectorLabels c k) (CommonLabels c k)"
  by (auto simp: smap_sub_iff SelectorLabels_def CommonLabels_def label_simps split: if_splits)

section \<open>configmap.go\<close>

definition catalog_port :: "CatalogSpec \<Rightarrow> int" where
  "catalog_port cat = (if catPort cat = 0 then 5432 else catPort cat)"

definition catalog_ssl_mode :: "CatalogSpec \<Rightarrow> string" where
  "catalog_ssl_mode cat = (if catSSLMode cat = '''' then ''require'' else catSSLMode cat)"

definition BuildConfigMap :: "PeerDBCluster \<Rightarrow> ConfigMap" where
  "BuildConfigMap cluster =
     (let catalog = clCatalog cluster; temporal = clTemporal cluster;
          port = catalog_port catalog; sslMode = catalog_ssl_mode catalog
      in \<lparr>cmMeta = new_meta (clName cluster @ ''-config'') (clNamespace cluster)
                     (CommonLabels (clName cluster) ''config'') fmempty,
          cmData = smap_of
            [(''PEERDB_CATALOG_HOST'', catHost catalog),
             (''PEERDB_CATALOG_PORT'', fmt_d port),
             (''PEERDB_CATALOG_DATABASE'', catDatabase catalog),
             (''PEERDB_CATALOG_USER'', catUser catalog),
             (''PEERDB_CATALOG_SSL_MODE'', sslMode),
             (''TEMPORAL_HOST_PORT'', tmpAddress temporal),
             (''TEMPORAL_NAMESPACE'', tmpNamespace temporal)]\<rparr>)"

section \<open>service\_account.go\<close>

definition BuildServiceAccount :: "PeerDBCluster \<Rightarrow> ServiceAccount option" where
  "BuildServiceAccount cluster =
     (case clServiceAccount (clSpec cluster) of
        Some sa \<Rightarrow>
          if \<not> sacCreate sa then None
          else Some \<lparr>saMeta = new_meta (clName cluster) (clNamespace cluster)
                       (CommonLabels (clName cluster) ''service-account'') (sacAnnotations sa)\<rparr>
      | None \<Rightarrow>
          Some \<lparr>saMeta = new_meta (clName cluster) (clNamespace cluster)
                  (CommonLabels (clName cluster) ''service-account'') fmempty\<rparr>)"

section \<open>hash.go\<close>

abbreviation newline :: char where "newline \<equiv> CHR 0x0A"

definition config_line :: "string \<times> string \<Rightarrow> string" where
  "config_line kv = ''config:'' @ fst kv @ ''='' @ snd kv @ [newline]"

definition secret_line :: "string \<times> string \<Rightarrow> string" where
  "secret_line kv = ''secret:'' @ fst kv @ ''='' @ snd kv @ [newline]"

text \<open>The bytes written to the hash, keys in sorted order.\<close>

definition hash_input :: "smap \<Rightarrow> smap \<Rightarrow> string" where
  "hash_input configData secretResourceVersions =
     concat (map config_line (sorted_list_of_fmap configData)) @
     concat (map secret_line (sorted_list_of_fmap secretResourceVersions))"

definition ComputeConfigHash :: "smap \<Rightarrow> smap \<Rightarrow> string" where
  "ComputeConfigHash configData secretResourceVersions =
     take 16 (hex_digest (sha256 (hash_input configData secretResourceVersions)))"

definition SanitizeVersion :: "string \<Rightarrow> string" where
  "SanitizeVersion version = replace_all CHR ''.'' CHR ''-'' version"

lemma length_ComputeConfigHash: "length (ComputeConfigHash a b) = 16"
  by (simp add: ComputeConfigHash_def)

lemma ComputeConfigHash_nonempty: "ComputeConfigHash a b \<noteq> ''''"
  using length_ComputeConfigHash [of a b] by auto

section \<open>The hash input determines the configuration\<close>

text \<open>
  Entries whose keys have neither \<open>=\<close> nor a newline and whose values have no newline: then lines
  can be read back.
\<close>

definition line_safe :: "smap \<Rightarrow> bool" where
  "line_safe m \<longleftrightarrow>
     list_all (\<lambda>(k, v). CHR ''='' \<notin> set k \<and> newline \<notin> set k \<and> newline \<notin> set v) (sorted_list_of_fmap m)"

definition tagged_line :: "bool \<times> string \<times> string \<Rightarrow> string" where
  "tagged_line e = (if fst e then config_line (snd e) else secret_line (snd e))"

definition entry_safe :: "bool \<times> string \<times> string \<Rightarrow> bool" where
  "entry_safe e \<longleftrightarrow> (case e of (_, k, v) \<Rightarrow> CHR ''='' \<notin> set k \<and> newline \<notin> set k \<and> newline \<notin> set v)"

lemma tagged_line_append_inject:
  assumes "tagged_line e @ r = tagged_line e' @ r'" and "entry_safe e" and "entry_safe e'"
  shows "e = e' \<and> r = r'"
proof -
  obtain t k v where e: "e = (t, k, v)" by (cases e)
  obtain t' k' v' where e': "e' = (t', k', v')" by (cases e')
  have line: "tagged_line e @ r = (if t then ''config:'' else ''secret:'') @ (k @ CHR ''='' # (v @ newline # r))"
    and line': "tagged_line e' @ r' = (if t' then ''config:'' else ''secret:'') @ (k' @ CHR ''='' # (v' @ newline # r'))"
    by (simp_all add: e e' tagged_line_def config_line_def secret_line_def)
  from assms(1) have t: "t = t'"
    unfolding line line' by (cases t; cases t') simp_all
  with assms(1) have "k @ CHR ''='' # (v @ newline # r) = k' @ CHR ''='' # (v' @ newline # r')"
    unfolding line line' by simp
  moreover have safe: "CHR ''='' \<notin> set k" "newline \<notin> set v" and safe': "CHR ''='' \<notin> set k'" "newline \<notin> set v'"
    using assms(2,3) by (simp_all add: e e' entry_safe_def)
  ultimately have k: "k = k'" and vr: "v @ newline # r = v' @ newline # r'"
    using append_sep_inject [of k _ "v @ newline # r" k' "v' @ newline # r'"] by blast+
  from vr have "v = v'" "r = r'"
    using append_sep_inject [OF vr] safe(2) safe'(2) by blast+
  with t k show ?thesis by (simp add: e e')
qed

lemma tagged_lines_inject:
  assumes "concat (map tagged_line es) = concat (map tagged_line es')"
    and "list_all entry_safe es" and "list_all entry_safe es'"
  shows "es = es'"
  using assms
proof (induction es arbitrary: es')
  case Nil
  then show ?case
    by (cases es') (auto simp: tagged_line_def config_line_def secret_line_def split: if_splits)
next
  case (Cons e es)
  show ?case
  proof (cases es')
    case Nil
    with Cons.prems(1) show ?thesis
      by (auto simp: tagged_line_def config_line_def secret_line_def split: if_splits)
  next
    case (Cons e' es'')
    with Cons.prems have "tagged_line e @ concat (map tagged_line es) = tagged_line e' @ concat (map tagged_line es'')"
      and "entry_safe e" "entry_safe e'" by simp_all
    then have "e = e'" and "concat (map tagged_line es) = concat (map tagged_line es'')"
      using tagged_line_append_inject by blast+
    with Cons Cons.IH [of es''] Cons.prems show ?thesis by simp
  qed
qed

lemma sorted_list_of_fmap_inject: "sorted_list_of_fmap a = sorted_list_of_fmap b \<Longrightarrow> a = b"
  by (metis fmap_ext map_of_sorted_list)

lemma hash_input_tagged:
  "hash_input a b = concat (map tagged_line
     (map (Pair True) (sorted_list_of_fmap a) @ map (Pair False) (sorted_list_of_fmap b)))"
  by (simp add: hash_input_def tagged_line_def comp_def)

lemma hash_input_inject:
  assumes "hash_input a b = hash_input a' b'"
    and "line_safe a" "line_safe b" "line_safe a'" "line_safe b'"
  shows "a = a' \<and> b = b'"
proof -
  let ?es = "\<lambda>a b. map (Pair True) (sorted_list_of_fmap a) @ map (Pair False) (sorted_list_of_fmap b)"
  have safe: "list_all entry_safe (?es x y)" if "line_safe x" "line_safe y" for x y
    using that by (auto simp: line_safe_def entry_safe_def list_all_iff)
  have "?es a b = ?es a' b'"
    using assms by (intro tagged_lines_inject safe) (simp_all add: hash_input_tagged)
  then have "filter fst (?es a b) = filter fst (?es a' b')"
    and "filter (\<lambda>e. \<not> fst e) (?es a b) = filter (\<lambda>e. \<not> fst e) (?es a' b')"
    by simp_all
  then have "sorted_list_of_fmap a = sorted_list_of_fmap a'" "sorted_list_of_fmap b = sorted_list_of_fmap b'"
    by (simp_all add: filter_map comp_def inj_map_eq_map inj_on_def)
  then show ?thesis by (simp add: sorted_list_of_fmap_inject)
qed

text \<open>
  (C33) The config hash is a 16-character digest, never empty, and it separates configurations up to
  collisions of the truncated SHA-256: if two different configurations (ConfigMap data, secret
  versions) whose keys and values are free of line breaks and separators have the same hash, then the
  digest collides on two different byte strings.
\<close>

theorem ComputeConfigHash_separates:
  assumes "line_safe a" "line_safe b" "line_safe a'" "line_safe b'"
  shows "length (ComputeConfigHash a b) = 16 \<and>
     (ComputeConfigHash a b = ComputeConfigHash a' b' \<longrightarrow>
       (a = a' \<and> b = b') \<or>
       (\<exists>x y. x \<noteq> y \<and> take 16 (hex_digest (sha256 x)) = take 16 (hex_digest (sha256 y)) \<and>
          x = hash_input a b \<and> y = hash_input a' b'))"
  using hash_input_inject [OF _ assms] by (auto simp: length_ComputeConfigHash ComputeConfigHash_def)

lemma line_safe_empty: "line_safe fmempty"
  by (simp add: line_safe_def)

lemma line_safe_single: "line_safe (smap_of [(''s'', ''1'')])"
proof -
  have "fmdom (smap_of [(''s'', ''1'')]) = {|''s''|}"
    by (simp add: smap_of_def)
  then show ?thesis
    by (simp add: line_safe_def sorted_list_of_fmap_def smap_of_def sorted_list_of_fset.rep_eq)
qed

lemma ComputeConfigHash_separates_witness:
  "length (ComputeConfigHash fmempty (smap_of [(''s'', ''1'')])) = 16"
  using ComputeConfigHash_separates [of fmempty "smap_of [(''s'', ''1'')]" fmempty fmempty]
  by (simp add: line_safe_empty line_safe_single)

text \<open>
  \<open>SanitizeVersion\<close> removes every dot and nothing else, so it keeps the length and two versions
  get the same name exactly when they agree after reading dashes for dots.
\<close>

lemma SanitizeVersion_dotless:
  "CHR ''.'' \<notin> set (SanitizeVersion v) \<and> length (SanitizeVersion v) = length v \<and>
   (CHR ''.'' \<notin> set v \<longrightarrow> SanitizeVersion v = v) \<and>
   SanitizeVersion (SanitizeVersion v) = SanitizeVersion v"
proof -
  have "map (\<lambda>c. if c = CHR ''.'' then CHR ''-'' else c) v = v" if "CHR ''.'' \<notin> set v"
    using that by (induction v) auto
  then show ?thesis
    by (auto simp: SanitizeVersion_def replace_all_def)
qed

end
