(* ===== verification/Reconciling.thy ===== *)
theory Reconciling
  imports Resources
begin

text \<open>
  What the three controllers share: the result of a reconciliation, the API calls on one kind of
  object, and the pattern "get the object; create it when it is missing; update it when it differs"
  (\<open>reconcileServiceAccount\<close>, \<open>reconcileConfigMap\<close>, \<open>reconcileService\<close> of the cluster controller). What
  that pattern guarantees is proved once, over the interface \<open>resource_store\<close>. The locale
  \<open>crd_controller\<close> is the contract of a controller towards the queue that calls it.
\<close>

section \<open>Results\<close>

text \<open>\<open>ctrl.Result\<close>; durations are in nanoseconds, as \<open>time.Duration\<close> is.\<close>

record Result =
  Requeue :: bool
  RequeueAfter :: int

definition seconds :: "int \<Rightarrow> int" where
  "seconds n = n * 1000000000"

definition done_result :: Result where
  "done_result = \<lparr>Requeue = False, RequeueAfter = 0\<rparr>"

definition requeue :: Result where
  "requeue = \<lparr>Requeue = True, RequeueAfter = 0\<rparr>"

definition requeue_after :: "int \<Rightarrow> Result" where
  "requeue_after n = \<lparr>Requeue = False, RequeueAfter = seconds n\<rparr>"

lemma result_simps [simp]:
  "RequeueAfter done_result = 0" "RequeueAfter requeue = 0" "RequeueAfter (requeue_after n) = seconds n"
  "Requeue requeue" "\<not> Requeue done_result" "\<not> Requeue (requeue_after n)"
  by (simp_all add: done_result_def requeue_def requeue_after_def)

lemma seconds_pos [simp]: "0 < seconds n \<longleftrightarrow> 0 < n"
  by (simp add: seconds_def)

section \<open>API calls\<close>

definition kget :: "kind \<Rightarrow> ('w, 'o) rclient \<Rightarrow> NamespacedName \<Rightarrow> ('w, 'o) gprog" where
  "kget kd c n = api (EGet kd n) (rGet c n)"

definition kcreate :: "('o \<Rightarrow> kobject) \<Rightarrow> ('w, 'o) rclient \<Rightarrow> 'o \<Rightarrow> ('w, 'o) gprog" where
  "kcreate mk c ob = api (ECreate (mk ob)) (rCreate c ob)"

definition kupdate :: "('o \<Rightarrow> kobject) \<Rightarrow> ('w, 'o) rclient \<Rightarrow> 'o \<Rightarrow> ('w, 'o) gprog" where
  "kupdate mk c ob = api (EUpdate (mk ob)) (rUpdate c ob)"

definition kstatus :: "('o \<Rightarrow> kobject) \<Rightarrow> ('w, 'o) rclient \<Rightarrow> 'o \<Rightarrow> ('w, 'o) gprog" where
  "kstatus mk c ob = api (EStatusUpdate (mk ob)) (rStatusUpdate c ob)"

definition kdelete :: "('o \<Rightarrow> kobject) \<Rightarrow> ('w, 'o) rclient \<Rightarrow> 'o \<Rightarrow> ('w, unit) gprog" where
  "kdelete mk c ob = api (EDelete (mk ob)) (rDelete c ob)"

text \<open>\<open>return m()\<close> where the caller keeps only the error.\<close>

definition discard :: "('w, 'a) gprog \<Rightarrow> ('w, unit) gprog" where
  "discard m = on_ok m (\<lambda>_. ok ())"

lemmas kcall_defs = kget_def kcreate_def kupdate_def kstatus_def kdelete_def

lemma emits_kget [emits_intros]: "P (EGet kd n) \<Longrightarrow> emits P (kget kd c n)"
  and emits_kcreate [emits_intros]: "P (ECreate (mk ob)) \<Longrightarrow> emits P (kcreate mk c ob)"
  and emits_kupdate [emits_intros]: "P (EUpdate (mk ob)) \<Longrightarrow> emits P (kupdate mk c ob)"
  and emits_kstatus [emits_intros]: "P (EStatusUpdate (mk ob)) \<Longrightarrow> emits P (kstatus mk c ob)"
  and emits_kdelete [emits_intros]: "P (EDelete (mk ob)) \<Longrightarrow> emits P (kdelete mk c ob)"
  by (simp_all add: kcall_defs emits_api)

lemma emits_discard [emits_intros]: "emits P m \<Longrightarrow> emits P (discard m)"
  unfolding discard_def by (intro emits_intros)

section \<open>Create or update\<close>

text \<open>
  Get the object under the desired key; when it is missing, create the desired one; otherwise
  update the live object to \<open>patch existing\<close>, when that says there is something to change.
\<close>

definition create_or_update ::
    "kind \<Rightarrow> ('o \<Rightarrow> kobject) \<Rightarrow> ('w, 'o) rclient \<Rightarrow> NamespacedName \<Rightarrow> 'o \<Rightarrow> ('o \<Rightarrow> 'o option) \<Rightarrow> ('w, unit) gprog" where
  "create_or_update kd mk c n desired patch = do {
     r \<leftarrow> kget kd c n;
     case r of
       Inl e \<Rightarrow> if IsNotFound e then discard (kcreate mk c desired) else fail e
     | Inr existing \<Rightarrow>
         (case patch existing of
            None \<Rightarrow> ok ()
          | Some changed \<Rightarrow> discard (kupdate mk c changed))
   }"

lemma emits_create_or_update [emits_intros]:
  "P (EGet kd n) \<Longrightarrow> (\<And>ob. P (ECreate (mk ob))) \<Longrightarrow> (\<And>ob. P (EUpdate (mk ob))) \<Longrightarrow>
     emits P (create_or_update kd mk c n desired patch)"
  unfolding create_or_update_def by (intro emits_intros)

context resource_store
begin

text \<open>
  A successful run leaves under the key an object that stands in the relation \<open>P\<close> to the one that
  was there, when creation, patch and absence of a patch establish it.
\<close>

lemma create_or_update_post:
  assumes run: "run_state (create_or_update kd mk c (key desired) desired patch) s = (Inr (), s')"
    and patched: "\<And>ob ob'. key ob = key desired \<Longrightarrow> patch ob = Some ob' \<Longrightarrow> key ob' = key desired \<and> P (Some ob) (view ob')"
    and unpatched: "\<And>ob. patch ob = None \<Longrightarrow> P (Some ob) (view ob)"
    and created: "P None (view desired)"
  shows "(\<exists>ob. look (world s') (key desired) = Some ob \<and> P (look (world s) (key desired)) (view ob)) \<and>
         (\<forall>n. n \<noteq> key desired \<longrightarrow> look (world s') n = look (world s) n)"
proof -
  obtain r w1 where get: "rGet c (key desired) (world s) = (r, w1)" by fastforce
  show ?thesis
  proof (cases r)
    case (Inl e)
    with run get have "e = NotFound"
      by (auto simp: create_or_update_def kget_def split: if_splits) (simp add: IsNotFound_def)
    with run get Inl obtain ob where create: "rCreate c desired w1 = (Inr ob, world s')"
      by (auto simp: create_or_update_def kcall_defs discard_def split: prod.splits sum.splits)
    moreover from get_missing [of "key desired" "world s" w1] get Inl \<open>e = NotFound\<close>
    have "look (world s) (key desired) = None" "look w1 = look (world s)" by simp_all
    ultimately show ?thesis
      using create_done [OF create] created by auto
  next
    case (Inr existing)
    from get_found [OF get [unfolded Inr]]
    have ex: "look (world s) (key desired) = Some existing" "key existing = key desired"
      and look: "look w1 = look (world s)" by auto
    show ?thesis
    proof (cases "patch existing")
      case None
      with run get Inr have "s' = s\<lparr>world := w1, log := log s @ [EGet kd (key desired)]\<rparr>"
        by (simp add: create_or_update_def kget_def)
      with None ex look unpatched show ?thesis by auto
    next
      case (Some changed)
      with run get Inr obtain ob where update: "rUpdate c changed w1 = (Inr ob, world s')"
        by (auto simp: create_or_update_def kcall_defs discard_def split: prod.splits sum.splits)
      from patched [OF ex(2) Some] update_done [OF update] look ex(1) show ?thesis by auto
    qed
  qed
qed

text \<open>When the stored object needs no patch, nothing is written.\<close>

lemma create_or_update_quiet:
  assumes "look (world s) n = Some ob" and "patch ob = None"
  shows "log (snd (run_state (create_or_update kd mk c n desired patch) s)) = log s @ [EGet kd n]"
proof -
  obtain r w1 where get: "rGet c n (world s) = (r, w1)" by fastforce
  show ?thesis
  proof (cases r)
    case (Inl e)
    then have "e \<noteq> NotFound"
      using get_missing [of n "world s" w1] get assms(1) by auto
    with Inl get show ?thesis
      by (simp add: create_or_update_def kget_def IsNotFound_def)
  next
    case (Inr ob')
    with get_found [OF get [unfolded Inr]] assms get show ?thesis
      by (simp add: create_or_update_def kget_def)
  qed
qed

end

section \<open>What a controller promises\<close>

text \<open>
  A controller of one custom resource: \<open>reconcile\<close> for requests, \<open>client\<close> for its resource of kind
  \<open>kd\<close>, and the effects it is permitted.
\<close>

locale crd_controller =
  fixes reconcile :: "'w env \<Rightarrow> NamespacedName \<Rightarrow> ('w, Result) gprog"
    and client :: "'w env \<Rightarrow> ('w, 'o) rclient" and kd :: kind and permitted :: "effect \<Rightarrow> bool"
  assumes unreadable: "rGet (client E) req (world s) = (Inl e, w1) \<Longrightarrow>
      run_state (reconcile E req) s =
        (if e = NotFound then Inr done_result else Inl e, s\<lparr>world := w1, log := log s @ [EGet kd req]\<rparr>)"
    and permits: "emits permitted (reconcile E req)"
    and permitted_no_delete: "permitted (EDelete ob) \<Longrightarrow> kind_of ob = KJob"
    and permitted_no_crd: "permitted (ECreate ob) \<or> permitted (EUpdate ob) \<Longrightarrow>
      kind_of ob \<notin> {KCluster, KWorkerPool, KSnapshotPool, KSecret}"
begin

text \<open>A sequence of requests handled one after the other; errors are left to the queue.\<close>

fun serve :: "'w env \<Rightarrow> NamespacedName list \<Rightarrow> ('w, unit) prog" where
  "serve E [] = State_Monad.return ()"
| "serve E (req # reqs) = State_Monad.bind (reconcile E req) (\<lambda>_. serve E reqs)"

text \<open>However requests and answers come, no custom resource and no secret is ever rewritten or removed.\<close>

lemma emits_serve: "emits permitted (serve E reqs)"
  by (induction reqs) (auto intro!: emits_intros permits)

lemma serve_keeps_resources:
  "\<exists>es. log (snd (run_state (serve E reqs) s)) = log s @ es \<and>
     list_all (\<lambda>e. writes e \<notin> {Some KCluster, Some KWorkerPool, Some KSnapshotPool, Some KSecret}) es"
proof (rule emitsD, rule emits_mono [OF emits_serve])
  fix e assume "permitted e"
  then show "writes e \<notin> {Some KCluster, Some KWorkerPool, Some KSnapshotPool, Some KSecret}"
    using permitted_no_crd permitted_no_delete by (cases e) auto
qed

end

end
