(* ===== verification/ControlPlane.thy ===== *)
theory ControlPlane
  imports Resources
begin

text \<open>
  The workloads of a cluster's control plane (internal/resources): the Deployments and Services of
  Flow API, PeerDB server and UI (flow\_api.go, peerdb\_server.go, ui.go), the init jobs
  (init\_jobs.go) and the maintenance jobs (maintenance\_jobs.go). The locale \<open>component_builder\<close> states
  what the cluster controller relies on when it applies such a workload; every builder is an
  interpretation of it.
\<close>

section \<open>Shared pieces of the builders\<close>

text \<open>\<open>x := dflt; if spec != nil && spec.F != nil { x = *spec.F }\<close>.\<close>

definition override :: "'s option \<Rightarrow> ('s \<Rightarrow> 'v option) \<Rightarrow> 'v \<Rightarrow> 'v" where
  "override spec fld dflt =
     (case spec of None \<Rightarrow> dflt | Some s \<Rightarrow> (case fld s of None \<Rightarrow> dflt | Some v \<Rightarrow> v))"

definition resource_list :: "lib \<Rightarrow> string \<Rightarrow> string \<Rightarrow> ResourceList" where
  "resource_list L cpu memory = fmap_of_list [(''cpu'', MustParse L cpu), (''memory'', MustParse L memory)]"

text \<open>\<open>if resources.Requests == nil && resources.Limits == nil { resources = ... }\<close>.\<close>

definition default_resources ::
    "lib \<Rightarrow> ResourceRequirements \<Rightarrow> string \<Rightarrow> string \<Rightarrow> string \<Rightarrow> string \<Rightarrow> ResourceRequirements" where
  "default_resources L r cpuReq memReq cpuLim memLim =
     (if rrRequests r = None \<and> rrLimits r = None
      then \<lparr>rrRequests = Some (resource_list L cpuReq memReq), rrLimits = Some (resource_list L cpuLim memLim)\<rparr>
      else r)"

definition plain_env :: "string \<Rightarrow> string \<Rightarrow> EnvVar" where
  "plain_env name val = \<lparr>evName = name, evValue = val, evValueFrom = None\<rparr>"

definition secret_env :: "string \<Rightarrow> SecretKeySelector \<Rightarrow> EnvVar" where
  "secret_env name ref =
     \<lparr>evName = name, evValue = '''', evValueFrom = Some (SecretKeyRef (sksName ref) (sksKey ref))\<rparr>"

text \<open>The variable of an optional secret reference, appended when the reference is set.\<close>

definition optional_env :: "string \<Rightarrow> SecretKeySelector option \<Rightarrow> EnvVar list" where
  "optional_env name ref = (case ref of None \<Rightarrow> [] | Some r \<Rightarrow> [secret_env name r])"

definition tcp_port :: "string \<Rightarrow> int \<Rightarrow> ContainerPort" where
  "tcp_port name port = \<lparr>cpName = name, cpContainerPort = port, cpProtocol = ''TCP''\<rparr>"

definition probe :: "ProbeHandler \<Rightarrow> int \<Rightarrow> Probe" where
  "probe h secs = \<lparr>prHandler = h, prInitialDelaySeconds = secs, prPeriodSeconds = secs\<rparr>"

definition config_env :: "PeerDBCluster \<Rightarrow> EnvFromSource list" where
  "config_env cluster = [ConfigMapRef (clName cluster @ ''-config'')]"

definition catalog_password :: "PeerDBCluster \<Rightarrow> EnvVar" where
  "catalog_password cluster =
     secret_env ''PEERDB_CATALOG_PASSWORD'' (catPasswordSecretRef (clCatalog cluster))"

definition service_port :: "string \<Rightarrow> int \<Rightarrow> ServicePort" where
  "service_port name port =
     \<lparr>spName = name, spPort = port, spTargetPort = FromString name, spProtocol = ''TCP'', spNodePort = 0\<rparr>"

definition service_type :: "ServiceSpec option \<Rightarrow> string \<Rightarrow> string" where
  "service_type svc dflt =
     (case svc of None \<Rightarrow> dflt | Some s \<Rightarrow> if svcType s \<noteq> '''' then svcType s else dflt)"

definition service_annotations :: "ServiceSpec option \<Rightarrow> smap" where
  "service_annotations svc = (case svc of None \<Rightarrow> fmempty | Some s \<Rightarrow> svcAnnotations s)"

abbreviation flow_api_spec :: "PeerDBCluster \<Rightarrow> FlowAPISpec option" where
  "flow_api_spec cluster \<equiv> Option.bind (clComponents (clSpec cluster)) cmpFlowAPI"

abbreviation server_spec :: "PeerDBCluster \<Rightarrow> PeerDBServerSpec option" where
  "server_spec cluster \<equiv> Option.bind (clComponents (clSpec cluster)) cmpPeerDBServer"

abbreviation ui_spec :: "PeerDBCluster \<Rightarrow> UISpec option" where
  "ui_spec cluster \<equiv> Option.bind (clComponents (clSpec cluster)) cmpUI"

section \<open>flow\_api.go\<close>

definition BuildFlowAPIDeployment :: "lib \<Rightarrow> PeerDBCluster \<Rightarrow> string \<Rightarrow> Deployment" where
  "BuildFlowAPIDeployment L cluster configHash =
     (let name = clName cluster @ ''-flow-api'';
          component = ''flow-api'';
          labels = CommonLabels (clName cluster) component;
          selectorLabels = SelectorLabels (clName cluster) component;
          spec = flow_api_spec cluster;
          img = override spec faImage (''ghcr.io/peerdb-io/flow-api:stable-'' @ clVersion (clSpec cluster));
          replicas = Some (override spec faReplicas 1);
          resources = default_resources L (override spec faResources no_resources)
                        ''100m'' ''128Mi'' ''500m'' ''256Mi''
      in \<lparr>dMeta = new_meta name (clNamespace cluster) labels fmempty,
          dSpec = \<lparr>dsReplicas = replicas, dsSelector = selectorLabels,
            dsTemplate = \<lparr>ptLabels = labels, ptAnnotations = smap_of [(AnnotationConfigHash, configHash)],
              ptSpec = new_pod_spec (clName cluster)
                [(new_container ''flow-api'' img)
                   \<lparr>cPorts := [tcp_port ''grpc'' 8112, tcp_port ''http'' 8113],
                    cEnvFrom := config_env cluster,
                    cEnv := [catalog_password cluster],
                    cResources := resources,
                    cLivenessProbe := Some (probe (GRPCAction 8112) 10),
                    cReadinessProbe := Some (probe (GRPCAction 8112) 5)\<rparr>]\<rparr>,
            dsExtra = []\<rparr>,
          dStatus = new_deployment_status\<rparr>)"

definition BuildFlowAPIService :: "PeerDBCluster \<Rightarrow> Service" where
  "BuildFlowAPIService cluster =
     (let component = ''flow-api'';
          svc = Option.bind (flow_api_spec cluster) faService
      in \<lparr>svMeta = new_meta (clName cluster @ ''-flow-api'') (clNamespace cluster)
                     (CommonLabels (clName cluster) component) (service_annotations svc),
          svSpec = \<lparr>ksType = service_type svc ''ClusterIP'', ksClusterIP = '''',
            ksSelector = SelectorLabels (clName cluster) component,
            ksPorts = [service_port ''grpc'' 8112, service_port ''http'' 8113], ksExtra = []\<rparr>\<rparr>)"

section \<open>peerdb\_server.go\<close>

definition BuildPeerDBServerDeployment :: "lib \<Rightarrow> PeerDBCluster \<Rightarrow> string \<Rightarrow> Deployment" where
  "BuildPeerDBServerDeployment L cluster configHash =
     (let name = clName cluster @ ''-server'';
          component = ''server'';
          labels = CommonLabels (clName cluster) component;
          selectorLabels = SelectorLabels (clName cluster) component;
          spec = server_spec cluster;
          img = override spec psvImage (''ghcr.io/peerdb-io/peerdb-server:stable-'' @ clVersion (clSpec cluster));
          replicas = Some (override spec psvReplicas 1);
          resources = default_resources L (override spec psvResources no_resources)
                        ''100m'' ''128Mi'' ''500m'' ''256Mi'';
          envs = [plain_env ''PEERDB_FLOW_SERVER_ADDRESS''
                    (''grpc://'' @ clName cluster @ ''-flow-api.'' @ clNamespace cluster @ ''.svc.cluster.local:8112''),
                  catalog_password cluster]
                 @ optional_env ''PEERDB_PASSWORD'' (Option.bind spec psvPasswordSecretRef)
      in \<lparr>dMeta = new_meta name (clNamespace cluster) labels fmempty,
          dSpec = \<lparr>dsReplicas = replicas, dsSelector = selectorLabels,
            dsTemplate = \<lparr>ptLabels = labels, ptAnnotations = smap_of [(AnnotationConfigHash, configHash)],
              ptSpec = new_pod_spec (clName cluster)
                [(new_container ''peerdb-server'' img)
                   \<lparr>cPorts := [tcp_port ''pg'' 9900],
                    cEnvFrom := config_env cluster,
                    cEnv := envs,
                    cResources := resources,
                    cLivenessProbe := Some (probe (TCPSocketAction (FromInt32 9900)) 10),
                    cReadinessProbe := Some (probe (TCPSocketAction (FromInt32 9900)) 5)\<rparr>]\<rparr>,
            dsExtra = []\<rparr>,
          dStatus = new_deployment_status\<rparr>)"

definition BuildPeerDBServerService :: "PeerDBCluster \<Rightarrow> Service" where
  "BuildPeerDBServerService cluster =
     (let component = ''server'';
          svc = Option.bind (server_spec cluster) psvService
      in \<lparr>svMeta = new_meta (clName cluster @ ''-server'') (clNamespace cluster)
                     (CommonLabels (clName cluster) component) (service_annotations svc),
          svSpec = \<lparr>ksType = service_type svc ''ClusterIP'', ksClusterIP = '''',
            ksSelector = SelectorLabels (clName cluster) component,
            ksPorts = [service_port ''pg'' 9900], ksExtra = []\<rparr>\<rparr>)"

section \<open>ui.go\<close>

definition BuildUIDeployment :: "lib \<Rightarrow> PeerDBCluster \<Rightarrow> string \<Rightarrow> Deployment" where
  "BuildUIDeployment L cluster configHash =
     (let name = clName cluster @ ''-ui'';
          component = ''ui'';
          labels = CommonLabels (clName cluster) component;
          selectorLabels = SelectorLabels (clName cluster) component;
          spec = ui_spec cluster;
          img = override spec uiImage (''ghcr.io/peerdb-io/peerdb-ui:stable-'' @ clVersion (clSpec cluster));
          replicas = Some (override spec uiReplicas 1);
          resources = default_resources L (override spec uiResources no_resources)
                        ''100m'' ''256Mi'' ''500m'' ''512Mi'';
          nextAuthURL = override spec uiNextAuthURL ''http://localhost:3000'';
          envs = [plain_env ''PEERDB_FLOW_SERVER_HTTP''
                    (''http://'' @ clName cluster @ ''-flow-api.'' @ clNamespace cluster @ ''.svc.cluster.local:8113''),
                  catalog_password cluster]
                 @ [plain_env ''NEXTAUTH_URL'' nextAuthURL]
                 @ optional_env ''PEERDB_PASSWORD'' (Option.bind spec uiPasswordSecretRef)
                 @ optional_env ''NEXTAUTH_SECRET'' (Option.bind spec uiNextAuthSecretRef)
      in \<lparr>dMeta = new_meta name (clNamespace cluster) labels fmempty,
          dSpec = \<lparr>dsReplicas = replicas, dsSelector = selectorLabels,
            dsTemplate = \<lparr>ptLabels = labels, ptAnnotations = smap_of [(AnnotationConfigHash, configHash)],
              ptSpec = new_pod_spec (clName cluster)
                [(new_container ''peerdb-ui'' img)
                   \<lparr>cPorts := [tcp_port ''http'' 3000],
                    cEnv := envs,
                    cResources := resources,
                    cLivenessProbe := Some (probe (TCPSocketAction (FromInt32 3000)) 10),
                    cReadinessProbe := Some (probe (TCPSocketAction (FromInt32 3000)) 5)\<rparr>]\<rparr>,
            dsExtra = []\<rparr>,
          dStatus = new_deployment_status\<rparr>)"

definition BuildUIService :: "PeerDBCluster \<Rightarrow> Service" where
  "BuildUIService cluster =
     (let component = ''ui'';
          svc = Option.bind (ui_spec cluster) uiService
      in \<lparr>svMeta = new_meta (clName cluster @ ''-ui'') (clNamespace cluster)
                     (CommonLabels (clName cluster) component) (service_annotations svc),
          svSpec = \<lparr>ksType = service_type svc ''LoadBalancer'', ksClusterIP = '''',
            ksSelector = SelectorLabels (clName cluster) component,
            ksPorts = [service_port ''http'' 3000], ksExtra = []\<rparr>\<rparr>)"

section \<open>init\_jobs.go\<close>

definition defaultTemporalAdminToolsImage :: string where
  "defaultTemporalAdminToolsImage = ''temporalio/admin-tools:1.24.2-tctl-1.18.1-cli-0.13.2''"

text \<open>The shell loop both jobs start with.\<close>

definition wait_for_temporal :: "string \<Rightarrow> string" where
  "wait_for_temporal addr =
     ''until tctl --address '' @ addr @
     '' cluster health | grep -q SERVING; do echo \"Waiting for Temporal...\"; sleep 2; done; ''"

definition ns_register_command :: "TemporalSpec \<Rightarrow> string" where
  "ns_register_command t =
     wait_for_temporal (tmpAddress t) @
     ''tctl --address '' @ tmpAddress t @ '' --ns '' @ tmpNamespace t @ '' namespace register || '' @
     ''tctl --address '' @ tmpAddress t @ '' --ns '' @ tmpNamespace t @ '' namespace describe''"

definition search_attr_command :: "TemporalSpec \<Rightarrow> string" where
  "search_attr_command t =
     wait_for_temporal (tmpAddress t) @
     ''tctl --auto_confirm --address '' @ tmpAddress t @ '' --ns '' @ tmpNamespace t @
     '' admin cluster add-search-attributes --name MirrorName --type Keyword''"

text \<open>A Job as all three builders assemble it.\<close>

definition job_of :: "PeerDBCluster \<Rightarrow> string \<Rightarrow> smap \<Rightarrow> int \<Rightarrow> Container \<Rightarrow> Job" where
  "job_of cluster name labels backoff container =
     \<lparr>jMeta = new_meta name (clNamespace cluster) labels fmempty,
      jSpec = \<lparr>jsBackoffLimit = Some backoff,
        jsTemplate = \<lparr>ptLabels = labels, ptAnnotations = fmempty,
          ptSpec = (new_pod_spec (clName cluster) [container])\<lparr>psRestartPolicy := ''OnFailure''\<rparr>\<rparr>\<rparr>,
      jConditions = []\<rparr>"

definition temporal_envs :: "TemporalSpec \<Rightarrow> EnvVar list" where
  "temporal_envs t =
     [plain_env ''TEMPORAL_ADDRESS'' (tmpAddress t), plain_env ''TEMPORAL_CLI_ADDRESS'' (tmpAddress t)]"

definition BuildNamespaceRegistrationJob :: "PeerDBCluster \<Rightarrow> Job" where
  "BuildNamespaceRegistrationJob cluster =
     (let name = clName cluster @ ''-temporal-ns-register-'' @ SanitizeVersion (clVersion (clSpec cluster));
          labels = CommonLabels (clName cluster) ''init-ns-register'';
          temporal = clTemporal cluster;
          job = Option.bind (clInit (clSpec cluster)) inTemporalNamespaceRegistration;
          img = override job ijImage defaultTemporalAdminToolsImage;
          backoffLimit = override job ijBackoffLimit 100
      in job_of cluster name labels backoffLimit
           ((new_container ''ns-register'' img)
              \<lparr>cCommand := [''sh'', ''-c'', ns_register_command temporal], cEnv := temporal_envs temporal\<rparr>))"

definition BuildSearchAttributeJob :: "PeerDBCluster \<Rightarrow> Job" where
  "BuildSearchAttributeJob cluster =
     (let name = clName cluster @ ''-temporal-search-attr-'' @ SanitizeVersion (clVersion (clSpec cluster));
          labels = CommonLabels (clName cluster) ''init-search-attr'';
          temporal = clTemporal cluster;
          job = Option.bind (clInit (clSpec cluster)) inTemporalSearchAttributes;
          img = override job ijImage defaultTemporalAdminToolsImage;
          backoffLimit = override job ijBackoffLimit 100
      in job_of cluster name labels backoffLimit
           ((new_container ''search-attr'' img)
              \<lparr>cCommand := [''sh'', ''-c'', search_attr_command temporal], cEnv := temporal_envs temporal\<rparr>))"

section \<open>maintenance\_jobs.go\<close>

definition buildMaintenanceJob :: "PeerDBCluster \<Rightarrow> string \<Rightarrow> Job" where
  "buildMaintenanceJob cluster action =
     (let name = clName cluster @ ''-maintenance-'' @ action @ ''-'' @ SanitizeVersion (clVersion (clSpec cluster));
          component = ''maintenance-'' @ action;
          labels = CommonLabels (clName cluster) component;
          spec = clMaintenance (clSpec cluster);
          img = override spec mtImage (''ghcr.io/peerdb-io/flow-maintenance:stable-'' @ clVersion (clSpec cluster));
          backoffLimit = override spec mtBackoffLimit 4
      in job_of cluster name labels backoffLimit
           ((new_container (''maintenance-'' @ action) img)
              \<lparr>cCommand := [''/root/peer-flow'', ''maintenance'', action],
               cEnvFrom := config_env cluster,
               cEnv := [catalog_password cluster],
               cResources := override spec mtResources no_resources\<rparr>))"

definition BuildStartMaintenanceJob :: "PeerDBCluster \<Rightarrow> Job" where
  "BuildStartMaintenanceJob cluster = buildMaintenanceJob cluster ''start''"

definition BuildEndMaintenanceJob :: "PeerDBCluster \<Rightarrow> Job" where
  "BuildEndMaintenanceJob cluster = buildMaintenanceJob cluster ''end''"

declare BuildFlowAPIDeployment_def [build_defs] BuildFlowAPIService_def [build_defs]
  BuildPeerDBServerDeployment_def [build_defs] BuildPeerDBServerService_def [build_defs]
  BuildUIDeployment_def [build_defs] BuildUIService_def [build_defs]
  BuildNamespaceRegistrationJob_def [build_defs] BuildSearchAttributeJob_def [build_defs]
  buildMaintenanceJob_def [build_defs] BuildStartMaintenanceJob_def [build_defs]
  BuildEndMaintenanceJob_def [build_defs] job_of_def [build_defs]

lemmas piece_defs =
  tcp_port_def service_port_def new_container_def new_pod_spec_def new_meta_def meta_key_def

section \<open>What a component's Deployment and Service promise\<close>

text \<open>The traffic of a Service port goes to a container port of a pod the Service selects.\<close>

definition port_served :: "ServicePort \<Rightarrow> ContainerPort \<Rightarrow> bool" where
  "port_served p cp \<longleftrightarrow>
     spTargetPort p = FromString (cpName cp) \<and> spPort p = cpContainerPort cp \<and> spProtocol p = cpProtocol cp"

definition template_ports :: "PodTemplateSpec \<Rightarrow> ContainerPort list" where
  "template_ports t = concat (map cPorts (psContainers (ptSpec t)))"

definition service_reaches :: "Service \<Rightarrow> Deployment \<Rightarrow> bool" where
  "service_reaches s d \<longleftrightarrow>
     mNamespace (svMeta s) = mNamespace (dMeta d) \<and>
     smap_sub (ksSelector (svSpec s)) (ptLabels (dsTemplate (dSpec d))) \<and>
     list_all (\<lambda>p. list_ex (port_served p) (template_ports (dsTemplate (dSpec d)))) (ksPorts (svSpec s))"

text \<open>Selector labels of one component never match the pods of another.\<close>

lemma selector_separates:
  "smap_sub (SelectorLabels n k) (CommonLabels n' k') \<longleftrightarrow> n = n' \<and> k = k'"
proof
  assume sub: "smap_sub (SelectorLabels n k) (CommonLabels n' k')"
  have "fmlookup (SelectorLabels n k) ''app.kubernetes.io/instance'' = Some n"
    "fmlookup (SelectorLabels n k) ''app.kubernetes.io/component'' = Some k"
    by (simp_all add: SelectorLabels_def label_simps)
  with sub have "fmlookup (CommonLabels n' k') ''app.kubernetes.io/instance'' = Some n"
    "fmlookup (CommonLabels n' k') ''app.kubernetes.io/component'' = Some k"
    unfolding smap_sub_iff by blast+
  then show "n = n' \<and> k = k'"
    by (simp add: CommonLabels_def label_simps)
next
  assume "n = n' \<and> k = k'"
  then show "smap_sub (SelectorLabels n k) (CommonLabels n' k')"
    by (simp add: selector_sub_common)
qed

text \<open>
  A component of the control plane: a Deployment, built for a cluster and a config hash, and a
  Service, both named after the cluster.
\<close>

locale component_builder =
  fixes build :: "lib \<Rightarrow> PeerDBCluster \<Rightarrow> string \<Rightarrow> Deployment"
    and service :: "PeerDBCluster \<Rightarrow> Service"
    and suffix :: string and component :: string
  assumes dep_key: "meta_key (dMeta (build L c h)) = NN (clName c @ suffix) (clNamespace c)"
    and svc_key: "meta_key (svMeta (service c)) = NN (clName c @ suffix) (clNamespace c)"
    and no_owner: "mOwnerReferences (dMeta (build L c h)) = []"
    and svc_no_owner: "mOwnerReferences (svMeta (service c)) = []"
    and dep_selector: "dsSelector (dSpec (build L c h)) = SelectorLabels (clName c) component"
    and svc_selector: "ksSelector (svSpec (service c)) = SelectorLabels (clName c) component"
    and pod_labels: "ptLabels (dsTemplate (dSpec (build L c h))) = CommonLabels (clName c) component"
    and pod_annotations: "ptAnnotations (dsTemplate (dSpec (build L c h))) = smap_of [(AnnotationConfigHash, h)]"
    and ports_served: "list_all (\<lambda>p. list_ex (port_served p) (template_ports (dsTemplate (dSpec (build L c h)))))
          (ksPorts (svSpec (service c)))"
begin

lemma same_namespace: "mNamespace (svMeta (service c)) = mNamespace (dMeta (build L c h))"
  using dep_key [of L c h] svc_key [of c] by (simp add: meta_key_def NN_def)

lemma dep_namespace: "mNamespace (dMeta (build L c h)) = clNamespace c"
  and svc_namespace: "mNamespace (svMeta (service c)) = clNamespace c"
  using dep_key [of L c h] svc_key [of c] by (simp_all add: meta_key_def NN_def)

lemma selects_own_pods:
  "smap_sub (dsSelector (dSpec (build L c h))) (ptLabels (dsTemplate (dSpec (build L c h))))"
  by (simp add: dep_selector pod_labels selector_separates)

lemma service_reaches_own: "service_reaches (service c) (build L c h)"
  by (simp add: service_reaches_def same_namespace [of c L h] svc_selector pod_labels selector_separates
      ports_served)

lemma reaches_only_own:
  assumes "component_builder build' service' suffix' component'" and "component \<noteq> component'"
  shows "\<not> service_reaches (service c) (build' L c' h)"
  using assms(2) component_builder.pod_labels [OF assms(1), of L c' h]
  by (simp add: service_reaches_def svc_selector selector_separates)

text \<open>A new config hash, and only a new one, changes the pod template, so pods roll.\<close>

lemma hash_rolls: "build L c h = build L c h' \<longleftrightarrow> h = h'"
proof
  assume "build L c h = build L c h'"
  then have "fmlookup (smap_of [(AnnotationConfigHash, h)]) AnnotationConfigHash =
      fmlookup (smap_of [(AnnotationConfigHash, h')]) AnnotationConfigHash"
    using pod_annotations [of L c h] pod_annotations [of L c h'] by simp
  then show "h = h'" by (simp add: label_simps)
qed simp

end

interpretation flow_api: component_builder BuildFlowAPIDeployment BuildFlowAPIService "''-flow-api''" "''flow-api''"
  by unfold_locales (simp_all add: build_defs piece_defs port_served_def template_ports_def Let_def)

interpretation server: component_builder BuildPeerDBServerDeployment BuildPeerDBServerService "''-server''" "''server''"
  by unfold_locales (simp_all add: build_defs piece_defs port_served_def template_ports_def Let_def)

interpretation ui: component_builder BuildUIDeployment BuildUIService "''-ui''" "''ui''"
  by unfold_locales (simp_all add: build_defs piece_defs port_served_def template_ports_def Let_def)


text \<open>
  A Deployment of the control plane changes with the config hash and its selector always matches
  the labels of its own pod template, as the API server demands.
\<close>

lemma control_plane_rolls_on_hash:
  "(BuildFlowAPIDeployment L c h = BuildFlowAPIDeployment L c h' \<longleftrightarrow> h = h') \<and>
   (BuildPeerDBServerDeployment L c h = BuildPeerDBServerDeployment L c h' \<longleftrightarrow> h = h') \<and>
   (BuildUIDeployment L c h = BuildUIDeployment L c h' \<longleftrightarrow> h = h') \<and>
   smap_sub (dsSelector (dSpec (BuildFlowAPIDeployment L c h))) (ptLabels (dsTemplate (dSpec (BuildFlowAPIDeployment L c h)))) \<and>
   smap_sub (dsSelector (dSpec (BuildPeerDBServerDeployment L c h))) (ptLabels (dsTemplate (dSpec (BuildPeerDBServerDeployment L c h)))) \<and>
   smap_sub (dsSelector (dSpec (BuildUIDeployment L c h))) (ptLabels (dsTemplate (dSpec (BuildUIDeployment L c h))))"
  by (simp add: flow_api.hash_rolls server.hash_rolls ui.hash_rolls flow_api.selects_own_pods
      server.selects_own_pods ui.selects_own_pods)

section \<open>Jobs\<close>

text \<open>Every job is named after the cluster, the job and the version.\<close>

lemma job_names:
  "mName (jMeta (BuildNamespaceRegistrationJob c)) = clName c @ ''-temporal-ns-register-'' @ SanitizeVersion (clVersion (clSpec c))"
  "mName (jMeta (BuildSearchAttributeJob c)) = clName c @ ''-temporal-search-attr-'' @ SanitizeVersion (clVersion (clSpec c))"
  "mName (jMeta (BuildStartMaintenanceJob c)) = clName c @ ''-maintenance-start-'' @ SanitizeVersion (clVersion (clSpec c))"
  "mName (jMeta (BuildEndMaintenanceJob c)) = clName c @ ''-maintenance-end-'' @ SanitizeVersion (clVersion (clSpec c))"
  by (simp_all add: build_defs new_meta_def Let_def)

text \<open>
  The four jobs of a cluster have pairwise different names, so no job shadows another, and a job
  for another version of the same cluster is a new job exactly when the sanitized versions differ.
\<close>

lemma jobs_distinct_per_version:
  "distinct (map (\<lambda>j. mName (jMeta j)) [BuildNamespaceRegistrationJob c, BuildSearchAttributeJob c,
       BuildStartMaintenanceJob c, BuildEndMaintenanceJob c]) \<and>
   (\<forall>build \<in> {BuildNamespaceRegistrationJob, BuildSearchAttributeJob, BuildStartMaintenanceJob, BuildEndMaintenanceJob}.
      mName (jMeta (build c)) = mName (jMeta (build (c\<lparr>clSpec := (clSpec c)\<lparr>clVersion := v\<rparr>\<rparr>))) \<longleftrightarrow>
      SanitizeVersion (clVersion (clSpec c)) = SanitizeVersion v)"
  by (simp add: job_names)

lemma jobs_distinct_per_version_witness:
  "mName (jMeta (BuildStartMaintenanceJob sample_cluster)) \<noteq>
   mName (jMeta (BuildStartMaintenanceJob (sample_cluster\<lparr>clSpec := (clSpec sample_cluster)\<lparr>clVersion := ''v0.36.8''\<rparr>\<rparr>)))"
  using jobs_distinct_per_version [of sample_cluster "''v0.36.8''"]
  by (simp add: sample_defs SanitizeVersion_def replace_all_def)

end
