(* ===== verification/ClusterOps.thy ===== *)
theory ClusterOps
  imports Reconciling ControlPlane
begin

text \<open>
  The operations of the cluster controller on single objects
  (internal/controller/peerdbcluster\_controller.go): status conditions and status updates, the
  ServiceAccount, the ConfigMap, init jobs, Deployments and Services. A Go function that mutates the
  cluster object or a \<open>ready\<close> flag through a pointer returns the new value here; when such a function
  returns an error its callers drop the object, so an error carries no value.
\<close>

section \<open>Status\<close>

definition set_status :: "(PeerDBClusterStatus \<Rightarrow> PeerDBClusterStatus) \<Rightarrow> PeerDBCluster \<Rightarrow> PeerDBCluster" where
  "set_status f cluster = cluster\<lparr>clStatus := f (clStatus cluster)\<rparr>"

text \<open>\<open>meta.SetStatusCondition(&cluster.Status.Conditions, metav1.Condition{...})\<close> at time \<open>t\<close>.\<close>

definition with_condition ::
    "lib \<Rightarrow> int \<Rightarrow> string \<Rightarrow> ConditionStatus \<Rightarrow> string \<Rightarrow> string \<Rightarrow> PeerDBCluster \<Rightarrow> PeerDBCluster" where
  "with_condition L t ty st reason msg cluster =
     set_status (\<lambda>s. s\<lparr>csConditions := SetStatusCondition L t (csConditions s)
       \<lparr>cdType = ty, cdStatus = st, cdObservedGeneration = clGeneration cluster,
        cdLastTransitionTime = 0, cdReason = reason, cdMessage = msg\<rparr>\<rparr>) cluster"

definition set_cond ::
    "'w env \<Rightarrow> string \<Rightarrow> ConditionStatus \<Rightarrow> string \<Rightarrow> string \<Rightarrow> PeerDBCluster \<Rightarrow> ('w, PeerDBCluster) prog" where
  "set_cond E ty st reason msg cluster = do {
     t \<leftarrow> time_now E;
     ret (with_condition (elib E) t ty st reason msg cluster)
   }"

lemma run_set_cond [simp]:
  "run_state (set_cond E ty st reason msg cluster) s =
     (with_condition (elib E) (nowOf E (world s)) ty st reason msg cluster, s)"
  by (simp add: set_cond_def)

lemma emits_set_cond [emits_intros]: "emits P (set_cond E ty st reason msg cluster)"
  unfolding set_cond_def by (intro emits_intros)

lemma emits_bind_set_cond:
  "(\<And>t. emits P (f (with_condition (elib E) t ty st reason msg cluster))) \<Longrightarrow>
     emits P (State_Monad.bind (set_cond E ty st reason msg cluster) f)"
  by (rule emits_bind_inv [where I = "\<lambda>x. \<exists>t. x = with_condition (elib E) t ty st reason msg cluster"])
    (auto intro: emits_set_cond)

lemma with_condition_simps [simp]:
  "clMeta (with_condition L t ty st reason msg c) = clMeta c"
  "clSpec (with_condition L t ty st reason msg c) = clSpec c"
  "csUpgrade (clStatus (with_condition L t ty st reason msg c)) = csUpgrade (clStatus c)"
  "csEndpoints (clStatus (with_condition L t ty st reason msg c)) = csEndpoints (clStatus c)"
  "csObservedGeneration (clStatus (with_condition L t ty st reason msg c)) = csObservedGeneration (clStatus c)"
  by (simp_all add: with_condition_def set_status_def)

text \<open>The status and reason of a condition of a cluster, when it has one of that type.\<close>

definition cond_status :: "lib \<Rightarrow> PeerDBCluster \<Rightarrow> string \<Rightarrow> ConditionStatus option" where
  "cond_status L c T = map_option cdStatus (FindStatusCondition L (csConditions (clStatus c)) T)"

definition cond_reason :: "lib \<Rightarrow> PeerDBCluster \<Rightarrow> string \<Rightarrow> string option" where
  "cond_reason L c T = map_option cdReason (FindStatusCondition L (csConditions (clStatus c)) T)"

context condition_lib
begin

lemma cond_status_with [simp]:
  "cond_status L (with_condition L t ty st reason msg c) T = (if T = ty then Some st else cond_status L c T)"
  by (simp add: cond_status_def with_condition_def set_status_def status_set)

lemma cond_reason_with [simp]:
  "cond_reason L (with_condition L t ty st reason msg c) T = (if T = ty then Some reason else cond_reason L c T)"
  by (simp add: cond_reason_def with_condition_def set_status_def reason_set)

end

definition observe_generation :: "PeerDBCluster \<Rightarrow> PeerDBCluster" where
  "observe_generation cluster = set_status (\<lambda>s. s\<lparr>csObservedGeneration := clGeneration cluster\<rparr>) cluster"

lemma observe_generation_simps [simp]:
  "clMeta (observe_generation c) = clMeta c" "clSpec (observe_generation c) = clSpec c"
  "csConditions (clStatus (observe_generation c)) = csConditions (clStatus c)"
  "csUpgrade (clStatus (observe_generation c)) = csUpgrade (clStatus c)"
  "csObservedGeneration (clStatus (observe_generation c)) = clGeneration c"
  "cond_status L (observe_generation c) T = cond_status L c T"
  "cond_reason L (observe_generation c) T = cond_reason L c T"
  by (simp_all add: observe_generation_def set_status_def cond_status_def cond_reason_def)

definition updateStatus :: "'w env \<Rightarrow> PeerDBCluster \<Rightarrow> ('w, unit) gprog" where
  "updateStatus E cluster =
     on_ok (kget KCluster (clusters E) (meta_key (clMeta cluster))) (\<lambda>latest.
       if eqClusterStatus (elib E) (clStatus latest) (clStatus cluster) then ok ()
       else discard (kstatus OCluster (clusters E) (latest\<lparr>clStatus := clStatus cluster\<rparr>)))"

lemma emits_updateStatus [emits_intros]:
  "P (EGet KCluster (meta_key (clMeta c))) \<Longrightarrow> (\<And>c. P (EStatusUpdate (OCluster c))) \<Longrightarrow> emits P (updateStatus E c)"
  unfolding updateStatus_def by (intro emits_intros)

lemma emits_updateStatus_exact:
  "P (EGet KCluster (meta_key (clMeta c))) \<Longrightarrow> (\<And>x. clStatus x = clStatus c \<Longrightarrow> P (EStatusUpdate (OCluster x))) \<Longrightarrow>
     emits P (updateStatus E c)"
  unfolding updateStatus_def by (intro emits_intros) simp_all

section \<open>ServiceAccount, ConfigMap, Service\<close>

definition own :: "'w env \<Rightarrow> PeerDBCluster \<Rightarrow> ObjectMeta \<Rightarrow> ('w, ObjectMeta) gprog" where
  "own E cluster m = lift_ok (SetControllerReference (elib E) ''PeerDBCluster'' (clMeta cluster) m)"

lemma run_own [simp]:
  "run_state (own E cluster m) s = (SetControllerReference (elib E) ''PeerDBCluster'' (clMeta cluster) m, s)"
  by (simp add: own_def)

lemma emits_own [emits_intros]: "emits P (own E cluster m)"
  unfolding own_def by (intro emits_intros)

definition patch_service_account :: "lib \<Rightarrow> ServiceAccount \<Rightarrow> ServiceAccount \<Rightarrow> ServiceAccount option" where
  "patch_service_account L desired existing =
     (if \<not> eqMap L (mAnnotations (saMeta existing)) (mAnnotations (saMeta desired)) \<or>
         \<not> eqMap L (mLabels (saMeta existing)) (mLabels (saMeta desired))
      then Some (existing\<lparr>saMeta := (saMeta existing)
             \<lparr>mAnnotations := mAnnotations (saMeta desired), mLabels := mLabels (saMeta desired)\<rparr>\<rparr>)
      else None)"

definition reconcileServiceAccount :: "'w env \<Rightarrow> PeerDBCluster \<Rightarrow> ServiceAccount \<Rightarrow> ('w, unit) gprog" where
  "reconcileServiceAccount E cluster desired0 =
     on_ok (own E cluster (saMeta desired0)) (\<lambda>m.
       let desired = desired0\<lparr>saMeta := m\<rparr> in
       create_or_update KServiceAccount OServiceAccount (serviceAccounts E) (meta_key m) desired
         (patch_service_account (elib E) desired))"

definition patch_config_map :: "lib \<Rightarrow> ConfigMap \<Rightarrow> ConfigMap \<Rightarrow> ConfigMap option" where
  "patch_config_map L desired existing =
     (if \<not> eqMap L (cmData existing) (cmData desired)
      then Some (existing\<lparr>cmData := cmData desired,
                          cmMeta := (cmMeta existing)\<lparr>mLabels := mLabels (cmMeta desired)\<rparr>\<rparr>)
      else None)"

definition reconcileConfigMap :: "'w env \<Rightarrow> PeerDBCluster \<Rightarrow> ConfigMap \<Rightarrow> ('w, unit) gprog" where
  "reconcileConfigMap E cluster desired0 =
     on_ok (own E cluster (cmMeta desired0)) (\<lambda>m.
       let desired = desired0\<lparr>cmMeta := m\<rparr> in
       create_or_update KConfigMap OConfigMap (configMaps E) (meta_key m) desired
         (patch_config_map (elib E) desired))"

definition patch_service :: "lib \<Rightarrow> Service \<Rightarrow> Service \<Rightarrow> Service option" where
  "patch_service L desired existing =
     (if \<not> eqServicePorts L (ksPorts (svSpec existing)) (ksPorts (svSpec desired)) \<or>
         \<not> eqMap L (ksSelector (svSpec existing)) (ksSelector (svSpec desired)) \<or>
         \<not> eqMap L (mLabels (svMeta existing)) (mLabels (svMeta desired)) \<or>
         \<not> eqMap L (mAnnotations (svMeta existing)) (mAnnotations (svMeta desired))
      then Some (existing
             \<lparr>svSpec := (svSpec existing)\<lparr>ksPorts := ksPorts (svSpec desired), ksSelector := ksSelector (svSpec desired)\<rparr>,
              svMeta := (svMeta existing)\<lparr>mLabels := mLabels (svMeta desired), mAnnotations := mAnnotations (svMeta desired)\<rparr>\<rparr>)
      else None)"

definition reconcileService :: "'w env \<Rightarrow> PeerDBCluster \<Rightarrow> Service \<Rightarrow> ('w, unit) gprog" where
  "reconcileService E cluster desired0 =
     on_ok (own E cluster (svMeta desired0)) (\<lambda>m.
       let desired = desired0\<lparr>svMeta := m\<rparr> in
       create_or_update KService OService (services E) (meta_key m) desired
         (patch_service (elib E) desired))"

section \<open>Jobs\<close>

text \<open>The loop over a job's conditions: the first true Complete or Failed condition decides.\<close>

datatype job_state = JobSucceeded | JobBroken | JobRunning

fun job_outcome :: "JobCondition list \<Rightarrow> job_state" where
  "job_outcome [] = JobRunning"
| "job_outcome (c # cs) =
     (if jcType c = JobComplete \<and> jcStatus c = ConditionTrue then JobSucceeded
      else if jcType c = JobFailed \<and> jcStatus c = ConditionTrue then JobBroken
      else job_outcome cs)"

definition reconcileJob :: "'w env \<Rightarrow> PeerDBCluster \<Rightarrow> Job \<Rightarrow> bool \<Rightarrow> ('w, bool) gprog" where
  "reconcileJob E cluster desired0 ready =
     on_ok (own E cluster (jMeta desired0)) (\<lambda>m.
       let desired = desired0\<lparr>jMeta := m\<rparr> in
       do {
         r \<leftarrow> kget KJob (jobs E) (meta_key m);
         case r of
           Inl e \<Rightarrow>
             if IsNotFound e then on_ok (kcreate OJob (jobs E) desired) (\<lambda>_. ok False)
             else fail e
         | Inr existing \<Rightarrow>
             (case job_outcome (jConditions existing) of
                JobSucceeded \<Rightarrow> ok ready
              | JobBroken \<Rightarrow> do {
                  d \<leftarrow> kdelete OJob (jobs E) existing;
                  case d of
                    Inl e \<Rightarrow> if IsNotFound e then ok False else fail e
                  | Inr _ \<Rightarrow> ok False
                }
              | JobRunning \<Rightarrow> ok False)
       })"

definition isInitJobEnabled :: "InitJobSpec option \<Rightarrow> bool" where
  "isInitJobEnabled js =
     (case js of None \<Rightarrow> True | Some j \<Rightarrow> (case ijEnabled j of None \<Rightarrow> True | Some b \<Rightarrow> b))"

definition ns_enabled :: "PeerDBCluster \<Rightarrow> bool" where
  "ns_enabled cluster \<longleftrightarrow>
     (case clInit (clSpec cluster) of None \<Rightarrow> True | Some i \<Rightarrow> isInitJobEnabled (inTemporalNamespaceRegistration i))"

definition sa_enabled :: "PeerDBCluster \<Rightarrow> bool" where
  "sa_enabled cluster \<longleftrightarrow>
     (case clInit (clSpec cluster) of None \<Rightarrow> True | Some i \<Rightarrow> isInitJobEnabled (inTemporalSearchAttributes i))"

definition reconcileInitJobs :: "'w env \<Rightarrow> PeerDBCluster \<Rightarrow> bool \<Rightarrow> ('w, bool) gprog" where
  "reconcileInitJobs E cluster initReady =
     on_ok (if ns_enabled cluster
            then reconcileJob E cluster (BuildNamespaceRegistrationJob cluster) initReady
            else ok initReady) (\<lambda>ready1.
     if sa_enabled cluster
     then reconcileJob E cluster (BuildSearchAttributeJob cluster) ready1
     else ok ready1)"

definition isJobFailed :: "'w env \<Rightarrow> string \<Rightarrow> string \<Rightarrow> ('w, bool) gprog" where
  "isJobFailed E ns name = do {
     r \<leftarrow> kget KJob (jobs E) (NN name ns);
     case r of
       Inl e \<Rightarrow> if IsNotFound e then ok False else fail e
     | Inr job \<Rightarrow> ok (list_ex (\<lambda>c. jcType c = JobFailed \<and> jcStatus c = ConditionTrue) (jConditions job))
   }"

section \<open>Deployments\<close>

text \<open>The fields the controller manages, written over the live object.\<close>

definition merge_containers :: "Container list \<Rightarrow> Container list \<Rightarrow> Container list" where
  "merge_containers desired existing =
     (case existing of
        [] \<Rightarrow> []
      | ec # rest \<Rightarrow>
          (case desired of
             [] \<Rightarrow> existing
           | dc # _ \<Rightarrow> ec\<lparr>cImage := cImage dc, cEnv := cEnv dc, cEnvFrom := cEnvFrom dc,
                          cPorts := cPorts dc, cResources := cResources dc\<rparr> # rest))"

definition merge_template :: "PodTemplateSpec \<Rightarrow> PodTemplateSpec \<Rightarrow> PodTemplateSpec" where
  "merge_template desired existing =
     existing
       \<lparr>ptLabels := ptLabels desired,
        ptAnnotations :=
          (case fmlookup (ptAnnotations desired) AnnotationConfigHash of
             None \<Rightarrow> ptAnnotations existing
           | Some v \<Rightarrow> fmupd AnnotationConfigHash v (ptAnnotations existing)),
        ptSpec := (ptSpec existing)
          \<lparr>psServiceAccountName := psServiceAccountName (ptSpec desired),
           psContainers := merge_containers (psContainers (ptSpec desired)) (psContainers (ptSpec existing))\<rparr>\<rparr>"

definition merge_deployment :: "Deployment \<Rightarrow> Deployment \<Rightarrow> Deployment" where
  "merge_deployment desired existing =
     existing
       \<lparr>dMeta := (dMeta existing)\<lparr>mLabels := mLabels (dMeta desired)\<rparr>,
        dSpec := (dSpec existing)
          \<lparr>dsReplicas := dsReplicas (dSpec desired),
           dsTemplate := merge_template (dsTemplate (dSpec desired)) (dsTemplate (dSpec existing))\<rparr>\<rparr>"

definition reconcileDeployment :: "'w env \<Rightarrow> PeerDBCluster \<Rightarrow> Deployment \<Rightarrow> bool \<Rightarrow> ('w, bool) gprog" where
  "reconcileDeployment E cluster desired0 ready =
     on_ok (own E cluster (dMeta desired0)) (\<lambda>m.
       let desired = desired0\<lparr>dMeta := m\<rparr> in
       do {
         r \<leftarrow> kget KDeployment (deployments E) (meta_key m);
         case r of
           Inl e \<Rightarrow>
             if IsNotFound e then on_ok (kcreate ODeployment (deployments E) desired) (\<lambda>_. ok False)
             else fail e
         | Inr existing \<Rightarrow>
             let ready' = (if dtReadyReplicas (dStatus existing) < dtReplicas (dStatus existing) then False else ready);
                 merged = merge_deployment desired existing
             in if \<not> eqDeploymentSpec (elib E) (dSpec existing) (dSpec merged)
                then do {
                  u \<leftarrow> kupdate ODeployment (deployments E) merged;
                  case u of
                    Inl e \<Rightarrow> if IsConflict e then ok ready' else fail e
                  | Inr _ \<Rightarrow> ok ready'
                }
                else ok ready'
       })"

definition reconcileDeploymentAndService ::
    "'w env \<Rightarrow> PeerDBCluster \<Rightarrow> Deployment \<Rightarrow> Service \<Rightarrow> bool \<Rightarrow> ('w, bool) gprog" where
  "reconcileDeploymentAndService E cluster deployment service componentsReady =
     on_ok (reconcileDeployment E cluster deployment componentsReady) (\<lambda>ready.
     on_ok (reconcileService E cluster service) (\<lambda>_. ok ready))"

definition deploymentRolledOut :: "Deployment \<Rightarrow> int \<Rightarrow> bool" where
  "deploymentRolledOut dep desiredReplicas \<longleftrightarrow>
     dtObservedGeneration (dStatus dep) \<ge> mGeneration (dMeta dep) \<and>
     dtUpdatedReplicas (dStatus dep) = desiredReplicas \<and>
     dtAvailableReplicas (dStatus dep) = desiredReplicas"

section \<open>Effects of the operations\<close>

lemma emits_case_job [emits_intros]:
  "(x = JobSucceeded \<Longrightarrow> emits P a) \<Longrightarrow> (x = JobBroken \<Longrightarrow> emits P b) \<Longrightarrow> (x = JobRunning \<Longrightarrow> emits P d) \<Longrightarrow>
     emits P (case x of JobSucceeded \<Rightarrow> a | JobBroken \<Rightarrow> b | JobRunning \<Rightarrow> d)"
  by (cases x) auto

lemma emits_reconcileServiceAccount [emits_intros]:
  "(\<And>n. P (EGet KServiceAccount n)) \<Longrightarrow> (\<And>x. P (ECreate (OServiceAccount x))) \<Longrightarrow>
     (\<And>x. P (EUpdate (OServiceAccount x))) \<Longrightarrow> emits P (reconcileServiceAccount E c sa)"
  unfolding reconcileServiceAccount_def by (intro emits_intros)

lemma emits_reconcileConfigMap [emits_intros]:
  "(\<And>n. P (EGet KConfigMap n)) \<Longrightarrow> (\<And>x. P (ECreate (OConfigMap x))) \<Longrightarrow>
     (\<And>x. P (EUpdate (OConfigMap x))) \<Longrightarrow> emits P (reconcileConfigMap E c cm)"
  unfolding reconcileConfigMap_def by (intro emits_intros)

lemma emits_reconcileService [emits_intros]:
  "(\<And>n. P (EGet KService n)) \<Longrightarrow> (\<And>x. P (ECreate (OService x))) \<Longrightarrow>
     (\<And>x. P (EUpdate (OService x))) \<Longrightarrow> emits P (reconcileService E c sv)"
  unfolding reconcileService_def by (intro emits_intros)

lemma emits_reconcileDeployment [emits_intros]:
  "(\<And>n. P (EGet KDeployment n)) \<Longrightarrow> (\<And>x. P (ECreate (ODeployment x))) \<Longrightarrow>
     (\<And>x. P (EUpdate (ODeployment x))) \<Longrightarrow> emits P (reconcileDeployment E c d b)"
  unfolding reconcileDeployment_def by (intro emits_intros)

lemma emits_reconcileDeploymentAndService [emits_intros]:
  "(\<And>n. P (EGet KDeployment n)) \<Longrightarrow> (\<And>x. P (ECreate (ODeployment x))) \<Longrightarrow>
     (\<And>x. P (EUpdate (ODeployment x))) \<Longrightarrow>
     (\<And>n. P (EGet KService n)) \<Longrightarrow> (\<And>x. P (ECreate (OService x))) \<Longrightarrow> (\<And>x. P (EUpdate (OService x))) \<Longrightarrow>
     emits P (reconcileDeploymentAndService E c d sv b)"
  unfolding reconcileDeploymentAndService_def by (intro emits_intros)

lemma emits_reconcileJob [emits_intros]:
  "(\<And>n. P (EGet KJob n)) \<Longrightarrow> (\<And>x. P (ECreate (OJob x))) \<Longrightarrow> (\<And>x. P (EDelete (OJob x))) \<Longrightarrow>
     emits P (reconcileJob E c j b)"
  unfolding reconcileJob_def by (intro emits_intros)

lemma emits_reconcileInitJobs [emits_intros]:
  "(\<And>n. P (EGet KJob n)) \<Longrightarrow> (\<And>x. P (ECreate (OJob x))) \<Longrightarrow> (\<And>x. P (EDelete (OJob x))) \<Longrightarrow>
     emits P (reconcileInitJobs E c b)"
  unfolding reconcileInitJobs_def by (intro emits_intros)

lemma emits_isJobFailed [emits_intros]: "(\<And>n. P (EGet KJob n)) \<Longrightarrow> emits P (isJobFailed E ns name)"
  unfolding isJobFailed_def by (intro emits_intros)

section \<open>The status is written only when it changed\<close>

text \<open>
  (C36) After a successful \<open>updateStatus\<close> the server holds the cluster with the computed status and
  with the spec it held before; when the status was the computed one already, nothing was written.
\<close>

theorem updateStatus_stores:
  assumes store: "status_store (clusters E) look (\<lambda>x. meta_key (clMeta x)) clSpec clStatus"
    and eq: "semantic_equality (elib E)"
    and run: "run_state (updateStatus E cluster) s = (Inr (), s')"
  shows "\<exists>old new. look (world s) (meta_key (clMeta cluster)) = Some old \<and>
     look (world s') (meta_key (clMeta cluster)) = Some new \<and>
     clStatus new = clStatus cluster \<and> clSpec new = clSpec old \<and>
     (clStatus old = clStatus cluster \<longleftrightarrow> log s' = log s @ [EGet KCluster (meta_key (clMeta cluster))])"
proof -
  let ?k = "meta_key (clMeta cluster)"
  note st = status_store.axioms(1) [OF store]
  obtain g w1 where get: "rGet (clusters E) ?k (world s) = (g, w1)" by fastforce
  with run obtain old where g: "g = Inr old"
    by (cases g) (auto simp: updateStatus_def kget_def)
  from resource_store.get_found [OF st] get g
  have old: "look (world s) ?k = Some old" "meta_key (clMeta old) = ?k" "look w1 = look (world s)" by blast+
  show ?thesis
  proof (cases "clStatus old = clStatus cluster")
    case True
    with run get g old show ?thesis
      by (auto simp: updateStatus_def kget_def semantic_equality.eq_cluster_status [OF eq])
  next
    case False
    let ?n = "old\<lparr>clStatus := clStatus cluster\<rparr>"
    from False run get g obtain new where
      upd: "rStatusUpdate (clusters E) ?n w1 = (Inr new, world s')"
      and log: "log s' = log s @ [EGet KCluster ?k, EStatusUpdate (OCluster ?n)]"
      by (auto simp: updateStatus_def kcall_defs discard_def semantic_equality.eq_cluster_status [OF eq]
          split: prod.splits sum.splits)
    from status_store.status_done [OF store upd] old log False show ?thesis by auto
  qed
qed

definition observed_cluster :: PeerDBCluster where
  "observed_cluster = set_status (\<lambda>s. s\<lparr>csObservedGeneration := 1\<rparr>) sample_cluster"

lemma updateStatus_stores_witness:
  "\<exists>new. mem_look cluster_slot (world (snd (run_state (updateStatus mem_env observed_cluster) (sys_with sample_cluster))))
       (NN ''peerdb'' ''default'') = Some new \<and> csObservedGeneration (clStatus new) = 1"
proof -
  let ?r = "run_state (updateStatus mem_env observed_cluster) (sys_with sample_cluster)"
  have key: "meta_key (clMeta observed_cluster) = NN ''peerdb'' ''default''"
    and gen: "csObservedGeneration (clStatus observed_cluster) = 1"
    by (simp_all add: observed_cluster_def set_status_def sample_defs meta_key_def)
  have "fst ?r = Inr ()" by code_simp
  then have run: "?r = (Inr (), snd ?r)" by (cases ?r) simp
  show ?thesis
    using updateStatus_stores [OF mem_cluster_statuses [folded mem_env_simps]
        mem_eq.semantic_equality_axioms [folded mem_env_simps] run]
    by (auto simp: key gen)
qed

section \<open>Applied objects\<close>

text \<open>
  An object without owner references in the cluster's namespace becomes owned by the cluster;
  nothing else of its metadata changes.
\<close>

definition owned_by :: "PeerDBCluster \<Rightarrow> ObjectMeta \<Rightarrow> ObjectMeta" where
  "owned_by cluster m =
     m\<lparr>mOwnerReferences := [\<lparr>orKind = ''PeerDBCluster'', orName = clName cluster, orController = True\<rparr>]\<rparr>"

lemma owned_by_simps [simp]:
  "mName (owned_by c m) = mName m" "mNamespace (owned_by c m) = mNamespace m"
  "mLabels (owned_by c m) = mLabels m" "mAnnotations (owned_by c m) = mAnnotations m"
  "meta_key (owned_by c m) = meta_key m"
  by (simp_all add: owned_by_def meta_key_def)

context owner_lib
begin

lemma set_owner_cluster:
  "mOwnerReferences m = [] \<Longrightarrow> mNamespace m = clNamespace c \<Longrightarrow>
     SetControllerReference L ''PeerDBCluster'' (clMeta c) m = Inr (owned_by c m)"
  by (simp add: set_owner owned_by_def)

end

context semantic_equality
begin

lemma patch_config_map_None: "patch_config_map L d e = None \<longleftrightarrow> cmData e = cmData d"
  by (simp add: patch_config_map_def eq_map)

lemma patch_service_None:
  "patch_service L d e = None \<longleftrightarrow>
     ksPorts (svSpec e) = ksPorts (svSpec d) \<and> ksSelector (svSpec e) = ksSelector (svSpec d) \<and>
     mLabels (svMeta e) = mLabels (svMeta d) \<and> mAnnotations (svMeta e) = mAnnotations (svMeta d)"
  by (simp add: patch_service_def eq_map eq_service_ports)

lemma patch_service_account_None:
  "patch_service_account L d e = None \<longleftrightarrow>
     mAnnotations (saMeta e) = mAnnotations (saMeta d) \<and> mLabels (saMeta e) = mLabels (saMeta d)"
  by (simp add: patch_service_account_def eq_map)

end

lemma patch_config_map_Some:
  "patch_config_map L d e = Some e' \<Longrightarrow> meta_key (cmMeta e') = meta_key (cmMeta e) \<and> cmData e' = cmData d"
  by (auto simp: patch_config_map_def meta_key_def split: if_splits)

lemma patch_service_Some:
  "patch_service L d e = Some e' \<Longrightarrow>
     meta_key (svMeta e') = meta_key (svMeta e) \<and>
     svSpec e' = (svSpec e)\<lparr>ksPorts := ksPorts (svSpec d), ksSelector := ksSelector (svSpec d)\<rparr> \<and>
     mLabels (svMeta e') = mLabels (svMeta d) \<and> mAnnotations (svMeta e') = mAnnotations (svMeta d)"
  by (auto simp: patch_service_def meta_key_def split: if_splits)

lemma patch_service_account_Some:
  "patch_service_account L d e = Some e' \<Longrightarrow>
     meta_key (saMeta e') = meta_key (saMeta e) \<and>
     mLabels (saMeta e') = mLabels (saMeta d) \<and> mAnnotations (saMeta e') = mAnnotations (saMeta d)"
  by (auto simp: patch_service_account_def meta_key_def split: if_splits)

text \<open>
  After a successful \<open>reconcileConfigMap\<close> the server holds the cluster's ConfigMap with exactly
  the connection settings of the spec, and no other ConfigMap changed.
\<close>

lemma reconcileConfigMap_applies:
  assumes store: "resource_store (configMaps E) look (\<lambda>x. meta_key (cmMeta x)) config_map_view"
    and eq: "semantic_equality (elib E)" and owner: "owner_lib (elib E)"
    and run: "run_state (reconcileConfigMap E cluster (BuildConfigMap cluster)) s = (Inr (), s')"
  defines "n \<equiv> NN (clName cluster @ ''-config'') (clNamespace cluster)"
  shows "(\<exists>cm. look (world s') n = Some cm \<and> cmData cm = cmData (BuildConfigMap cluster)) \<and>
         (\<forall>n'. n' \<noteq> n \<longrightarrow> look (world s') n' = look (world s) n')"
proof -
  let ?m = "owned_by cluster (cmMeta (BuildConfigMap cluster))"
  let ?d = "(BuildConfigMap cluster)\<lparr>cmMeta := ?m\<rparr>"
  have key: "meta_key (cmMeta (BuildConfigMap cluster)) = n"
    by (simp add: n_def BuildConfigMap_def Let_def new_meta_def meta_key_def)
  have "SetControllerReference (elib E) ''PeerDBCluster'' (clMeta cluster) (cmMeta (BuildConfigMap cluster)) = Inr ?m"
    by (rule owner_lib.set_owner_cluster [OF owner]) (simp_all add: BuildConfigMap_def Let_def new_meta_def)
  with run have "run_state (create_or_update KConfigMap OConfigMap (configMaps E) (meta_key (cmMeta ?d)) ?d
      (patch_config_map (elib E) ?d)) s = (Inr (), s')"
    by (simp add: reconcileConfigMap_def Let_def)
  from resource_store.create_or_update_post [OF store this, of "\<lambda>_ v. fst v = cmData ?d"]
  show ?thesis
    using patch_config_map_Some semantic_equality.patch_config_map_None [OF eq]
    by (auto simp: config_map_view_def key)
qed

lemma reconcileConfigMap_applies_witness:
  "\<exists>cm. mem_look config_map_slot
      (world (snd (run_state (reconcileConfigMap mem_env sample_cluster (BuildConfigMap sample_cluster))
        (sys_with sample_cluster)))) (NN ''peerdb-config'' ''default'') = Some cm \<and>
      cmData cm = cmData (BuildConfigMap sample_cluster)"
proof -
  let ?r = "run_state (reconcileConfigMap mem_env sample_cluster (BuildConfigMap sample_cluster)) (sys_with sample_cluster)"
  have "fst ?r = Inr ()"
    by (simp add: reconcileConfigMap_def create_or_update_def kcall_defs discard_def mem_lib_def
        sys_with_def mem_defs slot_defs BuildConfigMap_def sample_defs Let_def)
  then have run: "?r = (Inr (), snd ?r)" by (cases ?r) simp
  show ?thesis
    using reconcileConfigMap_applies [OF _ _ _ run, of "mem_look config_map_slot"]
    by (simp add: mem_stores mem_eq.semantic_equality_axioms mem_owner.owner_lib_axioms sample_defs)
qed

text \<open>
  After a successful \<open>reconcileServiceAccount\<close> the server holds the account with the desired labels
  and annotations, and no other account changed.
\<close>

lemma reconcileServiceAccount_applies:
  assumes store: "resource_store (serviceAccounts E) look (\<lambda>x. meta_key (saMeta x)) service_account_view"
    and eq: "semantic_equality (elib E)" and owner: "owner_lib (elib E)"
    and desired: "mOwnerReferences (saMeta sa) = []" "mNamespace (saMeta sa) = clNamespace cluster"
    and run: "run_state (reconcileServiceAccount E cluster sa) s = (Inr (), s')"
  shows "(\<exists>x. look (world s') (meta_key (saMeta sa)) = Some x \<and>
            mLabels (saMeta x) = mLabels (saMeta sa) \<and> mAnnotations (saMeta x) = mAnnotations (saMeta sa)) \<and>
         (\<forall>n. n \<noteq> meta_key (saMeta sa) \<longrightarrow> look (world s') n = look (world s) n)"
proof -
  let ?d = "sa\<lparr>saMeta := owned_by cluster (saMeta sa)\<rparr>"
  have "run_state (create_or_update KServiceAccount OServiceAccount (serviceAccounts E) (meta_key (saMeta ?d)) ?d
      (patch_service_account (elib E) ?d)) s = (Inr (), s')"
    using run by (simp add: reconcileServiceAccount_def Let_def owner_lib.set_owner_cluster [OF owner desired])
  from resource_store.create_or_update_post [OF store this,
      of "\<lambda>_ v. v = (mLabels (saMeta sa), mAnnotations (saMeta sa))"]
  show ?thesis
    using patch_service_account_Some semantic_equality.patch_service_account_None [OF eq]
    by (auto simp: service_account_view_def)
qed

text \<open>A Service with the managed fields of \<open>d\<close>: ports, selector, labels and annotations.\<close>

definition service_managed :: "Service \<Rightarrow> Service \<Rightarrow> Service" where
  "service_managed d old = old
     \<lparr>svSpec := (svSpec old)\<lparr>ksPorts := ksPorts (svSpec d), ksSelector := ksSelector (svSpec d)\<rparr>,
      svMeta := (svMeta old)\<lparr>mLabels := mLabels (svMeta d), mAnnotations := mAnnotations (svMeta d)\<rparr>\<rparr>"

text \<open>
  After a successful \<open>reconcileService\<close> of an unowned Service in the cluster's namespace, the server
  holds the desired Service when there was none, and otherwise the one it held with the managed fields
  of the desired one (its type, cluster IP and the remaining fields as they were); no other Service
  changed.
\<close>

lemma reconcileService_applies:
  assumes store: "resource_store (services E) look (\<lambda>x. meta_key (svMeta x)) view"
    and eq: "semantic_equality (elib E)" and owner: "owner_lib (elib E)"
    and desired: "mOwnerReferences (svMeta d) = []" "mNamespace (svMeta d) = clNamespace cluster"
    and run: "run_state (reconcileService E cluster d) s = (Inr (), s')"
  shows "(\<exists>sv. look (world s') (meta_key (svMeta d)) = Some sv \<and>
            view sv = view (case look (world s) (meta_key (svMeta d)) of
              None \<Rightarrow> d\<lparr>svMeta := owned_by cluster (svMeta d)\<rparr> | Some old \<Rightarrow> service_managed d old)) \<and>
         (\<forall>n. n \<noteq> meta_key (svMeta d) \<longrightarrow> look (world s') n = look (world s) n)"
proof -
  let ?d = "d\<lparr>svMeta := owned_by cluster (svMeta d)\<rparr>"
  have "run_state (create_or_update KService OService (services E) (meta_key (svMeta ?d)) ?d
      (patch_service (elib E) ?d)) s = (Inr (), s')"
    using run owner_lib.set_owner_cluster [OF owner desired] by (simp add: reconcileService_def Let_def)
  moreover have "service_managed d x = x" if "patch_service (elib E) ?d x = None" for x
    using that semantic_equality.patch_service_None [OF eq, of ?d x] by (simp add: service_managed_def)
  moreover have "x' = service_managed d x" if "patch_service (elib E) ?d x = Some x'" for x x'
    using that by (auto simp: patch_service_def service_managed_def split: if_splits)
  moreover have "meta_key (svMeta (service_managed d x)) = meta_key (svMeta x)" for x
    by (simp add: service_managed_def meta_key_def)
  ultimately show ?thesis
    using resource_store.create_or_update_post [OF store, of KService OService ?d "patch_service (elib E) ?d" s s'
        "\<lambda>old v. v = view (case old of None \<Rightarrow> ?d | Some x \<Rightarrow> service_managed d x)"]
    by fastforce
qed

lemma reconcileService_applies_witness:
  "\<exists>sv. mem_look service_slot
      (world (snd (run_state (reconcileService mem_env sample_cluster (BuildUIService sample_cluster))
        (sys_with sample_cluster)))) (NN ''peerdb-ui'' ''default'') = Some sv \<and>
      ksPorts (svSpec sv) = [service_port ''http'' 3000]"
proof -
  let ?d = "BuildUIService sample_cluster"
  let ?r = "run_state (reconcileService mem_env sample_cluster ?d) (sys_with sample_cluster)"
  have "fst ?r = Inr ()" by code_simp
  then have run: "?r = (Inr (), snd ?r)" by (cases ?r) simp
  have key: "meta_key (svMeta ?d) = NN ''peerdb-ui'' ''default''"
    and ns: "mNamespace (svMeta ?d) = clNamespace sample_cluster"
    and ports: "ksPorts (svSpec ?d) = [service_port ''http'' 3000]"
    by (simp_all add: BuildUIService_def sample_defs Let_def meta_key_def)
  have "mem_look service_slot (world (sys_with sample_cluster)) (NN ''peerdb-ui'' ''default'') = None"
    by (simp add: sys_with_def mem_defs service_slot_def)
  with reconcileService_applies [OF mem_stores(3) [folded mem_env_simps] mem_eq.semantic_equality_axioms
        [folded mem_env_simps] mem_owner.owner_lib_axioms [folded mem_env_simps] ui.svc_no_owner ns run]
  show ?thesis by (auto simp: key ports service_view_def)
qed

section \<open>Deployments: managed and unmanaged fields\<close>

text \<open>A deployment with the fields the controller manages blanked out.\<close>

definition unmanaged :: "Deployment \<Rightarrow> Deployment" where
  "unmanaged d =
     d\<lparr>dMeta := (dMeta d)\<lparr>mLabels := fmempty\<rparr>,
       dSpec := (dSpec d)
         \<lparr>dsReplicas := None,
          dsTemplate := (dsTemplate (dSpec d))
            \<lparr>ptLabels := fmempty, ptAnnotations := fmdrop AnnotationConfigHash (ptAnnotations (dsTemplate (dSpec d))),
             ptSpec := (ptSpec (dsTemplate (dSpec d)))
               \<lparr>psServiceAccountName := '''',
                psContainers := (case psContainers (ptSpec (dsTemplate (dSpec d))) of
                   [] \<Rightarrow> []
                 | c # cs \<Rightarrow> c\<lparr>cImage := '''', cEnv := [], cEnvFrom := [], cPorts := [], cResources := no_resources\<rparr> # cs)\<rparr>\<rparr>\<rparr>\<rparr>"

lemma fmdrop_fmupd_same: "fmdrop k (fmupd k v m) = fmdrop k m"
  by (rule fmap_ext) simp

lemma fmupd_twice: "fmupd k v (fmupd k v' m) = fmupd k v m"
  by (rule fmap_ext) simp

text \<open>
  (C20) Merging the desired Deployment over the live one keeps every field the controller does not
  manage, sets every field it manages to the desired value, and is idempotent. Managed are the labels,
  the replicas, the pod labels, the service account, the config-hash annotation (when the desired
  Deployment has one; the other annotations stay), and of the first container the image, the
  environment, the ports and the resources (when both have a container; otherwise the containers stay).
\<close>

theorem merge_deployment_managed:
  "unmanaged (merge_deployment d e) = unmanaged e \<and>
   merge_deployment d (merge_deployment d e) = merge_deployment d e \<and>
   dsReplicas (dSpec (merge_deployment d e)) = dsReplicas (dSpec d) \<and>
   mLabels (dMeta (merge_deployment d e)) = mLabels (dMeta d) \<and>
   ptLabels (dsTemplate (dSpec (merge_deployment d e))) = ptLabels (dsTemplate (dSpec d)) \<and>
   psServiceAccountName (ptSpec (dsTemplate (dSpec (merge_deployment d e)))) =
     psServiceAccountName (ptSpec (dsTemplate (dSpec d))) \<and>
   (\<forall>h. fmlookup (ptAnnotations (dsTemplate (dSpec d))) AnnotationConfigHash = Some h \<longrightarrow>
        fmlookup (ptAnnotations (dsTemplate (dSpec (merge_deployment d e)))) AnnotationConfigHash = Some h) \<and>
   (fmlookup (ptAnnotations (dsTemplate (dSpec d))) AnnotationConfigHash = None \<longrightarrow>
        ptAnnotations (dsTemplate (dSpec (merge_deployment d e))) = ptAnnotations (dsTemplate (dSpec e))) \<and>
   (\<forall>dc ec ds es. psContainers (ptSpec (dsTemplate (dSpec d))) = dc # ds \<longrightarrow>
        psContainers (ptSpec (dsTemplate (dSpec e))) = ec # es \<longrightarrow>
        psContainers (ptSpec (dsTemplate (dSpec (merge_deployment d e)))) =
          ec\<lparr>cImage := cImage dc, cEnv := cEnv dc, cEnvFrom := cEnvFrom dc, cPorts := cPorts dc,
             cResources := cResources dc\<rparr> # es) \<and>
   (psContainers (ptSpec (dsTemplate (dSpec d))) = [] \<or> psContainers (ptSpec (dsTemplate (dSpec e))) = [] \<longrightarrow>
        psContainers (ptSpec (dsTemplate (dSpec (merge_deployment d e)))) = psContainers (ptSpec (dsTemplate (dSpec e))))"
  by (auto simp: unmanaged_def merge_deployment_def merge_template_def merge_containers_def
      fmdrop_fmupd_same fmupd_twice split: option.splits list.splits)

lemma merge_deployment_managed_witness:
  "fmlookup (ptAnnotations (dsTemplate (dSpec (merge_deployment
      (BuildUIDeployment mem_lib sample_cluster ''new'') (BuildUIDeployment mem_lib sample_cluster ''old'')))))
      AnnotationConfigHash = Some ''new''"
  using merge_deployment_managed [of "BuildUIDeployment mem_lib sample_cluster ''new''"
      "BuildUIDeployment mem_lib sample_cluster ''old''"]
  by (simp add: ui.pod_annotations label_simps)

section \<open>Deployments: well-formedness\<close>

text \<open>
  What the API server demands of a Deployment as such: the selector is not empty and matches the pod
  labels; there is a container; the containers have different names; the ports of a container have
  different names, and numbers between 1 and 65535.
\<close>

definition wf_container :: "Container \<Rightarrow> bool" where
  "wf_container c \<longleftrightarrow> cName c \<noteq> '''' \<and> distinct (map cpName (cPorts c)) \<and>
     list_all (\<lambda>p. 1 \<le> cpContainerPort p \<and> cpContainerPort p \<le> 65535) (cPorts c)"

definition wf_deployment :: "Deployment \<Rightarrow> bool" where
  "wf_deployment d \<longleftrightarrow>
     dsSelector (dSpec d) \<noteq> fmempty \<and> smap_sub (dsSelector (dSpec d)) (ptLabels (dsTemplate (dSpec d))) \<and>
     psContainers (ptSpec (dsTemplate (dSpec d))) \<noteq> [] \<and>
     distinct (map cName (psContainers (ptSpec (dsTemplate (dSpec d))))) \<and>
     list_all wf_container (psContainers (ptSpec (dsTemplate (dSpec d))))"

lemma wf_built:
  assumes "component_builder build service sfx cmp"
    and "length (psContainers (ptSpec (dsTemplate (dSpec (build L c h))))) = 1"
      "list_all wf_container (psContainers (ptSpec (dsTemplate (dSpec (build L c h)))))"
  shows "wf_deployment (build L c h)"
proof -
  have "fmlookup (SelectorLabels (clName c) cmp) ''app.kubernetes.io/component'' = Some cmp"
    by (simp add: SelectorLabels_def label_simps)
  then have "SelectorLabels (clName c) cmp \<noteq> fmempty" by auto
  then show ?thesis
    using assms(2,3) component_builder.selects_own_pods [OF assms(1), of L c h]
    by (auto simp: wf_deployment_def component_builder.dep_selector [OF assms(1)] length_Suc_conv)
qed

lemma wf_merge [wf_intros]:
  assumes "wf_deployment d" "wf_deployment e" "dsSelector (dSpec e) = dsSelector (dSpec d)"
  shows "wf_deployment (merge_deployment d e)"
proof -
  obtain dc ds where d: "psContainers (ptSpec (dsTemplate (dSpec d))) = dc # ds"
    using assms(1) by (auto simp: wf_deployment_def neq_Nil_conv)
  obtain ec es where e: "psContainers (ptSpec (dsTemplate (dSpec e))) = ec # es"
    using assms(2) by (auto simp: wf_deployment_def neq_Nil_conv)
  show ?thesis
    using assms by (simp add: wf_deployment_def merge_deployment_def merge_template_def merge_containers_def
        wf_container_def d e)
qed

text \<open>
  (C28) The Deployments of the control plane are well-formed, whatever the spec of the cluster, and stay
  so: merging a well-formed desired Deployment over a well-formed live one with the same selector (which
  the API server does not let change) gives a well-formed one, even where containers were injected
  behind the first.
\<close>

theorem deployments_wellformed:
  "wf_deployment (BuildFlowAPIDeployment L c h) \<and> wf_deployment (BuildPeerDBServerDeployment L c h) \<and>
   wf_deployment (BuildUIDeployment L c h) \<and>
   (wf_deployment d \<and> wf_deployment e \<and> dsSelector (dSpec e) = dsSelector (dSpec d) \<longrightarrow>
      wf_deployment (merge_deployment d e))"
proof -
  have "wf_deployment (BuildFlowAPIDeployment L c h)"
    by (rule wf_built [OF flow_api.component_builder_axioms]) (simp_all add: build_defs Let_def piece_defs wf_container_def)
  moreover have "wf_deployment (BuildPeerDBServerDeployment L c h)"
    by (rule wf_built [OF server.component_builder_axioms]) (simp_all add: build_defs Let_def piece_defs wf_container_def)
  moreover have "wf_deployment (BuildUIDeployment L c h)"
    by (rule wf_built [OF ui.component_builder_axioms]) (simp_all add: build_defs Let_def piece_defs wf_container_def)
  ultimately show ?thesis by (simp add: wf_merge)
qed

lemma deployments_wellformed_witness:
  "wf_deployment (merge_deployment (BuildUIDeployment mem_lib sample_cluster ''new'') (BuildUIDeployment mem_lib sample_cluster ''old''))"
  using deployments_wellformed [of mem_lib sample_cluster "''new''"
      "BuildUIDeployment mem_lib sample_cluster ''new''" "BuildUIDeployment mem_lib sample_cluster ''old''"]
    deployments_wellformed [of mem_lib sample_cluster "''old''"]
  by (simp add: ui.dep_selector)

section \<open>Deployments: reconciliation\<close>

text \<open>
  How \<open>reconcileDeployment\<close> runs on an unowned Deployment of the cluster's namespace: after the
  ownership step it depends on what the Get answers.
\<close>

lemma reconcileDeployment_run:
  assumes owner: "owner_lib (elib E)"
    and desired: "mOwnerReferences (dMeta d) = []" "mNamespace (dMeta d) = clNamespace cluster"
    and get: "rGet (deployments E) (meta_key (dMeta d)) (world s) = (r, w1)"
  defines "d' \<equiv> d\<lparr>dMeta := owned_by cluster (dMeta d)\<rparr>"
    and "s1 \<equiv> s\<lparr>world := w1, log := log s @ [EGet KDeployment (meta_key (dMeta d))]\<rparr>"
  shows "run_state (reconcileDeployment E cluster d ready) s =
    (case r of
       Inl e \<Rightarrow> if IsNotFound e
               then run_state (on_ok (kcreate ODeployment (deployments E) d') (\<lambda>_. ok False)) s1
               else (Inl e, s1)
     | Inr existing \<Rightarrow>
         (let ready' = (ready \<and> dtReplicas (dStatus existing) \<le> dtReadyReplicas (dStatus existing));
              merged = merge_deployment d' existing
          in if \<not> eqDeploymentSpec (elib E) (dSpec existing) (dSpec merged)
             then (case run_state (kupdate ODeployment (deployments E) merged) s1 of
                     (Inl e, s2) \<Rightarrow> (if IsConflict e then Inr ready' else Inl e, s2)
                   | (Inr _, s2) \<Rightarrow> (Inr ready', s2))
             else (Inr ready', s1)))"
  using owner_lib.set_owner_cluster [OF owner desired] get
  by (cases r)
    (auto simp: reconcileDeployment_def kget_def kupdate_def d'_def s1_def Let_def not_less split: prod.splits sum.splits)

text \<open>
  (C12) A successful \<open>reconcileDeployment\<close> applied the desired Deployment, for any part \<open>view\<close> of a
  Deployment that the server stores as it is written. A missing Deployment is created, owned by the
  cluster, and reported not ready. An existing one is reported ready exactly when the caller's flag was
  set and no replica is unready; when its spec and the merged one compare equal, it is only read;
  otherwise the one write is the Update of the merged Deployment, which the server stored, or refused
  with a conflict and left the store alone. Other Deployments never change.
\<close>

theorem reconcileDeployment_applies:
  assumes store: "resource_store (deployments E) look (\<lambda>x. meta_key (dMeta x)) view"
    and owner: "owner_lib (elib E)"
    and desired: "mOwnerReferences (dMeta d) = []" "mNamespace (dMeta d) = clNamespace cluster"
    and run: "run_state (reconcileDeployment E cluster d ready) s = (Inr r, s')"
  shows "let k = meta_key (dMeta d); d' = d\<lparr>dMeta := owned_by cluster (dMeta d)\<rparr> in
     (case look (world s) k of
        None \<Rightarrow> \<not> r \<and> log s' = log s @ [EGet KDeployment k, ECreate (ODeployment d')] \<and>
          (\<exists>ob. look (world s') k = Some ob \<and> view ob = view d')
      | Some e \<Rightarrow>
          (r \<longleftrightarrow> ready \<and> dtReplicas (dStatus e) \<le> dtReadyReplicas (dStatus e)) \<and>
          (if eqDeploymentSpec (elib E) (dSpec e) (dSpec (merge_deployment d' e))
           then log s' = log s @ [EGet KDeployment k] \<and> look (world s') = look (world s)
           else log s' = log s @ [EGet KDeployment k, EUpdate (ODeployment (merge_deployment d' e))] \<and>
             (\<exists>w1 answer. rGet (deployments E) k (world s) = (Inr e, w1) \<and>
                rUpdate (deployments E) (merge_deployment d' e) w1 = (answer, world s') \<and>
                (case answer of
                   Inr ob \<Rightarrow> look (world s') k = Some ob \<and> view ob = view (merge_deployment d' e)
                 | Inl err \<Rightarrow> err = Conflict \<and> look (world s') = look (world s))))) \<and>
     (\<forall>n. n \<noteq> k \<longrightarrow> look (world s') n = look (world s) n)"
proof -
  let ?k = "meta_key (dMeta d)" and ?d = "d\<lparr>dMeta := owned_by cluster (dMeta d)\<rparr>"
  obtain rg w1 where get: "rGet (deployments E) ?k (world s) = (rg, w1)" by fastforce
  note run' = run [unfolded reconcileDeployment_run [OF owner desired get]]
  show ?thesis
  proof (cases rg)
    case (Inl e)
    with run' have "e = NotFound" by (simp add: IsNotFound_def split: if_splits)
    with run' Inl obtain ob where r: "\<not> r" "log s' = log s @ [EGet KDeployment ?k, ECreate (ODeployment ?d)]"
      and create: "rCreate (deployments E) ?d w1 = (Inr ob, world s')"
      by (auto simp: kcreate_def split: prod.splits sum.splits)
    have "look (world s) ?k = None" "look w1 = look (world s)"
      using resource_store.get_missing [OF store] get Inl \<open>e = NotFound\<close> by blast+
    with r resource_store.create_done [OF store create] show ?thesis by (simp add: Let_def)
  next
    case (Inr e)
    have look: "look (world s) ?k = Some e" "look w1 = look (world s)" and key: "meta_key (dMeta e) = ?k"
      using resource_store.get_found [OF store] get Inr by blast+
    let ?m = "merge_deployment ?d e"
    have m: "meta_key (dMeta ?m) = ?k"
      using key by (simp add: merge_deployment_def meta_key_def)
    show ?thesis
    proof (cases "eqDeploymentSpec (elib E) (dSpec e) (dSpec ?m)")
      case True
      with run' Inr look show ?thesis by (auto simp: Let_def)
    next
      case False
      obtain u w2 where upd: "rUpdate (deployments E) ?m w1 = (u, w2)" by fastforce
      with run' Inr False have w2: "world s' = w2" "log s' = log s @ [EGet KDeployment ?k, EUpdate (ODeployment ?m)]"
        and r: "r = (ready \<and> dtReplicas (dStatus e) \<le> dtReadyReplicas (dStatus e))"
        and u: "u = Inl Conflict \<or> (\<exists>ob. u = Inr ob)"
        by (auto simp: kupdate_def Let_def IsConflict_def split: sum.splits if_splits)
      from u resource_store.update_outcome [OF store upd] look m
      have "case u of Inr ob \<Rightarrow> look w2 ?k = Some ob \<and> view ob = view ?m
          | Inl err \<Rightarrow> err = Conflict \<and> look w2 = look (world s)"
        and "\<forall>n. n \<noteq> ?k \<longrightarrow> look w2 n = look (world s) n"
        by auto
      with get Inr upd look r w2 False show ?thesis by (cases u) (simp_all add: Let_def)
    qed
  qed
qed

lemmas mem_laws =
  mem_eq.semantic_equality_axioms [folded mem_env_simps] mem_owner.owner_lib_axioms [folded mem_env_simps]
  mem_cond.condition_lib_axioms [folded mem_env_simps]

lemma sample_flow_api_deployment:
  "mOwnerReferences (dMeta (BuildFlowAPIDeployment mem_lib sample_cluster h)) = []"
  "mNamespace (dMeta (BuildFlowAPIDeployment mem_lib sample_cluster h)) = clNamespace sample_cluster"
  "meta_key (dMeta (BuildFlowAPIDeployment mem_lib sample_cluster h)) = NN ''peerdb-flow-api'' ''default''"
  by (simp_all add: flow_api.no_owner flow_api.dep_namespace flow_api.dep_key sample_defs)

definition sys_with_deployment :: "PeerDBCluster \<Rightarrow> Deployment \<Rightarrow> memw sys" where
  "sys_with_deployment c d = (sys_with c)\<lparr>world := (world (sys_with c))\<lparr>meDeployments := [d]\<rparr>\<rparr>"

lemma reconcileDeployment_applies_witness:
  "\<exists>ob. mem_look deployment_slot
      (world (snd (run_state (reconcileDeployment mem_env sample_cluster (BuildFlowAPIDeployment mem_lib sample_cluster ''new'') True)
        (sys_with_deployment sample_cluster (BuildFlowAPIDeployment mem_lib sample_cluster ''old'')))))
      (NN ''peerdb-flow-api'' ''default'') = Some ob \<and>
      fmlookup (ptAnnotations (dsTemplate (dSpec ob))) AnnotationConfigHash = Some ''new''"
proof -
  let ?d = "BuildFlowAPIDeployment mem_lib sample_cluster ''new''" and ?e = "BuildFlowAPIDeployment mem_lib sample_cluster ''old''"
  let ?s = "sys_with_deployment sample_cluster ?e"
  let ?r = "run_state (reconcileDeployment mem_env sample_cluster ?d True) ?s"
  let ?m = "merge_deployment (?d\<lparr>dMeta := owned_by sample_cluster (dMeta ?d)\<rparr>) ?e"
  have hash: "fmlookup (ptAnnotations (dsTemplate (dSpec ?m))) AnnotationConfigHash = Some ''new''"
    "fmlookup (ptAnnotations (dsTemplate (dSpec ?e))) AnnotationConfigHash = Some ''old''"
    by (simp_all add: merge_deployment_def merge_template_def flow_api.pod_annotations label_simps)
  then have "dsTemplate (dSpec ?e) \<noteq> dsTemplate (dSpec ?m)" by auto
  then have differ: "\<not> eqDeploymentSpec (elib mem_env) (dSpec ?e) (dSpec ?m)" by (auto simp: mem_lib_def)
  have "fst ?r = Inr True" by code_simp
  then have run: "?r = (Inr True, snd ?r)" by (cases ?r) simp
  have stored: "mem_look deployment_slot (world ?s) (NN ''peerdb-flow-api'' ''default'') = Some ?e"
    by (simp add: sys_with_deployment_def mem_look_def slKey_def deployment_slot_def sample_flow_api_deployment)
  from reconcileDeployment_applies [OF mem_stores(4) [folded mem_env_simps] mem_laws(2) sample_flow_api_deployment(1,2) run]
    stored differ
  obtain w1 answer where
    upd: "rUpdate (deployments mem_env) ?m w1 = (answer, world (snd ?r))"
    and get: "rGet (deployments mem_env) (NN ''peerdb-flow-api'' ''default'') (world ?s) = (Inr ?e, w1)"
    and out: "case answer of Inr ob \<Rightarrow> mem_look deployment_slot (world (snd ?r)) (NN ''peerdb-flow-api'' ''default'') = Some ob \<and>
        deployment_view ob = deployment_view ?m
      | Inl err \<Rightarrow> err = Conflict \<and> mem_look deployment_slot (world (snd ?r)) = mem_look deployment_slot (world ?s)"
    unfolding Let_def sample_flow_api_deployment(3) by auto
  have "isl answer \<longleftrightarrow> isl (fst (rUpdate (deployments mem_env) ?m (world ?s)))"
    using upd get by (simp add: mem_client_def mem_get_def split: option.splits)
  moreover have "\<not> isl (fst (rUpdate (deployments mem_env) ?m (world ?s)))" by code_simp
  ultimately obtain ob where "answer = Inr ob" by (cases answer) auto
  with out hash show ?thesis by (auto simp: deployment_view_def)
qed

section \<open>Jobs: readiness\<close>

lemma job_outcome_cases:
  "job_outcome cs = JobSucceeded \<Longrightarrow> \<exists>c\<in>set cs. jcType c = JobComplete \<and> jcStatus c = ConditionTrue"
  "job_outcome cs = JobBroken \<Longrightarrow> \<exists>c\<in>set cs. jcType c = JobFailed \<and> jcStatus c = ConditionTrue"
  "job_outcome cs = JobRunning \<Longrightarrow>
     \<forall>c\<in>set cs. jcStatus c = ConditionTrue \<longrightarrow> jcType c \<noteq> JobComplete \<and> jcType c \<noteq> JobFailed"
  by (induction cs) (auto split: if_splits)

text \<open>
  \<open>reconcileJob\<close> drives a job to completion: a missing job is created; a job that succeeded is
  left alone and keeps the caller's flag; a failed one is deleted, so that the next reconciliation
  creates it anew; a running one is left alone. In all but the second case the flag becomes false.
  Errors of the calls are passed on, except that deleting a job that is already gone is no error.
\<close>

lemma reconcileJob_run:
  assumes own: "SetControllerReference (elib E) ''PeerDBCluster'' (clMeta cluster) (jMeta d) = Inr m"
    and get: "rGet (jobs E) (meta_key m) (world s) = (g, w1)"
  defines "s1 \<equiv> s\<lparr>world := w1, log := log s @ [EGet KJob (meta_key m)]\<rparr>"
  shows "run_state (reconcileJob E cluster d ready) s =
    (case g of
       Inl e \<Rightarrow>
         if e = NotFound
         then (let (c, w2) = rCreate (jobs E) (d\<lparr>jMeta := m\<rparr>) w1
               in (map_sum id (\<lambda>_. False) c, s1\<lparr>world := w2, log := log s1 @ [ECreate (OJob (d\<lparr>jMeta := m\<rparr>))]\<rparr>))
         else (Inl e, s1)
     | Inr j \<Rightarrow>
         (case job_outcome (jConditions j) of
            JobSucceeded \<Rightarrow> (Inr ready, s1)
          | JobRunning \<Rightarrow> (Inr False, s1)
          | JobBroken \<Rightarrow>
              (let (x, w2) = rDelete (jobs E) j w1
               in (case x of Inl e \<Rightarrow> if e = NotFound then Inr False else Inl e | Inr _ \<Rightarrow> Inr False,
                   s1\<lparr>world := w2, log := log s1 @ [EDelete (OJob j)]\<rparr>))))"
  using own get
  by (auto simp: reconcileJob_def kcall_defs s1_def Let_def IsNotFound_def
      split: prod.splits sum.splits job_state.splits)

text \<open>
  (C19) A failed job is retried: when the stored job has failed, a first successful \<open>reconcileJob\<close>
  deletes it and a second one creates the desired job, owned by the cluster, anew; both report not
  ready, and make no other call. The server then holds the job under that name, with any part \<open>view\<close> of
  it that the server stores as it is written.
\<close>

theorem reconcileJob_retries:
  assumes store: "deletable_store (jobs E) look (\<lambda>x. meta_key (jMeta x)) view" and owner: "owner_lib (elib E)"
    and desired: "mOwnerReferences (jMeta d) = []" "mNamespace (jMeta d) = clNamespace cluster"
    and failed: "look (world s) (meta_key (jMeta d)) = Some j" "job_outcome (jConditions j) = JobBroken"
    and run1: "run_state (reconcileJob E cluster d ready) s = (Inr r1, s1)"
    and run2: "run_state (reconcileJob E cluster d ready) s1 = (Inr r2, s2)"
  shows "let k = meta_key (jMeta d); d' = d\<lparr>jMeta := owned_by cluster (jMeta d)\<rparr> in
    \<not> r1 \<and> look (world s1) k = None \<and> log s1 = log s @ [EGet KJob k, EDelete (OJob j)] \<and>
    \<not> r2 \<and> (\<exists>j'. look (world s2) k = Some j' \<and> view j' = view d') \<and> log s2 = log s1 @ [EGet KJob k, ECreate (OJob d')]"
proof -
  let ?k = "meta_key (jMeta d)" and ?d = "d\<lparr>jMeta := owned_by cluster (jMeta d)\<rparr>"
  note st = deletable_store.axioms(1) [OF store]
  note own = owner_lib.set_owner_cluster [OF owner desired]
  obtain g w1 where get: "rGet (jobs E) (meta_key (owned_by cluster (jMeta d))) (world s) = (g, w1)" by fastforce
  have "g \<noteq> Inl NotFound"
    using resource_store.get_missing [OF st, of ?k "world s" w1] get failed(1) by auto
  with run1 reconcileJob_run [OF own get, of ready] have "\<exists>x. g = Inr x"
    by (cases g) auto
  then have g: "g = Inr j" and look1: "look w1 = look (world s)" and key: "meta_key (jMeta j) = ?k"
    using resource_store.get_found [OF st] get failed(1) by fastforce+
  obtain x w2 where del: "rDelete (jobs E) j w1 = (x, w2)" by fastforce
  with run1 reconcileJob_run [OF own get, of ready] g failed(2)
  have r1: "\<not> r1" "world s1 = w2" "log s1 = log s @ [EGet KJob ?k, EDelete (OJob j)]"
    and x: "x = Inr () \<or> x = Inl NotFound"
    by (auto split: sum.splits if_splits)
  have gone: "look (world s1) ?k = None"
    using x del deletable_store.delete_done [OF store, of j w1 w2]
      deletable_store.delete_gone [OF store, of j w1 w2] key r1(2) look1 by auto
  obtain g' w3 where get': "rGet (jobs E) (meta_key (owned_by cluster (jMeta d))) (world s1) = (g', w3)" by fastforce
  have "g' \<noteq> Inr y" for y
    using resource_store.get_found [OF st, of ?k "world s1" y w3] get' gone by auto
  with run2 reconcileJob_run [OF own get', of ready] have "g' = Inl NotFound"
    by (cases g') (auto split: if_splits)
  moreover obtain y w4 where create: "rCreate (jobs E) ?d w3 = (y, w4)" by fastforce
  ultimately obtain j' where r2: "\<not> r2" "world s2 = w4" "y = Inr j'"
      "log s2 = log s1 @ [EGet KJob ?k, ECreate (OJob ?d)]"
    using run2 reconcileJob_run [OF own get', of ready] by (cases y) auto
  from resource_store.create_done [OF st, of ?d w3 j' w4] create r2 r1(1,3) gone show ?thesis by (simp add: Let_def)
qed

text \<open>A server on which the job of the search attributes has failed.\<close>

definition sys_failed_job :: "memw sys" where
  "sys_failed_job = (sys_with sample_cluster)\<lparr>world := (world (sys_with sample_cluster))
     \<lparr>meJobs := [(BuildSearchAttributeJob sample_cluster)\<lparr>jConditions := [\<lparr>jcType = JobFailed, jcStatus = ConditionTrue\<rparr>]\<rparr>]\<rparr>\<rparr>"

lemma reconcileJob_retries_witness:
  "let d = BuildSearchAttributeJob sample_cluster;
       s1 = snd (run_state (reconcileJob mem_env sample_cluster d True) sys_failed_job);
       s2 = snd (run_state (reconcileJob mem_env sample_cluster d True) s1)
   in \<exists>j'. mem_look job_slot (world s2) (meta_key (jMeta d)) = Some j' \<and> jSpec j' = jSpec d"
proof -
  let ?d = "BuildSearchAttributeJob sample_cluster"
  let ?r1 = "run_state (reconcileJob mem_env sample_cluster ?d True) sys_failed_job"
  let ?r2 = "run_state (reconcileJob mem_env sample_cluster ?d True) (snd ?r1)"
  have unowned: "mOwnerReferences (jMeta ?d) = []" "mNamespace (jMeta ?d) = clNamespace sample_cluster"
    by (simp_all add: build_defs Let_def new_meta_def)
  have "fst ?r1 = Inr False" "fst ?r2 = Inr False" by code_simp+
  then have run: "?r1 = (Inr False, snd ?r1)" "?r2 = (Inr False, snd ?r2)"
    by (metis prod.collapse)+
  have "mem_look job_slot (world sys_failed_job) (meta_key (jMeta ?d)) =
      Some (?d\<lparr>jConditions := [\<lparr>jcType = JobFailed, jcStatus = ConditionTrue\<rparr>]\<rparr>)"
    by (simp add: sys_failed_job_def mem_look_def slKey_def job_slot_def)
  from reconcileJob_retries [OF mem_job_deletes [folded mem_env_simps] mem_laws(2) unowned this _ run] show ?thesis
    by (simp add: Let_def)
qed

text \<open>A job that lets \<open>reconcileJob\<close> report ready is stored and has succeeded.\<close>

lemma reconcileJob_ready:
  assumes store: "resource_store (jobs E) look (\<lambda>x. meta_key (jMeta x)) view"
    and owner: "owner_lib (elib E)"
    and desired: "mOwnerReferences (jMeta d) = []" "mNamespace (jMeta d) = clNamespace cluster"
    and run: "run_state (reconcileJob E cluster d ready) s = (Inr True, s')"
  shows "ready \<and> (\<exists>j. look (world s) (meta_key (jMeta d)) = Some j \<and> job_outcome (jConditions j) = JobSucceeded) \<and>
         look (world s') = look (world s) \<and> log s' = log s @ [EGet KJob (meta_key (jMeta d))]"
proof -
  obtain g w1 where get: "rGet (jobs E) (meta_key (jMeta d)) (world s) = (g, w1)" by fastforce
  with run obtain j where j: "g = Inr j" "job_outcome (jConditions j) = JobSucceeded" "ready"
    and s': "s' = s\<lparr>world := w1, log := log s @ [EGet KJob (meta_key (jMeta d))]\<rparr>"
    by (auto simp: reconcileJob_def owner_lib.set_owner_cluster [OF owner desired] kcall_defs Let_def
        split: prod.splits sum.splits if_splits job_state.splits)
  with resource_store.get_found [OF store] get show ?thesis by auto
qed

text \<open>The keys of the enabled init jobs.\<close>

definition init_job_keys :: "PeerDBCluster \<Rightarrow> NamespacedName list" where
  "init_job_keys c =
     (if ns_enabled c then [meta_key (jMeta (BuildNamespaceRegistrationJob c))] else []) @
     (if sa_enabled c then [meta_key (jMeta (BuildSearchAttributeJob c))] else [])"

lemma init_jobs_unowned:
  "mOwnerReferences (jMeta (BuildNamespaceRegistrationJob c)) = []"
  "mNamespace (jMeta (BuildNamespaceRegistrationJob c)) = clNamespace c"
  "mOwnerReferences (jMeta (BuildSearchAttributeJob c)) = []"
  "mNamespace (jMeta (BuildSearchAttributeJob c)) = clNamespace c"
  by (simp_all add: build_defs Let_def new_meta_def)

lemma maintenance_jobs_unowned:
  "mOwnerReferences (jMeta (BuildStartMaintenanceJob c)) = []" "mNamespace (jMeta (BuildStartMaintenanceJob c)) = clNamespace c"
  "mOwnerReferences (jMeta (BuildEndMaintenanceJob c)) = []" "mNamespace (jMeta (BuildEndMaintenanceJob c)) = clNamespace c"
  by (simp_all add: build_defs Let_def new_meta_def)

text \<open>
  (C13) The cluster counts as initialized only when every enabled init job is stored and has
  succeeded; then \<open>reconcileInitJobs\<close> wrote nothing, it only read those jobs, in order.
\<close>

theorem reconcileInitJobs_ready_sound:
  assumes store: "resource_store (jobs E) look (\<lambda>x. meta_key (jMeta x)) view"
    and owner: "owner_lib (elib E)"
    and run: "run_state (reconcileInitJobs E cluster ready) s = (Inr True, s')"
  shows "ready \<and>
    list_all (\<lambda>n. \<exists>j. look (world s) n = Some j \<and> job_outcome (jConditions j) = JobSucceeded) (init_job_keys cluster) \<and>
    look (world s') = look (world s) \<and> log s' = log s @ map (EGet KJob) (init_job_keys cluster)"
proof -
  have "\<exists>r1 s1. run_state (if ns_enabled cluster
            then reconcileJob E cluster (BuildNamespaceRegistrationJob cluster) ready else ok ready) s = (Inr r1, s1) \<and>
        run_state (if sa_enabled cluster
            then reconcileJob E cluster (BuildSearchAttributeJob cluster) r1 else ok r1) s1 = (Inr True, s')"
    using run by (auto simp: reconcileInitJobs_def split: prod.splits sum.splits)
  then obtain r1 s1 where
      1: "run_state (if ns_enabled cluster
            then reconcileJob E cluster (BuildNamespaceRegistrationJob cluster) ready else ok ready) s = (Inr r1, s1)"
    and 2: "run_state (if sa_enabled cluster
            then reconcileJob E cluster (BuildSearchAttributeJob cluster) r1 else ok r1) s1 = (Inr True, s')"
    by blast
  from 2 reconcileJob_ready [OF store owner init_jobs_unowned(3,4), of cluster r1 s1 s']
  have r1: "r1" and second: "look (world s') = look (world s1)"
      "log s' = log s1 @ (if sa_enabled cluster then [EGet KJob (meta_key (jMeta (BuildSearchAttributeJob cluster)))] else [])"
      "sa_enabled cluster \<Longrightarrow> \<exists>j. look (world s1) (meta_key (jMeta (BuildSearchAttributeJob cluster))) = Some j \<and>
          job_outcome (jConditions j) = JobSucceeded"
    by (auto split: if_splits)
  from 1 r1 reconcileJob_ready [OF store owner init_jobs_unowned(1,2), of cluster ready s s1]
  have "ready" "look (world s1) = look (world s)"
      "log s1 = log s @ (if ns_enabled cluster then [EGet KJob (meta_key (jMeta (BuildNamespaceRegistrationJob cluster)))] else [])"
      "ns_enabled cluster \<Longrightarrow> \<exists>j. look (world s) (meta_key (jMeta (BuildNamespaceRegistrationJob cluster))) = Some j \<and>
          job_outcome (jConditions j) = JobSucceeded"
    by (auto split: if_splits)
  with second show ?thesis by (auto simp: init_job_keys_def)
qed

text \<open>A server on which both init jobs have succeeded.\<close>

definition finished :: "Job \<Rightarrow> Job" where
  "finished j = j\<lparr>jConditions := [\<lparr>jcType = JobComplete, jcStatus = ConditionTrue\<rparr>]\<rparr>"

definition sys_initialized :: "PeerDBCluster \<Rightarrow> memw sys" where
  "sys_initialized c = (sys_with c)\<lparr>world := (world (sys_with c))
     \<lparr>meJobs := [finished (BuildNamespaceRegistrationJob c), finished (BuildSearchAttributeJob c)]\<rparr>\<rparr>"

lemma reconcileInitJobs_ready_sound_witness:
  "log (snd (run_state (reconcileInitJobs mem_env sample_cluster True) (sys_initialized sample_cluster))) =
     map (EGet KJob) (init_job_keys sample_cluster)"
proof -
  let ?r = "run_state (reconcileInitJobs mem_env sample_cluster True) (sys_initialized sample_cluster)"
  have "fst ?r = Inr True" by code_simp
  then have run: "?r = (Inr True, snd ?r)" by (cases ?r) simp
  show ?thesis
    using reconcileInitJobs_ready_sound [OF mem_stores(6) [folded mem_env_simps] mem_laws(2) run]
    by (simp add: sys_initialized_def sys_with_def)
qed

end
