(* ===== verification/MaintenanceWindows.thy ===== *)
theory MaintenanceWindows
  imports Samples
begin

text \<open>
  Maintenance windows (\<open>parseTimeOfDay\<close> and \<open>isInMaintenanceWindow\<close> of
  internal/controller/peerdbcluster\_controller.go). A window is a cyclic interval of minutes of the
  day in a time zone, from its start (included) to its end (excluded).
\<close>

definition parseTimeOfDay :: "string \<Rightarrow> string + nat" where
  "parseTimeOfDay s =
     (case time_parse_15_04 s of
        None \<Rightarrow> Inl ''parsing time''
      | Some (hour, minute) \<Rightarrow> Inr (hour * 60 + minute))"

text \<open>The zone of a window: UTC, unless its name can be loaded.\<close>

definition window_location :: "(string \<Rightarrow> bool) \<Rightarrow> MaintenanceWindow \<Rightarrow> location" where
  "window_location tz window =
     (case mwTimeZone window of
        None \<Rightarrow> UTC
      | Some name \<Rightarrow> (case load_location tz name of None \<Rightarrow> UTC | Some l \<Rightarrow> l))"

definition isInMaintenanceWindow :: "'w env \<Rightarrow> MaintenanceWindow \<Rightarrow> int \<Rightarrow> bool" where
  "isInMaintenanceWindow E window now =
     (let loc = window_location (tzNames E) window;
          offset = zoneOffset E loc now;
          nowMinutes = clock_hour now offset * 60 + clock_minute now offset
      in case parseTimeOfDay (mwStart window) of
           Inl _ \<Rightarrow> True
         | Inr start \<Rightarrow>
             (case parseTimeOfDay (mwEnd window) of
                Inl _ \<Rightarrow> True
              | Inr finish \<Rightarrow>
                  if start \<le> finish then nowMinutes \<ge> start \<and> nowMinutes < finish
                  else nowMinutes \<ge> start \<or> nowMinutes < finish))"

section \<open>Times of day\<close>

lemma parseTimeOfDay_bound: "parseTimeOfDay s = Inr n \<Longrightarrow> n < 1440"
  by (auto simp: parseTimeOfDay_def dest: time_parse_bounds split: option.splits)

definition two_digits :: "nat \<Rightarrow> string" where
  "two_digits n = [digit_char (n div 10), digit_char n]"

lemma getnum_two_digits: "n < 100 \<Longrightarrow> getnum (two_digits n @ r) fixed = Some (n, r)"
  by (simp add: two_digits_def getnum_def digit_val_digit_char)

text \<open>
  \<open>parseTimeOfDay\<close> reads back every time of day written HH:MM, and whatever it accepts is a
  minute of the day.
\<close>

lemma parseTimeOfDay_roundtrip:
  "(h < 24 \<longrightarrow> m < 60 \<longrightarrow> parseTimeOfDay (two_digits h @ '':'' @ two_digits m) = Inr (h * 60 + m)) \<and>
   (\<forall>n. parseTimeOfDay s = Inr n \<longrightarrow> n < 1440)"
proof (intro conjI allI impI)
  show "parseTimeOfDay (two_digits h @ '':'' @ two_digits m) = Inr (h * 60 + m)" if "h < 24" "m < 60"
    using that getnum_two_digits [of m "[]"]
    by (simp add: parseTimeOfDay_def time_parse_15_04_def getnum_two_digits)
  show "n < 1440" if "parseTimeOfDay s = Inr n" for n
    using that by (rule parseTimeOfDay_bound)
qed

lemma parseTimeOfDay_roundtrip_witness: "parseTimeOfDay ''23:05'' = Inr 1385"
  using parseTimeOfDay_roundtrip [of 23 5 "''23:05''"] by (simp add: two_digits_def digit_char_def)

section \<open>Windows\<close>

lemma cyclic_interval:
  fixes n s e :: nat
  assumes "n < 1440" "s < 1440" "e < 1440"
  shows "(if s \<le> e then s \<le> n \<and> n < e else s \<le> n \<or> n < e) \<longleftrightarrow>
         (int n - int s) mod 1440 < (int e - int s) mod 1440"
proof -
  have red: "(x - int s) mod 1440 = (if int s \<le> x then x - int s else x - int s + 1440)"
    if "0 \<le> x" "x < 1440" for x
  proof (cases "int s \<le> x")
    case True
    then show ?thesis using that by simp
  next
    case False
    have "(x - int s) mod 1440 = (x - int s + 1440) mod 1440" by simp
    also have "\<dots> = x - int s + 1440"
      by (rule mod_pos_pos_trivial) (use False that assms(2) in linarith)+
    finally show ?thesis using False by simp
  qed
  show ?thesis
    using assms red [of "int n"] red [of "int e"] by (auto split: if_splits)
qed

text \<open>
  (C18) A window with parsable bounds is open exactly when the current minute of the day, in the
  window's zone, lies in the cyclic interval from its start to its end, also across midnight; so a
  window whose start is its end never opens. A window with a bound that does not parse is always open.
\<close>

theorem isInMaintenanceWindow_cyclic:
  "isInMaintenanceWindow E window now =
     (case (parseTimeOfDay (mwStart window), parseTimeOfDay (mwEnd window)) of
        (Inr s, Inr e) \<Rightarrow>
          (let nowMinute = (now + zoneOffset E (window_location (tzNames E) window) now) div 60
           in (nowMinute - int s) mod 1440 < (int e - int s) mod 1440)
      | _ \<Rightarrow> True)"
proof (cases "\<exists>s e. parseTimeOfDay (mwStart window) = Inr s \<and> parseTimeOfDay (mwEnd window) = Inr e")
  case False
  then show ?thesis by (auto simp: isInMaintenanceWindow_def Let_def split: sum.splits)
next
  case True
  then obtain s e where p: "parseTimeOfDay (mwStart window) = Inr s" "parseTimeOfDay (mwEnd window) = Inr e"
    by blast
  let ?off = "zoneOffset E (window_location (tzNames E) window) now"
  let ?n = "clock_hour now ?off * 60 + clock_minute now ?off"
  have "?n < 1440"
    using clock_bounds [of now ?off] by linarith
  moreover have "((now + ?off) div 60 - int s) mod 1440 = (int ?n - int s) mod 1440"
    using clock_minute_of_day [of now ?off] by (metis mod_diff_left_eq)
  ultimately show ?thesis
    using p cyclic_interval [of ?n s e] parseTimeOfDay_bound
    by (simp add: isInMaintenanceWindow_def Let_def)
qed

text \<open>A window that crosses midnight is open on both sides of it.\<close>

definition night_window :: MaintenanceWindow where
  "night_window = \<lparr>mwStart = ''23:00'', mwEnd = ''03:00'', mwTimeZone = None\<rparr>"

lemma night_window_open:
  "isInMaintenanceWindow mem_env night_window (23 * 3600 + 1800)"
  "isInMaintenanceWindow mem_env night_window (2 * 3600)"
  "\<not> isInMaintenanceWindow mem_env night_window (12 * 3600)"
  by code_simp+

end
