(* ===== verification/Upgrade.thy ===== *)
theory Upgrade
  imports ClusterOps MaintenanceWindows "HOL-Library.Sublist"
begin

text \<open>
  The upgrade state machine of the cluster controller
  (internal/controller/peerdbcluster\_controller.go: \<open>reconcileUpgrade\<close>, the \<open>upgradePhase*\<close> functions
  and \<open>reconcileUpgradeLifecycle\<close>). The machine's state is the phase kept in the cluster's status; one
  reconciliation makes at most one step. \<open>phase_step\<close> is the abstract machine, an inductive relation;
  the code's functions are proved to refine it.
\<close>

section \<open>The upgrade status\<close>

definition set_upgrade :: "(UpgradeStatus \<Rightarrow> UpgradeStatus) \<Rightarrow> PeerDBCluster \<Rightarrow> PeerDBCluster" where
  "set_upgrade f cluster = set_status (\<lambda>s. s\<lparr>csUpgrade := map_option f (csUpgrade s)\<rparr>) cluster"

definition set_message :: "string \<Rightarrow> PeerDBCluster \<Rightarrow> PeerDBCluster" where
  "set_message msg = set_upgrade (\<lambda>u. u\<lparr>upMessage := msg\<rparr>)"

definition set_phase :: "UpgradePhase \<Rightarrow> string \<Rightarrow> PeerDBCluster \<Rightarrow> PeerDBCluster" where
  "set_phase p msg = set_upgrade (\<lambda>u. u\<lparr>upPhase := p, upMessage := msg\<rparr>)"

lemma set_upgrade_simps [simp]:
  "clMeta (set_upgrade f c) = clMeta c" "clSpec (set_upgrade f c) = clSpec c"
  "csConditions (clStatus (set_upgrade f c)) = csConditions (clStatus c)"
  "csUpgrade (clStatus (set_upgrade f c)) = map_option f (csUpgrade (clStatus c))"
  by (simp_all add: set_upgrade_def set_status_def)

lemma set_phase_simps [simp]:
  "clMeta (set_phase p m c) = clMeta c" "clSpec (set_phase p m c) = clSpec c"
  "csConditions (clStatus (set_phase p m c)) = csConditions (clStatus c)"
  "csUpgrade (clStatus (set_phase p m c)) = map_option (\<lambda>u. u\<lparr>upPhase := p, upMessage := m\<rparr>) (csUpgrade (clStatus c))"
  "clMeta (set_message m c) = clMeta c" "clSpec (set_message m c) = clSpec c"
  "csConditions (clStatus (set_message m c)) = csConditions (clStatus c)"
  "csUpgrade (clStatus (set_message m c)) = map_option (\<lambda>u. u\<lparr>upMessage := m\<rparr>) (csUpgrade (clStatus c))"
  by (simp_all add: set_phase_def set_message_def)

lemma cond_set_upgrade [simp]:
  "cond_status L (set_phase p m c) T = cond_status L c T" "cond_status L (set_message m c) T = cond_status L c T"
  "cond_reason L (set_phase p m c) T = cond_reason L c T" "cond_reason L (set_message m c) T = cond_reason L c T"
  by (simp_all add: cond_status_def cond_reason_def)

text \<open>The arrow in the messages, in UTF-8.\<close>

definition arrow :: string where
  "arrow = [CHR 0xE2, CHR 0x86, CHR 0x92]"

definition versions_text :: "UpgradeStatus \<Rightarrow> string" where
  "versions_text u = upFromVersion u @ '' '' @ arrow @ '' '' @ upToVersion u"

text \<open>Dereferencing a nil \<open>cluster.Status.Upgrade\<close> would panic; the callers rule it out.\<close>

definition nil_dereference :: api_error where
  "nil_dereference = OtherError ''invalid memory address or nil pointer dereference''"

definition with_upgrade ::
    "PeerDBCluster \<Rightarrow> (UpgradeStatus \<Rightarrow> ('w, 'a) gprog) \<Rightarrow> ('w, 'a) gprog" where
  "with_upgrade cluster f =
     (case csUpgrade (clStatus cluster) of None \<Rightarrow> fail nil_dereference | Some u \<Rightarrow> f u)"

lemma emits_with_upgrade [emits_intros]:
  "(\<And>u. csUpgrade (clStatus c) = Some u \<Longrightarrow> emits P (f u)) \<Longrightarrow> emits P (with_upgrade c f)"
  unfolding with_upgrade_def by (intro emits_intros)

type_synonym 'w step = "('w, PeerDBCluster \<times> Result) gprog"

section \<open>The phases\<close>

definition upgrade_policy :: "PeerDBCluster \<Rightarrow> UpgradePolicy" where
  "upgrade_policy cluster =
     (case clUpgradePolicy (clSpec cluster) of None \<Rightarrow> UpgradePolicyAutomatic | Some p \<Rightarrow> p)"

definition window_closed :: "'w env \<Rightarrow> PeerDBCluster \<Rightarrow> int \<Rightarrow> bool" where
  "window_closed E cluster now \<longleftrightarrow>
     (case clMaintenanceWindow (clSpec cluster) of None \<Rightarrow> False | Some w \<Rightarrow> \<not> isInMaintenanceWindow E w now)"

definition dependencies_unhealthy :: "lib \<Rightarrow> PeerDBCluster \<Rightarrow> bool" where
  "dependencies_unhealthy L cluster \<longleftrightarrow>
     cond_status L cluster ConditionCatalogReady = Some ConditionFalse \<or>
     cond_status L cluster ConditionTemporalReady = Some ConditionFalse"

definition dependencies_recovered :: "lib \<Rightarrow> PeerDBCluster \<Rightarrow> bool" where
  "dependencies_recovered L cluster \<longleftrightarrow>
     cond_status L cluster ConditionCatalogReady \<in> {None, Some ConditionTrue} \<and>
     cond_status L cluster ConditionTemporalReady \<in> {None, Some ConditionTrue}"

definition upgradePhaseWaiting :: "'w env \<Rightarrow> PeerDBCluster \<Rightarrow> 'w step" where
  "upgradePhaseWaiting E cluster =
     (if upgrade_policy cluster = UpgradePolicyManual
      then ok (set_message ''Upgrade pending: set spec.upgradePolicy to Automatic to proceed'' cluster,
               requeue_after 30)
      else do {
        now \<leftarrow> time_now E;
        if window_closed E cluster now
        then do {
          event EventTypeNormal ReasonMaintenanceWindow ''MaintenanceWindow'' ''Upgrade waiting for maintenance window'';
          ok (set_phase UpgradePhaseWaiting ''Waiting for maintenance window'' cluster, requeue_after 60)
        }
        else if dependencies_unhealthy (elib E) cluster
        then do {
          cluster2 \<leftarrow> set_cond E ConditionDegraded ConditionTrue ReasonDegraded
                        ''Upgrade blocked: dependencies unhealthy''
                        (set_phase UpgradePhaseBlocked ''Blocked: dependencies unhealthy'' cluster);
          event EventTypeWarning ReasonUpgradeBlocked ''UpgradeBlocked'' ''Upgrade blocked: dependencies unhealthy'';
          ok (cluster2, requeue_after 30)
        }
        else if clMaintenance (clSpec cluster) \<noteq> None
        then ok (set_phase UpgradePhaseStartMaintenance ''Starting maintenance mode'' cluster, requeue)
        else ok (set_phase UpgradePhaseConfig ''Reconciling configuration'' cluster, requeue)
      })"

definition upgradePhaseBlocked :: "'w env \<Rightarrow> PeerDBCluster \<Rightarrow> 'w step" where
  "upgradePhaseBlocked E cluster =
     (if dependencies_recovered (elib E) cluster
      then do {
        cluster2 \<leftarrow> set_cond E ConditionDegraded ConditionFalse ReasonReconcileComplete ''Dependencies healthy''
                      (set_phase UpgradePhaseWaiting ''Dependencies healthy, re-evaluating upgrade'' cluster);
        ok (cluster2, requeue)
      }
      else do {
        cluster2 \<leftarrow> set_cond E ConditionDegraded ConditionTrue ReasonDegraded
                      ''Upgrade blocked: dependencies unhealthy'' cluster;
        ok (set_message ''Blocked: dependencies unhealthy (CatalogReady/TemporalReady)'' cluster2, requeue_after 30)
      })"

text \<open>Which enabled init job has failed, asked in order; an error of the query counts as no.\<close>

definition failed_init_job :: "'w env \<Rightarrow> PeerDBCluster \<Rightarrow> ('w, string option) prog" where
  "failed_init_job E cluster =
     (let version = SanitizeVersion (clVersion (clSpec cluster));
          nsJob = clName cluster @ ''-temporal-ns-register-'' @ version;
          saJob = clName cluster @ ''-temporal-search-attr-'' @ version
      in do {
        nsFailed \<leftarrow> (if ns_enabled cluster then isJobFailed E (clNamespace cluster) nsJob else ok False);
        if nsFailed = Inr True then ret (Some nsJob)
        else do {
          saFailed \<leftarrow> (if sa_enabled cluster then isJobFailed E (clNamespace cluster) saJob else ok False);
          ret (if saFailed = Inr True then Some saJob else None)
        }
      })"

definition upgradePhaseInitJobs :: "'w env \<Rightarrow> PeerDBCluster \<Rightarrow> 'w step" where
  "upgradePhaseInitJobs E cluster =
     on_ok (reconcileInitJobs E cluster True) (\<lambda>initReady.
       if \<not> initReady
       then do {
         failed \<leftarrow> failed_init_job E cluster;
         case failed of
           Some jobName \<Rightarrow> do {
             let msg = ''Blocked: init job '' @ fmt_q jobName @ '' failed'';
             event EventTypeWarning ReasonUpgradeBlocked ''UpgradeBlocked'' msg;
             cluster2 \<leftarrow> set_cond E ConditionInitialized ConditionFalse ReasonJobFailed msg
                           (set_phase UpgradePhaseBlocked msg cluster);
             ok (cluster2, requeue_after 10)
           }
         | None \<Rightarrow> do {
             cluster2 \<leftarrow> set_cond E ConditionInitialized ConditionFalse ReasonJobsPending
                           ''Init jobs have not completed yet''
                           (set_message ''Waiting for init jobs to complete'' cluster);
             ok (cluster2, requeue_after 10)
           }
       }
       else do {
         cluster2 \<leftarrow> set_cond E ConditionInitialized ConditionTrue ReasonJobsCompleted
                       ''All init jobs completed successfully'' cluster;
         ok (set_phase UpgradePhaseFlowAPI ''Rolling out Flow API'' cluster2, requeue)
       })"

definition rollout_message :: "string \<Rightarrow> Deployment \<Rightarrow> int \<Rightarrow> string" where
  "rollout_message componentName dep n =
     ''Rolling out '' @ componentName @ '' ('' @
     fmt_d (dtUpdatedReplicas (dStatus dep)) @ ''/'' @ fmt_d n @ '' updated, '' @
     fmt_d (dtAvailableReplicas (dStatus dep)) @ ''/'' @ fmt_d n @ '' available)''"

definition desired_replicas :: "Deployment \<Rightarrow> int" where
  "desired_replicas deployment =
     (case dsReplicas (dSpec deployment) of None \<Rightarrow> 1 | Some n \<Rightarrow> n)"

definition upgradePhaseComponent ::
    "'w env \<Rightarrow> PeerDBCluster \<Rightarrow> Deployment \<Rightarrow> Service \<Rightarrow> string \<Rightarrow> UpgradePhase \<Rightarrow> 'w step" where
  "upgradePhaseComponent E cluster deployment service componentName nextPhase =
     with_upgrade cluster (\<lambda>upgrade.
     on_ok (reconcileDeploymentAndService E cluster deployment service True) (\<lambda>_.
     on_ok (kget KDeployment (deployments E) (meta_key (dMeta deployment))) (\<lambda>existing.
       let n = desired_replicas deployment in
       if \<not> deploymentRolledOut existing n
       then ok (set_message (rollout_message componentName existing n) cluster, requeue_after 10)
       else if nextPhase = UpgradePhaseComplete
       then do {
         let msg = ''Upgrade complete: '' @ versions_text upgrade;
         cluster2 \<leftarrow> set_cond E ConditionUpgradeInProgress ConditionFalse ReasonUpgradeComplete msg
                       (set_phase UpgradePhaseComplete msg cluster);
         event EventTypeNormal ReasonUpgradeComplete ''UpgradeComplete''
           (''Version upgrade complete: '' @ versions_text upgrade);
         ok (cluster2, done_result)
       }
       else ok (set_phase nextPhase (''Rolling out '' @ phase_string nextPhase) cluster, requeue))))"

definition upgradePhaseMaintenanceJob ::
    "'w env \<Rightarrow> PeerDBCluster \<Rightarrow> Job \<Rightarrow> string \<Rightarrow> UpgradePhase \<Rightarrow> 'w step" where
  "upgradePhaseMaintenanceJob E cluster job0 phaseName nextPhase =
     with_upgrade cluster (\<lambda>upgrade.
     on_ok (own E cluster (jMeta job0)) (\<lambda>m.
       let job = job0\<lparr>jMeta := m\<rparr>;
           name = mName m;
           creatingReason = (if nextPhase = UpgradePhaseComplete then ReasonMaintenanceEnding
                             else ReasonMaintenanceStarting)
       in do {
         r \<leftarrow> kget KJob (jobs E) (meta_key m);
         case r of
           Inl e \<Rightarrow>
             if IsNotFound e
             then do {
               event EventTypeNormal creatingReason phaseName (''Creating maintenance job '' @ name);
               cluster2 \<leftarrow> set_cond E ConditionMaintenanceMode ConditionTrue creatingReason
                             (''Maintenance job '' @ phaseName @ '' is running'') cluster;
               on_ok (kcreate OJob (jobs E) job) (\<lambda>_.
                 ok (set_message (''Waiting for '' @ phaseName @ '' job to complete'') cluster2, requeue_after 10))
             }
             else fail e
         | Inr existing \<Rightarrow>
             (case job_outcome (jConditions existing) of
                JobSucceeded \<Rightarrow> do {
                  event EventTypeNormal ReasonMaintenanceComplete phaseName
                    (''Maintenance job '' @ name @ '' completed'');
                  if nextPhase = UpgradePhaseComplete
                  then do {
                    let msg = ''Upgrade complete: '' @ versions_text upgrade;
                    cluster2 \<leftarrow> set_cond E ConditionMaintenanceMode ConditionFalse ReasonMaintenanceComplete
                                  ''Maintenance mode ended, mirrors resumed'' cluster;
                    cluster3 \<leftarrow> set_cond E ConditionUpgradeInProgress ConditionFalse ReasonUpgradeComplete msg
                                  (set_phase UpgradePhaseComplete msg cluster2);
                    event EventTypeNormal ReasonUpgradeComplete ''UpgradeComplete''
                      (''Version upgrade complete: '' @ versions_text upgrade);
                    ok (cluster3, done_result)
                  }
                  else do {
                    cluster2 \<leftarrow> set_cond E ConditionMaintenanceMode ConditionTrue ReasonMaintenanceActive
                                  ''Maintenance mode active, mirrors paused'' cluster;
                    ok (set_phase nextPhase (''Advancing to '' @ phase_string nextPhase) cluster2, requeue)
                  }
                }
              | JobBroken \<Rightarrow> do {
                  event EventTypeWarning ReasonMaintenanceFailed phaseName
                    (''Maintenance job '' @ mName (jMeta existing) @ '' failed, deleting for retry'');
                  cluster2 \<leftarrow> set_cond E ConditionDegraded ConditionTrue ReasonMaintenanceFailed
                                (''Maintenance job '' @ phaseName @ '' failed'') cluster;
                  d \<leftarrow> kdelete OJob (jobs E) existing;
                  (case d of
                     Inl e \<Rightarrow> if IsNotFound e
                             then ok (set_message (''Maintenance job '' @ phaseName @ '' failed, retrying'') cluster2, requeue_after 10)
                             else fail e
                   | Inr _ \<Rightarrow> ok (set_message (''Maintenance job '' @ phaseName @ '' failed, retrying'') cluster2, requeue_after 10))
                }
              | JobRunning \<Rightarrow>
                  ok (set_message (''Waiting for '' @ phaseName @ '' job to complete'') cluster, requeue_after 10))
       }))"

text \<open>The switch over the phase.\<close>

definition upgrade_dispatch :: "'w env \<Rightarrow> PeerDBCluster \<Rightarrow> string \<Rightarrow> UpgradePhase \<Rightarrow> 'w step" where
  "upgrade_dispatch E cluster configHash phase =
     (case phase of
         UpgradePhaseWaiting \<Rightarrow> upgradePhaseWaiting E cluster
       | UpgradePhaseBlocked \<Rightarrow> upgradePhaseBlocked E cluster
       | UpgradePhaseStartMaintenance \<Rightarrow>
           upgradePhaseMaintenanceJob E cluster (BuildStartMaintenanceJob cluster) ''StartMaintenance'' UpgradePhaseConfig
       | UpgradePhaseConfig \<Rightarrow>
           ok (set_phase UpgradePhaseInitJobs ''Reconciling init jobs'' cluster, requeue)
       | UpgradePhaseInitJobs \<Rightarrow> upgradePhaseInitJobs E cluster
       | UpgradePhaseFlowAPI \<Rightarrow>
           upgradePhaseComponent E cluster (BuildFlowAPIDeployment (elib E) cluster configHash)
             (BuildFlowAPIService cluster) ''Flow API'' UpgradePhaseServer
       | UpgradePhaseServer \<Rightarrow>
           upgradePhaseComponent E cluster (BuildPeerDBServerDeployment (elib E) cluster configHash)
             (BuildPeerDBServerService cluster) ''PeerDB Server'' UpgradePhaseUI
       | UpgradePhaseUI \<Rightarrow>
           upgradePhaseComponent E cluster (BuildUIDeployment (elib E) cluster configHash)
             (BuildUIService cluster) ''UI''
             (if clMaintenance (clSpec cluster) \<noteq> None then UpgradePhaseEndMaintenance else UpgradePhaseComplete)
       | UpgradePhaseEndMaintenance \<Rightarrow>
           upgradePhaseMaintenanceJob E cluster (BuildEndMaintenanceJob cluster) ''EndMaintenance'' UpgradePhaseComplete
       | _ \<Rightarrow> ok (cluster, done_result))"

definition reconcileUpgrade :: "'w env \<Rightarrow> PeerDBCluster \<Rightarrow> string \<Rightarrow> 'w step" where
  "reconcileUpgrade E cluster configHash =
     with_upgrade cluster (\<lambda>upgrade. do {
       cluster1 \<leftarrow> set_cond E ConditionUpgradeInProgress ConditionTrue ReasonUpgradeInProgress
                     (''Upgrading '' @ versions_text upgrade @ '' (phase: '' @ phase_string (upPhase upgrade) @ '')'')
                     cluster;
       upgrade_dispatch E cluster1 configHash (upPhase upgrade)
     })"

section \<open>The lifecycle\<close>

text \<open>\<open>(done, result, err)\<close>: done with a result, or go on with the cluster; an error is \<open>Inl\<close>.\<close>

datatype lifecycle = Done Result | Continue PeerDBCluster

definition init_upgrade :: "PeerDBCluster \<Rightarrow> PeerDBCluster" where
  "init_upgrade cluster =
     (case csUpgrade (clStatus cluster) of
        Some _ \<Rightarrow> cluster
      | None \<Rightarrow> set_status (\<lambda>s. s\<lparr>csUpgrade := Some \<lparr>upFromVersion = '''', upToVersion = clVersion (clSpec cluster),
                  upPhase = UpgradePhaseComplete, upStartedAt = None, upMessage = ''''\<rparr>\<rparr>) cluster)"

definition request_upgrade :: "int \<Rightarrow> UpgradeStatus \<Rightarrow> PeerDBCluster \<Rightarrow> PeerDBCluster" where
  "request_upgrade now u cluster =
     set_status (\<lambda>s. s\<lparr>csUpgrade := Some \<lparr>upFromVersion = upToVersion u, upToVersion = clVersion (clSpec cluster),
       upPhase = UpgradePhaseWaiting, upStartedAt = Some now, upMessage = ''Upgrade requested''\<rparr>\<rparr>) cluster"

definition reconcileUpgradeLifecycle ::
    "'w env \<Rightarrow> PeerDBCluster \<Rightarrow> string \<Rightarrow> bool \<Rightarrow> ('w, lifecycle) gprog" where
  "reconcileUpgradeLifecycle E cluster0 configHash backupInProgress =
     (let cluster = init_upgrade cluster0 in
      if backupInProgress then ok (Continue cluster)
      else with_upgrade cluster (\<lambda>u.
        let upgradeInProgress = (upPhase u \<noteq> UpgradePhaseComplete);
            versionChanged = (clVersion (clSpec cluster) \<noteq> upToVersion u)
        in do {
          cluster1 \<leftarrow>
            (if versionChanged \<and> \<not> upgradeInProgress
             then do {
               now \<leftarrow> time_now E;
               event EventTypeNormal ReasonUpgradeInProgress ''UpgradeRequested''
                 (''Version upgrade requested: '' @ upToVersion u @ '' '' @ arrow @ '' '' @ clVersion (clSpec cluster));
               ret (request_upgrade now u cluster)
             }
             else ret cluster);
          if \<not> (versionChanged \<or> upgradeInProgress) then ok (Continue cluster1)
          else on_ok (reconcileUpgrade E cluster1 configHash) (\<lambda>(cluster2, result).
            if RequeueAfter result > 0
            then do {
              st \<leftarrow> updateStatus E (observe_generation cluster2);
              case st of
                Inl e \<Rightarrow> if IsConflict e then ok (Done requeue) else fail e
              | Inr _ \<Rightarrow> ok (Done result)
            }
            else ok (Continue cluster2))
        }))"

section \<open>The abstract machine\<close>

text \<open>
  The steps of an upgrade; \<open>m\<close> says whether the cluster configures maintenance mode when the step is
  made. A step that is not listed is not made.
\<close>

inductive phase_step :: "bool \<Rightarrow> UpgradePhase \<Rightarrow> UpgradePhase \<Rightarrow> bool" where
  block: "phase_step m UpgradePhaseWaiting UpgradePhaseBlocked"
| unblock: "phase_step m UpgradePhaseBlocked UpgradePhaseWaiting"
| start_maintenance: "m \<Longrightarrow> phase_step m UpgradePhaseWaiting UpgradePhaseStartMaintenance"
| start: "\<not> m \<Longrightarrow> phase_step m UpgradePhaseWaiting UpgradePhaseConfig"
| maintenance_started: "phase_step m UpgradePhaseStartMaintenance UpgradePhaseConfig"
| config_done: "phase_step m UpgradePhaseConfig UpgradePhaseInitJobs"
| init_failed: "phase_step m UpgradePhaseInitJobs UpgradePhaseBlocked"
| init_done: "phase_step m UpgradePhaseInitJobs UpgradePhaseFlowAPI"
| flow_api_done: "phase_step m UpgradePhaseFlowAPI UpgradePhaseServer"
| server_done: "phase_step m UpgradePhaseServer UpgradePhaseUI"
| ui_done_maintenance: "m \<Longrightarrow> phase_step m UpgradePhaseUI UpgradePhaseEndMaintenance"
| ui_done: "\<not> m \<Longrightarrow> phase_step m UpgradePhaseUI UpgradePhaseComplete"
| maintenance_ended: "phase_step m UpgradePhaseEndMaintenance UpgradePhaseComplete"

code_pred phase_step .

inductive_simps phase_step_from [simp]:
  "phase_step m UpgradePhaseComplete q" "phase_step m UpgradePhaseWaiting q" "phase_step m UpgradePhaseBlocked q"
  "phase_step m UpgradePhaseStartMaintenance q" "phase_step m UpgradePhaseConfig q"
  "phase_step m UpgradePhaseInitJobs q" "phase_step m UpgradePhaseFlowAPI q" "phase_step m UpgradePhaseServer q"
  "phase_step m UpgradePhaseUI q" "phase_step m UpgradePhaseEndMaintenance q" "phase_step m (OtherPhase x) q"

text \<open>Every step into a phase: what must have been the phase before it.\<close>

inductive_simps phase_step_into:
  "phase_step m p UpgradePhaseConfig" "phase_step m p UpgradePhaseInitJobs" "phase_step m p UpgradePhaseFlowAPI"
  "phase_step m p UpgradePhaseServer" "phase_step m p UpgradePhaseUI" "phase_step m p UpgradePhaseEndMaintenance"
  "phase_step m p UpgradePhaseComplete" "phase_step m p UpgradePhaseStartMaintenance"

subsection \<open>Histories\<close>

text \<open>
  The history of an upgrade: the phases it went through, latest first, starting in Waiting; a
  reconciliation that makes no step repeats the phase. The
  cluster's spec may change between steps, so each step has its own \<open>m\<close> out of \<open>M\<close>.
\<close>

inductive history :: "bool set \<Rightarrow> UpgradePhase list \<Rightarrow> bool" for M where
  requested: "history M [UpgradePhaseWaiting]"
| stepped: "history M (p # ps) \<Longrightarrow> m \<in> M \<Longrightarrow> q = p \<or> phase_step m p q \<Longrightarrow> history M (q # p # ps)"

text \<open>What a history must contain when the upgrade is in a given phase (earliest first).\<close>

fun milestones :: "UpgradePhase \<Rightarrow> UpgradePhase list" where
  "milestones UpgradePhaseConfig = [UpgradePhaseConfig]"
| "milestones UpgradePhaseInitJobs = [UpgradePhaseConfig, UpgradePhaseInitJobs]"
| "milestones UpgradePhaseFlowAPI = [UpgradePhaseConfig, UpgradePhaseInitJobs, UpgradePhaseFlowAPI]"
| "milestones UpgradePhaseServer =
     [UpgradePhaseConfig, UpgradePhaseInitJobs, UpgradePhaseFlowAPI, UpgradePhaseServer]"
| "milestones UpgradePhaseUI =
     [UpgradePhaseConfig, UpgradePhaseInitJobs, UpgradePhaseFlowAPI, UpgradePhaseServer, UpgradePhaseUI]"
| "milestones UpgradePhaseEndMaintenance =
     [UpgradePhaseConfig, UpgradePhaseInitJobs, UpgradePhaseFlowAPI, UpgradePhaseServer, UpgradePhaseUI,
      UpgradePhaseEndMaintenance]"
| "milestones UpgradePhaseComplete =
     [UpgradePhaseConfig, UpgradePhaseInitJobs, UpgradePhaseFlowAPI, UpgradePhaseServer, UpgradePhaseUI,
      UpgradePhaseComplete]"
| "milestones p = [p]"

lemma subseq_snoc: "subseq xs ys \<Longrightarrow> subseq (xs @ [q]) (ys @ [q])"
  by (simp add: list_emb_append_mono)

lemma milestones_step:
  "q = p \<or> phase_step m p q \<Longrightarrow> subseq (milestones q) (milestones p @ [q])"
  by (elim disjE phase_step.cases) (simp_all add: subseq_rev_drop_many)

lemma history_milestones:
  "history M ps \<Longrightarrow> ps \<noteq> [] \<and> subseq (milestones (hd ps)) (rev ps)"
proof (induction rule: history.induct)
  case (stepped p ps m q)
  from milestones_step [OF stepped.hyps(3)]
  have "subseq (milestones q) (milestones p @ [q])" .
  also have "subseq (milestones p @ [q]) (rev (p # ps) @ [q])"
    using stepped.IH by (intro subseq_snoc) simp
  finally show ?case by simp
qed simp

text \<open>With maintenance mode configured throughout, the maintenance phases bracket the rollout.\<close>

fun bracketed :: "UpgradePhase \<Rightarrow> UpgradePhase list" where
  "bracketed UpgradePhaseWaiting = [UpgradePhaseWaiting]"
| "bracketed UpgradePhaseBlocked = [UpgradePhaseBlocked]"
| "bracketed UpgradePhaseStartMaintenance = [UpgradePhaseStartMaintenance]"
| "bracketed UpgradePhaseComplete =
     UpgradePhaseStartMaintenance # milestones UpgradePhaseEndMaintenance @ [UpgradePhaseComplete]"
| "bracketed p = UpgradePhaseStartMaintenance # milestones p"

lemma bracketed_step: "q = p \<or> phase_step True p q \<Longrightarrow> subseq (bracketed q) (bracketed p @ [q])"
  by (elim disjE phase_step.cases) (simp_all add: subseq_rev_drop_many)

lemma history_bracketed: "history {True} ps \<Longrightarrow> subseq (bracketed (hd ps)) (rev ps)"
proof (induction rule: history.induct)
  case (stepped p ps m q)
  then have "q = p \<or> phase_step True p q" by simp
  from bracketed_step [OF this]
  have "subseq (bracketed q) (bracketed p @ [q])" .
  also have "subseq (bracketed p @ [q]) (rev (p # ps) @ [q])"
    using stepped.IH by (intro subseq_snoc) simp
  finally show ?case by simp
qed simp

lemma history_complete:
  assumes "history M (UpgradePhaseComplete # ps)"
  shows "subseq [UpgradePhaseConfig, UpgradePhaseInitJobs, UpgradePhaseFlowAPI, UpgradePhaseServer, UpgradePhaseUI]
           (rev ps)"
proof -
  have "subseq ([UpgradePhaseConfig, UpgradePhaseInitJobs, UpgradePhaseFlowAPI, UpgradePhaseServer, UpgradePhaseUI] @
      [UpgradePhaseComplete]) (rev ps @ [UpgradePhaseComplete])"
    using history_milestones [OF assms] by simp
  then show ?thesis unfolding subseq_append .
qed

lemma history_complete_bracketed:
  assumes "history {True} (UpgradePhaseComplete # ps)"
  shows "subseq [UpgradePhaseStartMaintenance, UpgradePhaseConfig, UpgradePhaseInitJobs, UpgradePhaseFlowAPI,
           UpgradePhaseServer, UpgradePhaseUI, UpgradePhaseEndMaintenance] (rev ps)"
proof -
  have "subseq ([UpgradePhaseStartMaintenance, UpgradePhaseConfig, UpgradePhaseInitJobs, UpgradePhaseFlowAPI,
           UpgradePhaseServer, UpgradePhaseUI, UpgradePhaseEndMaintenance] @ [UpgradePhaseComplete])
      (rev ps @ [UpgradePhaseComplete])"
    using history_bracketed [OF assms] by simp
  then show ?thesis unfolding subseq_append .
qed

section \<open>The code refines the machine\<close>

text \<open>
  \<open>moves R c c'\<close>: from cluster \<open>c\<close> to \<open>c'\<close> only the status changed; the upgrade keeps its versions
  and its start time, and its phase stays or makes a step of \<open>R\<close>.
\<close>

definition moves :: "(UpgradePhase \<Rightarrow> UpgradePhase \<Rightarrow> bool) \<Rightarrow> PeerDBCluster \<Rightarrow> PeerDBCluster \<Rightarrow> bool" where
  "moves R c c' \<longleftrightarrow>
     clSpec c' = clSpec c \<and> clMeta c' = clMeta c \<and>
     (\<exists>u u'. csUpgrade (clStatus c) = Some u \<and> csUpgrade (clStatus c') = Some u' \<and>
        upFromVersion u' = upFromVersion u \<and> upToVersion u' = upToVersion u \<and> upStartedAt u' = upStartedAt u \<and>
        (upPhase u' = upPhase u \<or> R (upPhase u) (upPhase u')))"

definition maintained :: "PeerDBCluster \<Rightarrow> bool" where
  "maintained c \<longleftrightarrow> clMaintenance (clSpec c) \<noteq> None"

lemma moves_simps [simp]:
  "moves R (with_condition L t ty st reason msg c) c' \<longleftrightarrow> moves R c c'"
  "moves R c (with_condition L t ty st reason msg c') \<longleftrightarrow> moves R c c'"
  "moves R c (set_message m c') \<longleftrightarrow> moves R c c'"
  by (auto simp: moves_def)

lemma moves_set_phase:
  "csUpgrade (clStatus c) = Some u \<Longrightarrow> moves R c (set_phase q m c) \<longleftrightarrow> q = upPhase u \<or> R (upPhase u) q"
  by (auto simp: moves_def)

lemma moves_refl: "csUpgrade (clStatus c) = Some u \<Longrightarrow> moves R c c"
  by (simp add: moves_def)

lemma moves_set_phase_with:
  "csUpgrade (clStatus c) = Some u \<Longrightarrow>
     moves R c (set_phase q m (with_condition L t ty st reason msg c)) \<longleftrightarrow> q = upPhase u \<or> R (upPhase u) q"
  by (auto simp: moves_def)

lemmas moves_rules = moves_set_phase moves_refl moves_set_phase_with

lemma moves_mono: "moves R c c' \<Longrightarrow> (\<And>p q. R p q \<Longrightarrow> R' p q) \<Longrightarrow> moves R' c c'"
  unfolding moves_def by blast

lemma waiting_moves:
  assumes "run_state (upgradePhaseWaiting E c) s = (Inr (c', res), s')"
    and "csUpgrade (clStatus c) = Some u" and "upPhase u = UpgradePhaseWaiting"
  shows "moves (phase_step (maintained c)) c c'"
  using assms by (auto simp: upgradePhaseWaiting_def moves_rules maintained_def split: if_splits)

lemma blocked_moves:
  assumes "run_state (upgradePhaseBlocked E c) s = (Inr (c', res), s')"
    and "csUpgrade (clStatus c) = Some u" and "upPhase u = UpgradePhaseBlocked"
  shows "moves (phase_step m) c c'"
  using assms by (auto simp: upgradePhaseBlocked_def moves_rules split: if_splits)

lemma init_jobs_moves:
  assumes "run_state (upgradePhaseInitJobs E c) s = (Inr (c', res), s')"
    and "csUpgrade (clStatus c) = Some u" and "upPhase u = UpgradePhaseInitJobs"
  shows "moves (phase_step m) c c'"
  using assms
  by (auto simp: upgradePhaseInitJobs_def moves_rules Let_def split: if_splits prod.splits sum.splits option.splits)

lemma component_moves:
  assumes "run_state (upgradePhaseComponent E c d sv name nxt) s = (Inr (c', res), s')"
    and "csUpgrade (clStatus c) = Some u" and "R (upPhase u) nxt"
  shows "moves R c c'"
  using assms
  by (auto simp: upgradePhaseComponent_def with_upgrade_def moves_rules Let_def split: if_splits prod.splits sum.splits)

lemma maintenance_job_moves:
  assumes "run_state (upgradePhaseMaintenanceJob E c j name nxt) s = (Inr (c', res), s')"
    and "csUpgrade (clStatus c) = Some u" and "R (upPhase u) nxt"
  shows "moves R c c'"
  using assms
  by (auto simp: upgradePhaseMaintenanceJob_def with_upgrade_def moves_rules Let_def
      split: if_splits prod.splits sum.splits job_state.splits)

lemma dispatch_moves:
  assumes run: "run_state (upgrade_dispatch E c h (upPhase u)) s = (Inr (c', res), s')"
    and u: "csUpgrade (clStatus c) = Some u"
  shows "moves (phase_step (maintained c)) c c'"
proof (cases "upPhase u")
  case UpgradePhaseWaiting
  with run show ?thesis by (auto simp: upgrade_dispatch_def intro: waiting_moves [OF _ u])
next
  case UpgradePhaseBlocked
  with run show ?thesis by (auto simp: upgrade_dispatch_def intro: blocked_moves [OF _ u])
next
  case UpgradePhaseStartMaintenance
  with run show ?thesis by (auto simp: upgrade_dispatch_def intro!: maintenance_job_moves [OF _ u])
next
  case UpgradePhaseConfig
  with run u show ?thesis by (auto simp: upgrade_dispatch_def moves_rules)
next
  case UpgradePhaseInitJobs
  with run show ?thesis by (auto simp: upgrade_dispatch_def intro: init_jobs_moves [OF _ u])
next
  case UpgradePhaseFlowAPI
  with run show ?thesis by (auto simp: upgrade_dispatch_def intro!: component_moves [OF _ u])
next
  case UpgradePhaseServer
  with run show ?thesis by (auto simp: upgrade_dispatch_def intro!: component_moves [OF _ u])
next
  case UpgradePhaseUI
  with run show ?thesis
    by (cases "maintained c") (auto simp: upgrade_dispatch_def maintained_def intro!: component_moves [OF _ u])
next
  case UpgradePhaseEndMaintenance
  with run show ?thesis by (auto simp: upgrade_dispatch_def intro!: maintenance_job_moves [OF _ u])
qed (use run u in \<open>auto simp: upgrade_dispatch_def moves_rules\<close>)

lemma reconcileUpgrade_moves:
  assumes run: "run_state (reconcileUpgrade E c h) s = (Inr (c', res), s')"
  shows "moves (phase_step (maintained c)) c c'"
proof -
  from run obtain u where u: "csUpgrade (clStatus c) = Some u"
    by (auto simp: reconcileUpgrade_def with_upgrade_def split: option.splits)
  with run obtain t msg where
    d: "run_state (upgrade_dispatch E (with_condition (elib E) t ConditionUpgradeInProgress ConditionTrue
        ReasonUpgradeInProgress msg c) h (upPhase u)) s = (Inr (c', res), s')"
    by (auto simp: reconcileUpgrade_def with_upgrade_def)
  from dispatch_moves [OF d] u show ?thesis by (simp add: maintained_def)
qed

text \<open>
  (C3) The code refines the abstract machine: whatever the server answers, a run of
  \<open>reconcileUpgrade\<close> that returns no error leaves the phase or makes one step of \<open>phase_step\<close>; spec,
  metadata, the versions of the upgrade and its start time stay as they are.
\<close>

theorem reconcileUpgrade_refines:
  assumes "run_state (reconcileUpgrade E c h) s = (Inr (c', res), s')"
  shows "moves (phase_step (maintained c)) c c'"
  using assms by (rule reconcileUpgrade_moves)

text \<open>A cluster in the middle of an upgrade.\<close>

definition upgrading :: "UpgradePhase \<Rightarrow> PeerDBCluster \<Rightarrow> PeerDBCluster" where
  "upgrading p = set_status (\<lambda>s. s\<lparr>csUpgrade := Some \<lparr>upFromVersion = ''v0.36.6'', upToVersion = ''v0.36.7'',
     upPhase = p, upStartedAt = Some 0, upMessage = ''''\<rparr>\<rparr>)"

lemma reconcileUpgrade_refines_witness:
  "moves (phase_step False) (upgrading UpgradePhaseConfig sample_cluster)
     (set_phase UpgradePhaseInitJobs ''Reconciling init jobs''
       (with_condition mem_lib 0 ConditionUpgradeInProgress ConditionTrue ReasonUpgradeInProgress
         (''Upgrading v0.36.6 '' @ arrow @ '' v0.36.7 (phase: Config)'') (upgrading UpgradePhaseConfig sample_cluster)))"
proof -
  let ?c = "upgrading UpgradePhaseConfig sample_cluster"
  have "run_state (reconcileUpgrade mem_env ?c ''h'') (sys_with ?c) =
      (Inr (set_phase UpgradePhaseInitJobs ''Reconciling init jobs''
       (with_condition mem_lib 0 ConditionUpgradeInProgress ConditionTrue ReasonUpgradeInProgress
         (''Upgrading v0.36.6 '' @ arrow @ '' v0.36.7 (phase: Config)'') ?c), requeue), sys_with ?c)"
    by (simp add: reconcileUpgrade_def with_upgrade_def upgrading_def set_status_def upgrade_dispatch_def
        versions_text_def sys_with_def empty_memw_def)
  from reconcileUpgrade_refines [OF this] show ?thesis
    by (simp add: maintained_def upgrading_def set_status_def sample_defs)
qed

subsection \<open>Whole upgrades\<close>

text \<open>
  The upgrade statuses that successive reconciliations leave behind, latest first. Between two of
  them anything else may happen to the cluster object and to the server; \<open>M\<close> bounds whether
  maintenance mode is configured.
\<close>

inductive upgrade_run :: "'w env \<Rightarrow> bool set \<Rightarrow> UpgradeStatus list \<Rightarrow> bool" for E M where
  requested: "upPhase u = UpgradePhaseWaiting \<Longrightarrow> upgrade_run E M [u]"
| reconciled: "upgrade_run E M (u # us) \<Longrightarrow> csUpgrade (clStatus c) = Some u \<Longrightarrow> maintained c \<in> M \<Longrightarrow>
     run_state (reconcileUpgrade E c h) s = (Inr (c', res), s') \<Longrightarrow> csUpgrade (clStatus c') = Some u' \<Longrightarrow>
     upgrade_run E M (u' # u # us)"

lemma upgrade_run_history: "upgrade_run E M us \<Longrightarrow> history M (map upPhase us)"
proof (induction rule: upgrade_run.induct)
  case (requested u)
  then show ?case by (simp add: history.requested)
next
  case (reconciled u us c h s c' res s' u')
  from reconcileUpgrade_moves [OF reconciled.hyps(4)] reconciled.hyps(2,5)
  have "upPhase u' = upPhase u \<or> phase_step (maintained c) (upPhase u) (upPhase u')"
    by (auto simp: moves_def)
  with reconciled.IH reconciled.hyps(3) show ?case
    by (auto intro: history.stepped)
qed

text \<open>
  (C4) An upgrade that the code brought to Complete went through configuration, init jobs, Flow API,
  PeerDB server and UI, in this order, however the server answered, whatever else happened to the
  cluster in between and however often the upgrade was blocked; and with maintenance mode configured
  all along, the rollout lies between StartMaintenance and EndMaintenance.
\<close>

theorem upgrade_phases_ordered:
  assumes "upgrade_run E M (u # us)" and "upPhase u = UpgradePhaseComplete"
  shows "subseq [UpgradePhaseConfig, UpgradePhaseInitJobs, UpgradePhaseFlowAPI, UpgradePhaseServer, UpgradePhaseUI]
           (rev (map upPhase us)) \<and>
         (M = {True} \<longrightarrow>
           subseq [UpgradePhaseStartMaintenance, UpgradePhaseConfig, UpgradePhaseInitJobs, UpgradePhaseFlowAPI,
             UpgradePhaseServer, UpgradePhaseUI, UpgradePhaseEndMaintenance] (rev (map upPhase us)))"
proof -
  have "history M (UpgradePhaseComplete # map upPhase us)"
    using upgrade_run_history [OF assms(1)] assms(2) by simp
  then show ?thesis
    using history_complete history_complete_bracketed by blast
qed

text \<open>
  Repeated calls of \<open>reconcileUpgrade\<close>, each on the cluster and the server state that the last one left,
  collecting the upgrade statuses. It stands for repeated reconciliations whose status updates are
  stored and read back; it is no function of the repository.
\<close>

fun drive :: "'w env \<Rightarrow> string \<Rightarrow> nat \<Rightarrow> PeerDBCluster \<Rightarrow> 'w sys \<Rightarrow> UpgradeStatus list \<Rightarrow> UpgradeStatus list" where
  "drive E h 0 c s us = us"
| "drive E h (Suc n) c s us =
     (case run_state (reconcileUpgrade E c h) s of
        (Inl _, _) \<Rightarrow> us
      | (Inr (c', _), s') \<Rightarrow>
          (case csUpgrade (clStatus c') of None \<Rightarrow> us | Some u \<Rightarrow> drive E h n c' s' (u # us)))"

lemma drive_upgrade_run:
  "upgrade_run E M (u # us) \<Longrightarrow> csUpgrade (clStatus c) = Some u \<Longrightarrow> maintained c \<in> M \<Longrightarrow>
     upgrade_run E M (drive E h n c s (u # us))"
proof (induction n arbitrary: u us c s)
  case (Suc n)
  show ?case
  proof (cases "run_state (reconcileUpgrade E c h) s")
    case (Pair r s')
    show ?thesis
    proof (cases r)
      case (Inr p)
      obtain c' res where p: "p = (c', res)" by (cases p)
      with Pair Inr have run: "run_state (reconcileUpgrade E c h) s = (Inr (c', res), s')" by simp
      from reconcileUpgrade_moves [OF run] Suc.prems(2)
      obtain u' where u': "csUpgrade (clStatus c') = Some u'" and m: "maintained c' = maintained c"
        by (auto simp: moves_def maintained_def)
      from upgrade_run.reconciled [OF Suc.prems run u'] have "upgrade_run E M (u' # u # us)" .
      from Suc.IH [OF this u', of s'] m Suc.prems(3) run u' show ?thesis by simp
    qed (use Pair Suc.prems in simp)
  qed
qed simp

text \<open>A server on which the init jobs have succeeded and all Deployments are rolled out.\<close>

definition rolled_out :: "Deployment \<Rightarrow> Deployment" where
  "rolled_out d = d\<lparr>dStatus := \<lparr>dtObservedGeneration = mGeneration (dMeta d), dtReplicas = 1, dtUpdatedReplicas = 1,
     dtReadyReplicas = 1, dtAvailableReplicas = 1\<rparr>\<rparr>"

definition sys_rolled_out :: "PeerDBCluster \<Rightarrow> string \<Rightarrow> memw sys" where
  "sys_rolled_out c h = (sys_initialized c)\<lparr>world := (world (sys_initialized c))
     \<lparr>meDeployments := map rolled_out [BuildFlowAPIDeployment mem_lib c h, BuildPeerDBServerDeployment mem_lib c h,
        BuildUIDeployment mem_lib c h]\<rparr>\<rparr>"

definition sample_upgrade_run :: "UpgradeStatus list" where
  "sample_upgrade_run =
     (let c = upgrading UpgradePhaseWaiting sample_cluster
      in drive mem_env ''h'' 6 c (sys_rolled_out c ''h'')
           [\<lparr>upFromVersion = ''v0.36.6'', upToVersion = ''v0.36.7'', upPhase = UpgradePhaseWaiting,
             upStartedAt = Some 0, upMessage = ''''\<rparr>])"

text \<open>Six reconciliations complete the upgrade there.\<close>

lemma sample_upgrade_phases:
  "map upPhase sample_upgrade_run =
     [UpgradePhaseComplete, UpgradePhaseUI, UpgradePhaseServer, UpgradePhaseFlowAPI, UpgradePhaseInitJobs,
      UpgradePhaseConfig, UpgradePhaseWaiting]"
  by code_simp

lemma sample_upgrade_is_run: "upgrade_run mem_env {False} sample_upgrade_run"
  unfolding sample_upgrade_run_def Let_def
  by (rule drive_upgrade_run)
    (simp_all add: upgrade_run.requested upgrading_def set_status_def maintained_def sample_defs)

lemma upgrade_phases_ordered_witness:
  "subseq [UpgradePhaseConfig, UpgradePhaseInitJobs, UpgradePhaseFlowAPI, UpgradePhaseServer, UpgradePhaseUI]
     (rev (map upPhase (tl sample_upgrade_run)))"
proof -
  obtain u us where run: "sample_upgrade_run = u # us" and u: "upPhase u = UpgradePhaseComplete"
    using sample_upgrade_phases by (cases sample_upgrade_run) auto
  have "upgrade_run mem_env {False} (u # us)"
    using sample_upgrade_is_run by (simp only: run)
  from upgrade_phases_ordered [OF this u] show ?thesis
    unfolding run by simp
qed

section \<open>Gates\<close>

text \<open>
  (C9) A component's phase is left only for the next one, and only when the Deployment that the
  server holds at the end of the run is rolled out: its latest generation is observed, and all
  desired replicas are updated and available. Until then the reconciliation asks to be called again
  after ten seconds.
\<close>

theorem component_phase_gate:
  assumes store: "resource_store (deployments E) look (\<lambda>x. meta_key (dMeta x)) view"
    and run: "run_state (upgradePhaseComponent E c d sv name nxt) s = (Inr (c', res), s')"
    and u: "csUpgrade (clStatus c) = Some u" and u': "csUpgrade (clStatus c') = Some u'"
  shows "(upPhase u' = upPhase u \<and> res = requeue_after 10) \<or>
         (upPhase u' = nxt \<and> RequeueAfter res = 0 \<and>
          (\<exists>dep. look (world s') (meta_key (dMeta d)) = Some dep \<and> deploymentRolledOut dep (desired_replicas d)))"
proof -
  let ?k = "meta_key (dMeta d)"
  obtain b s1 where "run_state (reconcileDeploymentAndService E c d sv True) s = (Inr b, s1)"
    using run u by (auto simp: upgradePhaseComponent_def with_upgrade_def split: prod.splits sum.splits)
  moreover obtain g w2 where get: "rGet (deployments E) ?k (world s1) = (g, w2)" by fastforce
  ultimately obtain dep where dep: "g = Inr dep" and
    res: "if \<not> deploymentRolledOut dep (desired_replicas d)
          then upPhase u' = upPhase u \<and> res = requeue_after 10
          else upPhase u' = nxt \<and> RequeueAfter res = 0" and w: "world s' = w2"
    using run u u' by (auto simp: upgradePhaseComponent_def with_upgrade_def kget_def Let_def
        split: prod.splits sum.splits if_splits)
  from resource_store.get_found [OF store] get dep have "look w2 ?k = Some dep" by auto
  with res w show ?thesis by (auto split: if_splits)
qed

lemma component_phase_gate_witness:
  "let c = upgrading UpgradePhaseFlowAPI sample_cluster;
       r = run_state (upgradePhaseComponent mem_env c (BuildFlowAPIDeployment mem_lib c ''h'')
             (BuildFlowAPIService c) ''Flow API'' UpgradePhaseServer) (sys_rolled_out c ''h'')
   in \<exists>dep. mem_look deployment_slot (world (snd r)) (NN ''peerdb-flow-api'' ''default'') = Some dep \<and>
        deploymentRolledOut dep 1"
proof -
  let ?c = "upgrading UpgradePhaseFlowAPI sample_cluster"
  let ?d = "BuildFlowAPIDeployment mem_lib ?c ''h''"
  let ?r = "run_state (upgradePhaseComponent mem_env ?c ?d (BuildFlowAPIService ?c) ''Flow API'' UpgradePhaseServer)
      (sys_rolled_out ?c ''h'')"
  have "(case fst ?r of Inl _ \<Rightarrow> False | Inr (c', _) \<Rightarrow>
      map_option upPhase (csUpgrade (clStatus c')) = Some UpgradePhaseServer)"
    by code_simp
  then obtain c' res u' where run: "?r = (Inr (c', res), snd ?r)" and u': "csUpgrade (clStatus c') = Some u'"
    and p: "upPhase u' = UpgradePhaseServer"
    by (cases ?r) (auto split: sum.splits prod.splits)
  have c: "csUpgrade (clStatus ?c) = Some \<lparr>upFromVersion = ''v0.36.6'', upToVersion = ''v0.36.7'',
     upPhase = UpgradePhaseFlowAPI, upStartedAt = Some 0, upMessage = ''''\<rparr>"
    by (simp add: upgrading_def set_status_def)
  have d: "meta_key (dMeta ?d) = NN ''peerdb-flow-api'' ''default''" "desired_replicas ?d = 1"
    by code_simp+
  show ?thesis
    using component_phase_gate [OF mem_stores(4) [folded mem_env_simps] run c u'] p
    by (simp add: d)
qed

text \<open>
  The gates of the Waiting phase: under the manual policy, outside the maintenance window or
  with unhealthy dependencies the upgrade does not start, and the result asks to be called again
  after a positive delay; otherwise, and only then, it advances, to maintenance mode when that is
  configured and else to the configuration phase. In no case does it touch an object of the cluster.
\<close>

lemma waiting_gates:
  assumes u: "csUpgrade (clStatus c) = Some u" and p: "upPhase u = UpgradePhaseWaiting"
  shows "\<exists>c' res s' u'. run_state (upgradePhaseWaiting E c) s = (Inr (c', res), s') \<and>
     csUpgrade (clStatus c') = Some u' \<and> world s' = world s \<and>
     (if upgrade_policy c = UpgradePolicyManual \<or> window_closed E c (nowOf E (world s))
      then upPhase u' = UpgradePhaseWaiting \<and> RequeueAfter res > 0
      else if dependencies_unhealthy (elib E) c
      then upPhase u' = UpgradePhaseBlocked \<and> RequeueAfter res > 0
      else upPhase u' = (if maintained c then UpgradePhaseStartMaintenance else UpgradePhaseConfig) \<and> res = requeue)"
  using u p by (auto simp: upgradePhaseWaiting_def maintained_def)

lemma waiting_gates_witness:
  "\<exists>c' res s' u'. run_state (upgradePhaseWaiting mem_env (upgrading UpgradePhaseWaiting sample_cluster)) (sys_with sample_cluster)
     = (Inr (c', res), s') \<and> csUpgrade (clStatus c') = Some u' \<and> upPhase u' = UpgradePhaseConfig"
proof -
  let ?c = "upgrading UpgradePhaseWaiting sample_cluster"
  have u: "csUpgrade (clStatus ?c) = Some \<lparr>upFromVersion = ''v0.36.6'', upToVersion = ''v0.36.7'',
     upPhase = UpgradePhaseWaiting, upStartedAt = Some 0, upMessage = ''''\<rparr>"
    by (simp add: upgrading_def set_status_def)
  have "upgrade_policy ?c = UpgradePolicyAutomatic" "\<not> window_closed mem_env ?c t"
    "\<not> dependencies_unhealthy (elib mem_env) ?c" "\<not> maintained ?c" for t
    by (simp_all add: upgrading_def set_status_def upgrade_policy_def window_closed_def dependencies_unhealthy_def
        cond_status_def maintained_def sample_defs mem_lib_def find_condition_def)
  then show ?thesis
    using waiting_gates [OF u, of mem_env "sys_with sample_cluster"] by force
qed

section \<open>The lifecycle\<close>

lemma init_upgrade_simps [simp]:
  "clMeta (init_upgrade c) = clMeta c" "clSpec (init_upgrade c) = clSpec c"
  "csConditions (clStatus (init_upgrade c)) = csConditions (clStatus c)"
  "csUpgrade (clStatus c) = Some u \<Longrightarrow> init_upgrade c = c"
  "csUpgrade (clStatus (init_upgrade c)) \<noteq> None"
  by (simp_all add: init_upgrade_def set_status_def split: option.splits)

lemma request_upgrade_simps [simp]:
  "clMeta (request_upgrade now u c) = clMeta c" "clSpec (request_upgrade now u c) = clSpec c"
  "csUpgrade (clStatus (request_upgrade now u c)) = Some \<lparr>upFromVersion = upToVersion u,
     upToVersion = clVersion (clSpec c), upPhase = UpgradePhaseWaiting, upStartedAt = Some now, upMessage = ''Upgrade requested''\<rparr>"
  by (simp_all add: request_upgrade_def set_status_def)

text \<open>The cluster with which the lifecycle enters the state machine, at time \<open>now\<close>.\<close>

definition entered :: "int \<Rightarrow> PeerDBCluster \<Rightarrow> PeerDBCluster" where
  "entered now c =
     (let c1 = init_upgrade c in
      case csUpgrade (clStatus c1) of
        Some u \<Rightarrow> if upPhase u = UpgradePhaseComplete \<and> clVersion (clSpec c1) \<noteq> upToVersion u
                 then request_upgrade now u c1 else c1
      | None \<Rightarrow> c1)"

text \<open>Whether an upgrade is under way or requested.\<close>

definition upgrade_due :: "PeerDBCluster \<Rightarrow> bool" where
  "upgrade_due c \<longleftrightarrow>
     (case csUpgrade (clStatus (init_upgrade c)) of
        None \<Rightarrow> False
      | Some u \<Rightarrow> upPhase u \<noteq> UpgradePhaseComplete \<or> clVersion (clSpec c) \<noteq> upToVersion u)"

lemma run_if: "run_state (if b then m else n) s = (if b then run_state m s else run_state n s)"
  by simp

text \<open>
  How the lifecycle handles an upgrade. During a backup it does nothing but fill in a missing
  upgrade status. Without an upgrade under way or requested it goes on with the cluster unchanged. A
  changed version is recorded as a new upgrade from the version of the last one, in phase Waiting.
  A due upgrade runs one step of the state machine: a step that asks for a delay ends the
  reconciliation after the status has been stored (a conflict there requeues at once); every other
  step, in particular every step that advances the phase, lets the reconciliation go on.
\<close>

lemma lifecycle_run:
  "run_state (reconcileUpgradeLifecycle E c h True) s = (Inr (Continue (init_upgrade c)), s) \<and>
   (if upgrade_due c
    then (\<exists>es. list_all (\<lambda>e. writes e = None) es \<and>
       run_state (reconcileUpgradeLifecycle E c h False) s =
         (case run_state (reconcileUpgrade E (entered (nowOf E (world s)) c) h) (s\<lparr>log := log s @ es\<rparr>) of
            (Inl e, s1) \<Rightarrow> (Inl e, s1)
          | (Inr (c2, res), s1) \<Rightarrow>
              if 0 < RequeueAfter res
              then (case run_state (updateStatus E (observe_generation c2)) s1 of
                      (Inl e, s2) \<Rightarrow> (if IsConflict e then Inr (Done requeue) else Inl e, s2)
                    | (Inr _, s2) \<Rightarrow> (Inr (Done res), s2))
              else (Inr (Continue c2), s1)))
    else run_state (reconcileUpgradeLifecycle E c h False) s = (Inr (Continue (init_upgrade c)), s))"
proof -
  obtain u where u: "csUpgrade (clStatus (init_upgrade c)) = Some u"
    using init_upgrade_simps(5) [of c] by (cases "csUpgrade (clStatus (init_upgrade c))") auto
  let ?ev = "EEvent EventTypeNormal ReasonUpgradeInProgress ''UpgradeRequested''
                 (''Version upgrade requested: '' @ upToVersion u @ '' '' @ arrow @ '' '' @ clVersion (clSpec c))"
  consider "\<not> upgrade_due c" | "upPhase u \<noteq> UpgradePhaseComplete"
    | "upPhase u = UpgradePhaseComplete" "clVersion (clSpec c) \<noteq> upToVersion u"
    using u by (auto simp: upgrade_due_def)
  then show ?thesis
  proof cases
    case 1
    then show ?thesis
      using u by (simp add: reconcileUpgradeLifecycle_def with_upgrade_def upgrade_due_def Let_def)
  next
    case 2
    with u show ?thesis
      by (auto simp: reconcileUpgradeLifecycle_def with_upgrade_def upgrade_due_def entered_def Let_def
          intro!: exI [of _ "[]"] split: prod.splits sum.splits)
  next
    case 3
    with u show ?thesis
      by (auto simp: reconcileUpgradeLifecycle_def with_upgrade_def upgrade_due_def entered_def Let_def
          intro!: exI [of _ "[?ev]"] split: prod.splits sum.splits)
  qed
qed

section \<open>Effects\<close>

lemma emits_upgradePhaseWaiting [emits_intros]:
  "(\<And>t r a n. P (EEvent t r a n)) \<Longrightarrow> emits P (upgradePhaseWaiting E c)"
  unfolding upgradePhaseWaiting_def by (intro emits_intros)

lemma emits_upgradePhaseBlocked [emits_intros]: "emits P (upgradePhaseBlocked E c)"
  unfolding upgradePhaseBlocked_def by (intro emits_intros)

lemma emits_failed_init_job [emits_intros]: "(\<And>n. P (EGet KJob n)) \<Longrightarrow> emits P (failed_init_job E c)"
  unfolding failed_init_job_def by (intro emits_intros)

lemma emits_upgradePhaseInitJobs [emits_intros]:
  "(\<And>t r a n. P (EEvent t r a n)) \<Longrightarrow> (\<And>n. P (EGet KJob n)) \<Longrightarrow> (\<And>x. P (ECreate (OJob x))) \<Longrightarrow>
     (\<And>x. P (EDelete (OJob x))) \<Longrightarrow> emits P (upgradePhaseInitJobs E c)"
  unfolding upgradePhaseInitJobs_def by (intro emits_intros)

lemma emits_upgradePhaseComponent [emits_intros]:
  "(\<And>t r a n. P (EEvent t r a n)) \<Longrightarrow> (\<And>n. P (EGet KDeployment n)) \<Longrightarrow> (\<And>x. P (ECreate (ODeployment x))) \<Longrightarrow>
     (\<And>x. P (EUpdate (ODeployment x))) \<Longrightarrow> (\<And>n. P (EGet KService n)) \<Longrightarrow> (\<And>x. P (ECreate (OService x))) \<Longrightarrow>
     (\<And>x. P (EUpdate (OService x))) \<Longrightarrow> emits P (upgradePhaseComponent E c d sv name nxt)"
  unfolding upgradePhaseComponent_def by (intro emits_intros)

lemma emits_upgradePhaseMaintenanceJob [emits_intros]:
  "(\<And>t r a n. P (EEvent t r a n)) \<Longrightarrow> (\<And>n. P (EGet KJob n)) \<Longrightarrow> (\<And>x. P (ECreate (OJob x))) \<Longrightarrow>
     (\<And>x. P (EDelete (OJob x))) \<Longrightarrow> emits P (upgradePhaseMaintenanceJob E c j name nxt)"
  unfolding upgradePhaseMaintenanceJob_def by (intro emits_intros)

section \<open>A refused update\<close>

text \<open>
  \<open>reconcileDeployment\<close> takes an Update conflict for success, to be retried later. The phase of the
  component then looks at the Deployment as it is, which is rolled out in its old version, and moves
  on: here the server refuses every Update of a Deployment, and the phase leaves Flow API while the
  stored Deployment still runs the old image.
\<close>

definition conflict_env :: "memw env" where
  "conflict_env = mem_env\<lparr>deployments := (mem_client deployment_slot)\<lparr>rUpdate := (\<lambda>_ w. (Inl Conflict, w))\<rparr>\<rparr>"

definition conflict_step :: "(api_error + PeerDBCluster \<times> Result) \<times> memw sys" where
  "conflict_step =
     (let old = sample_cluster\<lparr>clSpec := sample_spec\<lparr>clVersion := ''v0.36.6''\<rparr>\<rparr>;
          c = upgrading UpgradePhaseFlowAPI sample_cluster
      in run_state (upgradePhaseComponent conflict_env c (BuildFlowAPIDeployment mem_lib c ''h'')
           (BuildFlowAPIService c) ''Flow API'' UpgradePhaseServer) (sys_rolled_out old ''h''))"

lemma component_phase_skips_on_conflict:
  "(case conflict_step of
      (Inr (c', _), s') \<Rightarrow>
        map_option upPhase (csUpgrade (clStatus c')) = Some UpgradePhaseServer \<and>
        map_option (\<lambda>d. map cImage (psContainers (ptSpec (dsTemplate (dSpec d)))))
          (mem_look deployment_slot (world s') (NN ''peerdb-flow-api'' ''default'')) =
        Some [''ghcr.io/peerdb-io/flow-api:stable-v0.36.6'']
    | _ \<Rightarrow> False)"
  by code_simp

end
