(* ===== verification/Settled.thy ===== *)
theory Settled
  imports Upgrade
begin

text \<open>
  Reconciliation against a server that already holds what is asked for: a small calculus for programs
  that end well and only read, and the operations of the cluster controller on objects that are
  applied, rolled out or done. Upgrades and the steady state are studied with it.
\<close>

section \<open>Programs that end well\<close>

text \<open>
  \<open>ends W m R T\<close>: started in a state of the server in \<open>W\<close>, \<open>m\<close> returns a value and a state of the server
  in \<open>R\<close>; its effects only observe up to a last part in \<open>T\<close>.
\<close>

definition ends :: "('w \<Rightarrow> bool) \<Rightarrow> ('w, 'a) gprog \<Rightarrow> ('a \<Rightarrow> 'w \<Rightarrow> bool) \<Rightarrow> (effect list \<Rightarrow> bool) \<Rightarrow> bool" where
  "ends W m R T \<longleftrightarrow> (\<forall>s. W (world s) \<longrightarrow>
     (\<exists>x s' es t. run_state m s = (Inr x, s') \<and> R x (world s') \<and> log s' = log s @ es @ t \<and> list_all observing es \<and> T t))"

abbreviation achieves :: "('w \<Rightarrow> bool) \<Rightarrow> ('w, 'a) gprog \<Rightarrow> ('a \<Rightarrow> bool) \<Rightarrow> bool" where
  "achieves W m R \<equiv> ends W m (\<lambda>x w. W w \<and> R x) (\<lambda>t. t = [])"

lemma endsD:
  "ends W m R T \<Longrightarrow> W (world s) \<Longrightarrow>
     \<exists>x s' es t. run_state m s = (Inr x, s') \<and> R x (world s') \<and> log s' = log s @ es @ t \<and> list_all observing es \<and> T t"
  by (simp add: ends_def)

lemma ends_ok: "(\<And>w. W w \<Longrightarrow> R x w) \<Longrightarrow> T [] \<Longrightarrow> ends W (ok x) R T"
  by (fastforce simp: ends_def)

lemma ends_after:
  assumes "run_state m s = (x, s1)" "W (world s1)" "log s1 = log s @ es" "list_all observing es" "ends W (f x) R T"
  shows "\<exists>y s' es t. run_state (State_Monad.bind m f) s = (Inr y, s') \<and> R y (world s') \<and>
     log s' = log s @ es @ t \<and> list_all observing es \<and> T t"
proof -
  from endsD [OF assms(5,2)] obtain y s' es' t where
    "run_state (f x) s1 = (Inr y, s')" "R y (world s')" "log s' = log s1 @ es' @ t" "list_all observing es'" "T t" by blast
  with assms show ?thesis by (intro exI [of _ y] exI [of _ s'] exI [of _ "es @ es'"] exI [of _ t]) simp
qed

lemma ends_bind:
  assumes "\<And>s. W (world s) \<Longrightarrow> \<exists>x s1 es. run_state m s = (x, s1) \<and> W (world s1) \<and>
    log s1 = log s @ es \<and> list_all observing es \<and> ends W (f x) R T"
  shows "ends W (State_Monad.bind m f) R T"
  unfolding ends_def
proof (intro allI impI)
  fix s :: "'a sys"
  assume "W (world s)"
  with assms [of s] obtain x s1 es where "run_state m s = (x, s1)" "W (world s1)" "log s1 = log s @ es"
    "list_all observing es" "ends W (f x) R T" by blast
  then show "\<exists>y s' es t. run_state (State_Monad.bind m f) s = (Inr y, s') \<and> R y (world s') \<and>
     log s' = log s @ es @ t \<and> list_all observing es \<and> T t"
    by (rule ends_after)
qed

lemma ends_on_ok:
  assumes "achieves W m Q" "\<And>x. Q x \<Longrightarrow> ends W (f x) R T"
  shows "ends W (on_ok m f) R T"
  unfolding on_ok_def
proof (rule ends_bind)
  fix s :: "'a sys"
  assume "W (world s)"
  from endsD [OF assms(1) this] assms(2)
  show "\<exists>x s1 es. run_state m s = (x, s1) \<and> W (world s1) \<and> log s1 = log s @ es \<and> list_all observing es \<and>
      ends W (case x of Inl e \<Rightarrow> fail e | Inr y \<Rightarrow> f y) R T"
    by fastforce
qed

lemma ends_event: "ends W (f ()) R T \<Longrightarrow> ends W (State_Monad.bind (event a b d e) f) R T"
  by (rule ends_bind) simp

lemma ends_set_cond:
  "(\<And>w. W w \<Longrightarrow> ends W (f (with_condition (elib E) (nowOf E w) ty st reason msg c)) R T) \<Longrightarrow>
     ends W (State_Monad.bind (set_cond E ty st reason msg c) f) R T"
  by (rule ends_bind) auto

lemma ends_time_now:
  "(\<And>w. W w \<Longrightarrow> ends W (f (nowOf E w)) R T) \<Longrightarrow> ends W (State_Monad.bind (time_now E) f) R T"
  by (rule ends_bind) auto

lemma ends_own:
  assumes "owner_lib (elib E)" "mOwnerReferences m = []" "mNamespace m = clNamespace c"
    and "ends W (f (owned_by c m)) R T"
  shows "ends W (on_ok (own E c m) f) R T"
  using assms(4) owner_lib.set_owner_cluster [OF assms(1-3)] by (simp add: own_def lift_ok_def on_ok_def)

lemmas ends_intros = ends_ok ends_event ends_set_cond ends_time_now

section \<open>Objects the server holds\<close>

text \<open>
  \<open>serves W cl n Q\<close>: in every state of the server in \<open>W\<close>, a Get of \<open>n\<close> finds an object with \<open>Q\<close>
  and leaves the server in \<open>W\<close>.
\<close>

definition serves :: "('w \<Rightarrow> bool) \<Rightarrow> ('w, 'o) rclient \<Rightarrow> NamespacedName \<Rightarrow> ('o \<Rightarrow> bool) \<Rightarrow> bool" where
  "serves W cl n Q \<longleftrightarrow> (\<forall>w. W w \<longrightarrow> (\<exists>ob w'. rGet cl n w = (Inr ob, w') \<and> W w' \<and> Q ob))"

lemma ends_get:
  assumes "serves W cl n Q" "\<And>ob. Q ob \<Longrightarrow> ends W (f (Inr ob)) R T"
  shows "ends W (State_Monad.bind (kget kd cl n) f) R T"
proof (rule ends_bind)
  fix s :: "'a sys"
  assume "W (world s)"
  with assms(1) obtain ob w' where "rGet cl n (world s) = (Inr ob, w')" "W w'" "Q ob"
    by (auto simp: serves_def)
  with assms(2) show "\<exists>x s1 es. run_state (kget kd cl n) s = (x, s1) \<and> W (world s1) \<and> log s1 = log s @ es \<and>
      list_all observing es \<and> ends W (f x) R T"
    by (auto simp: kget_def)
qed

lemma achieves_get: "serves W cl n Q \<Longrightarrow> achieves W (kget kd cl n) Q"
  by (fastforce simp: ends_def serves_def kget_def)

text \<open>
  When the live object \<open>x\<close> agrees with the desired one on the fields the operator manages. A Deployment
  may have further annotations, containers and fields that the server or others have set.
\<close>

definition container_applied :: "Container \<Rightarrow> Container \<Rightarrow> bool" where
  "container_applied d x \<longleftrightarrow> cImage x = cImage d \<and> cEnv x = cEnv d \<and> cEnvFrom x = cEnvFrom d \<and>
     cPorts x = cPorts d \<and> cResources x = cResources d"

definition template_applied :: "PodTemplateSpec \<Rightarrow> PodTemplateSpec \<Rightarrow> bool" where
  "template_applied d x \<longleftrightarrow> ptLabels x = ptLabels d \<and>
     fmlookup (ptAnnotations d) AnnotationConfigHash \<in> {None, fmlookup (ptAnnotations x) AnnotationConfigHash} \<and>
     psServiceAccountName (ptSpec x) = psServiceAccountName (ptSpec d) \<and>
     (case (psContainers (ptSpec d), psContainers (ptSpec x)) of
        (dc # _, ec # _) \<Rightarrow> container_applied dc ec | _ \<Rightarrow> True)"

definition deployment_applied :: "Deployment \<Rightarrow> Deployment \<Rightarrow> bool" where
  "deployment_applied d x \<longleftrightarrow> dsReplicas (dSpec x) = dsReplicas (dSpec d) \<and>
     template_applied (dsTemplate (dSpec d)) (dsTemplate (dSpec x))"

definition service_applied :: "Service \<Rightarrow> Service \<Rightarrow> bool" where
  "service_applied d x \<longleftrightarrow> ksPorts (svSpec x) = ksPorts (svSpec d) \<and> ksSelector (svSpec x) = ksSelector (svSpec d) \<and>
     mLabels (svMeta x) = mLabels (svMeta d) \<and> mAnnotations (svMeta x) = mAnnotations (svMeta d)"

lemma merge_applied: "deployment_applied d x \<Longrightarrow> dSpec (merge_deployment d x) = dSpec x"
proof -
  assume applied: "deployment_applied d x"
  have "fmlookup m k = Some v \<Longrightarrow> fmupd k v m = m" for m :: smap and k v
    by (rule fmap_ext) auto
  with applied show ?thesis
    by (auto simp: deployment_applied_def template_applied_def container_applied_def merge_deployment_def
        merge_template_def merge_containers_def split: option.splits list.splits)
qed

lemma applied_self [simp]: "deployment_applied d d" "service_applied sv sv"
  by (auto simp: deployment_applied_def template_applied_def container_applied_def service_applied_def split: list.split)

lemma applied_status [simp]: "deployment_applied d (x\<lparr>dStatus := st\<rparr>) = deployment_applied d x"
  by (simp add: deployment_applied_def)

text \<open>
  A Deployment that is applied, rolled out and ready, with its Service applied; a Job that succeeded.
\<close>

definition component_settled :: "'w env \<Rightarrow> ('w \<Rightarrow> bool) \<Rightarrow> Deployment \<Rightarrow> Service \<Rightarrow> bool" where
  "component_settled E W d sv \<longleftrightarrow>
     serves W (deployments E) (meta_key (dMeta d)) (\<lambda>x. deployment_applied d x \<and>
       deploymentRolledOut x (desired_replicas d) \<and> dtReplicas (dStatus x) \<le> dtReadyReplicas (dStatus x)) \<and>
     serves W (services E) (meta_key (svMeta sv)) (service_applied sv)"

definition job_done :: "'w env \<Rightarrow> ('w \<Rightarrow> bool) \<Rightarrow> Job \<Rightarrow> bool" where
  "job_done E W j \<longleftrightarrow> serves W (jobs E) (meta_key (jMeta j)) (\<lambda>x. job_outcome (jConditions x) = JobSucceeded)"

text \<open>
  The control plane of \<open>c\<close> is settled in \<open>W\<close>: its enabled init jobs are done, and its three components
  are settled with config hash \<open>h\<close>.
\<close>

locale settled_objects =
  fixes E :: "'w env" and c :: PeerDBCluster and h :: string and W :: "'w \<Rightarrow> bool"
  assumes conditions: "condition_lib (elib E)"
    and owner: "owner_lib (elib E)"
    and equality: "semantic_equality (elib E)"
    and ns_job: "ns_enabled c \<Longrightarrow> job_done E W (BuildNamespaceRegistrationJob c)"
    and sa_job: "sa_enabled c \<Longrightarrow> job_done E W (BuildSearchAttributeJob c)"
    and flow_api: "component_settled E W (BuildFlowAPIDeployment (elib E) c h) (BuildFlowAPIService c)"
    and server: "component_settled E W (BuildPeerDBServerDeployment (elib E) c h) (BuildPeerDBServerService c)"
    and ui: "component_settled E W (BuildUIDeployment (elib E) c h) (BuildUIService c)"

section \<open>What is built does not depend on the status\<close>

lemma builders_ignore_status:
  assumes "clMeta c' = clMeta c" "clSpec c' = clSpec c"
  shows "BuildFlowAPIDeployment L c' h = BuildFlowAPIDeployment L c h" "BuildFlowAPIService c' = BuildFlowAPIService c"
    "BuildPeerDBServerDeployment L c' h = BuildPeerDBServerDeployment L c h"
    "BuildPeerDBServerService c' = BuildPeerDBServerService c"
    "BuildUIDeployment L c' h = BuildUIDeployment L c h" "BuildUIService c' = BuildUIService c"
    "BuildNamespaceRegistrationJob c' = BuildNamespaceRegistrationJob c"
    "BuildSearchAttributeJob c' = BuildSearchAttributeJob c"
    "BuildStartMaintenanceJob c' = BuildStartMaintenanceJob c" "BuildEndMaintenanceJob c' = BuildEndMaintenanceJob c"
    "BuildConfigMap c' = BuildConfigMap c" "BuildServiceAccount c' = BuildServiceAccount c"
    "ns_enabled c' = ns_enabled c" "sa_enabled c' = sa_enabled c" "maintained c' = maintained c"
    "upgrade_policy c' = upgrade_policy c" "window_closed E c' now = window_closed E c now"
  by (simp_all add: build_defs Let_def assms config_env_def catalog_password_def BuildConfigMap_def BuildServiceAccount_def
      ns_enabled_def sa_enabled_def maintained_def upgrade_policy_def window_closed_def split: option.split)

section \<open>Operations on settled objects\<close>

lemma achieves_job:
  assumes "owner_lib (elib E)" "mOwnerReferences (jMeta j) = []" "mNamespace (jMeta j) = clNamespace c"
    and "job_done E W j"
  shows "achieves W (reconcileJob E c j True) (\<lambda>b. b)"
  unfolding reconcileJob_def Let_def
  by (rule ends_own [OF assms(1-3)], unfold owned_by_simps, rule ends_get [OF assms(4) [unfolded job_done_def]])
    (simp add: ends_ok)

lemma merge_owned: "dSpec (merge_deployment (d\<lparr>dMeta := m\<rparr>) x) = dSpec (merge_deployment d x)"
  by (simp add: merge_deployment_def)

lemma achieves_deployment:
  assumes "owner_lib (elib E)" "mOwnerReferences (dMeta d) = []" "mNamespace (dMeta d) = clNamespace c"
    and "component_settled E W d sv" and eq: "semantic_equality (elib E)"
  shows "achieves W (reconcileDeployment E c d True) (\<lambda>b. b)"
  unfolding reconcileDeployment_def Let_def
  by (rule ends_own [OF assms(1-3)], unfold owned_by_simps,
      rule ends_get [OF conjunct1 [OF assms(4) [unfolded component_settled_def]]])
    (simp add: ends_ok merge_owned merge_applied semantic_equality.eq_deployment_spec [OF eq])

lemma achieves_create_or_update:
  assumes "serves W cl n Q" "\<And>x. Q x \<Longrightarrow> patch x = None"
  shows "achieves W (create_or_update kd mk cl n desired patch) (\<lambda>_. True)"
  unfolding create_or_update_def by (rule ends_get [OF assms(1)]) (simp add: ends_ok assms(2))

lemma achieves_service:
  assumes "owner_lib (elib E)" "mOwnerReferences (svMeta sv) = []" "mNamespace (svMeta sv) = clNamespace c"
    and "component_settled E W d sv" and eq: "semantic_equality (elib E)"
  shows "achieves W (reconcileService E c sv) (\<lambda>_. True)"
  unfolding reconcileService_def Let_def
  by (rule ends_own [OF assms(1-3)], unfold owned_by_simps,
      rule achieves_create_or_update [OF conjunct2 [OF assms(4) [unfolded component_settled_def]]])
    (simp add: semantic_equality.patch_service_None [OF eq] service_applied_def)

lemma achieves_component:
  assumes build: "component_builder build service sfx cmp"
    and L: "owner_lib (elib E)" "semantic_equality (elib E)"
    and settled: "component_settled E W (build (elib E) c h) (service c)"
  shows "achieves W (reconcileDeploymentAndService E c (build (elib E) c h) (service c) True) (\<lambda>b. b)"
  unfolding reconcileDeploymentAndService_def
  using component_builder.no_owner [OF build] component_builder.dep_namespace [OF build]
    component_builder.svc_no_owner [OF build] component_builder.svc_namespace [OF build]
  by (intro ends_on_ok [OF achieves_deployment [OF L(1) _ _ settled L(2)]]
      ends_on_ok [OF achieves_service [OF L(1) _ _ settled L(2)]] ends_ok) simp_all

lemma shared_unowned:
  "mOwnerReferences (cmMeta (BuildConfigMap c)) = []" "mNamespace (cmMeta (BuildConfigMap c)) = clNamespace c"
  "BuildServiceAccount c = Some sa \<Longrightarrow> mOwnerReferences (saMeta sa) = [] \<and> mNamespace (saMeta sa) = clNamespace c"
  by (auto simp: BuildConfigMap_def BuildServiceAccount_def new_meta_def Let_def split: option.splits if_splits)

context settled_objects
begin

lemma achieves_init_jobs:
  assumes same: "clMeta c' = clMeta c" "clSpec c' = clSpec c"
  shows "achieves W (reconcileInitJobs E c' True) (\<lambda>b. b)"
  unfolding reconcileInitJobs_def
proof (rule ends_on_ok [where Q = "\<lambda>b. b"])
  note ign = builders_ignore_status [OF same]
  show "achieves W (if ns_enabled c' then reconcileJob E c' (BuildNamespaceRegistrationJob c') True else ok True) (\<lambda>b. b)"
    using achieves_job [OF owner init_jobs_unowned(1,2), of W c'] ns_job by (simp add: ign ends_ok)
  show "achieves W (if sa_enabled c' then reconcileJob E c' (BuildSearchAttributeJob c') b else ok b) (\<lambda>b. b)"
    if b for b
    using that achieves_job [OF owner init_jobs_unowned(3,4), of W c'] sa_job by (simp add: ign ends_ok)
qed

end

section \<open>Settled servers\<close>

text \<open>On the memory server, reads leave the state as it is.\<close>

lemma serves_mem:
  "serves (\<lambda>w. w = w0) (mem_client sl) n Q \<longleftrightarrow>
     (case mem_look sl w0 n of None \<Rightarrow> False | Some ob \<Rightarrow> Q ob)"
  by (auto simp: serves_def mem_client_def mem_get_def split: option.splits)

definition settled_world :: "PeerDBCluster \<Rightarrow> string \<Rightarrow> memw" where
  "settled_world c h = world (sys_rolled_out c h)\<lparr>meServices :=
     [BuildFlowAPIService c, BuildPeerDBServerService c, BuildUIService c]\<rparr>"

lemma component_settled_mem:
  assumes "mem_look deployment_slot w (meta_key (dMeta d)) = Some (rolled_out d)"
    and "mem_look service_slot w (meta_key (svMeta sv)) = Some sv"
    and "desired_replicas d = 1"
  shows "component_settled mem_env (\<lambda>x. x = w) d sv"
  using assms by (simp add: component_settled_def serves_mem deploymentRolledOut_def rolled_out_def)

lemma settled_keys:
  "meta_key (jMeta (BuildNamespaceRegistrationJob sample_cluster)) = NN ''peerdb-temporal-ns-register-v0-36-7'' ''default''"
  "meta_key (jMeta (BuildSearchAttributeJob sample_cluster)) = NN ''peerdb-temporal-search-attr-v0-36-7'' ''default''"
  "meta_key (dMeta (BuildFlowAPIDeployment L sample_cluster h)) = NN ''peerdb-flow-api'' ''default''"
  "meta_key (dMeta (BuildPeerDBServerDeployment L sample_cluster h)) = NN ''peerdb-server'' ''default''"
  "meta_key (dMeta (BuildUIDeployment L sample_cluster h)) = NN ''peerdb-ui'' ''default''"
  "meta_key (svMeta (BuildFlowAPIService sample_cluster)) = NN ''peerdb-flow-api'' ''default''"
  "meta_key (svMeta (BuildPeerDBServerService sample_cluster)) = NN ''peerdb-server'' ''default''"
  "meta_key (svMeta (BuildUIService sample_cluster)) = NN ''peerdb-ui'' ''default''"
         apply code_simp
        apply code_simp
  by (simp_all add: flow_api.dep_key server.dep_key ui.dep_key flow_api.svc_key server.svc_key ui.svc_key sample_defs)

lemma sample_replicas:
  "desired_replicas (BuildFlowAPIDeployment L sample_cluster h) = 1"
  "desired_replicas (BuildPeerDBServerDeployment L sample_cluster h) = 1"
  "desired_replicas (BuildUIDeployment L sample_cluster h) = 1"
  by (simp_all add: desired_replicas_def build_defs Let_def override_def sample_defs)

lemma status_keys [simp]: "meta_key (dMeta (rolled_out d)) = meta_key (dMeta d)" "meta_key (jMeta (finished j)) = meta_key (jMeta j)"
  by (simp_all add: rolled_out_def finished_def)

lemma job_done_mem:
  "mem_look job_slot w (meta_key (jMeta j)) = Some (finished j) \<Longrightarrow> job_done mem_env (\<lambda>x. x = w) j"
  by (simp add: job_done_def serves_mem finished_def)

lemma settled_world_objects:
  "meJobs (settled_world c h) = [finished (BuildNamespaceRegistrationJob c), finished (BuildSearchAttributeJob c)]"
  "meDeployments (settled_world c h) = [rolled_out (BuildFlowAPIDeployment mem_lib c h),
     rolled_out (BuildPeerDBServerDeployment mem_lib c h), rolled_out (BuildUIDeployment mem_lib c h)]"
  "meServices (settled_world c h) = [BuildFlowAPIService c, BuildPeerDBServerService c, BuildUIService c]"
  by (simp_all add: settled_world_def sys_rolled_out_def sys_initialized_def)

lemma slot_lists:
  "slGet job_slot = meJobs" "slGet deployment_slot = meDeployments" "slGet service_slot = meServices"
  by (simp_all add: job_slot_def deployment_slot_def service_slot_def)

lemma sample_objects_settled:
  assumes same: "clMeta c = clMeta sample_cluster" "clSpec c = clSpec sample_cluster"
    and "meJobs w0 = meJobs (settled_world sample_cluster h)" "meDeployments w0 = meDeployments (settled_world sample_cluster h)"
      "meServices w0 = meServices (settled_world sample_cluster h)"
  shows "settled_objects mem_env c h (\<lambda>w. w = w0)"
  by (intro settled_objects.intro component_settled_mem job_done_mem)
    (simp_all add: mem_laws [simplified] mem_look_def slot_keys slot_lists NN_def assms(3-5) settled_world_objects
      builders_ignore_status [OF same] settled_keys sample_replicas)

interpretation sample_objects: settled_objects mem_env sample_cluster h "\<lambda>w. w = settled_world sample_cluster h"
  by (rule sample_objects_settled) simp_all

end
