(* ===== verification/ClusterController.thy ===== *)
theory ClusterController
  imports Upgrade
begin

text \<open>
  The reconciliation of a PeerDBCluster (internal/controller/peerdbcluster\_controller.go:
  \<open>Reconcile\<close>, \<open>reconcilePaused\<close>, \<open>reconcileDependencies\<close>, \<open>reconcileInitJobsAndStatus\<close>,
  \<open>reconcileComponentsAndStatus\<close>, \<open>setFinalConditions\<close>) and what it guarantees: pausing and backup
  fencing, the dependency gate, the upgrade gates, and the conditions it reports.
\<close>

definition metric_cluster_ready :: string where
  "metric_cluster_ready = ''peerdb_cluster_ready''"

definition metric_reconcile_errors :: string where
  "metric_reconcile_errors = ''peerdb_reconcile_errors_total''"

text \<open>\<open>peerdbmetrics.ClusterReady.WithLabelValues(name, namespace).Set(v)\<close>.\<close>

definition set_cluster_ready :: "PeerDBCluster \<Rightarrow> int \<Rightarrow> ('w, unit) prog" where
  "set_cluster_ready cluster v = emit (EGauge metric_cluster_ready (clName cluster) (clNamespace cluster) v)"

lemma run_set_cluster_ready [simp]:
  "run_state (set_cluster_ready c v) s =
     ((), s\<lparr>log := log s @ [EGauge metric_cluster_ready (clName c) (clNamespace c) v]\<rparr>)"
  by (simp add: set_cluster_ready_def)

lemma emits_set_cluster_ready [emits_intros]:
  "(\<And>m a b v. P (EGauge m a b v)) \<Longrightarrow> emits P (set_cluster_ready c v)"
  unfolding set_cluster_ready_def by (intro emits_intros)

definition reconcilePaused :: "'w env \<Rightarrow> PeerDBCluster \<Rightarrow> ('w, Result) gprog" where
  "reconcilePaused E cluster = do {
     cluster1 \<leftarrow> set_cond E ConditionReady ConditionFalse ReasonPaused ''Cluster reconciliation is paused'' cluster;
     event EventTypeNormal ReasonPaused ''Paused'' ''Cluster reconciliation is paused'';
     set_cluster_ready cluster1 0;
     on_ok (kstatus OCluster (clusters E) (observe_generation cluster1)) (\<lambda>_. ok done_result)
   }"

text \<open>The config hash, or "" when the dependencies are not ready.\<close>

definition reconcileDependencies :: "'w env \<Rightarrow> PeerDBCluster \<Rightarrow> ('w, PeerDBCluster \<times> string) gprog" where
  "reconcileDependencies E cluster =
     (let ref = catPasswordSecretRef (clCatalog cluster) in do {
        r \<leftarrow> kget KSecret (secrets E) (NN (sksName ref) (clNamespace cluster));
        case r of
          Inl _ \<Rightarrow> do {
            c1 \<leftarrow> set_cond E ConditionCatalogReady ConditionFalse ReasonSecretNotFound
                    (''Catalog password secret '' @ fmt_q (sksName ref) @ '' not found'') cluster;
            c2 \<leftarrow> set_cond E ConditionReady ConditionFalse ReasonDependencyNotReady ''Catalog dependency is not ready'' c1;
            event EventTypeWarning ReasonSecretNotFound ''DependencyCheck''
              (''Catalog password secret '' @ fmt_q (sksName ref) @ '' not found'');
            emit (ECounter metric_reconcile_errors ''peerdbcluster'');
            set_cluster_ready c2 0;
            on_ok (kstatus OCluster (clusters E) (observe_generation c2)) (\<lambda>c3. ok (c3, ''''))
          }
        | Inr secret \<Rightarrow> do {
            c1 \<leftarrow> set_cond E ConditionCatalogReady ConditionTrue ReasonSecretFound
                    ''Catalog password secret is available'' cluster;
            c2 \<leftarrow> set_cond E ConditionTemporalReady ConditionTrue ReasonConfigured
                    (''Temporal configured at '' @ tmpAddress (clTemporal cluster)) c1;
            ok (c2, ComputeConfigHash (cmData (BuildConfigMap cluster))
                      (smap_of [(sksName ref, mResourceVersion (scMeta secret))]))
          }
      })"

definition reconcileInitJobsAndStatus ::
    "'w env \<Rightarrow> PeerDBCluster \<Rightarrow> bool \<Rightarrow> ('w, PeerDBCluster \<times> bool) gprog" where
  "reconcileInitJobsAndStatus E cluster backupInProgress =
     on_ok (if \<not> backupInProgress then reconcileInitJobs E cluster True else ok True) (\<lambda>initReady.
       do {
         c1 \<leftarrow> (if initReady
                then set_cond E ConditionInitialized ConditionTrue ReasonJobsCompleted
                       ''All init jobs completed successfully'' cluster
                else set_cond E ConditionInitialized ConditionFalse ReasonJobsPending
                       ''Init jobs have not completed yet'' cluster);
         ok (c1, initReady)
       })"

text \<open>The loop over the component Deployments during a backup: they are only looked at.\<close>

fun observe_deployments :: "'w env \<Rightarrow> string \<Rightarrow> string list \<Rightarrow> bool \<Rightarrow> ('w, bool) gprog" where
  "observe_deployments E ns [] ready = ok ready"
| "observe_deployments E ns (depName # rest) ready = do {
     r \<leftarrow> kget KDeployment (deployments E) (NN depName ns);
     case r of
       Inl e \<Rightarrow> if \<not> IsNotFound e then fail e else observe_deployments E ns rest False
     | Inr dep \<Rightarrow>
         observe_deployments E ns rest
           (if dtReadyReplicas (dStatus dep) < dtReplicas (dStatus dep) then False else ready)
   }"

definition reconcileComponentsAndStatus ::
    "'w env \<Rightarrow> PeerDBCluster \<Rightarrow> string \<Rightarrow> bool \<Rightarrow> ('w, PeerDBCluster \<times> bool) gprog" where
  "reconcileComponentsAndStatus E cluster configHash backupInProgress =
     on_ok
       (if backupInProgress
        then observe_deployments E (clNamespace cluster)
               [clName cluster @ ''-flow-api'', clName cluster @ ''-server'', clName cluster @ ''-ui''] True
        else
          on_ok (reconcileDeploymentAndService E cluster (BuildFlowAPIDeployment (elib E) cluster configHash)
                   (BuildFlowAPIService cluster) True) (\<lambda>ready1.
          on_ok (reconcileDeploymentAndService E cluster (BuildPeerDBServerDeployment (elib E) cluster configHash)
                   (BuildPeerDBServerService cluster) ready1) (\<lambda>ready2.
          reconcileDeploymentAndService E cluster (BuildUIDeployment (elib E) cluster configHash)
                   (BuildUIService cluster) ready2)))
       (\<lambda>componentsReady. do {
          c1 \<leftarrow> (if componentsReady
                 then set_cond E ConditionComponentsReady ConditionTrue ReasonAllReady ''All components are ready'' cluster
                 else set_cond E ConditionComponentsReady ConditionFalse ReasonComponentsNotReady
                        ''Some components are not ready yet'' cluster);
          ok (c1, componentsReady)
        })"

definition endpoints_of :: "PeerDBCluster \<Rightarrow> EndpointStatus" where
  "endpoints_of cluster =
     \<lparr>epServerAddress = clName cluster @ ''-server.'' @ clNamespace cluster @ ''.svc.cluster.local:9900'',
      epUIAddress = clName cluster @ ''-ui.'' @ clNamespace cluster @ ''.svc.cluster.local:3000'',
      epFlowAPIAddress = clName cluster @ ''-flow-api.'' @ clNamespace cluster @ ''.svc.cluster.local:8112''\<rparr>"

definition upgrade_active :: "PeerDBCluster \<Rightarrow> bool" where
  "upgrade_active cluster \<longleftrightarrow>
     (case csUpgrade (clStatus cluster) of None \<Rightarrow> False | Some u \<Rightarrow> upPhase u \<noteq> UpgradePhaseComplete)"

definition setFinalConditions :: "'w env \<Rightarrow> PeerDBCluster \<Rightarrow> bool \<Rightarrow> bool \<Rightarrow> bool \<Rightarrow> ('w, PeerDBCluster) prog" where
  "setFinalConditions E cluster initReady componentsReady backupInProgress = do {
     c1 \<leftarrow> (if initReady \<and> componentsReady
            then do {
              c \<leftarrow> set_cond E ConditionReady ConditionTrue ReasonClusterReady ''PeerDB cluster is ready'' cluster;
              event EventTypeNormal ReasonClusterReady ''Reconciled'' ''PeerDB cluster is ready'';
              set_cluster_ready c 1;
              ret c
            }
            else do {
              c \<leftarrow> set_cond E ConditionReady ConditionFalse ReasonClusterNotReady ''PeerDB cluster is not fully ready'' cluster;
              set_cluster_ready c 0;
              ret c
            });
     c2 \<leftarrow> (if backupInProgress
            then set_cond E ConditionBackupSafe ConditionFalse ReasonBackupInProgress
                   ''Backup is in progress, destructive operations are fenced'' c1
            else if upgrade_active c1 \<or> \<not> componentsReady
            then set_cond E ConditionBackupSafe ConditionFalse ReasonBackupUnsafe
                   ''Cluster is not safe for backup: upgrade or rollout in progress'' c1
            else set_cond E ConditionBackupSafe ConditionTrue ReasonBackupSafe ''Cluster is safe for backup'' c1);
     c3 \<leftarrow> set_cond E ConditionReconciling ConditionFalse ReasonReconcileComplete ''Reconciliation complete'' c2;
     ret (set_status (\<lambda>s. s\<lparr>csEndpoints := Some (endpoints_of cluster)\<rparr>) c3)
   }"

text \<open>The annotation that fences a cluster, present and not empty.\<close>

definition backup_in_progress :: "ObjectMeta \<Rightarrow> bool" where
  "backup_in_progress m \<longleftrightarrow> smap_get (mAnnotations m) AnnotationBackupInProgress \<noteq> ''''"

text \<open>Init jobs, components, final conditions and the status update.\<close>

definition standard_reconcile :: "'w env \<Rightarrow> PeerDBCluster \<Rightarrow> string \<Rightarrow> bool \<Rightarrow> ('w, Result) gprog" where
  "standard_reconcile E cluster configHash backupInProgress =
     on_ok (reconcileInitJobsAndStatus E cluster backupInProgress) (\<lambda>(c1, initReady).
     on_ok (reconcileComponentsAndStatus E c1 configHash backupInProgress) (\<lambda>(c2, componentsReady). do {
       c3 \<leftarrow> setFinalConditions E c2 initReady componentsReady backupInProgress;
       st \<leftarrow> updateStatus E (observe_generation c3);
       case st of
         Inl e \<Rightarrow> if IsConflict e then ok requeue else fail e
       | Inr _ \<Rightarrow> if \<not> initReady \<or> \<not> componentsReady then ok (requeue_after 10) else ok done_result
     }))"

text \<open>ServiceAccount and ConfigMap, then the upgrade lifecycle, then the rest.\<close>

definition reconcile_active :: "'w env \<Rightarrow> PeerDBCluster \<Rightarrow> string \<Rightarrow> bool \<Rightarrow> ('w, Result) gprog" where
  "reconcile_active E cluster configHash backupInProgress =
     on_ok (case BuildServiceAccount cluster of
              None \<Rightarrow> ok ()
            | Some sa \<Rightarrow> reconcileServiceAccount E cluster sa) (\<lambda>_.
     on_ok (reconcileConfigMap E cluster (BuildConfigMap cluster)) (\<lambda>_.
     on_ok (reconcileUpgradeLifecycle E cluster configHash backupInProgress) (\<lambda>lc.
       case lc of
         Done result \<Rightarrow> ok result
       | Continue cluster1 \<Rightarrow> standard_reconcile E cluster1 configHash backupInProgress)))"

definition Reconcile :: "'w env \<Rightarrow> NamespacedName \<Rightarrow> ('w, Result) gprog" where
  "Reconcile E req = do {
     r \<leftarrow> kget KCluster (clusters E) req;
     case r of
       Inl e \<Rightarrow> if IsNotFound e then ok done_result else fail e
     | Inr cluster0 \<Rightarrow> do {
         cluster \<leftarrow> set_cond E ConditionReconciling ConditionTrue ReasonReconciling ''Reconciliation in progress'' cluster0;
         if clPaused (clSpec cluster) then reconcilePaused E cluster
         else do {
           let backupInProgress = backup_in_progress (clMeta cluster);
           _ \<leftarrow> (if backupInProgress
                  then event EventTypeNormal ReasonBackupInProgress ''BackupFencing''
                         ''Backup in progress: destructive operations are fenced''
                  else ret ());
           on_ok (reconcileDependencies E cluster) (\<lambda>(cluster1, configHash).
             if configHash = '''' then ok (requeue_after 30)
             else reconcile_active E cluster1 configHash backupInProgress)
         }
       }
   }"

section \<open>Least privilege\<close>

text \<open>
  The operations granted to the operator by the RBAC markers above \<open>Reconcile\<close>, on the kinds the
  cluster controller uses: everything on Deployments, Services, ConfigMaps, ServiceAccounts and Jobs;
  reading Secrets; reading clusters and updating their status; events. Metrics need no permission.
\<close>

fun rbac_allows :: "effect \<Rightarrow> bool" where
  "rbac_allows (EGet kd _) \<longleftrightarrow>
     kd \<in> {KCluster, KSecret, KDeployment, KService, KConfigMap, KServiceAccount, KJob}"
| "rbac_allows (ECreate ob) \<longleftrightarrow> kind_of ob \<in> {KDeployment, KService, KConfigMap, KServiceAccount, KJob}"
| "rbac_allows (EUpdate ob) \<longleftrightarrow> kind_of ob \<in> {KDeployment, KService, KConfigMap, KServiceAccount, KJob}"
| "rbac_allows (EStatusUpdate ob) \<longleftrightarrow> kind_of ob = KCluster"
| "rbac_allows (EDelete ob) \<longleftrightarrow> kind_of ob = KJob"
| "rbac_allows _ \<longleftrightarrow> True"

lemma emits_case_lifecycle [emits_intros]:
  "(\<And>r. x = Done r \<Longrightarrow> emits P (f r)) \<Longrightarrow> (\<And>c. x = Continue c \<Longrightarrow> emits P (g c)) \<Longrightarrow>
     emits P (case x of Done r \<Rightarrow> f r | Continue c \<Rightarrow> g c)"
  by (cases x) auto

lemma rbac_upgrade_dispatch: "emits rbac_allows (upgrade_dispatch E c h p)"
  unfolding upgrade_dispatch_def by (cases p) (auto intro!: emits_intros)

lemma rbac_reconcileUpgrade: "emits rbac_allows (reconcileUpgrade E c h)"
  unfolding reconcileUpgrade_def by (intro emits_intros rbac_upgrade_dispatch)

lemma rbac_lifecycle: "emits rbac_allows (reconcileUpgradeLifecycle E c h b)"
  unfolding reconcileUpgradeLifecycle_def by (intro emits_intros rbac_reconcileUpgrade) simp_all

lemma emits_observe_deployments [emits_intros]:
  "(\<And>n. P (EGet KDeployment n)) \<Longrightarrow> emits P (observe_deployments E ns names b)"
  by (induction names arbitrary: b) (auto intro!: emits_intros)

lemma emits_setFinalConditions [emits_intros]:
  "(\<And>t r a n. P (EEvent t r a n)) \<Longrightarrow> (\<And>m a b v. P (EGauge m a b v)) \<Longrightarrow>
     emits P (setFinalConditions E c i r b)"
  unfolding setFinalConditions_def by (intro emits_intros)

lemma emits_reconcileDependencies_exact:
  "(\<And>n. P (EGet KSecret n)) \<Longrightarrow> (\<And>t r a n. P (EEvent t r a n)) \<Longrightarrow> (\<And>m a b v. P (EGauge m a b v)) \<Longrightarrow>
     (\<And>a b. P (ECounter a b)) \<Longrightarrow>
     (\<And>x. csUpgrade (clStatus x) = csUpgrade (clStatus c) \<Longrightarrow> P (EStatusUpdate (OCluster x))) \<Longrightarrow>
     emits P (reconcileDependencies E c)"
  unfolding reconcileDependencies_def
  by (rule emits_let, rule emits_bind, intro emits_intros, simp)
    (intro emits_case_sum emits_bind_set_cond emits_bind [OF emits_event] emits_intros; simp)

lemma emits_reconcileDependencies [emits_intros]:
  "(\<And>n. P (EGet KSecret n)) \<Longrightarrow> (\<And>t r a n. P (EEvent t r a n)) \<Longrightarrow> (\<And>m a b v. P (EGauge m a b v)) \<Longrightarrow>
     (\<And>a b. P (ECounter a b)) \<Longrightarrow> (\<And>x. P (EStatusUpdate (OCluster x))) \<Longrightarrow>
     emits P (reconcileDependencies E c)"
  by (rule emits_reconcileDependencies_exact)

lemma rbac_standard: "emits rbac_allows (standard_reconcile E c h b)"
  unfolding standard_reconcile_def reconcileInitJobsAndStatus_def reconcileComponentsAndStatus_def
  by (intro emits_intros) simp_all

lemma rbac_active: "emits rbac_allows (reconcile_active E c h b)"
  unfolding reconcile_active_def by (intro emits_intros rbac_lifecycle rbac_standard) simp_all

lemma rbac_Reconcile: "emits rbac_allows (Reconcile E req)"
  unfolding Reconcile_def reconcilePaused_def by (intro emits_intros rbac_active) simp_all

interpretation cluster_controller: crd_controller Reconcile clusters KCluster rbac_allows
proof (unfold_locales, goal_cases)
  case (1 E req s e w1)
  then show ?case by (simp add: Reconcile_def kget_def IsNotFound_def)
next
  case (2 E req)
  show ?case by (rule rbac_Reconcile)
qed auto

text \<open>
  Whatever the server answers, a reconciliation of a cluster stays within its permissions: it
  writes only Deployments, Services, ConfigMaps, ServiceAccounts and Jobs, deletes only Jobs, reads
  Secrets but never writes them, and of a PeerDBCluster changes nothing but the status.
\<close>

lemma Reconcile_within_rbac:
  "\<exists>es. log (snd (run_state (Reconcile E req) s)) = log s @ es \<and> list_all rbac_allows es"
  by (rule emitsD [OF rbac_Reconcile])

section \<open>Pausing\<close>

lemma Reconcile_found:
  assumes "rGet (clusters E) req (world s) = (Inr c, w1)"
  defines "s1 \<equiv> s\<lparr>world := w1, log := log s @ [EGet KCluster req]\<rparr>"
    and "c1 \<equiv> with_condition (elib E) (nowOf E w1) ConditionReconciling ConditionTrue ReasonReconciling
                 ''Reconciliation in progress'' c"
  shows "run_state (Reconcile E req) s =
    (if clPaused (clSpec c) then run_state (reconcilePaused E c1) s1
     else run_state (do {
           _ \<leftarrow> (if backup_in_progress (clMeta c)
                  then event EventTypeNormal ReasonBackupInProgress ''BackupFencing''
                         ''Backup in progress: destructive operations are fenced''
                  else ret ());
           on_ok (reconcileDependencies E c1) (\<lambda>(cluster1, configHash).
             if configHash = '''' then ok (requeue_after 30)
             else reconcile_active E cluster1 configHash (backup_in_progress (clMeta c)))
         }) s1)"
  using assms(1) by (simp add: Reconcile_def kget_def s1_def c1_def Let_def)

text \<open>
  (C11) A paused cluster is only reported on: the reconciliation reads it, emits one event, sets the
  readiness gauge to 0 and writes the status once, with Ready false for reason Paused and the current
  generation observed, its spec, metadata and upgrade status as they were. Then it is done; the only
  possible error is that of the status update.
\<close>

theorem paused_only_reports:
  assumes L: "condition_lib (elib E)"
    and get: "rGet (clusters E) req (world s) = (Inr c, w1)" and paused: "clPaused (clSpec c)"
  shows "\<exists>c'. fst (run_state (Reconcile E req) s) =
       map_sum id (\<lambda>_. done_result) (fst (rStatusUpdate (clusters E) c' w1)) \<and>
     log (snd (run_state (Reconcile E req) s)) = log s @
       [EGet KCluster req, EEvent EventTypeNormal ReasonPaused ''Paused'' ''Cluster reconciliation is paused'',
        EGauge metric_cluster_ready (clName c) (clNamespace c) 0, EStatusUpdate (OCluster c')] \<and>
     clSpec c' = clSpec c \<and> clMeta c' = clMeta c \<and> csUpgrade (clStatus c') = csUpgrade (clStatus c) \<and>
     csObservedGeneration (clStatus c') = clGeneration c \<and>
     cond_status (elib E) c' ConditionReady = Some ConditionFalse \<and>
     cond_reason (elib E) c' ConditionReady = Some ReasonPaused"
proof -
  let ?c1 = "with_condition (elib E) (nowOf E w1) ConditionReconciling ConditionTrue ReasonReconciling
                 ''Reconciliation in progress'' c"
  let ?c2 = "observe_generation (with_condition (elib E) (nowOf E w1) ConditionReady ConditionFalse ReasonPaused
      ''Cluster reconciliation is paused'' ?c1)"
  obtain r w2 where upd: "rStatusUpdate (clusters E) ?c2 w1 = (r, w2)" by fastforce
  show ?thesis
    using upd condition_lib.cond_status_with [OF L] condition_lib.cond_reason_with [OF L]
    by (intro exI [of _ ?c2])
      (auto simp: Reconcile_found [OF get] paused reconcilePaused_def kstatus_def split: sum.splits)
qed

text \<open>The paused cluster of the witnesses, and a server that holds it.\<close>

definition paused_cluster :: PeerDBCluster where
  "paused_cluster = sample_cluster\<lparr>clSpec := sample_spec\<lparr>clPaused := True\<rparr>\<rparr>"

lemma get_sample:
  "meta_key (clMeta c) = n \<Longrightarrow> rGet (clusters mem_env) n (world (sys_with c)) = (Inr c, world (sys_with c))"
  by (simp add: sys_with_def mem_defs cluster_slot_def)

lemma sample_keys:
  "meta_key (clMeta paused_cluster) = NN ''peerdb'' ''default''"
  "meta_key (clMeta sample_cluster) = NN ''peerdb'' ''default''"
  by (simp_all add: paused_cluster_def sample_defs meta_key_def)

lemma paused_only_reports_witness:
  "\<exists>c'. log (snd (run_state (Reconcile mem_env (NN ''peerdb'' ''default'')) (sys_with paused_cluster))) =
     [EGet KCluster (NN ''peerdb'' ''default''),
      EEvent EventTypeNormal ReasonPaused ''Paused'' ''Cluster reconciliation is paused'',
      EGauge metric_cluster_ready ''peerdb'' ''default'' 0, EStatusUpdate (OCluster c')] \<and>
     cond_status mem_lib c' ConditionReady = Some ConditionFalse"
proof -
  have "clPaused (clSpec paused_cluster)" by (simp add: paused_cluster_def)
  from paused_only_reports [OF mem_laws(3) get_sample [OF sample_keys(1)] this] show ?thesis
    by (auto simp: sys_with_def paused_cluster_def sample_defs)
qed

section \<open>Missing objects\<close>

text \<open>
  A cluster that is gone, and one that cannot be read, causes nothing: the reconciliation ends
  after the read, without error in the first case.
\<close>

lemma Reconcile_unreadable:
  assumes "rGet (clusters E) req (world s) = (Inl e, w1)"
  shows "run_state (Reconcile E req) s =
    (if e = NotFound then Inr done_result else Inl e, s\<lparr>world := w1, log := log s @ [EGet KCluster req]\<rparr>)"
  using assms by (simp add: Reconcile_def kget_def IsNotFound_def)

lemma Reconcile_unreadable_witness:
  "fst (run_state (Reconcile mem_env (NN ''gone'' ''default'')) (sys_with sample_cluster)) = Inr done_result"
proof -
  have "rGet (clusters mem_env) (NN ''gone'' ''default'') (world (sys_with sample_cluster)) =
      (Inl NotFound, world (sys_with sample_cluster))"
    by (simp add: sys_with_def mem_defs slot_defs sample_defs meta_key_def NN_def)
  from Reconcile_unreadable [OF this] show ?thesis by simp
qed

text \<open>The catalog secret of a cluster.\<close>

definition catalog_secret_key :: "PeerDBCluster \<Rightarrow> NamespacedName" where
  "catalog_secret_key c = NN (sksName (catPasswordSecretRef (clCatalog c))) (clNamespace c)"

text \<open>
  (C16) Without its catalog secret a cluster that is not paused is not touched, whether or not it is
  fenced for a backup: the reconciliation reads the cluster and the secret, reports (a fence event when
  it is fenced, an event, the error counter, the gauge at 0, the status with CatalogReady and Ready
  false and the upgrade as it was) and asks to be called again after 30 seconds, or passes on the error
  of the status update. No object is created, updated or deleted.
\<close>

theorem missing_secret_stops:
  assumes L: "condition_lib (elib E)"
    and get: "rGet (clusters E) req (world s) = (Inr c, w1)"
    and active: "\<not> clPaused (clSpec c)"
    and secret: "rGet (secrets E) (catalog_secret_key c) w1 = (Inl e, w2)"
  shows "\<exists>c' ev. fst (run_state (Reconcile E req) s) =
       map_sum id (\<lambda>_. requeue_after 30) (fst (rStatusUpdate (clusters E) c' w2)) \<and>
     log (snd (run_state (Reconcile E req) s)) = log s @ [EGet KCluster req] @
       (if backup_in_progress (clMeta c)
        then [EEvent EventTypeNormal ReasonBackupInProgress ''BackupFencing''
                ''Backup in progress: destructive operations are fenced'']
        else []) @
       [EGet KSecret (catalog_secret_key c),
        EEvent EventTypeWarning ReasonSecretNotFound ''DependencyCheck'' ev,
        ECounter metric_reconcile_errors ''peerdbcluster'',
        EGauge metric_cluster_ready (clName c) (clNamespace c) 0, EStatusUpdate (OCluster c')] \<and>
     clSpec c' = clSpec c \<and> clMeta c' = clMeta c \<and> csUpgrade (clStatus c') = csUpgrade (clStatus c) \<and>
     csObservedGeneration (clStatus c') = clGeneration c \<and>
     cond_status (elib E) c' ConditionCatalogReady = Some ConditionFalse \<and>
     cond_reason (elib E) c' ConditionCatalogReady = Some ReasonSecretNotFound \<and>
     cond_status (elib E) c' ConditionReady = Some ConditionFalse \<and>
     cond_reason (elib E) c' ConditionReady = Some ReasonDependencyNotReady"
proof -
  let ?msg = "''Catalog password secret '' @ fmt_q (sksName (catPasswordSecretRef (clCatalog c))) @ '' not found''"
  let ?c1 = "with_condition (elib E) (nowOf E w1) ConditionReconciling ConditionTrue ReasonReconciling
                 ''Reconciliation in progress'' c"
  let ?c2 = "with_condition (elib E) (nowOf E w2) ConditionCatalogReady ConditionFalse ReasonSecretNotFound ?msg ?c1"
  let ?c3 = "observe_generation (with_condition (elib E) (nowOf E w2) ConditionReady ConditionFalse
      ReasonDependencyNotReady ''Catalog dependency is not ready'' ?c2)"
  obtain r w3 where upd: "rStatusUpdate (clusters E) ?c3 w2 = (r, w3)" by fastforce
  have "ConditionReady \<noteq> ConditionCatalogReady" by (simp add: condition_type_defs)
  then show ?thesis
    using upd secret condition_lib.cond_status_with [OF L] condition_lib.cond_reason_with [OF L]
    by (intro exI [of _ ?c3] exI [of _ ?msg])
      (cases r; cases "backup_in_progress (clMeta c)"; simp add: Reconcile_found [OF get] active
        reconcileDependencies_def kcall_defs catalog_secret_key_def Let_def)
qed

definition sys_without_secret :: "memw sys" where
  "sys_without_secret = (sys_with sample_cluster)\<lparr>world := (world (sys_with sample_cluster))\<lparr>meSecrets := []\<rparr>\<rparr>"

lemma missing_secret_stops_witness:
  "list_all (\<lambda>e. writes e = None)
     (log (snd (run_state (Reconcile mem_env (NN ''peerdb'' ''default'')) sys_without_secret)))"
proof -
  have get: "rGet (clusters mem_env) (NN ''peerdb'' ''default'') (world sys_without_secret) =
      (Inr sample_cluster, world sys_without_secret)"
    by (simp add: sys_without_secret_def sys_with_def mem_defs cluster_slot_def sample_keys)
  have secret: "rGet (secrets mem_env) (catalog_secret_key sample_cluster) (world sys_without_secret) =
      (Inl NotFound, world sys_without_secret)"
    by (simp add: sys_without_secret_def sys_with_def mem_defs secret_slot_def)
  have active: "\<not> clPaused (clSpec sample_cluster)" "\<not> backup_in_progress (clMeta sample_cluster)"
    by (simp_all add: sample_defs backup_in_progress_def smap_get_def)
  from missing_secret_stops [OF mem_laws(3) get active(1) secret] active(2)
  obtain c' ev where
    "log (snd (run_state (Reconcile mem_env (NN ''peerdb'' ''default'')) sys_without_secret)) = log sys_without_secret @
       [EGet KCluster (NN ''peerdb'' ''default''), EGet KSecret (catalog_secret_key sample_cluster),
        EEvent EventTypeWarning ReasonSecretNotFound ''DependencyCheck'' ev,
        ECounter metric_reconcile_errors ''peerdbcluster'',
        EGauge metric_cluster_ready (clName sample_cluster) (clNamespace sample_cluster) 0, EStatusUpdate (OCluster c')]"
    by auto
  then show ?thesis by (simp add: sys_without_secret_def sys_with_def)
qed

section \<open>The final conditions, written out\<close>

lemma with_condition_other [simp]:
  "csUpgrade (clStatus (set_status (\<lambda>s. s\<lparr>csEndpoints := e\<rparr>) c)) = csUpgrade (clStatus c)"
  "cond_status L (set_status (\<lambda>s. s\<lparr>csEndpoints := e\<rparr>) c) T = cond_status L c T"
  "cond_reason L (set_status (\<lambda>s. s\<lparr>csEndpoints := e\<rparr>) c) T = cond_reason L c T"
  by (simp_all add: set_status_def cond_status_def cond_reason_def)

lemma upgrade_active_with [simp]:
  "upgrade_active (with_condition L t ty st reason msg c) = upgrade_active c"
  by (simp add: upgrade_active_def)

text \<open>The cluster that \<open>setFinalConditions\<close> leaves, written out.\<close>

lemma run_setFinalConditions:
  "run_state (setFinalConditions E c initReady componentsReady backup) s =
     (let ready = (initReady \<and> componentsReady); t = nowOf E (world s); L = elib E in
      (set_status (\<lambda>s. s\<lparr>csEndpoints := Some (endpoints_of c)\<rparr>)
        (with_condition L t ConditionReconciling ConditionFalse ReasonReconcileComplete ''Reconciliation complete''
          (with_condition L t ConditionBackupSafe
            (if \<not> backup \<and> \<not> upgrade_active c \<and> componentsReady then ConditionTrue else ConditionFalse)
            (if backup then ReasonBackupInProgress
             else if upgrade_active c \<or> \<not> componentsReady then ReasonBackupUnsafe else ReasonBackupSafe)
            (if backup then ''Backup is in progress, destructive operations are fenced''
             else if upgrade_active c \<or> \<not> componentsReady
             then ''Cluster is not safe for backup: upgrade or rollout in progress'' else ''Cluster is safe for backup'')
            (with_condition L t ConditionReady (if ready then ConditionTrue else ConditionFalse)
              (if ready then ReasonClusterReady else ReasonClusterNotReady)
              (if ready then ''PeerDB cluster is ready'' else ''PeerDB cluster is not fully ready'') c))),
       s\<lparr>log := log s @
         (if ready then [EEvent EventTypeNormal ReasonClusterReady ''Reconciled'' ''PeerDB cluster is ready''] else []) @
         [EGauge metric_cluster_ready (clName c) (clNamespace c) (if ready then 1 else 0)]\<rparr>))"
  unfolding setFinalConditions_def
  by (cases "initReady \<and> componentsReady"; cases backup; cases "upgrade_active c"; cases componentsReady)
    (simp_all only: State_Monad.run_state_bind Let_def, simp_all)

section \<open>Backup fencing\<close>

text \<open>What a fenced reconciliation may write: the ServiceAccount and the ConfigMap.\<close>

definition fence_allows :: "effect \<Rightarrow> bool" where
  "fence_allows e \<longleftrightarrow> (case e of EDelete _ \<Rightarrow> False | _ \<Rightarrow> writes e \<in> {None, Some KServiceAccount, Some KConfigMap})"

lemma fence_allows_simps [simp]:
  "fence_allows (EGet kd n)" "fence_allows (EStatusUpdate ob)" "fence_allows (EEvent a b c d)"
  "fence_allows (EGauge m x y v)" "fence_allows (ECounter m x)" "\<not> fence_allows (EDelete ob)"
  "fence_allows (ECreate ob) \<longleftrightarrow> kind_of ob \<in> {KServiceAccount, KConfigMap}"
  "fence_allows (EUpdate ob) \<longleftrightarrow> kind_of ob \<in> {KServiceAccount, KConfigMap}"
  by (auto simp: fence_allows_def)

text \<open>
  \<open>upgrade_as c x\<close>: the upgrade that \<open>x\<close> reports is the one of \<open>c\<close>, or, when \<open>c\<close> reports none yet, the
  completed installation of its version.
\<close>

definition upgrade_as :: "PeerDBCluster \<Rightarrow> PeerDBCluster \<Rightarrow> bool" where
  "upgrade_as c x \<longleftrightarrow>
     csUpgrade (clStatus x) = csUpgrade (clStatus c) \<or>
     csUpgrade (clStatus c) = None \<and>
       csUpgrade (clStatus x) = Some \<lparr>upFromVersion = '''', upToVersion = clVersion (clSpec c),
         upPhase = UpgradePhaseComplete, upStartedAt = None, upMessage = ''''\<rparr>"

text \<open>An effect of a fenced reconciliation: a permitted write, or a status without an upgrade step.\<close>

definition fenced_effect :: "PeerDBCluster \<Rightarrow> effect \<Rightarrow> bool" where
  "fenced_effect c e \<longleftrightarrow> fence_allows e \<and> (case e of EStatusUpdate (OCluster x) \<Rightarrow> upgrade_as c x | _ \<Rightarrow> True)"

lemma fenced_effect_simps [simp]:
  "fenced_effect c (EGet kd n)" "fenced_effect c (EEvent t r a m)"
  "fenced_effect c (EGauge g n1 n2 v)" "fenced_effect c (ECounter g n1)"
  "fenced_effect c (ECreate ob) \<longleftrightarrow> kind_of ob \<in> {KServiceAccount, KConfigMap}"
  "fenced_effect c (EUpdate ob) \<longleftrightarrow> kind_of ob \<in> {KServiceAccount, KConfigMap}"
  "fenced_effect c (EStatusUpdate (OCluster x)) \<longleftrightarrow> upgrade_as c x"
  by (simp_all add: fenced_effect_def)

lemma upgrade_as_init:
  "csUpgrade (clStatus c1) = csUpgrade (clStatus c) \<Longrightarrow> clSpec c1 = clSpec c \<Longrightarrow> upgrade_as c (init_upgrade c1)"
  by (auto simp: upgrade_as_def init_upgrade_def set_status_def split: option.splits)

text \<open>What the steps hand on: the same cluster up to its conditions.\<close>

definition same_but_conditions :: "PeerDBCluster \<Rightarrow> PeerDBCluster \<Rightarrow> bool" where
  "same_but_conditions c c' \<longleftrightarrow>
     clMeta c' = clMeta c \<and> clSpec c' = clSpec c \<and> csUpgrade (clStatus c') = csUpgrade (clStatus c)"

lemma results_init_status:
  "results (\<lambda>(c', r). same_but_conditions c c') (reconcileInitJobsAndStatus E c b)"
  unfolding reconcileInitJobsAndStatus_def
  by (rule results_on_ok) (auto simp: results_def same_but_conditions_def)

lemma results_components_status:
  "results (\<lambda>(c', r). same_but_conditions c c') (reconcileComponentsAndStatus E c h b)"
  unfolding reconcileComponentsAndStatus_def
  by (rule results_on_ok) (auto simp: results_def same_but_conditions_def)

lemma results_dependencies:
  "results (\<lambda>(c', h). h \<noteq> '''' \<longrightarrow> same_but_conditions c c') (reconcileDependencies E c)"
  by (auto simp: results_def reconcileDependencies_def Let_def same_but_conditions_def split: prod.splits sum.splits)

lemma fenced_standard:
  assumes "upgrade_as c c1"
  shows "emits (fenced_effect c) (standard_reconcile E c1 h True)"
  unfolding standard_reconcile_def
proof (rule emits_on_ok_inv [OF _ results_init_status], goal_cases)
  case 1
  show ?case unfolding reconcileInitJobsAndStatus_def by simp (intro emits_intros)
next
  case (2 p)
  obtain c2 ready where p: "p = (c2, ready)" by fastforce
  show ?case
    unfolding p prod.case
  proof (rule emits_on_ok_inv [OF _ results_components_status], goal_cases)
    case 1
    show ?case unfolding reconcileComponentsAndStatus_def by simp (intro emits_intros; simp)
  next
    case (2 q)
    obtain c3 r where q: "q = (c3, r)" by fastforce
    with 2 \<open>case p of (c', r) \<Rightarrow> same_but_conditions c1 c'\<close> assms have as: "upgrade_as c c3"
      by (simp add: p same_but_conditions_def upgrade_as_def)
    show ?case
      unfolding q prod.case
    proof (rule emits_bind_inv [where I = "upgrade_as c"], goal_cases)
      case (2 s)
      then show ?case using as by (simp add: run_setFinalConditions Let_def upgrade_as_def)
    next
      case (3 c4)
      then show ?case
        by (intro emits_bind emits_updateStatus_exact) (auto simp: upgrade_as_def intro!: emits_intros)
    qed (intro emits_intros; simp)
  qed
qed

lemma lifecycle_fenced:
  "run_state (reconcileUpgradeLifecycle E c h True) s = (Inr (Continue (init_upgrade c)), s)"
  by (simp add: reconcileUpgradeLifecycle_def)

lemma fenced_active:
  assumes "csUpgrade (clStatus c1) = csUpgrade (clStatus c)" "clSpec c1 = clSpec c"
  shows "emits (fenced_effect c) (reconcile_active E c1 h True)"
proof -
  have active: "emits (fenced_effect c) (on_ok (reconcileUpgradeLifecycle E c1 h True) (\<lambda>lc. case lc of
         Done result \<Rightarrow> ok result | Continue cluster1 \<Rightarrow> standard_reconcile E cluster1 h True))"
    by (rule emits_on_ok_inv [where I = "\<lambda>lc. lc = Continue (init_upgrade c1)"])
      (auto simp: lifecycle_fenced emits_def yields_def results_def
        fenced_standard [OF upgrade_as_init [OF assms], unfolded emits_def yields_def])
  show ?thesis
    unfolding reconcile_active_def
    by (rule emits_on_ok [OF _ emits_on_ok [OF _ active]]) (intro emits_intros; simp)+
qed

lemma fenced_active_allows: "emits fence_allows (reconcile_active E c h True)"
  by (rule emits_mono [OF fenced_active [OF refl refl]]) (simp add: fenced_effect_def)

text \<open>The effects of a reconciliation of a cluster that was read.\<close>

lemma Reconcile_trace:
  assumes get: "rGet (clusters E) req (world s) = (Inr c, w1)"
    and paused: "\<And>c1. clPaused (clSpec c) \<Longrightarrow> csUpgrade (clStatus c1) = csUpgrade (clStatus c) \<Longrightarrow>
        emits P (reconcilePaused E c1)"
    and active: "\<And>c1. \<not> clPaused (clSpec c) \<Longrightarrow> clSpec c1 = clSpec c \<Longrightarrow>
        csUpgrade (clStatus c1) = csUpgrade (clStatus c) \<Longrightarrow>
        emits P (on_ok (reconcileDependencies E c1) (\<lambda>(cluster1, configHash).
             if configHash = '''' then ok (requeue_after 30)
             else reconcile_active E cluster1 configHash (backup_in_progress (clMeta c))))"
    and P: "P (EGet KCluster req)" "\<And>t r a n. P (EEvent t r a n)"
  shows "\<exists>es. log (snd (run_state (Reconcile E req) s)) = log s @ es \<and> list_all P es"
proof -
  let ?s1 = "s\<lparr>world := w1, log := log s @ [EGet KCluster req]\<rparr>"
  let ?c1 = "with_condition (elib E) (nowOf E w1) ConditionReconciling ConditionTrue ReasonReconciling
                 ''Reconciliation in progress'' c"
  have "\<exists>m. emits P m \<and> run_state (Reconcile E req) s = run_state m ?s1"
  proof (cases "clPaused (clSpec c)")
    case True
    then have "emits P (reconcilePaused E ?c1)" by (rule paused) simp
    with True show ?thesis by (auto simp: Reconcile_found [OF get])
  next
    case False
    have "emits P (do {
           _ \<leftarrow> (if backup_in_progress (clMeta c)
                  then event EventTypeNormal ReasonBackupInProgress ''BackupFencing''
                         ''Backup in progress: destructive operations are fenced''
                  else ret ());
           on_ok (reconcileDependencies E ?c1) (\<lambda>(cluster1, configHash).
             if configHash = '''' then ok (requeue_after 30)
             else reconcile_active E cluster1 configHash (backup_in_progress (clMeta c)))})"
      by (rule emits_bind [OF emits_if active]) (simp_all add: False P emits_return emits_event)
    with False show ?thesis
      unfolding Reconcile_found [OF get] if_not_P [OF False] by blast
  qed
  then obtain m where m: "emits P m" and run: "run_state (Reconcile E req) s = run_state m ?s1"
    by blast
  from emitsD [OF m, of ?s1] obtain es where
    "log (snd (run_state m ?s1)) = log ?s1 @ es" "list_all P es" by blast
  then show ?thesis using P(1) by (auto simp: run intro!: exI [of _ "EGet KCluster req # es"])
qed

lemma fenced_paused:
  "csUpgrade (clStatus c1) = csUpgrade (clStatus c) \<Longrightarrow> emits (fenced_effect c) (reconcilePaused E c1)"
  unfolding reconcilePaused_def
  by (intro emits_bind_set_cond emits_intros) (simp_all add: upgrade_as_def)

lemma paused_allows: "emits fence_allows (reconcilePaused E c)"
  by (rule emits_mono [OF fenced_paused [OF refl]]) (simp add: fenced_effect_def)

text \<open>
  (C1) Backup fencing: while the cluster carries the backup annotation, a reconciliation creates,
  updates and deletes no Deployment, Service or Job, and deletes nothing at all: whatever the server
  answers, it writes only the ServiceAccount, the ConfigMap and the status. It makes no step of an
  upgrade either: every status it writes reports the upgrade that was read (phase, versions and
  message), or the completed installation of the current version where none was recorded yet.
\<close>

theorem backup_fences:
  assumes get: "rGet (clusters E) req (world s) = (Inr c, w1)" and fenced: "backup_in_progress (clMeta c)"
  shows "\<exists>es. log (snd (run_state (Reconcile E req) s)) = log s @ es \<and> list_all (fenced_effect c) es"
proof (rule Reconcile_trace [OF get])
  fix c1 :: PeerDBCluster
  assume c1: "clSpec c1 = clSpec c" "csUpgrade (clStatus c1) = csUpgrade (clStatus c)"
  have "emits (fenced_effect c) (reconcileDependencies E c1)"
    by (rule emits_reconcileDependencies_exact) (simp_all add: upgrade_as_def c1)
  then show "emits (fenced_effect c) (on_ok (reconcileDependencies E c1) (\<lambda>(cluster1, configHash).
      if configHash = '''' then ok (requeue_after 30)
      else reconcile_active E cluster1 configHash (backup_in_progress (clMeta c))))"
  proof (rule emits_on_ok_inv [OF _ results_dependencies])
    fix x :: "PeerDBCluster \<times> string"
    assume "case x of (c', h) \<Rightarrow> h \<noteq> '''' \<longrightarrow> same_but_conditions c1 c'"
    then show "emits (fenced_effect c) (case x of (cluster1, configHash) \<Rightarrow>
        if configHash = '''' then ok (requeue_after 30)
        else reconcile_active E cluster1 configHash (backup_in_progress (clMeta c)))"
      using fenced c1 by (auto simp: same_but_conditions_def split: prod.splits intro!: emits_return fenced_active)
  qed
qed (simp_all add: fenced_paused)

text \<open>A fenced cluster in the middle of an upgrade.\<close>

definition fenced_upgrade :: PeerDBCluster where
  "fenced_upgrade = upgrading UpgradePhaseFlowAPI fenced_cluster"

lemma backup_fences_witness:
  "list_all (fenced_effect fenced_upgrade)
     (log (snd (run_state (Reconcile mem_env (NN ''peerdb'' ''default'')) (sys_with fenced_upgrade))))"
proof -
  have key: "meta_key (clMeta fenced_upgrade) = NN ''peerdb'' ''default''"
    by (simp add: fenced_upgrade_def upgrading_def set_status_def fenced_cluster_def sample_defs meta_key_def)
  have "backup_in_progress (clMeta fenced_upgrade)"
    by (simp add: fenced_upgrade_def upgrading_def set_status_def fenced_cluster_def backup_in_progress_def smap_get_def)
  from backup_fences [OF get_sample [OF key] this] show ?thesis
    by (auto simp: sys_with_def)
qed

section \<open>Upgrade gates\<close>

text \<open>An upgrade that waits for its gates, or is about to.\<close>

definition upgrade_requested :: "PeerDBCluster \<Rightarrow> bool" where
  "upgrade_requested c \<longleftrightarrow>
     (case csUpgrade (clStatus c) of
        None \<Rightarrow> False
      | Some u \<Rightarrow> upPhase u = UpgradePhaseWaiting \<or>
                 upPhase u = UpgradePhaseComplete \<and> clVersion (clSpec c) \<noteq> upToVersion u)"

text \<open>The policy holds the upgrade back, or the maintenance window stays closed.\<close>

definition held_back :: "'w env \<Rightarrow> PeerDBCluster \<Rightarrow> bool" where
  "held_back E c \<longleftrightarrow> upgrade_policy c = UpgradePolicyManual \<or> (\<forall>w. window_closed E c (nowOf E w))"

lemma requested_entered:
  assumes "upgrade_requested c"
  obtains u where "csUpgrade (clStatus (entered t c)) = Some u" "upPhase u = UpgradePhaseWaiting"
    "clSpec (entered t c) = clSpec c" "upgrade_due c"
  using assms by (auto simp: upgrade_requested_def entered_def upgrade_due_def Let_def split: option.splits if_splits)

lemma held_back_upgrade:
  assumes "csUpgrade (clStatus c) = Some u" "upPhase u = UpgradePhaseWaiting" "held_back E c"
  shows "\<exists>c2 res s1 es. run_state (reconcileUpgrade E c h) s = (Inr (c2, res), s1) \<and> 0 < RequeueAfter res \<and>
    log s1 = log s @ es \<and> list_all fence_allows es"
proof -
  let ?c = "with_condition (elib E) (nowOf E (world s)) ConditionUpgradeInProgress ConditionTrue ReasonUpgradeInProgress
     (''Upgrading '' @ versions_text u @ '' (phase: '' @ phase_string (upPhase u) @ '')'') c"
  have same: "upgrade_policy ?c = upgrade_policy c" "window_closed E ?c t = window_closed E c t" for t
    by (simp_all add: upgrade_policy_def window_closed_def)
  have gate: "upgrade_policy c = UpgradePolicyManual \<or> window_closed E c (nowOf E (world s))"
    using assms(3) by (auto simp: held_back_def)
  have run: "run_state (reconcileUpgrade E c h) s = run_state (upgradePhaseWaiting E ?c) s"
    using assms(1,2) by (simp add: reconcileUpgrade_def with_upgrade_def upgrade_dispatch_def)
  show ?thesis
    unfolding run upgradePhaseWaiting_def same using gate same by auto
qed

lemma emits_on_ok_yields:
  assumes "yields m (\<lambda>r es. list_all P es \<and> (\<forall>x. r = Inr x \<longrightarrow> I x))" and "\<And>x. I x \<Longrightarrow> emits P (f x)"
  shows "emits P (on_ok m f)"
  unfolding emits_def
proof (rule yields_on_ok, rule yields_mono [OF assms(1)])
  fix r es
  assume *: "list_all P es \<and> (\<forall>x. r = Inr x \<longrightarrow> I x)"
  show "case r of Inl e \<Rightarrow> list_all P es | Inr x \<Rightarrow> yields (f x) (\<lambda>r' es'. list_all P (es @ es'))"
  proof (cases r)
    case (Inr x)
    with * assms(2) have "yields (f x) (\<lambda>_. list_all P)" by (simp add: emits_def)
    with * Inr show ?thesis by (auto elim: yields_mono)
  qed (use * in simp)
qed

lemma held_back_lifecycle:
  assumes "upgrade_requested c" "held_back E c"
  shows "yields (reconcileUpgradeLifecycle E c h False)
    (\<lambda>r es. list_all fence_allows es \<and> (\<forall>x. r = Inr x \<longrightarrow> (\<exists>res. x = Done res)))"
  unfolding yields_def
proof
  fix s :: "'a sys"
  let ?c = "entered (nowOf E (world s)) c"
  obtain u where u: "csUpgrade (clStatus ?c) = Some u" "upPhase u = UpgradePhaseWaiting"
      "clSpec ?c = clSpec c" "upgrade_due c"
    using requested_entered [OF assms(1)] by blast
  have held: "held_back E ?c"
    using assms(2) u(3) by (simp add: held_back_def upgrade_policy_def window_closed_def)
  from lifecycle_run [of E c h s] u(4) obtain es0 where es0: "list_all (\<lambda>e. writes e = None) es0"
    and run: "run_state (reconcileUpgradeLifecycle E c h False) s =
         (case run_state (reconcileUpgrade E ?c h) (s\<lparr>log := log s @ es0\<rparr>) of
            (Inl e, s1) \<Rightarrow> (Inl e, s1)
          | (Inr (c2, res), s1) \<Rightarrow>
              if 0 < RequeueAfter res
              then (case run_state (updateStatus E (observe_generation c2)) s1 of
                      (Inl e, s2) \<Rightarrow> (if IsConflict e then Inr (Done requeue) else Inl e, s2)
                    | (Inr _, s2) \<Rightarrow> (Inr (Done res), s2))
              else (Inr (Continue c2), s1))"
    by auto
  from held_back_upgrade [OF u(1,2) held, of h "s\<lparr>log := log s @ es0\<rparr>"] obtain c2 res s1 es1 where
    up: "run_state (reconcileUpgrade E ?c h) (s\<lparr>log := log s @ es0\<rparr>) = (Inr (c2, res), s1)" "0 < RequeueAfter res"
      "log s1 = (log s @ es0) @ es1" "list_all fence_allows es1"
    by auto
  have "emits fence_allows (updateStatus E (observe_generation c2))"
    by (intro emits_intros) simp_all
  from emitsD [OF this, of s1] obtain es2 where
    es2: "log (snd (run_state (updateStatus E (observe_generation c2)) s1)) = log s1 @ es2" "list_all fence_allows es2"
    by blast
  obtain st s2 where st: "run_state (updateStatus E (observe_generation c2)) s1 = (st, s2)"
    by (cases "run_state (updateStatus E (observe_generation c2)) s1")
  have f0: "list_all fence_allows es0"
    using es0 by (induction es0) (auto simp: fence_allows_def split: effect.splits)
  show "\<exists>es. log (snd (run_state (reconcileUpgradeLifecycle E c h False) s)) = log s @ es \<and>
      list_all fence_allows es \<and>
      (\<forall>x. fst (run_state (reconcileUpgradeLifecycle E c h False) s) = Inr x \<longrightarrow> (\<exists>res. x = Done res))"
    unfolding run up(1) using up es2 st f0
    by (intro exI [of _ "es0 @ es1 @ es2"]) (cases st; simp)
qed

lemma held_back_active:
  assumes "upgrade_requested c" "held_back E c"
  shows "emits fence_allows (reconcile_active E c h False)"
proof -
  have lc: "emits fence_allows (on_ok (reconcileUpgradeLifecycle E c h False) (\<lambda>lc. case lc of
         Done result \<Rightarrow> ok result | Continue cluster1 \<Rightarrow> standard_reconcile E cluster1 h False))"
    by (rule emits_on_ok_yields [OF held_back_lifecycle [OF assms]]) (auto intro: emits_return)
  show ?thesis
    unfolding reconcile_active_def
    by (rule emits_on_ok [OF _ emits_on_ok [OF _ lc]]) (intro emits_intros; simp)+
qed

text \<open>What \<open>reconcileDependencies\<close> hands on: the same cluster up to its conditions.\<close>

lemma dependencies_yields:
  "yields (reconcileDependencies E c) (\<lambda>r es. list_all fence_allows es \<and>
     (\<forall>x. r = Inr x \<longrightarrow> snd x \<noteq> '''' \<longrightarrow>
        clSpec (fst x) = clSpec c \<and> csUpgrade (clStatus (fst x)) = csUpgrade (clStatus c)))"
proof -
  have "emits fence_allows (reconcileDependencies E c)" by (intro emits_intros) simp_all
  note es = emitsD [OF this]
  show ?thesis
    unfolding yields_def
  proof
    fix s :: "'a sys"
    have "clSpec (fst x) = clSpec c \<and> csUpgrade (clStatus (fst x)) = csUpgrade (clStatus c)"
      if "fst (run_state (reconcileDependencies E c) s) = Inr x" "snd x \<noteq> ''''" for x
      using that by (auto simp: reconcileDependencies_def Let_def split: prod.splits sum.splits)
    with es [of s] show "\<exists>es. log (snd (run_state (reconcileDependencies E c) s)) = log s @ es \<and>
        list_all fence_allows es \<and> (\<forall>x. fst (run_state (reconcileDependencies E c) s) = Inr x \<longrightarrow> snd x \<noteq> '''' \<longrightarrow>
          clSpec (fst x) = clSpec c \<and> csUpgrade (clStatus (fst x)) = csUpgrade (clStatus c))"
      by blast
  qed
qed

text \<open>
  (C2) The upgrade gates hold back the whole reconciliation: while an upgrade is requested and the
  policy is manual or the maintenance window stays closed, a reconciliation creates, updates and
  deletes no Deployment, Service or Job, whatever the server answers.
\<close>

theorem gates_hold_back:
  assumes get: "rGet (clusters E) req (world s) = (Inr c, w1)"
    and requested: "upgrade_requested c" and held: "held_back E c"
  shows "\<exists>es. log (snd (run_state (Reconcile E req) s)) = log s @ es \<and> list_all fence_allows es"
proof (rule Reconcile_trace [OF get])
  fix c1 :: PeerDBCluster
  assume c1: "clSpec c1 = clSpec c" "csUpgrade (clStatus c1) = csUpgrade (clStatus c)"
  have "emits fence_allows (reconcile_active E c2 h b)"
    if "clSpec c2 = clSpec c1" "csUpgrade (clStatus c2) = csUpgrade (clStatus c1)" for c2 h b
  proof -
    have "upgrade_requested c2" "held_back E c2"
      using requested held that c1
      by (auto simp: upgrade_requested_def held_back_def upgrade_policy_def window_closed_def split: option.splits)
    then show ?thesis by (cases b) (auto intro: fenced_active_allows held_back_active)
  qed
  then show "emits fence_allows (on_ok (reconcileDependencies E c1) (\<lambda>(cluster1, configHash).
      if configHash = '''' then ok (requeue_after 30)
      else reconcile_active E cluster1 configHash (backup_in_progress (clMeta c))))"
    by (intro emits_on_ok_yields [OF dependencies_yields]) (auto intro: emits_return split: prod.splits)
qed (simp_all add: paused_allows)

definition manual_cluster :: PeerDBCluster where
  "manual_cluster = upgrading UpgradePhaseWaiting
     (sample_cluster\<lparr>clSpec := sample_spec\<lparr>clUpgradePolicy := Some UpgradePolicyManual\<rparr>\<rparr>)"

lemma gates_hold_back_witness:
  "list_all fence_allows
     (log (snd (run_state (Reconcile mem_env (NN ''peerdb'' ''default'')) (sys_with manual_cluster))))"
proof -
  have key: "meta_key (clMeta manual_cluster) = NN ''peerdb'' ''default''"
    and "upgrade_requested manual_cluster" "held_back mem_env manual_cluster"
    by (simp_all add: manual_cluster_def upgrading_def set_status_def sample_defs meta_key_def
        upgrade_requested_def held_back_def upgrade_policy_def)
  from gates_hold_back [OF get_sample [OF key] this(2,3)] show ?thesis
    by (auto simp: sys_with_def)
qed

section \<open>Reported conditions\<close>

text \<open>
  (C14) The final conditions: Ready is true exactly when the init jobs and the components are ready,
  and the readiness gauge says the same; BackupSafe is true exactly when no backup and no upgrade is
  in progress and the components are ready; Reconciling is false; the other conditions, the spec and
  the upgrade status stay.
\<close>

theorem setFinalConditions_table:
  assumes L: "condition_lib (elib E)"
    and run: "run_state (setFinalConditions E c initReady componentsReady backup) s = (c', s')"
  shows "cond_status (elib E) c' ConditionReady =
           Some (if initReady \<and> componentsReady then ConditionTrue else ConditionFalse) \<and>
         cond_status (elib E) c' ConditionBackupSafe =
           Some (if \<not> backup \<and> \<not> upgrade_active c \<and> componentsReady then ConditionTrue else ConditionFalse) \<and>
         cond_reason (elib E) c' ConditionBackupSafe =
           Some (if backup then ReasonBackupInProgress
                 else if upgrade_active c \<or> \<not> componentsReady then ReasonBackupUnsafe else ReasonBackupSafe) \<and>
         cond_status (elib E) c' ConditionReconciling = Some ConditionFalse \<and>
         (\<forall>T. T \<notin> {ConditionReady, ConditionBackupSafe, ConditionReconciling} \<longrightarrow>
            cond_status (elib E) c' T = cond_status (elib E) c T) \<and>
         clSpec c' = clSpec c \<and> csUpgrade (clStatus c') = csUpgrade (clStatus c) \<and>
         csEndpoints (clStatus c') = Some (endpoints_of c) \<and> world s' = world s \<and>
         EGauge metric_cluster_ready (clName c) (clNamespace c) (if initReady \<and> componentsReady then 1 else 0) \<in> set (log s')"
proof -
  have distinct: "ConditionReady \<noteq> ConditionBackupSafe" "ConditionReady \<noteq> ConditionReconciling"
    "ConditionBackupSafe \<noteq> ConditionReconciling"
    by (simp_all add: condition_type_defs)
  let ?ready = "initReady \<and> componentsReady"
  have c': "c' = fst (run_state (setFinalConditions E c initReady componentsReady backup) s)"
    and s': "s' = snd (run_state (setFinalConditions E c initReady componentsReady backup) s)"
    by (simp_all add: run)
  have "cond_status (elib E) c' T = (if T = ConditionReconciling then Some ConditionFalse
      else if T = ConditionBackupSafe
      then Some (if \<not> backup \<and> \<not> upgrade_active c \<and> componentsReady then ConditionTrue else ConditionFalse)
      else if T = ConditionReady then Some (if ?ready then ConditionTrue else ConditionFalse)
      else cond_status (elib E) c T)" for T
    unfolding c' run_setFinalConditions Let_def fst_conv with_condition_other condition_lib.cond_status_with [OF L] ..
  moreover have "cond_reason (elib E) c' ConditionBackupSafe = Some (if backup then ReasonBackupInProgress
      else if upgrade_active c \<or> \<not> componentsReady then ReasonBackupUnsafe else ReasonBackupSafe)"
    using distinct(3)
    by (simp only: c' run_setFinalConditions Let_def fst_conv with_condition_other
        condition_lib.cond_reason_with [OF L] if_False if_True refl simp_thms)
  moreover have "clSpec c' = clSpec c" "csUpgrade (clStatus c') = csUpgrade (clStatus c)"
    "csEndpoints (clStatus c') = Some (endpoints_of c)"
    by (simp_all add: c' run_setFinalConditions Let_def set_status_def with_condition_def)
  moreover have "world s' = world s"
    "EGauge metric_cluster_ready (clName c) (clNamespace c) (if ?ready then 1 else 0) \<in> set (log s')"
    by (simp_all add: s' run_setFinalConditions Let_def)
  ultimately show ?thesis using distinct by simp
qed

lemma setFinalConditions_table_witness:
  "cond_status mem_lib (fst (run_state (setFinalConditions mem_env (upgrading UpgradePhaseUI sample_cluster) True True False)
      (sys_with sample_cluster))) ConditionBackupSafe = Some ConditionFalse"
proof -
  obtain c' s' where run: "run_state (setFinalConditions mem_env (upgrading UpgradePhaseUI sample_cluster) True True False)
      (sys_with sample_cluster) = (c', s')"
    by fastforce
  have "upgrade_active (upgrading UpgradePhaseUI sample_cluster)"
    by (simp add: upgrade_active_def upgrading_def set_status_def)
  with setFinalConditions_table [OF mem_laws(3) run] show ?thesis by (simp add: run)
qed

section \<open>When a reconciliation is done\<close>

text \<open>After a successful \<open>updateStatus\<close> the server holds the computed status.\<close>

lemma updateStatus_stored:
  assumes store: "status_store (clusters E) look (\<lambda>x. meta_key (clMeta x)) view clStatus"
    and eq: "semantic_equality (elib E)"
    and run: "run_state (updateStatus E c) s = (Inr (), s')"
  shows "\<exists>new. look (world s') (meta_key (clMeta c)) = Some new \<and> clStatus new = clStatus c"
proof -
  obtain g w1 where get: "rGet (clusters E) (meta_key (clMeta c)) (world s) = (g, w1)" by fastforce
  with run obtain old where g: "g = Inr old" by (cases g) (auto simp: updateStatus_def kget_def)
  from resource_store.get_found [OF status_store.axioms(1) [OF store]] get g
  have old: "look w1 (meta_key (clMeta c)) = Some old" "meta_key (clMeta old) = meta_key (clMeta c)" by auto
  show ?thesis
  proof (cases "clStatus old = clStatus c")
    case True
    with run get g old show ?thesis
      by (auto simp: updateStatus_def kget_def semantic_equality.eq_cluster_status [OF eq])
  next
    case False
    with run get g obtain new where "rStatusUpdate (clusters E) (old\<lparr>clStatus := clStatus c\<rparr>) w1 = (Inr new, world s')"
      by (auto simp: updateStatus_def kcall_defs discard_def semantic_equality.eq_cluster_status [OF eq]
          split: prod.splits sum.splits)
    from status_store.status_done [OF store this] old show ?thesis by auto
  qed
qed

lemma init_status_form:
  assumes L: "condition_lib (elib E)"
    and run: "run_state (reconcileInitJobsAndStatus E c b) s = (Inr (c', r), s')"
  shows "cond_status (elib E) c' ConditionInitialized = Some (if r then ConditionTrue else ConditionFalse) \<and>
         clMeta c' = clMeta c"
  using run condition_lib.cond_status_with [OF L]
  by (auto simp: reconcileInitJobsAndStatus_def split: prod.splits sum.splits if_splits)

lemma components_status_form:
  assumes L: "condition_lib (elib E)"
    and run: "run_state (reconcileComponentsAndStatus E c h b) s = (Inr (c', r), s')"
  shows "cond_status (elib E) c' ConditionComponentsReady = Some (if r then ConditionTrue else ConditionFalse) \<and>
         (\<forall>T. T \<noteq> ConditionComponentsReady \<longrightarrow> cond_status (elib E) c' T = cond_status (elib E) c T) \<and>
         clMeta c' = clMeta c"
  using run condition_lib.cond_status_with [OF L]
  by (auto simp: reconcileComponentsAndStatus_def split: prod.splits sum.splits if_splits)

text \<open>A status that reports a ready cluster, as observed at a generation.\<close>

definition ready_at :: "lib \<Rightarrow> int \<Rightarrow> PeerDBCluster \<Rightarrow> bool" where
  "ready_at L gen c \<longleftrightarrow>
     cond_status L c ConditionReady = Some ConditionTrue \<and>
     cond_status L c ConditionInitialized = Some ConditionTrue \<and>
     cond_status L c ConditionComponentsReady = Some ConditionTrue \<and>
     cond_status L c ConditionReconciling = Some ConditionFalse \<and>
     csObservedGeneration (clStatus c) = gen"

definition reports_ready :: "lib \<Rightarrow> PeerDBCluster \<Rightarrow> bool" where
  "reports_ready L c \<longleftrightarrow> ready_at L (clGeneration c) c"

lemma final_status_form:
  assumes L: "condition_lib (elib E)"
    and i: "cond_status (elib E) c ConditionInitialized = Some ConditionTrue"
    and r: "cond_status (elib E) c ConditionComponentsReady = Some ConditionTrue"
  shows "reports_ready (elib E) (observe_generation (fst (run_state (setFinalConditions E c True True b) s))) \<and>
         clMeta (fst (run_state (setFinalConditions E c True True b) s)) = clMeta c"
proof -
  have "ConditionInitialized \<notin> {ConditionReady, ConditionBackupSafe, ConditionReconciling}"
    "ConditionComponentsReady \<notin> {ConditionReady, ConditionBackupSafe, ConditionReconciling}"
    "ConditionReady \<noteq> ConditionBackupSafe" "ConditionReady \<noteq> ConditionReconciling"
    by (simp_all add: condition_type_defs)
  then show ?thesis
    using i r condition_lib.cond_status_with [OF L]
    by (simp add: run_setFinalConditions Let_def reports_ready_def ready_at_def) (simp add: set_status_def)
qed

text \<open>
  A standard reconciliation that asks for no further call has stored a status that reports the cluster
  ready at its generation.
\<close>

lemma standard_done:
  assumes L: "condition_lib (elib E)" "semantic_equality (elib E)"
    and store: "status_store (clusters E) look (\<lambda>x. meta_key (clMeta x)) view clStatus"
    and run: "run_state (standard_reconcile E c h b) s = (Inr done_result, s')"
  shows "\<exists>new. look (world s') (meta_key (clMeta c)) = Some new \<and> ready_at (elib E) (clGeneration c) new"
proof -
  have not_ready: "requeue \<noteq> done_result" "requeue_after 10 \<noteq> done_result"
    by (simp_all add: requeue_def done_result_def requeue_after_def seconds_def)
  from run not_ready obtain c1 s1 c2 s2 where
      1: "run_state (reconcileInitJobsAndStatus E c b) s = (Inr (c1, True), s1)"
    and 2: "run_state (reconcileComponentsAndStatus E c1 h b) s1 = (Inr (c2, True), s2)"
    and 3: "run_state (updateStatus E (observe_generation (fst (run_state (setFinalConditions E c2 True True b) s2))))
              (snd (run_state (setFinalConditions E c2 True True b) s2)) = (Inr (), s')"
    by (auto simp: standard_reconcile_def split: prod.splits sum.splits if_splits)
  let ?c3 = "observe_generation (fst (run_state (setFinalConditions E c2 True True b) s2))"
  have neq: "ConditionInitialized \<noteq> ConditionComponentsReady" by (simp add: condition_type_defs)
  from init_status_form [OF L(1) 1] components_status_form [OF L(1) 2] neq
  have "cond_status (elib E) c2 ConditionInitialized = Some ConditionTrue"
    "cond_status (elib E) c2 ConditionComponentsReady = Some ConditionTrue" and m: "clMeta c2 = clMeta c"
    by simp_all
  from final_status_form [OF L(1) this(1,2), of b s2] have c3: "reports_ready (elib E) ?c3" "clMeta ?c3 = clMeta c"
    by (simp_all add: m)
  from updateStatus_stored [OF store L(2) 3] c3 show ?thesis
    by (auto simp: reports_ready_def ready_at_def cond_status_def)
qed

text \<open>A step of the upgrade lifecycle that ends the reconciliation asks for another call.\<close>

lemma upgrade_keeps_meta: "results (\<lambda>(c', r). clMeta c' = clMeta c) (reconcileUpgrade E c h)"
  unfolding results_def
proof (intro allI impI)
  fix s x
  assume x: "fst (run_state (reconcileUpgrade E c h) s) = Inr x"
  obtain c' r s' where run: "run_state (reconcileUpgrade E c h) s = (Inr (c', r), s')" and xc: "x = (c', r)"
    using x by (cases "run_state (reconcileUpgrade E c h) s"; cases x) auto
  show "case x of (c', r) \<Rightarrow> clMeta c' = clMeta c"
  proof (cases "csUpgrade (clStatus c)")
    case None
    with run xc show ?thesis by (simp add: reconcileUpgrade_def with_upgrade_def)
  next
    case (Some u)
    with run have "run_state (upgrade_dispatch E (with_condition (elib E) (nowOf E (world s)) ConditionUpgradeInProgress
        ConditionTrue ReasonUpgradeInProgress (''Upgrading '' @ versions_text u @ '' (phase: '' @ phase_string (upPhase u) @ '')'') c)
        h (upPhase u)) s = (Inr (c', r), s')"
      by (simp add: reconcileUpgrade_def with_upgrade_def)
    from dispatch_moves [OF this] Some xc show ?thesis by (auto simp: moves_def)
  qed
qed

lemma lifecycle_results:
  "results (\<lambda>lc. case lc of Done r \<Rightarrow> r \<noteq> done_result | Continue c' \<Rightarrow> clMeta c' = clMeta c)
     (reconcileUpgradeLifecycle E c h b)" (is "results ?Q _")
proof -
  have open': "?Q x" if "fst (run_state (reconcileUpgradeLifecycle E c h False) s) = Inr x" for s x
  proof (cases "upgrade_due c")
    case False
    with that lifecycle_run [of E c h s] show ?thesis by auto
  next
    case True
    with lifecycle_run [of E c h s] obtain es where
      run: "run_state (reconcileUpgradeLifecycle E c h False) s =
         (case run_state (reconcileUpgrade E (entered (nowOf E (world s)) c) h) (s\<lparr>log := log s @ es\<rparr>) of
            (Inl e, s1) \<Rightarrow> (Inl e, s1)
          | (Inr (c2, res), s1) \<Rightarrow>
              if 0 < RequeueAfter res
              then (case run_state (updateStatus E (observe_generation c2)) s1 of
                      (Inl e, s2) \<Rightarrow> (if IsConflict e then Inr (Done requeue) else Inl e, s2)
                    | (Inr _, s2) \<Rightarrow> (Inr (Done res), s2))
              else (Inr (Continue c2), s1))"
      by auto
    have meta: "clMeta (entered t c) = clMeta c" for t
      by (simp add: entered_def Let_def split: option.split)
    have "requeue \<noteq> done_result" by (simp add: requeue_def done_result_def)
    moreover have "r \<noteq> done_result" if "0 < RequeueAfter r" for r
      using that by (auto simp: done_result_def)
    ultimately show ?thesis
      using that upgrade_keeps_meta [of "entered (nowOf E (world s)) c" E h]
      unfolding run by (auto simp: meta split: prod.splits sum.splits if_splits dest!: resultsD)
  qed
  show ?thesis
    by (cases b) (use open' in \<open>auto simp: results_def lifecycle_fenced\<close>)
qed

lemma active_done:
  assumes L: "condition_lib (elib E)" "semantic_equality (elib E)"
    and store: "status_store (clusters E) look (\<lambda>x. meta_key (clMeta x)) view clStatus"
    and run: "run_state (reconcile_active E c h b) s = (Inr done_result, s')"
  shows "\<exists>new. look (world s') (meta_key (clMeta c)) = Some new \<and> ready_at (elib E) (clGeneration c) new"
proof -
  from run obtain lc s1 s2 where lc: "run_state (reconcileUpgradeLifecycle E c h b) s1 = (Inr lc, s2)"
    and rest: "run_state (case lc of Done result \<Rightarrow> ok result
       | Continue cluster1 \<Rightarrow> standard_reconcile E cluster1 h b) s2 = (Inr done_result, s')"
    by (auto simp: reconcile_active_def split: prod.splits sum.splits)
  from resultsD [OF lifecycle_results lc] rest obtain c1 where "lc = Continue c1" and m: "clMeta c1 = clMeta c"
    by (cases lc) auto
  with rest have "run_state (standard_reconcile E c1 h b) s2 = (Inr done_result, s')" by simp
  from standard_done [OF L store this] show ?thesis by (simp add: m)
qed

lemma Reconcile_done:
  assumes L: "condition_lib (elib E)" "semantic_equality (elib E)"
    and store: "status_store (clusters E) look (\<lambda>x. meta_key (clMeta x)) view clStatus"
    and get: "rGet (clusters E) req (world s) = (Inr c, w1)" and active: "\<not> clPaused (clSpec c)"
    and run: "run_state (Reconcile E req) s = (Inr done_result, s')"
  shows "\<exists>new. look (world s') req = Some new \<and> ready_at (elib E) (clGeneration c) new"
proof -
  have key: "meta_key (clMeta c) = req"
    using resource_store.get_found [OF status_store.axioms(1) [OF store] get] by simp
  let ?c1 = "with_condition (elib E) (nowOf E w1) ConditionReconciling ConditionTrue ReasonReconciling
                 ''Reconciliation in progress'' c"
  have "requeue_after 30 \<noteq> done_result" by (simp add: requeue_after_def done_result_def seconds_def)
  with run active obtain c2 h s1 s2 where dep: "run_state (reconcileDependencies E ?c1) s1 = (Inr (c2, h), s2)"
    and h: "h \<noteq> ''''" and act: "run_state (reconcile_active E c2 h (backup_in_progress (clMeta c))) s2 = (Inr done_result, s')"
    unfolding Reconcile_found [OF get] by (auto split: prod.splits sum.splits if_splits)
  have m: "clMeta c2 = clMeta c"
    using resultsD [OF results_dependencies dep] h by (simp add: same_but_conditions_def)
  from active_done [OF L store act] show ?thesis by (simp add: m key)
qed

section \<open>Where the order of an upgrade is not kept\<close>

text \<open>
  (C38) When the gates are open, the step out of Waiting does not end the reconciliation: it asks for an
  immediate requeue, not for a delay, so the lifecycle lets the reconciliation go on, without having
  called the server, and the standard part applies the Deployments of all components in the same
  run, while the phase has only become StartMaintenance (or Config) and no maintenance job exists yet.
\<close>

theorem open_gates_fall_through:
  assumes L: "condition_lib (elib E)"
    and u: "csUpgrade (clStatus c) = Some u" "upPhase u = UpgradePhaseWaiting"
    and gates: "upgrade_policy c \<noteq> UpgradePolicyManual" "\<not> window_closed E c (nowOf E (world s))"
      "\<not> dependencies_unhealthy (elib E) c"
  shows "\<exists>c' u'. run_state (reconcileUpgradeLifecycle E c h False) s = (Inr (Continue c'), s) \<and>
     csUpgrade (clStatus c') = Some u' \<and>
     upPhase u' = (if maintained c then UpgradePhaseStartMaintenance else UpgradePhaseConfig) \<and>
     run_state (on_ok (reconcileUpgradeLifecycle E c h False)
         (\<lambda>lc. case lc of Done result \<Rightarrow> ok result | Continue c1 \<Rightarrow> standard_reconcile E c1 h False)) s =
       run_state (standard_reconcile E c' h False) s"
proof -
  let ?c = "with_condition (elib E) (nowOf E (world s)) ConditionUpgradeInProgress ConditionTrue ReasonUpgradeInProgress
     (''Upgrading '' @ versions_text u @ '' (phase: '' @ phase_string (upPhase u) @ '')'') c"
  have "ConditionCatalogReady \<noteq> ConditionUpgradeInProgress" "ConditionTemporalReady \<noteq> ConditionUpgradeInProgress"
    by (simp_all add: condition_type_defs)
  then have same: "upgrade_policy ?c = upgrade_policy c" "window_closed E ?c t = window_closed E c t"
    "dependencies_unhealthy (elib E) ?c = dependencies_unhealthy (elib E) c" for t
    by (simp_all add: upgrade_policy_def window_closed_def dependencies_unhealthy_def condition_lib.cond_status_with [OF L])
  have "run_state (reconcileUpgrade E c h) s = run_state (upgradePhaseWaiting E ?c) s"
    using u by (simp add: reconcileUpgrade_def with_upgrade_def upgrade_dispatch_def)
  also have "\<dots> = (Inr (if maintained c then set_phase UpgradePhaseStartMaintenance ''Starting maintenance mode'' ?c
      else set_phase UpgradePhaseConfig ''Reconciling configuration'' ?c, requeue), s)"
    using gates unfolding upgradePhaseWaiting_def same by (simp add: same maintained_def)
  finally have "run_state (reconcileUpgradeLifecycle E c h False) s =
      (Inr (Continue (if maintained c then set_phase UpgradePhaseStartMaintenance ''Starting maintenance mode'' ?c
      else set_phase UpgradePhaseConfig ''Reconciling configuration'' ?c)), s)"
    using u by (simp add: reconcileUpgradeLifecycle_def with_upgrade_def Let_def)
  then show ?thesis using u(1) by auto
qed

lemma open_gates_fall_through_witness:
  "\<exists>c' u'. run_state (reconcileUpgradeLifecycle mem_env (upgrading UpgradePhaseWaiting sample_cluster) ''h'' False)
       (sys_with sample_cluster) = (Inr (Continue c'), sys_with sample_cluster) \<and>
     csUpgrade (clStatus c') = Some u' \<and> upPhase u' = UpgradePhaseConfig"
proof -
  let ?c = "upgrading UpgradePhaseWaiting sample_cluster"
  have u: "csUpgrade (clStatus ?c) = Some \<lparr>upFromVersion = ''v0.36.6'', upToVersion = ''v0.36.7'',
     upPhase = UpgradePhaseWaiting, upStartedAt = Some 0, upMessage = ''''\<rparr>"
    by (simp add: upgrading_def set_status_def)
  have gates: "upgrade_policy ?c \<noteq> UpgradePolicyManual" "\<not> window_closed mem_env ?c t"
    "\<not> dependencies_unhealthy (elib mem_env) ?c" "\<not> maintained ?c" for t
    by (simp_all add: upgrading_def set_status_def upgrade_policy_def window_closed_def dependencies_unhealthy_def
        cond_status_def maintained_def sample_defs mem_lib_def find_condition_def)
  have "upPhase \<lparr>upFromVersion = ''v0.36.6'', upToVersion = ''v0.36.7'',
     upPhase = UpgradePhaseWaiting, upStartedAt = Some 0, upMessage = ''''\<rparr> = UpgradePhaseWaiting" by simp
  from open_gates_fall_through [OF mem_laws(3) u this gates(1) gates(2) gates(3)] gates(4)
  show ?thesis by fastforce
qed

end
