(* ===== verification/PoolWorkloads.thy ===== *)
theory PoolWorkloads
  imports ControlPlane
begin

text \<open>
  The workloads of the pools (internal/resources/flow\_worker.go, snapshot\_worker.go): the
  Deployment of a worker pool, the StatefulSet and the headless Service of a snapshot pool. A pool's
  pod labels are merged over the common labels, so the selector matches the pods exactly when those
  labels leave the selector's keys alone; \<open>pool_template\<close> carries that argument for both.
\<close>

definition pool_key :: string where "pool_key = ''peerdb.io/pool''"

text \<open>\<open>for k, v := range PodLabels { labels[k] = v }; labels["peerdb.io/pool"] = pool.Name\<close>.\<close>

definition pool_labels :: "string \<Rightarrow> string \<Rightarrow> smap \<Rightarrow> string \<Rightarrow> smap" where
  "pool_labels clusterName component podLabels poolName =
     fmupd pool_key poolName (smap_merge (CommonLabels clusterName component) podLabels)"

definition pool_selector :: "string \<Rightarrow> string \<Rightarrow> string \<Rightarrow> smap" where
  "pool_selector clusterName component poolName = smap_of
     [(''app.kubernetes.io/name'', ''peerdb''),
      (''app.kubernetes.io/instance'', clusterName),
      (''app.kubernetes.io/component'', component),
      (pool_key, poolName)]"

definition pool_annotations :: "smap \<Rightarrow> string \<Rightarrow> smap" where
  "pool_annotations podAnnotations configHash =
     fmupd AnnotationConfigHash configHash (smap_merge fmempty podAnnotations)"

section \<open>flow\_worker.go\<close>

definition BuildFlowWorkerDeployment ::
    "lib \<Rightarrow> PeerDBWorkerPool \<Rightarrow> PeerDBCluster \<Rightarrow> string \<Rightarrow> Deployment" where
  "BuildFlowWorkerDeployment L pool cluster configHash =
     (let spec = wpSpec pool;
          name = mName (wpMeta pool);
          component = ''flow-worker'';
          selectorLabels = SelectorLabels (clName cluster) component;
          labels = pool_labels (clName cluster) component (wsPodLabels spec) name;
          img = (if wsImage spec \<noteq> '''' then wsImage spec
                 else ''ghcr.io/peerdb-io/flow-worker:stable-'' @ clVersion (clSpec cluster));
          replicas = (case wsReplicas spec of None \<Rightarrow> Some 2 | Some r \<Rightarrow> Some r);
          resources = default_resources L (wsResources spec) ''2'' ''8Gi'' ''4'' ''8Gi'';
          envs = catalog_password cluster # wsExtraEnv spec;
          affinity = (case wsAffinity spec of
             None \<Rightarrow> \<lparr>afPreferredAntiAffinity =
                        [\<lparr>wpWeight = 100, wpMatchLabels = selectorLabels,
                          wpTopologyKey = ''topology.kubernetes.io/zone''\<rparr>], afExtra = []\<rparr>
           | Some a \<Rightarrow> a)
      in \<lparr>dMeta = new_meta name (mNamespace (wpMeta pool)) labels fmempty,
          dSpec = \<lparr>dsReplicas = replicas,
            dsSelector = pool_selector (clName cluster) component name,
            dsTemplate = \<lparr>ptLabels = labels, ptAnnotations = pool_annotations (wsPodAnnotations spec) configHash,
              ptSpec = (new_pod_spec (clName cluster)
                [(new_container ''flow-worker'' img)
                   \<lparr>cEnvFrom := config_env cluster, cEnv := envs, cResources := resources\<rparr>])
                \<lparr>psNodeSelector := wsNodeSelector spec, psTolerations := wsTolerations spec,
                 psAffinity := Some affinity\<rparr>\<rparr>,
            dsExtra = []\<rparr>,
          dStatus = new_deployment_status\<rparr>)"

section \<open>snapshot\_worker.go\<close>

definition BuildSnapshotWorkerStatefulSet ::
    "lib \<Rightarrow> PeerDBSnapshotPool \<Rightarrow> PeerDBCluster \<Rightarrow> string \<Rightarrow> StatefulSet" where
  "BuildSnapshotWorkerStatefulSet L pool cluster configHash =
     (let spec = snSpec pool;
          name = mName (snMeta pool);
          component = ''snapshot-worker'';
          labels = pool_labels (clName cluster) component (spsPodLabels spec) name;
          img = (if spsImage spec \<noteq> '''' then spsImage spec
                 else ''ghcr.io/peerdb-io/flow-snapshot-worker:stable-'' @ clVersion (clSpec cluster));
          replicas = (case spsReplicas spec of None \<Rightarrow> Some 1 | Some r \<Rightarrow> Some r);
          resources = default_resources L (spsResources spec) ''500m'' ''1Gi'' ''1'' ''1Gi'';
          terminationGracePeriod =
            (case spsTerminationGracePeriodSeconds spec of None \<Rightarrow> Some 600 | Some g \<Rightarrow> Some g);
          envs = catalog_password cluster # spsExtraEnv spec
      in \<lparr>sMeta = new_meta name (mNamespace (snMeta pool)) labels fmempty,
          sSpec = \<lparr>ssReplicas = replicas, ssServiceName = name,
            ssSelector = pool_selector (clName cluster) component name,
            ssTemplate = \<lparr>ptLabels = labels, ptAnnotations = pool_annotations (spsPodAnnotations spec) configHash,
              ptSpec = (new_pod_spec (clName cluster)
                [(new_container ''snapshot-worker'' img)
                   \<lparr>cEnvFrom := config_env cluster, cEnv := envs, cResources := resources,
                    cVolumeMounts := [\<lparr>vmName = ''data'', vmMountPath = ''/data''\<rparr>]\<rparr>])
                \<lparr>psTerminationGracePeriodSeconds := terminationGracePeriod,
                 psNodeSelector := spsNodeSelector spec, psTolerations := spsTolerations spec,
                 psAffinity := spsAffinity spec\<rparr>\<rparr>,
            ssVolumeClaimTemplates =
              [\<lparr>pvcName = ''data'', pvcAccessModes = [''ReadWriteOnce''],
                pvcRequests = fmap_of_list [(''storage'', sgSize (spsStorage spec))],
                pvcStorageClassName = sgStorageClassName (spsStorage spec)\<rparr>],
            ssExtra = []\<rparr>,
          sStatus = \<lparr>stReplicas = 0, stReadyReplicas = 0\<rparr>\<rparr>)"

definition BuildSnapshotWorkerService :: "PeerDBSnapshotPool \<Rightarrow> Service" where
  "BuildSnapshotWorkerService pool =
     (let component = ''snapshot-worker'';
          clusterRef = spsClusterRef (snSpec pool)
      in \<lparr>svMeta = new_meta (mName (snMeta pool)) (mNamespace (snMeta pool))
                     (CommonLabels clusterRef component) fmempty,
          svSpec = \<lparr>ksType = '''', ksClusterIP = ''None'',
            ksSelector = pool_selector clusterRef component (mName (snMeta pool)),
            ksPorts = [], ksExtra = []\<rparr>\<rparr>)"

declare BuildFlowWorkerDeployment_def [build_defs] BuildSnapshotWorkerStatefulSet_def [build_defs]
  BuildSnapshotWorkerService_def [build_defs]

section \<open>Labels and selectors\<close>

text \<open>Pod labels that leave the keys of the selector alone, or give them the same values.\<close>

definition labels_compatible :: "smap \<Rightarrow> string \<Rightarrow> string \<Rightarrow> bool" where
  "labels_compatible podLabels clusterName component \<longleftrightarrow>
     fmlookup podLabels ''app.kubernetes.io/name'' \<in> {None, Some ''peerdb''} \<and>
     fmlookup podLabels ''app.kubernetes.io/instance'' \<in> {None, Some clusterName} \<and>
     fmlookup podLabels ''app.kubernetes.io/component'' \<in> {None, Some component}"

lemma pool_selector_lookup [label_simps]:
  "fmlookup (pool_selector n k p) x =
     map_of [(''app.kubernetes.io/name'', ''peerdb''), (''app.kubernetes.io/instance'', n),
       (''app.kubernetes.io/component'', k), (pool_key, p)] x"
  by (simp add: pool_selector_def label_simps)

lemma pool_labels_lookup [label_simps]:
  "fmlookup (pool_labels n k ls p) x =
     (if x = pool_key then Some p
      else case fmlookup ls x of Some v \<Rightarrow> Some v | None \<Rightarrow> fmlookup (CommonLabels n k) x)"
  by (simp add: pool_labels_def label_simps)

lemma pool_annotations_lookup [label_simps]:
  "fmlookup (pool_annotations as h) x = (if x = AnnotationConfigHash then Some h else fmlookup as x)"
  by (simp add: pool_annotations_def label_simps split: option.splits)

lemma pool_selector_sub_iff:
  "smap_sub (pool_selector n k p) m \<longleftrightarrow>
     fmlookup m ''app.kubernetes.io/name'' = Some ''peerdb'' \<and>
     fmlookup m ''app.kubernetes.io/instance'' = Some n \<and>
     fmlookup m ''app.kubernetes.io/component'' = Some k \<and>
     fmlookup m pool_key = Some p"
  by (simp add: pool_selector_def smap_sub_of pool_key_def)

lemma pool_selector_matches_iff:
  "smap_sub (pool_selector n k p) (pool_labels n' k' ls p') \<longleftrightarrow>
     p = p' \<and>
     fmlookup ls ''app.kubernetes.io/name'' \<in> {None, Some ''peerdb''} \<and>
     (case fmlookup ls ''app.kubernetes.io/instance'' of None \<Rightarrow> n = n' | Some v \<Rightarrow> v = n) \<and>
     (case fmlookup ls ''app.kubernetes.io/component'' of None \<Rightarrow> k = k' | Some v \<Rightarrow> v = k)"
proof -
  have "fmlookup (CommonLabels n' k') ''app.kubernetes.io/name'' = Some ''peerdb''"
    "fmlookup (CommonLabels n' k') ''app.kubernetes.io/instance'' = Some n'"
    "fmlookup (CommonLabels n' k') ''app.kubernetes.io/component'' = Some k'"
    by (simp_all add: CommonLabels_def fmlookup_smap_of)
  then show ?thesis
    by (auto simp: pool_selector_sub_iff pool_labels_lookup pool_key_def split: option.splits)
qed

text \<open>
  The pod template of a pool, for a builder that yields a selector, pod labels and pod annotations.
\<close>

locale pool_template =
  fixes selector :: "'pool \<Rightarrow> PeerDBCluster \<Rightarrow> string \<Rightarrow> smap"
    and labels :: "'pool \<Rightarrow> PeerDBCluster \<Rightarrow> string \<Rightarrow> smap"
    and annotations :: "'pool \<Rightarrow> PeerDBCluster \<Rightarrow> string \<Rightarrow> smap"
    and pool_name :: "'pool \<Rightarrow> string" and user_labels :: "'pool \<Rightarrow> smap"
    and user_annotations :: "'pool \<Rightarrow> smap" and component :: string
  assumes selector: "selector p c h = pool_selector (clName c) component (pool_name p)"
    and labels: "labels p c h = pool_labels (clName c) component (user_labels p) (pool_name p)"
    and annotations: "annotations p c h = pool_annotations (user_annotations p) h"
begin

lemma selects_own_iff:
  "smap_sub (selector p c h) (labels p c h) \<longleftrightarrow> labels_compatible (user_labels p) (clName c) component"
  by (auto simp: selector labels pool_selector_matches_iff labels_compatible_def split: option.splits)

lemma selects_other_pool:
  "smap_sub (selector p c h) (labels p' c' h') \<Longrightarrow> pool_name p = pool_name p'"
  by (simp add: selector labels pool_selector_matches_iff)

lemma hash_recorded: "fmlookup (annotations p c h) AnnotationConfigHash = Some h"
  by (simp add: annotations label_simps)

end

interpretation worker_tmpl: pool_template
  "\<lambda>p c h. dsSelector (dSpec (BuildFlowWorkerDeployment L p c h))"
  "\<lambda>p c h. ptLabels (dsTemplate (dSpec (BuildFlowWorkerDeployment L p c h)))"
  "\<lambda>p c h. ptAnnotations (dsTemplate (dSpec (BuildFlowWorkerDeployment L p c h)))"
  "\<lambda>p. mName (wpMeta p)" "\<lambda>p. wsPodLabels (wpSpec p)" "\<lambda>p. wsPodAnnotations (wpSpec p)" "''flow-worker''"
  by unfold_locales (simp_all add: build_defs Let_def)

interpretation snapshot_tmpl: pool_template
  "\<lambda>p c h. ssSelector (sSpec (BuildSnapshotWorkerStatefulSet L p c h))"
  "\<lambda>p c h. ptLabels (ssTemplate (sSpec (BuildSnapshotWorkerStatefulSet L p c h)))"
  "\<lambda>p c h. ptAnnotations (ssTemplate (sSpec (BuildSnapshotWorkerStatefulSet L p c h)))"
  "\<lambda>p. mName (snMeta p)" "\<lambda>p. spsPodLabels (snSpec p)" "\<lambda>p. spsPodAnnotations (snSpec p)" "''snapshot-worker''"
  by unfold_locales (simp_all add: build_defs Let_def)

text \<open>
  (C35) The selector of a pool's workload, a worker Deployment or a snapshot StatefulSet, matches the
  labels of its own pods exactly when the pool's podLabels do not override a selector key with another
  value; it never matches the pods of a pool of that kind with another name, and neither does the
  headless Service of a snapshot pool; and the pods carry the config hash whatever podAnnotations say.
\<close>

theorem pool_selector_sound:
  "(smap_sub (dsSelector (dSpec (BuildFlowWorkerDeployment L p c h)))
      (ptLabels (dsTemplate (dSpec (BuildFlowWorkerDeployment L p c h)))) \<longleftrightarrow>
    labels_compatible (wsPodLabels (wpSpec p)) (clName c) ''flow-worker'') \<and>
   (smap_sub (ssSelector (sSpec (BuildSnapshotWorkerStatefulSet L q c h)))
      (ptLabels (ssTemplate (sSpec (BuildSnapshotWorkerStatefulSet L q c h)))) \<longleftrightarrow>
    labels_compatible (spsPodLabels (snSpec q)) (clName c) ''snapshot-worker'') \<and>
   (mName (wpMeta p) \<noteq> mName (wpMeta p') \<longrightarrow>
    \<not> smap_sub (dsSelector (dSpec (BuildFlowWorkerDeployment L p c h)))
        (ptLabels (dsTemplate (dSpec (BuildFlowWorkerDeployment L p' c' h'))))) \<and>
   (mName (snMeta q) \<noteq> mName (snMeta q') \<longrightarrow>
    \<not> smap_sub (ssSelector (sSpec (BuildSnapshotWorkerStatefulSet L q c h)))
        (ptLabels (ssTemplate (sSpec (BuildSnapshotWorkerStatefulSet L q' c' h')))) \<and>
    \<not> smap_sub (ksSelector (svSpec (BuildSnapshotWorkerService q)))
        (ptLabels (ssTemplate (sSpec (BuildSnapshotWorkerStatefulSet L q' c' h'))))) \<and>
   fmlookup (ptAnnotations (dsTemplate (dSpec (BuildFlowWorkerDeployment L p c h)))) AnnotationConfigHash = Some h \<and>
   fmlookup (ptAnnotations (ssTemplate (sSpec (BuildSnapshotWorkerStatefulSet L q c h)))) AnnotationConfigHash = Some h"
proof -
  have "smap_sub (ksSelector (svSpec (BuildSnapshotWorkerService q)))
      (ptLabels (ssTemplate (sSpec (BuildSnapshotWorkerStatefulSet L q' c' h')))) \<Longrightarrow> mName (snMeta q) = mName (snMeta q')"
    by (simp add: snapshot_tmpl.labels) (simp add: BuildSnapshotWorkerService_def Let_def pool_selector_matches_iff)
  then show ?thesis
    using worker_tmpl.selects_other_pool [of L p c h p' c' h'] snapshot_tmpl.selects_other_pool [of L q c h q' c' h']
    by (auto simp: worker_tmpl.selects_own_iff snapshot_tmpl.selects_own_iff worker_tmpl.hash_recorded
        snapshot_tmpl.hash_recorded)
qed

lemma pool_selector_sound_witness:
  "\<not> smap_sub (ssSelector (sSpec (BuildSnapshotWorkerStatefulSet mem_lib sample_snapshot_pool sample_cluster ''h'')))
        (ptLabels (ssTemplate (sSpec (BuildSnapshotWorkerStatefulSet mem_lib
           (sample_snapshot_pool\<lparr>snMeta := (snMeta sample_snapshot_pool)\<lparr>mName := ''other''\<rparr>\<rparr>) sample_cluster ''h''))))"
  using pool_selector_sound [of mem_lib sample_worker_pool sample_cluster "''h''" sample_snapshot_pool
      sample_worker_pool sample_cluster "''h''"
      "sample_snapshot_pool\<lparr>snMeta := (snMeta sample_snapshot_pool)\<lparr>mName := ''other''\<rparr>\<rparr>"]
  by (simp add: sample_defs)

text \<open>
  The headless Service of a snapshot pool governs the pool's StatefulSet: it has the name the
  StatefulSet refers to, and it selects its pods when the pool refers to the cluster it is built
  for and its podLabels leave the selector keys alone.
\<close>

lemma snapshot_service_governs:
  assumes "spsClusterRef (snSpec pool) = clName cluster"
    and "labels_compatible (spsPodLabels (snSpec pool)) (clName cluster) ''snapshot-worker''"
  shows "mName (svMeta (BuildSnapshotWorkerService pool)) =
           ssServiceName (sSpec (BuildSnapshotWorkerStatefulSet L pool cluster h)) \<and>
         mNamespace (svMeta (BuildSnapshotWorkerService pool)) =
           mNamespace (sMeta (BuildSnapshotWorkerStatefulSet L pool cluster h)) \<and>
         ksClusterIP (svSpec (BuildSnapshotWorkerService pool)) = ''None'' \<and>
         smap_sub (ksSelector (svSpec (BuildSnapshotWorkerService pool)))
           (ptLabels (ssTemplate (sSpec (BuildSnapshotWorkerStatefulSet L pool cluster h))))"
proof -
  have "ksSelector (svSpec (BuildSnapshotWorkerService pool)) =
      ssSelector (sSpec (BuildSnapshotWorkerStatefulSet L pool cluster h))"
    using assms(1) by (simp add: build_defs Let_def)
  then show ?thesis
    using assms(2) by (simp add: snapshot_tmpl.selects_own_iff) (simp add: build_defs new_meta_def Let_def)
qed

lemma snapshot_service_governs_witness:
  "smap_sub (ksSelector (svSpec (BuildSnapshotWorkerService sample_snapshot_pool)))
     (ptLabels (ssTemplate (sSpec (BuildSnapshotWorkerStatefulSet mem_lib sample_snapshot_pool sample_cluster ''h''))))"
  using snapshot_service_governs [of sample_snapshot_pool sample_cluster mem_lib "''h''"]
  by (simp add: sample_defs labels_compatible_def)

end
