(* ===== verification/PoolCommon.thy ===== *)
theory PoolCommon
  imports Reconciling PoolWorkloads VersionSkew
begin

text \<open>
  What the controllers of worker and snapshot pools share (peerdbworkerpool\_controller.go,
  peerdbsnapshotpool\_controller.go): the pool's status conditions, the version skew warning, the
  config hash computed from the referenced cluster, and the backup fence of that cluster.
\<close>

section \<open>Conditions of a pool\<close>

definition with_ready ::
    "lib \<Rightarrow> int \<Rightarrow> int \<Rightarrow> ConditionStatus \<Rightarrow> string \<Rightarrow> string \<Rightarrow> PoolStatus \<Rightarrow> PoolStatus" where
  "with_ready L t gen st reason msg p =
     p\<lparr>plConditions := SetStatusCondition L t (plConditions p)
       \<lparr>cdType = ConditionReady, cdStatus = st, cdObservedGeneration = gen, cdLastTransitionTime = 0,
        cdReason = reason, cdMessage = msg\<rparr>\<rparr>"

definition set_pool_ready ::
    "'w env \<Rightarrow> int \<Rightarrow> ConditionStatus \<Rightarrow> string \<Rightarrow> string \<Rightarrow> PoolStatus \<Rightarrow> ('w, PoolStatus) prog" where
  "set_pool_ready E gen st reason msg p = do {
     t \<leftarrow> time_now E;
     ret (with_ready (elib E) t gen st reason msg p)
   }"

lemma run_set_pool_ready [simp]:
  "run_state (set_pool_ready E gen st reason msg p) s =
     (with_ready (elib E) (nowOf E (world s)) gen st reason msg p, s)"
  by (simp add: set_pool_ready_def)

lemma emits_set_pool_ready [emits_intros]: "emits P (set_pool_ready E gen st reason msg p)"
  unfolding set_pool_ready_def by (intro emits_intros)

definition pool_ready_status :: "lib \<Rightarrow> PoolStatus \<Rightarrow> ConditionStatus option" where
  "pool_ready_status L p = map_option cdStatus (FindStatusCondition L (plConditions p) ConditionReady)"

lemma with_ready_simps [simp]:
  "plReplicas (with_ready L t gen st reason msg p) = plReplicas p"
  "plReadyReplicas (with_ready L t gen st reason msg p) = plReadyReplicas p"
  "plObservedGeneration (with_ready L t gen st reason msg p) = plObservedGeneration p"
  by (simp_all add: with_ready_def)

context condition_lib
begin

lemma pool_ready_with [simp]: "pool_ready_status L (with_ready L t gen st reason msg p) = Some st"
  by (simp add: pool_ready_status_def with_ready_def status_set)

lemma pool_ready_observed [simp]:
  "pool_ready_status L (p\<lparr>plObservedGeneration := g\<rparr>) = pool_ready_status L p"
  by (simp add: pool_ready_status_def)

end

section \<open>Version skew warning, config hash, fence\<close>

text \<open>Whether a pinned image and a cluster version have readable and different major.minor.\<close>

definition pool_skew :: "string \<Rightarrow> string \<Rightarrow> (string \<times> string) option" where
  "pool_skew img version =
     (if img = '''' then None
      else case (MajorMinorFromVersion version, MajorMinorFromImage img) of
        (Inr clusterMM, Inr imageMM) \<Rightarrow> if clusterMM \<noteq> imageMM then Some (clusterMM, imageMM) else None
      | _ \<Rightarrow> None)"

definition checkVersionSkew :: "string \<Rightarrow> PeerDBCluster \<Rightarrow> ('w, unit) prog" where
  "checkVersionSkew img cluster =
     (case pool_skew img (clVersion (clSpec cluster)) of
        None \<Rightarrow> ret ()
      | Some (clusterMM, imageMM) \<Rightarrow>
          event EventTypeWarning ReasonVersionSkew ''VersionSkewDetected''
            (''Pinned image '' @ fmt_q img @ '' (major.minor '' @ imageMM @ '') does not match cluster version '' @
             clVersion (clSpec cluster) @ '' (major.minor '' @ clusterMM @ '')''))"

lemma emits_checkVersionSkew [emits_intros]:
  "(\<And>t r a n. P (EEvent t r a n)) \<Longrightarrow> emits P (checkVersionSkew img c)"
  unfolding checkVersionSkew_def by (intro emits_intros)

definition computePoolConfigHash :: "'w env \<Rightarrow> PeerDBCluster \<Rightarrow> string \<Rightarrow> ('w, string) prog" where
  "computePoolConfigHash E cluster ns =
     do {
       r \<leftarrow> kget KSecret (secrets E) (NN (sksName (catPasswordSecretRef (clCatalog cluster))) ns);
       let secretRVs = (case r of
              Inl _ \<Rightarrow> fmempty
            | Inr catalogSecret \<Rightarrow> smap_of [(mName (scMeta catalogSecret), mResourceVersion (scMeta catalogSecret))]);
       ret (ComputeConfigHash (cmData (BuildConfigMap cluster)) secretRVs)
     }"

lemma emits_computePoolConfigHash [emits_intros]:
  "(\<And>n. P (EGet KSecret n)) \<Longrightarrow> emits P (computePoolConfigHash E c ns)"
  unfolding computePoolConfigHash_def by (intro emits_intros)

definition cluster_fenced :: "PeerDBCluster \<Rightarrow> bool" where
  "cluster_fenced cluster \<longleftrightarrow> smap_get (mAnnotations (clMeta cluster)) AnnotationBackupInProgress \<noteq> ''''"

definition replicas_text :: "int \<Rightarrow> int \<Rightarrow> string" where
  "replicas_text a b = fmt_d a @ ''/'' @ fmt_d b @ '' replicas are ready''"

text \<open>The pools' objects are built without owners; taking ownership is then a pure step.\<close>

lemma pool_objects_unowned:
  "mOwnerReferences (dMeta (BuildFlowWorkerDeployment L wp c h)) = []"
  "mNamespace (dMeta (BuildFlowWorkerDeployment L wp c h)) = mNamespace (wpMeta wp)"
  "mOwnerReferences (sMeta (BuildSnapshotWorkerStatefulSet L sp c h)) = []"
  "mNamespace (sMeta (BuildSnapshotWorkerStatefulSet L sp c h)) = mNamespace (snMeta sp)"
  "mOwnerReferences (svMeta (BuildSnapshotWorkerService sp)) = []"
  "mNamespace (svMeta (BuildSnapshotWorkerService sp)) = mNamespace (snMeta sp)"
  by (simp_all add: build_defs Let_def new_meta_def)

lemma on_ok_set_owner:
  assumes "owner_lib (elib E)" "mOwnerReferences m = []" "mNamespace m = mNamespace ow"
  shows "on_ok (lift_ok (SetControllerReference (elib E) k ow m)) f =
     f (m\<lparr>mOwnerReferences := [\<lparr>orKind = k, orName = mName ow, orController = True\<rparr>]\<rparr>)"
  using owner_lib.set_owner [OF assms, of k] by (simp add: lift_ok_def on_ok_def)

end
