(* ===== verification/WorkerPoolController.thy ===== *)
theory WorkerPoolController
  imports PoolCommon
begin

text \<open>
  The reconciliation of a PeerDBWorkerPool (internal/controller/peerdbworkerpool\_controller.go): the
  Deployment of the flow workers, the fence of the referenced cluster, autoscaling, and the pool's
  status. \<open>Update\<close> writes the server's answer back into the live object, whose status is then
  reported.
\<close>

definition autoscaling_enabled :: "PeerDBWorkerPool \<Rightarrow> bool" where
  "autoscaling_enabled pool =
     (case wsAutoscaling (wpSpec pool) of None \<Rightarrow> False | Some a \<Rightarrow> asEnabled a)"

text \<open>The live Deployment with the fields that differ replaced, when any does.\<close>

definition patch_worker_deployment ::
    "lib \<Rightarrow> PeerDBWorkerPool \<Rightarrow> Deployment \<Rightarrow> Deployment \<Rightarrow> Deployment option" where
  "patch_worker_deployment L pool desired existing =
     (let newTemplate = \<not> eqPodTemplate L (dsTemplate (dSpec existing)) (dsTemplate (dSpec desired));
          e1 = (if newTemplate
                then existing\<lparr>dSpec := (dSpec existing)\<lparr>dsTemplate := dsTemplate (dSpec desired)\<rparr>\<rparr> else existing);
          newReplicas = (\<not> autoscaling_enabled pool \<and>
                         \<not> eqReplicas L (dsReplicas (dSpec e1)) (dsReplicas (dSpec desired)));
          e2 = (if newReplicas
                then e1\<lparr>dSpec := (dSpec e1)\<lparr>dsReplicas := dsReplicas (dSpec desired)\<rparr>\<rparr> else e1)
      in if newTemplate \<or> newReplicas then Some e2 else None)"

definition worker_ready :: "Deployment \<Rightarrow> bool" where
  "worker_ready existing \<longleftrightarrow>
     dtReadyReplicas (dStatus existing) > 0 \<and> dtReadyReplicas (dStatus existing) = dtReplicas (dStatus existing)"

text \<open>The pool's status from the live Deployment, stored when it differs from the one read.\<close>

definition worker_report ::
    "'w env \<Rightarrow> PeerDBWorkerPool \<Rightarrow> Deployment \<Rightarrow> ('w, Result) gprog" where
  "worker_report E pool existing =
     (let gen = mGeneration (wpMeta pool);
          st = (wpStatus pool)\<lparr>plReplicas := dtReplicas (dStatus existing),
                 plReadyReplicas := dtReadyReplicas (dStatus existing), plObservedGeneration := gen\<rparr>;
          msg = replicas_text (dtReadyReplicas (dStatus existing)) (dtReplicas (dStatus existing));
          ready = worker_ready existing
      in do {
        emit (EGauge ''peerdb_worker_pools_total'' (mName (wpMeta pool)) (mNamespace (wpMeta pool)) (plReplicas st));
        st2 \<leftarrow> (if ready
               then do {
                 s1 \<leftarrow> set_pool_ready E gen ConditionTrue ReasonDeploymentReady msg st;
                 event EventTypeNormal ReasonDeploymentReady ''Reconciled'' msg;
                 ret s1
               }
               else set_pool_ready E gen ConditionFalse ReasonDeploymentNotReady msg st);
        on_ok (if \<not> eqPoolStatus (elib E) (wpStatus pool) st2
               then discard (kstatus OWorkerPool (workerPools E) (pool\<lparr>wpStatus := st2\<rparr>))
               else ok ()) (\<lambda>_.
          if \<not> ready then ok (requeue_after 10) else ok done_result)
      })"

definition worker_apply ::
    "'w env \<Rightarrow> PeerDBWorkerPool \<Rightarrow> bool \<Rightarrow> Deployment \<Rightarrow> ('w, Result) gprog" where
  "worker_apply E pool backupInProgress desired = do {
     r \<leftarrow> kget KDeployment (deployments E) (meta_key (dMeta desired));
     case r of
       Inl e \<Rightarrow>
         if IsNotFound e
         then on_ok (kcreate ODeployment (deployments E) desired) (\<lambda>_. do {
           st \<leftarrow> set_pool_ready E (mGeneration (wpMeta pool)) ConditionFalse ReasonDeploymentCreated
                   ''Worker deployment was created and is starting'' (wpStatus pool);
           event EventTypeNormal ReasonDeploymentCreated ''Created'' ''Worker deployment was created'';
           _ \<leftarrow> kstatus OWorkerPool (workerPools E)
                   (pool\<lparr>wpStatus := st\<lparr>plObservedGeneration := mGeneration (wpMeta pool)\<rparr>\<rparr>);
           ok (requeue_after 5)
         })
         else fail e
     | Inr existing \<Rightarrow>
         on_ok (if backupInProgress then ok existing
                else case patch_worker_deployment (elib E) pool desired existing of
                       None \<Rightarrow> ok existing
                     | Some changed \<Rightarrow> kupdate ODeployment (deployments E) changed)
           (worker_report E pool)
   }"

definition WorkerPoolReconcile :: "'w env \<Rightarrow> NamespacedName \<Rightarrow> ('w, Result) gprog" where
  "WorkerPoolReconcile E req = do {
     r \<leftarrow> kget KWorkerPool (workerPools E) req;
     case r of
       Inl e \<Rightarrow> if IsNotFound e then ok done_result else fail e
     | Inr pool \<Rightarrow> do {
         rc \<leftarrow> kget KCluster (clusters E) (NN (wsClusterRef (wpSpec pool)) (mNamespace (wpMeta pool)));
         case rc of
           Inl e \<Rightarrow>
             if IsNotFound e
             then do {
               let msg = ''Referenced PeerDBCluster '' @ fmt_q (wsClusterRef (wpSpec pool)) @ '' not found'';
               st \<leftarrow> set_pool_ready E (mGeneration (wpMeta pool)) ConditionFalse ReasonClusterNotFound msg (wpStatus pool);
               event EventTypeWarning ReasonClusterNotFound ''DependencyCheck'' msg;
               emit (ECounter ''peerdb_reconcile_errors_total'' ''peerdbworkerpool'');
               _ \<leftarrow> kstatus OWorkerPool (workerPools E)
                       (pool\<lparr>wpStatus := st\<lparr>plObservedGeneration := mGeneration (wpMeta pool)\<rparr>\<rparr>);
               ok (requeue_after 30)
             }
             else fail e
         | Inr cluster \<Rightarrow> do {
             checkVersionSkew (wsImage (wpSpec pool)) cluster;
             configHash \<leftarrow> computePoolConfigHash E cluster (mNamespace (wpMeta pool));
             let desired0 = BuildFlowWorkerDeployment (elib E) pool cluster configHash;
             on_ok (lift_ok (SetControllerReference (elib E) ''PeerDBWorkerPool'' (wpMeta pool) (dMeta desired0))) (\<lambda>m.
               worker_apply E pool (cluster_fenced cluster) (desired0\<lparr>dMeta := m\<rparr>))
           }
       }
   }"

section \<open>Permissions\<close>

text \<open>
  What the controller may do: read pools, clusters, secrets and Deployments, create and update
  Deployments, write the status of pools.
\<close>

fun worker_permitted :: "effect \<Rightarrow> bool" where
  "worker_permitted (EGet kd _) \<longleftrightarrow> kd \<in> {KWorkerPool, KCluster, KSecret, KDeployment}"
| "worker_permitted (ECreate ob) \<longleftrightarrow> kind_of ob = KDeployment"
| "worker_permitted (EUpdate ob) \<longleftrightarrow> kind_of ob = KDeployment"
| "worker_permitted (EStatusUpdate ob) \<longleftrightarrow> kind_of ob = KWorkerPool"
| "worker_permitted (EDelete ob) \<longleftrightarrow> False"
| "worker_permitted _ \<longleftrightarrow> True"

lemma emits_worker_report [emits_intros]:
  "(\<And>t r a n. P (EEvent t r a n)) \<Longrightarrow> (\<And>m a b v. P (EGauge m a b v)) \<Longrightarrow>
     (\<And>x. P (EStatusUpdate (OWorkerPool x))) \<Longrightarrow> emits P (worker_report E pool d)"
  unfolding worker_report_def by (intro emits_intros)

interpretation worker_controller: crd_controller WorkerPoolReconcile workerPools KWorkerPool worker_permitted
proof (unfold_locales, goal_cases)
  case (1 E req s e w1)
  then show ?case by (simp add: WorkerPoolReconcile_def kget_def IsNotFound_def)
next
  case (2 E req)
  show ?case
    unfolding WorkerPoolReconcile_def worker_apply_def by (intro emits_intros) simp_all
qed auto

section \<open>The fence and autoscaling\<close>

text \<open>
  (C21) A worker pool whose cluster is fenced for a backup never updates its Deployment: whatever the
  server answers to the remaining calls, the only object a reconciliation may write is a Deployment
  that did not exist, and it deletes nothing.
\<close>

theorem worker_fence:
  assumes pool: "rGet (workerPools E) req (world s) = (Inr pool, w1)"
    and cluster: "rGet (clusters E) (NN (wsClusterRef (wpSpec pool)) (mNamespace (wpMeta pool))) w1 = (Inr cluster, w2)"
    and fenced: "cluster_fenced cluster"
  shows "\<exists>es. log (snd (run_state (WorkerPoolReconcile E req) s)) = log s @ es \<and>
     list_all (\<lambda>e. case e of EUpdate _ \<Rightarrow> False | EDelete _ \<Rightarrow> False | ECreate ob \<Rightarrow> kind_of ob = KDeployment | _ \<Rightarrow> True) es"
    (is "\<exists>es. _ \<and> list_all ?P es")
proof -
  let ?m = "do {
      checkVersionSkew (wsImage (wpSpec pool)) cluster;
      configHash \<leftarrow> computePoolConfigHash E cluster (mNamespace (wpMeta pool));
      let desired0 = BuildFlowWorkerDeployment (elib E) pool cluster configHash;
      on_ok (lift_ok (SetControllerReference (elib E) ''PeerDBWorkerPool'' (wpMeta pool) (dMeta desired0))) (\<lambda>m.
        worker_apply E pool (cluster_fenced cluster) (desired0\<lparr>dMeta := m\<rparr>))}"
  let ?gets = "[EGet KWorkerPool req, EGet KCluster (NN (wsClusterRef (wpSpec pool)) (mNamespace (wpMeta pool)))]"
  let ?s2 = "s\<lparr>world := w2, log := log s @ ?gets\<rparr>"
  have "emits ?P (worker_apply E pool True d)" for d
    unfolding worker_apply_def if_True by (intro emits_intros) simp_all
  then have "emits ?P ?m"
    unfolding eqTrueI [OF fenced] by (intro emits_intros) simp_all
  from emitsD [OF this, of ?s2] obtain es where
    es: "log (snd (run_state ?m ?s2)) = log ?s2 @ es" "list_all ?P es" by blast
  have "run_state (WorkerPoolReconcile E req) s = run_state ?m ?s2"
    using pool cluster by (simp add: WorkerPoolReconcile_def kget_def)
  with es show ?thesis by (auto intro!: exI [of _ "?gets @ es"])
qed

text \<open>A server that holds the pool and the cluster of the samples.\<close>

definition sys_worker :: "PeerDBCluster \<Rightarrow> memw sys" where
  "sys_worker c = (sys_with c)\<lparr>world := (world (sys_with c))\<lparr>meWorkerPools := [sample_worker_pool]\<rparr>\<rparr>"

lemma get_sample_worker:
  "rGet (workerPools mem_env) (NN ''workers'' ''default'') (world (sys_worker c)) =
     (Inr sample_worker_pool, world (sys_worker c))"
  by (simp add: sys_worker_def mem_defs worker_pool_slot_def sample_defs meta_key_def)

lemma get_worker_cluster:
  "meta_key (clMeta c) = NN ''peerdb'' ''default'' \<Longrightarrow>
   rGet (clusters mem_env) (NN (wsClusterRef (wpSpec sample_worker_pool)) (mNamespace (wpMeta sample_worker_pool)))
     (world (sys_worker c)) = (Inr c, world (sys_worker c))"
  by (simp add: sys_worker_def sys_with_def mem_defs cluster_slot_def sample_defs)

lemma worker_fence_witness:
  "list_all (\<lambda>e. case e of EUpdate _ \<Rightarrow> False | EDelete _ \<Rightarrow> False | ECreate ob \<Rightarrow> kind_of ob = KDeployment | _ \<Rightarrow> True)
     (log (snd (run_state (WorkerPoolReconcile mem_env (NN ''workers'' ''default'')) (sys_worker fenced_cluster))))"
proof -
  have key: "meta_key (clMeta fenced_cluster) = NN ''peerdb'' ''default''"
    by (simp add: fenced_cluster_def sample_defs meta_key_def)
  have "cluster_fenced fenced_cluster"
    by (simp add: cluster_fenced_def fenced_cluster_def smap_get_def)
  from worker_fence [OF get_sample_worker get_worker_cluster [OF key] this] show ?thesis
    by (auto simp: sys_worker_def sys_with_def)
qed

section \<open>The reported status\<close>

text \<open>The status a worker pool reports of a Deployment.\<close>

definition worker_reports :: "lib \<Rightarrow> PeerDBWorkerPool \<Rightarrow> Deployment \<Rightarrow> PoolStatus \<Rightarrow> bool" where
  "worker_reports L pool d st \<longleftrightarrow>
     plReplicas st = dtReplicas (dStatus d) \<and> plReadyReplicas st = dtReadyReplicas (dStatus d) \<and>
     plObservedGeneration st = mGeneration (wpMeta pool) \<and>
     pool_ready_status L st =
       Some (if 0 < dtReadyReplicas (dStatus d) \<and> dtReadyReplicas (dStatus d) = dtReplicas (dStatus d)
             then ConditionTrue else ConditionFalse)"

text \<open>
  A worker pool reports what its Deployment reports: the replica counts of the Deployment and the
  current generation; Ready is true exactly when there is a ready replica and every replica is ready.
  The status is written exactly when it differs from the one read, and the reconciliation asks for
  no further call exactly when the pool is ready.
\<close>

lemma worker_report_status:
  assumes L: "condition_lib (elib E)"
  shows "\<exists>st es. worker_reports (elib E) pool d st \<and>
     fst (run_state (worker_report E pool d) s) =
       (let res = (if worker_ready d then done_result else requeue_after 10)
        in if eqPoolStatus (elib E) (wpStatus pool) st then Inr res
           else map_sum id (\<lambda>_. res) (fst (rStatusUpdate (workerPools E) (pool\<lparr>wpStatus := st\<rparr>) (world s)))) \<and>
     log (snd (run_state (worker_report E pool d) s)) = log s @ es \<and>
     filter (Not \<circ> observing) es =
       (if eqPoolStatus (elib E) (wpStatus pool) st then [] else [EStatusUpdate (OWorkerPool (pool\<lparr>wpStatus := st\<rparr>))])"
proof -
  let ?st0 = "(wpStatus pool)\<lparr>plReplicas := dtReplicas (dStatus d),
                 plReadyReplicas := dtReadyReplicas (dStatus d), plObservedGeneration := mGeneration (wpMeta pool)\<rparr>"
  let ?msg = "replicas_text (dtReadyReplicas (dStatus d)) (dtReplicas (dStatus d))"
  let ?st = "with_ready (elib E) (nowOf E (world s)) (mGeneration (wpMeta pool))
      (if worker_ready d then ConditionTrue else ConditionFalse)
      (if worker_ready d then ReasonDeploymentReady else ReasonDeploymentNotReady) ?msg ?st0"
  show ?thesis
    by (intro exI [of _ ?st])
      (auto simp: worker_report_def Let_def discard_def kstatus_def worker_ready_def worker_reports_def
        condition_lib.pool_ready_with [OF L] split: prod.splits sum.splits)
qed

section \<open>What a reconciliation writes\<close>

text \<open>The config hash from the answer to the read of the catalog secret.\<close>

definition hash_of_answer :: "PeerDBCluster \<Rightarrow> api_error + Secret \<Rightarrow> string" where
  "hash_of_answer cluster answer = ComputeConfigHash (cmData (BuildConfigMap cluster))
     (case answer of Inl _ \<Rightarrow> fmempty | Inr x \<Rightarrow> smap_of [(mName (scMeta x), mResourceVersion (scMeta x))])"

lemma run_pool_hash:
  assumes "rGet (secrets E) (NN (sksName (catPasswordSecretRef (clCatalog cluster))) ns) (world s) = (a, w)"
  shows "run_state (computePoolConfigHash E cluster ns) s =
    (hash_of_answer cluster a,
     s\<lparr>world := w, log := log s @ [EGet KSecret (NN (sksName (catPasswordSecretRef (clCatalog cluster))) ns)]\<rparr>)"
  using assms by (simp add: computePoolConfigHash_def kget_def hash_of_answer_def Let_def)

lemma run_checkVersionSkew:
  fixes s :: "'w sys"
  shows "\<exists>es. run_state (checkVersionSkew img c) s = ((), s\<lparr>log := log s @ es\<rparr>) \<and> list_all observing es"
proof (cases "pool_skew img (clVersion (clSpec c))")
  case None
  then show ?thesis by (intro exI [of _ "[]"]) (simp add: checkVersionSkew_def)
next
  case (Some p)
  then have "\<exists>t r a n. (checkVersionSkew img c :: ('w, unit) prog) = event t r a n"
    by (cases p) (auto simp: checkVersionSkew_def)
  then obtain t r a n where "(checkVersionSkew img c :: ('w, unit) prog) = event t r a n" by blast
  then show ?thesis by (intro exI [of _ "[EEvent t r a n]"]) simp
qed

text \<open>Whether a live Deployment has to change, and what it becomes.\<close>

definition worker_differs :: "lib \<Rightarrow> PeerDBWorkerPool \<Rightarrow> Deployment \<Rightarrow> Deployment \<Rightarrow> bool" where
  "worker_differs L pool desired existing \<longleftrightarrow>
     \<not> eqPodTemplate L (dsTemplate (dSpec existing)) (dsTemplate (dSpec desired)) \<or>
     \<not> autoscaling_enabled pool \<and> \<not> eqReplicas L (dsReplicas (dSpec existing)) (dsReplicas (dSpec desired))"

definition worker_target :: "lib \<Rightarrow> PeerDBWorkerPool \<Rightarrow> Deployment \<Rightarrow> Deployment \<Rightarrow> Deployment" where
  "worker_target L pool desired existing =
     existing\<lparr>dSpec := (dSpec existing)
       \<lparr>dsTemplate := (if eqPodTemplate L (dsTemplate (dSpec existing)) (dsTemplate (dSpec desired))
                       then dsTemplate (dSpec existing) else dsTemplate (dSpec desired)),
        dsReplicas := (if autoscaling_enabled pool then dsReplicas (dSpec existing) else dsReplicas (dSpec desired))\<rparr>\<rparr>"

lemma patch_worker_target:
  assumes "semantic_equality L"
  shows "patch_worker_deployment L pool desired existing =
    (if worker_differs L pool desired existing then Some (worker_target L pool desired existing) else None)"
  by (auto simp: patch_worker_deployment_def worker_differs_def worker_target_def Let_def
      semantic_equality.eq_replicas [OF assms])

lemma filter_observing: "list_all observing es \<Longrightarrow> filter (Not \<circ> observing) es = []"
  by (induction es) auto

text \<open>The part of a reconciliation that applies the Deployment, when there is one.\<close>

lemma worker_apply_writes:
  assumes L: "condition_lib (elib E)" "semantic_equality (elib E)"
    and live: "rGet (deployments E) (meta_key (dMeta d)) (world s) = (Inr existing, w)"
  shows "let update = (\<not> fenced \<and> worker_differs (elib E) pool d existing);
             target = worker_target (elib E) pool d existing;
             out = run_state (worker_apply E pool fenced d) s
         in \<exists>es. log (snd out) = log s @ es \<and>
         (case (if update then rUpdate (deployments E) target w else (Inr existing, w)) of
            (Inl e, _) \<Rightarrow> fst out = Inl e \<and> filter (Not \<circ> observing) es = [EUpdate (ODeployment target)]
          | (Inr now, w') \<Rightarrow> \<exists>st. worker_reports (elib E) pool now st \<and>
              fst out = (let res = (if worker_ready now then done_result else requeue_after 10)
                 in if eqPoolStatus (elib E) (wpStatus pool) st then Inr res
                    else map_sum id (\<lambda>_. res) (fst (rStatusUpdate (workerPools E) (pool\<lparr>wpStatus := st\<rparr>) w'))) \<and>
              filter (Not \<circ> observing) es =
                (if update then [EUpdate (ODeployment target)] else []) @
                (if eqPoolStatus (elib E) (wpStatus pool) st then [] else [EStatusUpdate (OWorkerPool (pool\<lparr>wpStatus := st\<rparr>))]))"
proof -
  let ?t = "worker_target (elib E) pool d existing"
  let ?get = "EGet KDeployment (meta_key (dMeta d))"
  let ?s1 = "s\<lparr>world := w, log := log s @ [?get]\<rparr>"
  show ?thesis
  proof (cases "\<not> fenced \<and> worker_differs (elib E) pool d existing")
    case False
    then have run: "run_state (worker_apply E pool fenced d) s = run_state (worker_report E pool existing) ?s1"
      using live by (auto simp: worker_apply_def kget_def patch_worker_target [OF L(2)])
    from worker_report_status [OF L(1), of pool existing ?s1] obtain st es where
      "worker_reports (elib E) pool existing st" and
      "fst (run_state (worker_report E pool existing) ?s1) =
         (let res = (if worker_ready existing then done_result else requeue_after 10)
          in if eqPoolStatus (elib E) (wpStatus pool) st then Inr res
             else map_sum id (\<lambda>_. res) (fst (rStatusUpdate (workerPools E) (pool\<lparr>wpStatus := st\<rparr>) w)))" and
      "log (snd (run_state (worker_report E pool existing) ?s1)) = log s @ ?get # es" and
      "filter (Not \<circ> observing) (?get # es) =
         (if eqPoolStatus (elib E) (wpStatus pool) st then [] else [EStatusUpdate (OWorkerPool (pool\<lparr>wpStatus := st\<rparr>))])"
      by auto
    then show ?thesis
      unfolding Let_def run if_not_P [OF False] prod.case sum.case append_Nil by blast
  next
    case True
    obtain u w2 where upd: "rUpdate (deployments E) ?t w = (u, w2)" by fastforce
    let ?s2 = "s\<lparr>world := w2, log := log s @ [?get, EUpdate (ODeployment ?t)]\<rparr>"
    from True have run: "run_state (worker_apply E pool fenced d) s =
        (case u of Inl e \<Rightarrow> (Inl e, ?s2) | Inr now \<Rightarrow> run_state (worker_report E pool now) ?s2)"
      using live upd by (auto simp: worker_apply_def kcall_defs patch_worker_target [OF L(2)] split: sum.splits)
    show ?thesis
    proof (cases u)
      case (Inl e)
      then show ?thesis unfolding Let_def run if_P [OF True] upd by simp
    next
      case (Inr now)
      from worker_report_status [OF L(1), of pool now ?s2] obtain st es where
        "worker_reports (elib E) pool now st" and
        "fst (run_state (worker_report E pool now) ?s2) =
           (let res = (if worker_ready now then done_result else requeue_after 10)
            in if eqPoolStatus (elib E) (wpStatus pool) st then Inr res
               else map_sum id (\<lambda>_. res) (fst (rStatusUpdate (workerPools E) (pool\<lparr>wpStatus := st\<rparr>) w2)))" and
        "log (snd (run_state (worker_report E pool now) ?s2)) = log s @ ?get # EUpdate (ODeployment ?t) # es" and
        "filter (Not \<circ> observing) (?get # EUpdate (ODeployment ?t) # es) = [EUpdate (ODeployment ?t)] @
           (if eqPoolStatus (elib E) (wpStatus pool) st then [] else [EStatusUpdate (OWorkerPool (pool\<lparr>wpStatus := st\<rparr>))])"
        by auto
      then show ?thesis
        unfolding Let_def run if_P [OF True] upd Inr prod.case sum.case by blast
    qed
  qed
qed

text \<open>
  (C17) What a reconciliation of a worker pool writes when the pool, its cluster and its Deployment are
  found, whatever the server answers otherwise. The Deployment is updated exactly when the cluster is
  not fenced and the live pod template does not compare equal to the built one, or, without
  autoscaling, the replicas differ; the update sets the template and, without autoscaling, the replicas,
  and keeps every other field of the live Deployment. The pool's status is then written exactly when the
  reported one does not compare equal to the one read. Nothing else is written; an error of the update
  ends the reconciliation. The template compared is the whole one: a live template into which the server
  has filled defaults differs, and is written again.
\<close>

theorem worker_writes_exactly:
  assumes L: "condition_lib (elib E)" "semantic_equality (elib E)" "owner_lib (elib E)"
    and pool: "rGet (workerPools E) req (world s) = (Inr pool, w1)"
    and cluster: "rGet (clusters E) (NN (wsClusterRef (wpSpec pool)) (mNamespace (wpMeta pool))) w1 = (Inr cluster, w2)"
    and secret: "rGet (secrets E) (NN (sksName (catPasswordSecretRef (clCatalog cluster))) (mNamespace (wpMeta pool))) w2 = (a, w3)"
    and live: "rGet (deployments E) (meta_key (dMeta (BuildFlowWorkerDeployment (elib E) pool cluster (hash_of_answer cluster a)))) w3 =
        (Inr existing, w4)"
  shows "let d = BuildFlowWorkerDeployment (elib E) pool cluster (hash_of_answer cluster a);
             update = (\<not> cluster_fenced cluster \<and> worker_differs (elib E) pool d existing);
             target = worker_target (elib E) pool d existing;
             out = run_state (WorkerPoolReconcile E req) s
         in \<exists>es. log (snd out) = log s @ es \<and>
         (case (if update then rUpdate (deployments E) target w4 else (Inr existing, w4)) of
            (Inl e, _) \<Rightarrow> fst out = Inl e \<and> filter (Not \<circ> observing) es = [EUpdate (ODeployment target)]
          | (Inr now, w') \<Rightarrow> \<exists>st. worker_reports (elib E) pool now st \<and>
              fst out = (let res = (if worker_ready now then done_result else requeue_after 10)
                 in if eqPoolStatus (elib E) (wpStatus pool) st then Inr res
                    else map_sum id (\<lambda>_. res) (fst (rStatusUpdate (workerPools E) (pool\<lparr>wpStatus := st\<rparr>) w'))) \<and>
              filter (Not \<circ> observing) es =
                (if update then [EUpdate (ODeployment target)] else []) @
                (if eqPoolStatus (elib E) (wpStatus pool) st then [] else [EStatusUpdate (OWorkerPool (pool\<lparr>wpStatus := st\<rparr>))]))"
proof -
  let ?d = "BuildFlowWorkerDeployment (elib E) pool cluster (hash_of_answer cluster a)"
  let ?d' = "?d\<lparr>dMeta := (dMeta ?d)\<lparr>mOwnerReferences :=
    [\<lparr>orKind = ''PeerDBWorkerPool'', orName = mName (wpMeta pool), orController = True\<rparr>]\<rparr>\<rparr>"
  let ?gets = "[EGet KWorkerPool req, EGet KCluster (NN (wsClusterRef (wpSpec pool)) (mNamespace (wpMeta pool)))]"
  let ?s2 = "s\<lparr>world := w2, log := log s @ ?gets\<rparr>"
  obtain sk where sk: "run_state (checkVersionSkew (wsImage (wpSpec pool)) cluster) ?s2 = ((), ?s2\<lparr>log := log ?s2 @ sk\<rparr>)"
    "list_all observing sk"
    using run_checkVersionSkew by blast
  let ?pre = "?gets @ sk @ [EGet KSecret (NN (sksName (catPasswordSecretRef (clCatalog cluster))) (mNamespace (wpMeta pool)))]"
  let ?s3 = "s\<lparr>world := w3, log := log s @ ?pre\<rparr>"
  have own: "SetControllerReference (elib E) ''PeerDBWorkerPool'' (wpMeta pool) (dMeta ?d) = Inr (dMeta ?d')"
    using owner_lib.set_owner [OF L(3)] by (simp add: pool_objects_unowned)
  have run: "run_state (WorkerPoolReconcile E req) s = run_state (worker_apply E pool (cluster_fenced cluster) ?d') ?s3"
    using pool cluster sk(1) own
      run_pool_hash [where s = "?s2\<lparr>log := log ?s2 @ sk\<rparr>" and E = E and cluster = cluster and ns = "mNamespace (wpMeta pool)"
        and a = a and w = w3] secret
    by (simp add: WorkerPoolReconcile_def kget_def Let_def)
  have same: "worker_differs L pool ?d' x = worker_differs L pool ?d x" "worker_target L pool ?d' x = worker_target L pool ?d x" for L x
    by (simp_all add: worker_differs_def worker_target_def)
  have "rGet (deployments E) (meta_key (dMeta ?d')) (world ?s3) = (Inr existing, w4)"
    using live by (simp add: meta_key_def)
  note applied = worker_apply_writes [OF L(1,2) this, of "cluster_fenced cluster" pool, unfolded Let_def same]
  have pre: "filter (Not \<circ> observing) (?pre @ es) = filter (Not \<circ> observing) es" for es
    using filter_observing [OF sk(2)] by simp
  from applied show ?thesis
    unfolding Let_def run
  proof (elim exE, goal_cases)
    case (1 es)
    then show ?case by (intro exI [of _ "?pre @ es"]) (simp only: pre, simp)
  qed
qed

text \<open>
  A server that holds the pool, its cluster, and a Deployment as a server stores it: the built one with
  the restart policy filled in.
\<close>

definition defaulted_worker :: Deployment where
  "defaulted_worker = (let d = BuildFlowWorkerDeployment mem_lib sample_worker_pool sample_cluster
       (hash_of_answer sample_cluster (Inr sample_secret))
     in d\<lparr>dSpec := (dSpec d)\<lparr>dsTemplate := (dsTemplate (dSpec d))
          \<lparr>ptSpec := (ptSpec (dsTemplate (dSpec d)))\<lparr>psRestartPolicy := ''Always''\<rparr>\<rparr>\<rparr>\<rparr>)"

definition sys_defaulted_worker :: "memw sys" where
  "sys_defaulted_worker = (sys_worker sample_cluster)\<lparr>world := (world (sys_worker sample_cluster))\<lparr>meDeployments := [defaulted_worker]\<rparr>\<rparr>"

lemma worker_writes_exactly_witness:
  "\<exists>e\<in>set (log (snd (run_state (WorkerPoolReconcile mem_env (NN ''workers'' ''default'')) sys_defaulted_worker))).
     \<exists>d. e = EUpdate (ODeployment d)"
proof -
  let ?s = sys_defaulted_worker and ?a = "Inr sample_secret :: api_error + Secret"
  let ?d = "BuildFlowWorkerDeployment (elib mem_env) sample_worker_pool sample_cluster (hash_of_answer sample_cluster ?a)"
  have pool: "rGet (workerPools mem_env) (NN ''workers'' ''default'') (world ?s) = (Inr sample_worker_pool, world ?s)"
    by (simp add: sys_defaulted_worker_def sys_worker_def mem_defs worker_pool_slot_def sample_defs meta_key_def)
  have cluster: "rGet (clusters mem_env) (NN (wsClusterRef (wpSpec sample_worker_pool)) (mNamespace (wpMeta sample_worker_pool)))
      (world ?s) = (Inr sample_cluster, world ?s)"
    by (simp add: sys_defaulted_worker_def sys_worker_def sys_with_def mem_defs cluster_slot_def sample_defs meta_key_def)
  have secret: "rGet (secrets mem_env) (NN (sksName (catPasswordSecretRef (clCatalog sample_cluster))) (mNamespace (wpMeta sample_worker_pool)))
      (world ?s) = (?a, world ?s)"
    by (simp add: sys_defaulted_worker_def sys_worker_def sys_with_def mem_defs secret_slot_def sample_defs meta_key_def)
  have live: "rGet (deployments mem_env) (meta_key (dMeta ?d)) (world ?s) = (Inr defaulted_worker, world ?s)"
    by (simp add: sys_defaulted_worker_def mem_defs deployment_slot_def) (simp add: defaulted_worker_def Let_def)
  have "psRestartPolicy (ptSpec (dsTemplate (dSpec defaulted_worker))) \<noteq> psRestartPolicy (ptSpec (dsTemplate (dSpec ?d)))"
    by (simp add: defaulted_worker_def Let_def BuildFlowWorkerDeployment_def build_defs new_pod_spec_def)
  then have differs: "worker_differs (elib mem_env) sample_worker_pool ?d defaulted_worker"
    by (auto simp: worker_differs_def mem_lib_def)
  have open': "\<not> cluster_fenced sample_cluster"
    by (simp add: cluster_fenced_def sample_defs smap_get_def)
  let ?t = "worker_target (elib mem_env) sample_worker_pool ?d defaulted_worker"
  obtain u w where upd: "rUpdate (deployments mem_env) ?t (world ?s) = (u, w)" by fastforce
  from worker_writes_exactly [OF mem_cond.condition_lib_axioms [folded mem_env_simps]
      mem_eq.semantic_equality_axioms [folded mem_env_simps] mem_owner.owner_lib_axioms [folded mem_env_simps]
      pool cluster secret live, unfolded Let_def, unfolded eqTrueI [OF differs] eqTrueI [OF open'] simp_thms if_True upd prod.case]
  obtain es where es: "log (snd (run_state (WorkerPoolReconcile mem_env (NN ''workers'' ''default'')) ?s)) = log ?s @ es"
    and "\<exists>rest. filter (Not \<circ> observing) es = EUpdate (ODeployment ?t) # rest"
    by (cases u) auto
  then have "EUpdate (ODeployment ?t) \<in> set es"
    by (metis filter_is_subset list.set_intros(1) subsetD)
  with es show ?thesis by auto
qed

end
