(* ===== verification/SnapshotPoolController.thy ===== *)
theory SnapshotPoolController
  imports PoolCommon
begin

text \<open>
  The reconciliation of a PeerDBSnapshotPool (internal/controller/peerdbsnapshotpool\_controller.go):
  the headless Service, the StatefulSet of the snapshot workers, the fence of the referenced cluster
  and the pool's status, with scale-to-zero as a ready state.
\<close>

definition SnapshotReconcileService :: "'w env \<Rightarrow> PeerDBSnapshotPool \<Rightarrow> ('w, unit) gprog" where
  "SnapshotReconcileService E pool =
     (let desired0 = BuildSnapshotWorkerService pool in
      on_ok (lift_ok (SetControllerReference (elib E) ''PeerDBSnapshotPool'' (snMeta pool) (svMeta desired0))) (\<lambda>m.
        let desired = desired0\<lparr>svMeta := m\<rparr> in
        create_or_update KService OService (services E) (meta_key m) desired
          (\<lambda>existing. Some (existing
             \<lparr>svSpec := (svSpec existing)\<lparr>ksSelector := ksSelector (svSpec desired)\<rparr>,
              svMeta := (svMeta existing)\<lparr>mLabels := mLabels (svMeta desired)\<rparr>\<rparr>))))"

text \<open>The live StatefulSet with template and replicas replaced, when they differ.\<close>

definition patch_stateful_set :: "lib \<Rightarrow> StatefulSet \<Rightarrow> StatefulSet \<Rightarrow> StatefulSet option" where
  "patch_stateful_set L existing desired =
     (let newTemplate = \<not> eqPodTemplate L (ssTemplate (sSpec existing)) (ssTemplate (sSpec desired));
          e1 = (if newTemplate
                then existing\<lparr>sSpec := (sSpec existing)\<lparr>ssTemplate := ssTemplate (sSpec desired)\<rparr>\<rparr> else existing);
          newReplicas = (\<not> eqReplicas L (ssReplicas (sSpec e1)) (ssReplicas (sSpec desired)));
          e2 = (if newReplicas
                then e1\<lparr>sSpec := (sSpec e1)\<lparr>ssReplicas := ssReplicas (sSpec desired)\<rparr>\<rparr> else e1)
      in if newTemplate \<or> newReplicas then Some e2 else None)"

text \<open>The update writes the server's answer back into the live object.\<close>

definition updateStatefulSet :: "'w env \<Rightarrow> StatefulSet \<Rightarrow> StatefulSet \<Rightarrow> ('w, StatefulSet) gprog" where
  "updateStatefulSet E existing desired =
     (case patch_stateful_set (elib E) existing desired of
        None \<Rightarrow> ok existing
      | Some changed \<Rightarrow> kupdate OStatefulSet (statefulSets E) changed)"

definition snapshot_replicas :: "PeerDBSnapshotPool \<Rightarrow> int" where
  "snapshot_replicas pool = (case spsReplicas (snSpec pool) of None \<Rightarrow> 1 | Some n \<Rightarrow> n)"

definition snapshot_ready :: "PeerDBSnapshotPool \<Rightarrow> StatefulSet \<Rightarrow> bool" where
  "snapshot_ready pool existing =
     (if snapshot_replicas pool = 0 then True else stReadyReplicas (sStatus existing) = snapshot_replicas pool)"

definition snapshot_report :: "'w env \<Rightarrow> PeerDBSnapshotPool \<Rightarrow> StatefulSet \<Rightarrow> ('w, Result) gprog" where
  "snapshot_report E pool existing =
     (let gen = mGeneration (snMeta pool);
          st = (snStatus pool)\<lparr>plReplicas := stReplicas (sStatus existing),
                 plReadyReplicas := stReadyReplicas (sStatus existing), plObservedGeneration := gen\<rparr>;
          msg = replicas_text (stReadyReplicas (sStatus existing)) (snapshot_replicas pool);
          ready = snapshot_ready pool existing
      in do {
        emit (EGauge ''peerdb_snapshot_pools_total'' (mName (snMeta pool)) (mNamespace (snMeta pool)) (plReplicas st));
        st2 \<leftarrow> (if ready
               then do {
                 s1 \<leftarrow> set_pool_ready E gen ConditionTrue ReasonStatefulSetReady msg st;
                 event EventTypeNormal ReasonStatefulSetReady ''Reconciled'' msg;
                 ret s1
               }
               else set_pool_ready E gen ConditionFalse ReasonStatefulSetNotReady msg st);
        on_ok (if \<not> eqPoolStatus (elib E) (snStatus pool) st2
               then discard (kstatus OSnapshotPool (snapshotPools E) (pool\<lparr>snStatus := st2\<rparr>))
               else ok ()) (\<lambda>_.
          if \<not> ready then ok (requeue_after 10) else ok done_result)
      })"

definition snapshot_apply ::
    "'w env \<Rightarrow> PeerDBSnapshotPool \<Rightarrow> bool \<Rightarrow> StatefulSet \<Rightarrow> ('w, Result) gprog" where
  "snapshot_apply E pool backupInProgress desired = do {
     r \<leftarrow> kget KStatefulSet (statefulSets E) (meta_key (sMeta desired));
     case r of
       Inl e \<Rightarrow>
         if IsNotFound e
         then on_ok (kcreate OStatefulSet (statefulSets E) desired) (\<lambda>_. do {
           st \<leftarrow> set_pool_ready E (mGeneration (snMeta pool)) ConditionFalse ReasonStatefulSetCreated
                   ''Snapshot worker StatefulSet was created and is starting'' (snStatus pool);
           event EventTypeNormal ReasonStatefulSetCreated ''Created'' ''Snapshot worker StatefulSet was created'';
           _ \<leftarrow> kstatus OSnapshotPool (snapshotPools E)
                   (pool\<lparr>snStatus := st\<lparr>plObservedGeneration := mGeneration (snMeta pool)\<rparr>\<rparr>);
           ok (requeue_after 5)
         })
         else fail e
     | Inr existing \<Rightarrow>
         on_ok (if backupInProgress then ok existing else updateStatefulSet E existing desired)
           (snapshot_report E pool)
   }"

definition SnapshotPoolReconcile :: "'w env \<Rightarrow> NamespacedName \<Rightarrow> ('w, Result) gprog" where
  "SnapshotPoolReconcile E req = do {
     r \<leftarrow> kget KSnapshotPool (snapshotPools E) req;
     case r of
       Inl e \<Rightarrow> if IsNotFound e then ok done_result else fail e
     | Inr pool \<Rightarrow> do {
         rc \<leftarrow> kget KCluster (clusters E) (NN (spsClusterRef (snSpec pool)) (mNamespace (snMeta pool)));
         case rc of
           Inl e \<Rightarrow>
             if IsNotFound e
             then do {
               let msg = ''Referenced PeerDBCluster '' @ fmt_q (spsClusterRef (snSpec pool)) @ '' not found'';
               st \<leftarrow> set_pool_ready E (mGeneration (snMeta pool)) ConditionFalse ReasonClusterNotFound msg (snStatus pool);
               event EventTypeWarning ReasonClusterNotFound ''DependencyCheck'' msg;
               emit (ECounter ''peerdb_reconcile_errors_total'' ''peerdbsnapshotpool'');
               _ \<leftarrow> kstatus OSnapshotPool (snapshotPools E)
                       (pool\<lparr>snStatus := st\<lparr>plObservedGeneration := mGeneration (snMeta pool)\<rparr>\<rparr>);
               ok (requeue_after 30)
             }
             else fail e
         | Inr cluster \<Rightarrow>
             on_ok (SnapshotReconcileService E pool) (\<lambda>_. do {
               checkVersionSkew (spsImage (snSpec pool)) cluster;
               configHash \<leftarrow> computePoolConfigHash E cluster (mNamespace (snMeta pool));
               let desired0 = BuildSnapshotWorkerStatefulSet (elib E) pool cluster configHash;
               on_ok (lift_ok (SetControllerReference (elib E) ''PeerDBSnapshotPool'' (snMeta pool) (sMeta desired0))) (\<lambda>m.
                 snapshot_apply E pool (cluster_fenced cluster) (desired0\<lparr>sMeta := m\<rparr>))
             })
       }
   }"

section \<open>Permissions\<close>

fun snapshot_permitted :: "effect \<Rightarrow> bool" where
  "snapshot_permitted (EGet kd _) \<longleftrightarrow> kd \<in> {KSnapshotPool, KCluster, KSecret, KStatefulSet, KService}"
| "snapshot_permitted (ECreate ob) \<longleftrightarrow> kind_of ob \<in> {KStatefulSet, KService}"
| "snapshot_permitted (EUpdate ob) \<longleftrightarrow> kind_of ob \<in> {KStatefulSet, KService}"
| "snapshot_permitted (EStatusUpdate ob) \<longleftrightarrow> kind_of ob = KSnapshotPool"
| "snapshot_permitted (EDelete ob) \<longleftrightarrow> False"
| "snapshot_permitted _ \<longleftrightarrow> True"

lemma emits_snapshot_report [emits_intros]:
  "(\<And>t r a n. P (EEvent t r a n)) \<Longrightarrow> (\<And>m a b v. P (EGauge m a b v)) \<Longrightarrow>
     (\<And>x. P (EStatusUpdate (OSnapshotPool x))) \<Longrightarrow> emits P (snapshot_report E pool d)"
  unfolding snapshot_report_def by (intro emits_intros)

lemma emits_SnapshotReconcileService [emits_intros]:
  "(\<And>n. P (EGet KService n)) \<Longrightarrow> (\<And>x. P (ECreate (OService x))) \<Longrightarrow> (\<And>x. P (EUpdate (OService x))) \<Longrightarrow>
     emits P (SnapshotReconcileService E pool)"
  unfolding SnapshotReconcileService_def by (intro emits_intros)

lemma emits_updateStatefulSet [emits_intros]:
  "(\<And>x. P (EUpdate (OStatefulSet x))) \<Longrightarrow> emits P (updateStatefulSet E a b)"
  unfolding updateStatefulSet_def by (intro emits_intros)

interpretation snapshot_controller: crd_controller SnapshotPoolReconcile snapshotPools KSnapshotPool snapshot_permitted
proof (unfold_locales, goal_cases)
  case (1 E req s e w1)
  then show ?case by (simp add: SnapshotPoolReconcile_def kget_def IsNotFound_def)
next
  case (2 E req)
  show ?case
    unfolding SnapshotPoolReconcile_def snapshot_apply_def by (intro emits_intros) simp_all
qed auto

section \<open>The headless Service\<close>

text \<open>
  After a successful \<open>SnapshotReconcileService\<close> the server holds the pool's headless Service: the
  desired one when there was none, and otherwise the one it held with the desired selector and labels;
  and no other Service changed. The Service is written by every reconciliation.
\<close>

lemma SnapshotReconcileService_applies:
  assumes store: "resource_store (services E) look (\<lambda>x. meta_key (svMeta x)) view"
    and owner: "owner_lib (elib E)"
    and run: "run_state (SnapshotReconcileService E pool) s = (Inr (), s')"
  defines "d \<equiv> (BuildSnapshotWorkerService pool)\<lparr>svMeta := (svMeta (BuildSnapshotWorkerService pool))\<lparr>mOwnerReferences :=
    [\<lparr>orKind = ''PeerDBSnapshotPool'', orName = mName (snMeta pool), orController = True\<rparr>]\<rparr>\<rparr>"
  shows "(\<exists>x. look (world s') (meta_key (svMeta d)) = Some x \<and>
            view x = view (case look (world s) (meta_key (svMeta d)) of
              None \<Rightarrow> d
            | Some old \<Rightarrow> old\<lparr>svSpec := (svSpec old)\<lparr>ksSelector := ksSelector (svSpec d)\<rparr>,
                             svMeta := (svMeta old)\<lparr>mLabels := mLabels (svMeta d)\<rparr>\<rparr>)) \<and>
         (\<forall>n. n \<noteq> meta_key (svMeta d) \<longrightarrow> look (world s') n = look (world s) n)"
proof -
  let ?patched = "\<lambda>existing. existing\<lparr>svSpec := (svSpec existing)\<lparr>ksSelector := ksSelector (svSpec d)\<rparr>,
       svMeta := (svMeta existing)\<lparr>mLabels := mLabels (svMeta d)\<rparr>\<rparr>"
  have "run_state (create_or_update KService OService (services E) (meta_key (svMeta d)) d (\<lambda>x. Some (?patched x))) s = (Inr (), s')"
    using run unfolding SnapshotReconcileService_def Let_def d_def on_ok_set_owner [OF owner pool_objects_unowned(5,6)]
    by simp
  then show ?thesis
    by (rule resource_store.create_or_update_post [OF store, where desired = d
        and P = "\<lambda>old v. v = view (case old of None \<Rightarrow> d | Some x \<Rightarrow> ?patched x)"]) (auto simp: meta_key_def)
qed

section \<open>The fence\<close>

text \<open>What a fenced reconciliation may write: the headless Service, and a StatefulSet by creation.\<close>

definition snapshot_fence_allows :: "effect \<Rightarrow> bool" where
  "snapshot_fence_allows e =
     (case e of
        EUpdate ob \<Rightarrow> kind_of ob = KService
      | ECreate ob \<Rightarrow> kind_of ob \<in> {KService, KStatefulSet}
      | EDelete _ \<Rightarrow> False
      | _ \<Rightarrow> True)"

lemma snapshot_fence_simps [simp]:
  "snapshot_fence_allows (EGet kd n)" "snapshot_fence_allows (EStatusUpdate ob)" "snapshot_fence_allows (EEvent a b c d)"
  "snapshot_fence_allows (EGauge m x y v)" "snapshot_fence_allows (ECounter m x)"
  "snapshot_fence_allows (ECreate (OService sv))" "snapshot_fence_allows (EUpdate (OService sv))"
  "snapshot_fence_allows (ECreate (OStatefulSet st))" "\<not> snapshot_fence_allows (EUpdate (OStatefulSet st))"
  "\<not> snapshot_fence_allows (EDelete ob)"
  by (simp_all add: snapshot_fence_allows_def)

text \<open>
  (C22) A snapshot pool whose cluster is fenced for a backup never updates or deletes its StatefulSet;
  whatever the server answers to the remaining calls, it writes only its headless Service, and creates
  a StatefulSet that did not exist.
\<close>

theorem snapshot_fence:
  assumes pool: "rGet (snapshotPools E) req (world s) = (Inr pool, w1)"
    and cluster: "rGet (clusters E) (NN (spsClusterRef (snSpec pool)) (mNamespace (snMeta pool))) w1 = (Inr cluster, w2)"
    and fenced: "cluster_fenced cluster"
  shows "\<exists>es. log (snd (run_state (SnapshotPoolReconcile E req) s)) = log s @ es \<and> list_all snapshot_fence_allows es"
proof -
  let ?m = "on_ok (SnapshotReconcileService E pool) (\<lambda>_. do {
               checkVersionSkew (spsImage (snSpec pool)) cluster;
               configHash \<leftarrow> computePoolConfigHash E cluster (mNamespace (snMeta pool));
               let desired0 = BuildSnapshotWorkerStatefulSet (elib E) pool cluster configHash;
               on_ok (lift_ok (SetControllerReference (elib E) ''PeerDBSnapshotPool'' (snMeta pool) (sMeta desired0))) (\<lambda>m.
                 snapshot_apply E pool (cluster_fenced cluster) (desired0\<lparr>sMeta := m\<rparr>))})"
  let ?gets = "[EGet KSnapshotPool req, EGet KCluster (NN (spsClusterRef (snSpec pool)) (mNamespace (snMeta pool)))]"
  let ?s2 = "s\<lparr>world := w2, log := log s @ ?gets\<rparr>"
  have "emits snapshot_fence_allows (snapshot_apply E pool True d)" for d
    unfolding snapshot_apply_def if_True by (intro emits_intros) simp_all
  then have "emits snapshot_fence_allows ?m"
    unfolding eqTrueI [OF fenced] by (intro emits_intros) simp_all
  from emitsD [OF this, of ?s2] obtain es where
    es: "log (snd (run_state ?m ?s2)) = log ?s2 @ es" "list_all snapshot_fence_allows es" by blast
  have "run_state (SnapshotPoolReconcile E req) s = run_state ?m ?s2"
    using pool cluster by (simp add: SnapshotPoolReconcile_def kget_def)
  with es show ?thesis by (auto intro!: exI [of _ "?gets @ es"])
qed

definition sys_snapshot :: "PeerDBCluster \<Rightarrow> memw sys" where
  "sys_snapshot c = (sys_with c)\<lparr>world := (world (sys_with c))\<lparr>meSnapshotPools := [sample_snapshot_pool]\<rparr>\<rparr>"

lemma get_sample_snapshot:
  "rGet (snapshotPools mem_env) (NN ''snapshots'' ''default'') (world (sys_snapshot c)) =
     (Inr sample_snapshot_pool, world (sys_snapshot c))"
  by (simp add: sys_snapshot_def mem_defs snapshot_pool_slot_def sample_defs meta_key_def)

lemma snapshot_fence_witness:
  "list_all snapshot_fence_allows
     (log (snd (run_state (SnapshotPoolReconcile mem_env (NN ''snapshots'' ''default'')) (sys_snapshot fenced_cluster))))"
proof -
  have cluster: "rGet (clusters mem_env) (NN (spsClusterRef (snSpec sample_snapshot_pool)) (mNamespace (snMeta sample_snapshot_pool)))
     (world (sys_snapshot fenced_cluster)) = (Inr fenced_cluster, world (sys_snapshot fenced_cluster))"
    by (simp add: sys_snapshot_def sys_with_def mem_defs cluster_slot_def fenced_cluster_def sample_defs meta_key_def)
  have "cluster_fenced fenced_cluster"
    by (simp add: cluster_fenced_def fenced_cluster_def smap_get_def)
  from snapshot_fence [OF get_sample_snapshot cluster this] show ?thesis
    by (auto simp: sys_snapshot_def sys_with_def)
qed

section \<open>The reported status\<close>

text \<open>
  (C37) A snapshot pool reports what its StatefulSet reports. Ready is true exactly when the pool is
  scaled to zero or as many replicas are ready as the pool asks for (one by default). The status is
  written exactly when it differs from the one read, and the reconciliation asks for no further call
  exactly when the pool is ready.
\<close>

theorem snapshot_report_status:
  assumes L: "condition_lib (elib E)"
  shows "\<exists>st. plReplicas st = stReplicas (sStatus d) \<and> plReadyReplicas st = stReadyReplicas (sStatus d) \<and>
     plObservedGeneration st = mGeneration (snMeta pool) \<and>
     pool_ready_status (elib E) st =
       Some (if spsReplicas (snSpec pool) = Some 0 \<or>
                spsReplicas (snSpec pool) = Some (stReadyReplicas (sStatus d)) \<or>
                spsReplicas (snSpec pool) = None \<and> stReadyReplicas (sStatus d) = 1
             then ConditionTrue else ConditionFalse) \<and>
     fst (run_state (snapshot_report E pool d) s) =
       (let res = (if snapshot_ready pool d then done_result else requeue_after 10)
        in if eqPoolStatus (elib E) (snStatus pool) st then Inr res
           else map_sum id (\<lambda>_. res) (fst (rStatusUpdate (snapshotPools E) (pool\<lparr>snStatus := st\<rparr>) (world s))))"
proof -
  let ?st0 = "(snStatus pool)\<lparr>plReplicas := stReplicas (sStatus d),
                 plReadyReplicas := stReadyReplicas (sStatus d), plObservedGeneration := mGeneration (snMeta pool)\<rparr>"
  let ?msg = "replicas_text (stReadyReplicas (sStatus d)) (snapshot_replicas pool)"
  let ?st = "with_ready (elib E) (nowOf E (world s)) (mGeneration (snMeta pool))
      (if snapshot_ready pool d then ConditionTrue else ConditionFalse)
      (if snapshot_ready pool d then ReasonStatefulSetReady else ReasonStatefulSetNotReady) ?msg ?st0"
  have ready: "snapshot_ready pool d \<longleftrightarrow> spsReplicas (snSpec pool) = Some 0 \<or>
      spsReplicas (snSpec pool) = Some (stReadyReplicas (sStatus d)) \<or>
      spsReplicas (snSpec pool) = None \<and> stReadyReplicas (sStatus d) = 1"
    by (auto simp: snapshot_ready_def snapshot_replicas_def split: option.splits)
  show ?thesis
    by (intro exI [of _ ?st])
      (auto simp: snapshot_report_def Let_def discard_def kstatus_def ready [symmetric]
        condition_lib.pool_ready_with [OF L] split: prod.splits sum.splits)
qed

lemma snapshot_report_status_witness:
  "\<exists>st. pool_ready_status mem_lib st = Some ConditionFalse \<and> plReplicas st = 0 \<and>
     fst (run_state (snapshot_report mem_env sample_snapshot_pool
         (BuildSnapshotWorkerStatefulSet mem_lib sample_snapshot_pool sample_cluster ''h'')) (sys_snapshot sample_cluster)) =
       (if snStatus sample_snapshot_pool = st then Inr (requeue_after 10)
        else map_sum id (\<lambda>_. requeue_after 10)
          (fst (rStatusUpdate (snapshotPools mem_env) (sample_snapshot_pool\<lparr>snStatus := st\<rparr>) (world (sys_snapshot sample_cluster)))))"
proof -
  let ?d = "BuildSnapshotWorkerStatefulSet mem_lib sample_snapshot_pool sample_cluster ''h''"
  have d: "stReadyReplicas (sStatus ?d) = 0" "stReplicas (sStatus ?d) = 0"
    by (simp_all add: BuildSnapshotWorkerStatefulSet_def Let_def)
  have r: "spsReplicas (snSpec sample_snapshot_pool) = Some 1" by (simp add: sample_defs)
  then have "\<not> snapshot_ready sample_snapshot_pool ?d"
    by (simp add: snapshot_ready_def snapshot_replicas_def d)
  then show ?thesis
    using snapshot_report_status [OF mem_cond.condition_lib_axioms [folded mem_env_simps],
        where pool = sample_snapshot_pool and d = ?d and s = "sys_snapshot sample_cluster"]
      semantic_equality.eq_pool_status [OF mem_eq.semantic_equality_axioms]
    by (auto simp: d r Let_def)
qed

end
