(* ===== verification/Ownership.thy ===== *)
theory Ownership
  imports Manager Settled ClusterController WorkerPoolController SnapshotPoolController
begin

text \<open>
  Watching and ownership fit together: the kinds each controller declares with \<open>Owns\<close>
  (\<open>SetupWithManager\<close>) against the objects its reconciliations create. controller-runtime maps an
  event on an object of an owned kind to its controller reference, and Kubernetes collects an object
  when its owner goes away; both need that every created object is of such a kind and refers to the
  reconciled resource.
\<close>

fun obj_meta :: "kobject \<Rightarrow> ObjectMeta" where
  "obj_meta (OCluster c) = clMeta c"
| "obj_meta (OWorkerPool p) = wpMeta p"
| "obj_meta (OSnapshotPool p) = snMeta p"
| "obj_meta (OServiceAccount a) = saMeta a"
| "obj_meta (OConfigMap m) = cmMeta m"
| "obj_meta (ODeployment d) = dMeta d"
| "obj_meta (OStatefulSet s) = sMeta s"
| "obj_meta (OService s) = svMeta s"
| "obj_meta (OJob j) = jMeta j"

text \<open>
  A creation is owned when the object is of one of the kinds and lies in the namespace of the resource
  \<open>n\<close> of type \<open>k\<close>, which is its controller.
\<close>

fun owned_create :: "kind list \<Rightarrow> string \<Rightarrow> NamespacedName \<Rightarrow> effect \<Rightarrow> bool" where
  "owned_create owns k n (ECreate ob) \<longleftrightarrow>
     kind_of ob \<in> set owns \<and> mNamespace (obj_meta ob) = nnNamespace n \<and>
     \<lparr>orKind = k, orName = nnName n, orController = True\<rparr> \<in> set (mOwnerReferences (obj_meta ob))"
| "owned_create owns k n _ \<longleftrightarrow> True"

abbreviation cluster_owned :: "NamespacedName \<Rightarrow> effect \<Rightarrow> bool" where
  "cluster_owned \<equiv> owned_create (ccOwns ClusterSetupWithManager) ''PeerDBCluster''"

text \<open>With the library's law, taking ownership is a pure step.\<close>

lemma on_ok_own:
  assumes "owner_lib (elib E)" "mOwnerReferences m = []" "mNamespace m = clNamespace c"
  shows "on_ok (own E c m) f = f (owned_by c m)"
  using owner_lib.set_owner_cluster [OF assms] by (simp add: own_def lift_ok_def on_ok_def)

lemma emits_create_or_update_of:
  "P (EGet kd n) \<Longrightarrow> P (ECreate (mk desired)) \<Longrightarrow> (\<And>ob. P (EUpdate (mk ob))) \<Longrightarrow>
     emits P (create_or_update kd mk c n desired patch)"
  unfolding create_or_update_def by (intro emits_intros)

lemmas owned_simps = owned_by_def meta_key_def NN_def ClusterSetupWithManager_def

section \<open>The cluster controller\<close>

lemma owned_service_account:
  assumes "owner_lib (elib E)" "mOwnerReferences (saMeta d) = []" "mNamespace (saMeta d) = clNamespace c"
  shows "emits (cluster_owned (meta_key (clMeta c))) (reconcileServiceAccount E c d)"
  unfolding reconcileServiceAccount_def on_ok_own [OF assms] Let_def
  by (intro emits_create_or_update_of) (simp_all add: owned_simps assms)

lemma owned_config_map:
  assumes "owner_lib (elib E)" "mOwnerReferences (cmMeta d) = []" "mNamespace (cmMeta d) = clNamespace c"
  shows "emits (cluster_owned (meta_key (clMeta c))) (reconcileConfigMap E c d)"
  unfolding reconcileConfigMap_def on_ok_own [OF assms] Let_def
  by (intro emits_create_or_update_of) (simp_all add: owned_simps assms)

lemma owned_service:
  assumes "owner_lib (elib E)" "mOwnerReferences (svMeta d) = []" "mNamespace (svMeta d) = clNamespace c"
  shows "emits (cluster_owned (meta_key (clMeta c))) (reconcileService E c d)"
  unfolding reconcileService_def on_ok_own [OF assms] Let_def
  by (intro emits_create_or_update_of) (simp_all add: owned_simps assms)

lemma owned_deployment:
  assumes "owner_lib (elib E)" "mOwnerReferences (dMeta d) = []" "mNamespace (dMeta d) = clNamespace c"
  shows "emits (cluster_owned (meta_key (clMeta c))) (reconcileDeployment E c d r)"
  unfolding reconcileDeployment_def on_ok_own [OF assms] Let_def
  by (intro emits_intros) (simp_all add: owned_simps assms)

lemma owned_job:
  assumes "owner_lib (elib E)" "mOwnerReferences (jMeta d) = []" "mNamespace (jMeta d) = clNamespace c"
  shows "emits (cluster_owned (meta_key (clMeta c))) (reconcileJob E c d r)"
  unfolding reconcileJob_def on_ok_own [OF assms] Let_def
  by (intro emits_intros) (simp_all add: owned_simps assms)

lemma owned_component:
  assumes "component_builder build service sfx cmp" "owner_lib (elib E)" "clMeta c' = clMeta c"
  shows "emits (cluster_owned (meta_key (clMeta c))) (reconcileDeploymentAndService E c' (build L c' h) (service c') r)"
  unfolding reconcileDeploymentAndService_def assms(3) [symmetric]
  using assms(2) component_builder.no_owner [OF assms(1)] component_builder.dep_namespace [OF assms(1)]
    component_builder.svc_no_owner [OF assms(1)] component_builder.svc_namespace [OF assms(1)]
  by (intro emits_on_ok owned_deployment owned_service emits_return) simp_all

lemma owned_init_jobs:
  assumes "owner_lib (elib E)" "clMeta c' = clMeta c"
  shows "emits (cluster_owned (meta_key (clMeta c))) (reconcileInitJobs E c' r)"
  unfolding reconcileInitJobs_def assms(2) [symmetric]
  by (intro emits_on_ok emits_if emits_return owned_job assms(1) init_jobs_unowned)

lemma owned_maintenance_job:
  assumes "owner_lib (elib E)" "clMeta c' = clMeta c" "mOwnerReferences (jMeta j) = []" "mNamespace (jMeta j) = clNamespace c'"
  shows "emits (cluster_owned (meta_key (clMeta c))) (upgradePhaseMaintenanceJob E c' j name nxt)"
  unfolding upgradePhaseMaintenanceJob_def on_ok_own [OF assms(1,3,4)] Let_def
  by (intro emits_intros) (simp_all add: owned_simps assms)

section \<open>The upgrade\<close>

lemma owned_component_phase:
  assumes "component_builder build service sfx cmp" "owner_lib (elib E)" "clMeta c' = clMeta c"
  shows "emits (cluster_owned (meta_key (clMeta c))) (upgradePhaseComponent E c' (build L c' h) (service c') name nxt)"
  unfolding upgradePhaseComponent_def Let_def
  by (intro emits_with_upgrade emits_on_ok owned_component [OF assms]) (intro emits_intros; simp)+

lemma owned_dispatch:
  assumes "owner_lib (elib E)" "clMeta c' = clMeta c"
  shows "emits (cluster_owned (meta_key (clMeta c))) (upgrade_dispatch E c' h p)"
proof (cases p)
  case UpgradePhaseInitJobs
  then show ?thesis
    unfolding upgrade_dispatch_def upgradePhaseInitJobs_def
    by simp (rule emits_on_ok [OF owned_init_jobs [OF assms]], intro emits_intros; simp)
next
  case UpgradePhaseFlowAPI
  then show ?thesis
    unfolding upgrade_dispatch_def
    by (simp add: owned_component_phase [OF flow_api.component_builder_axioms assms])
next
  case UpgradePhaseServer
  then show ?thesis
    unfolding upgrade_dispatch_def
    by (simp add: owned_component_phase [OF server.component_builder_axioms assms])
next
  case UpgradePhaseUI
  then show ?thesis
    unfolding upgrade_dispatch_def
    by (simp add: owned_component_phase [OF ui.component_builder_axioms assms])
qed (use assms in \<open>auto simp: upgrade_dispatch_def maintenance_jobs_unowned
  intro!: emits_intros owned_maintenance_job\<close>)

lemma owned_reconcileUpgrade:
  assumes "owner_lib (elib E)" "clMeta c' = clMeta c"
  shows "emits (cluster_owned (meta_key (clMeta c))) (reconcileUpgrade E c' h)"
  unfolding reconcileUpgrade_def
  by (intro emits_with_upgrade emits_bind_set_cond owned_dispatch assms(1)) (simp add: assms(2))

lemma emits_after:
  assumes "emits P m" "list_all P es"
  shows "\<exists>es'. log (snd (run_state m (s\<lparr>log := log s @ es\<rparr>))) = log s @ es' \<and> list_all P es'"
proof -
  from emitsD [OF assms(1), of "s\<lparr>log := log s @ es\<rparr>"] obtain es1
    where "log (snd (run_state m (s\<lparr>log := log s @ es\<rparr>))) = log s @ es @ es1" "list_all P es1" by auto
  with assms(2) show ?thesis by (intro exI [of _ "es @ es1"]) simp
qed

lemma quiet_owned: "list_all (\<lambda>e. writes e = None) es \<Longrightarrow> list_all (owned_create owns k n) es"
proof -
  have "owned_create owns k n e" if "writes e = None" for e using that by (cases e) simp_all
  then show "list_all (\<lambda>e. writes e = None) es \<Longrightarrow> ?thesis" by (auto simp: list_all_iff)
qed

lemma entered_meta: "clMeta (entered t c) = clMeta c"
  by (simp add: entered_def Let_def split: option.split)

text \<open>What the lifecycle does with the outcome of a step.\<close>

definition after_step :: "'w env \<Rightarrow> PeerDBCluster \<times> Result \<Rightarrow> ('w, lifecycle) gprog" where
  "after_step E x =
     (case x of (c2, res) \<Rightarrow>
        if 0 < RequeueAfter res
        then State_Monad.bind (updateStatus E (observe_generation c2)) (\<lambda>st.
               case st of Inl e \<Rightarrow> if IsConflict e then ok (Done requeue) else fail e | Inr _ \<Rightarrow> ok (Done res))
        else ok (Continue c2))"

lemma lifecycle_due:
  assumes "upgrade_due c"
  obtains es where "list_all (\<lambda>e. writes e = None) es"
    and "run_state (reconcileUpgradeLifecycle E c h False) s =
      run_state (on_ok (reconcileUpgrade E (entered (nowOf E (world s)) c) h) (after_step E)) (s\<lparr>log := log s @ es\<rparr>)"
proof -
  from lifecycle_run [of E c h s] assms obtain es where es: "list_all (\<lambda>e. writes e = None) es"
    and run: "run_state (reconcileUpgradeLifecycle E c h False) s =
      (case run_state (reconcileUpgrade E (entered (nowOf E (world s)) c) h) (s\<lparr>log := log s @ es\<rparr>) of
            (Inl e, s1) \<Rightarrow> (Inl e, s1)
          | (Inr (c2, res), s1) \<Rightarrow>
              if 0 < RequeueAfter res
              then (case run_state (updateStatus E (observe_generation c2)) s1 of
                      (Inl e, s2) \<Rightarrow> (if IsConflict e then Inr (Done requeue) else Inl e, s2)
                    | (Inr _, s2) \<Rightarrow> (Inr (Done res), s2))
              else (Inr (Continue c2), s1))"
    by auto
  show thesis
    by (rule that [OF es]) (simp add: run after_step_def split: prod.split sum.split)
qed

text \<open>What the lifecycle hands on is the same cluster up to its status.\<close>

lemma lifecycle_meta:
  assumes "run_state (reconcileUpgradeLifecycle E c h b) s = (Inr (Continue c'), s')"
  shows "clMeta c' = clMeta c"
proof (cases "b \<or> \<not> upgrade_due c")
  case True
  with assms lifecycle_run [of E c h s] show ?thesis by (cases b) auto
next
  case False
  obtain es where "run_state (reconcileUpgradeLifecycle E c h False) s =
      run_state (on_ok (reconcileUpgrade E (entered (nowOf E (world s)) c) h) (after_step E)) (s\<lparr>log := log s @ es\<rparr>)"
    using lifecycle_due [of c E h s] False by blast
  with assms False obtain res where
    "run_state (reconcileUpgrade E (entered (nowOf E (world s)) c) h) (s\<lparr>log := log s @ es\<rparr>) = (Inr (c', res), s')"
    by (auto simp: after_step_def split: prod.splits sum.splits if_splits)
  from reconcileUpgrade_moves [OF this] show ?thesis by (simp add: moves_def entered_meta)
qed

lemma owned_lifecycle:
  assumes "owner_lib (elib E)"
  shows "emits (cluster_owned (meta_key (clMeta c))) (reconcileUpgradeLifecycle E c h b)"
    (is "emits ?P _")
  unfolding emits_def yields_def
proof
  fix s :: "'a sys"
  show "\<exists>es. log (snd (run_state (reconcileUpgradeLifecycle E c h b) s)) = log s @ es \<and> list_all ?P es"
  proof (cases "b \<or> \<not> upgrade_due c")
    case True
    with lifecycle_run [of E c h s] show ?thesis by (cases b) auto
  next
    case False
    obtain es where es: "list_all (\<lambda>e. writes e = None) es"
      and eq: "run_state (reconcileUpgradeLifecycle E c h False) s =
        run_state (on_ok (reconcileUpgrade E (entered (nowOf E (world s)) c) h) (after_step E)) (s\<lparr>log := log s @ es\<rparr>)"
      using lifecycle_due [of c E h s] False by blast
    have "emits ?P (on_ok (reconcileUpgrade E (entered (nowOf E (world s)) c) h) (after_step E))"
      by (intro emits_on_ok owned_reconcileUpgrade [OF assms])
        (auto simp: after_step_def entered_meta intro!: emits_intros)
    from emits_after [OF this quiet_owned [OF es]] eq False show ?thesis by simp
  qed
qed

section \<open>The whole reconciliation\<close>

text \<open>Results that carry the cluster on with its metadata.\<close>

lemma emits_on_ok_result:
  assumes "emits P m" "\<And>s x s'. run_state m s = (Inr x, s') \<Longrightarrow> R x" "\<And>x. R x \<Longrightarrow> emits P (f x)"
  shows "emits P (on_ok m f)"
proof (rule emits_on_ok_inv [OF assms(1) _ assms(3)])
  show "results R m" using assms(2) unfolding results_def by (metis surjective_pairing)
qed

lemma init_status_meta:
  "run_state (reconcileInitJobsAndStatus E c b) s = (Inr x, s') \<Longrightarrow> clMeta (fst x) = clMeta c"
  by (auto simp: reconcileInitJobsAndStatus_def split: prod.splits sum.splits if_splits)

lemma dependencies_meta:
  "run_state (reconcileDependencies E c) s = (Inr x, s') \<Longrightarrow> snd x \<noteq> '''' \<Longrightarrow> clMeta (fst x) = clMeta c"
  by (auto simp: reconcileDependencies_def Let_def split: prod.splits sum.splits)

lemma owned_standard:
  assumes owner: "owner_lib (elib E)" and c': "clMeta c' = clMeta c"
  shows "emits (cluster_owned (meta_key (clMeta c))) (standard_reconcile E c' h b)"
  unfolding standard_reconcile_def
proof (rule emits_on_ok_result [where R = "\<lambda>x. clMeta (fst x) = clMeta c"])
  show "emits (cluster_owned (meta_key (clMeta c))) (reconcileInitJobsAndStatus E c' b)"
    unfolding reconcileInitJobsAndStatus_def
    by (intro emits_on_ok emits_if owned_init_jobs [OF owner c']) (intro emits_intros)+
next
  fix s x s'
  assume "run_state (reconcileInitJobsAndStatus E c' b) s = (Inr x, s')"
  then show "clMeta (fst x) = clMeta c" by (simp add: init_status_meta c')
next
  fix x :: "PeerDBCluster \<times> bool"
  assume x: "clMeta (fst x) = clMeta c"
  obtain c1 i where c1: "x = (c1, i)" by fastforce
  have meta: "clMeta c1 = clMeta c" using x c1 by simp
  have "emits (cluster_owned (meta_key (clMeta c))) (reconcileComponentsAndStatus E c1 h b)"
    unfolding reconcileComponentsAndStatus_def
    by (intro emits_on_ok emits_if
        owned_component [OF flow_api.component_builder_axioms owner meta]
        owned_component [OF server.component_builder_axioms owner meta]
        owned_component [OF ui.component_builder_axioms owner meta]) (intro emits_intros; simp)+
  then show "emits (cluster_owned (meta_key (clMeta c))) (case x of (c1, initReady) \<Rightarrow>
      on_ok (reconcileComponentsAndStatus E c1 h b) (\<lambda>(c2, componentsReady). do {
       c3 \<leftarrow> setFinalConditions E c2 initReady componentsReady b;
       st \<leftarrow> updateStatus E (observe_generation c3);
       case st of
         Inl e \<Rightarrow> if IsConflict e then ok requeue else fail e
       | Inr _ \<Rightarrow> if \<not> initReady \<or> \<not> componentsReady then ok (requeue_after 10) else ok done_result
     }))"
    by (simp add: c1) (intro emits_intros; simp)
qed

lemma owned_active:
  assumes owner: "owner_lib (elib E)" and c': "clMeta c' = clMeta c"
  shows "emits (cluster_owned (meta_key (clMeta c))) (reconcile_active E c' h b)"
proof -
  let ?P = "cluster_owned (meta_key (clMeta c))"
  have sa: "emits ?P (case BuildServiceAccount c' of None \<Rightarrow> ok () | Some sa \<Rightarrow> reconcileServiceAccount E c' sa)"
    using owned_service_account [OF owner, of _ c'] shared_unowned(3) [of c'] c'
    by (auto intro!: emits_intros split: option.splits)
  have cm: "emits ?P (reconcileConfigMap E c' (BuildConfigMap c'))"
    using owned_config_map [OF owner shared_unowned(1,2), of c'] c' by simp
  have lc: "emits ?P (reconcileUpgradeLifecycle E c' h b)"
    using owned_lifecycle [OF owner, of c' h b] c' by simp
  have rest: "emits ?P (on_ok (reconcileUpgradeLifecycle E c' h b) (\<lambda>lc. case lc of
      Done result \<Rightarrow> ok result | Continue c1 \<Rightarrow> standard_reconcile E c1 h b))"
  proof (rule emits_on_ok_result [OF lc, where R = "\<lambda>x. \<forall>c1. x = Continue c1 \<longrightarrow> clMeta c1 = clMeta c"])
    fix x :: lifecycle
    assume "\<forall>c1. x = Continue c1 \<longrightarrow> clMeta c1 = clMeta c"
    then show "emits ?P (case x of Done result \<Rightarrow> ok result | Continue c1 \<Rightarrow> standard_reconcile E c1 h b)"
      by (cases x) (simp_all add: emits_return owned_standard [OF owner])
  qed (auto dest: lifecycle_meta simp: c')
  show ?thesis
    unfolding reconcile_active_def by (rule emits_on_ok [OF sa emits_on_ok [OF cm rest]])
qed

text \<open>The first Get of a reconciliation decides what is reconciled.\<close>

lemma emits_get_bind:
  assumes "P (EGet kd n)" "\<And>e. emits P (f (Inl e))"
    and "\<And>ob w w'. rGet c n w = (Inr ob, w') \<Longrightarrow> emits P (f (Inr ob))"
  shows "emits P (State_Monad.bind (kget kd c n) f)"
proof -
  have "emits P (f r)" if "rGet c n w = (r, w')" for r w w'
    using that assms(2,3) by (cases r) auto
  then have "yields (kget kd c n) (\<lambda>r es. list_all P es \<and> emits P (f r))"
    unfolding yields_def using assms(1) by (auto simp: kget_def split: prod.splits)
  then show ?thesis
    unfolding emits_def by (intro yields_bind) (force elim: yields_mono simp: emits_def)
qed

lemma owned_dependencies:
  assumes owner: "owner_lib (elib E)" and c': "clMeta c' = clMeta c"
  shows "emits (cluster_owned (meta_key (clMeta c))) (on_ok (reconcileDependencies E c') (\<lambda>(cluster1, configHash).
     if configHash = '''' then ok (requeue_after 30) else reconcile_active E cluster1 configHash b))"
proof (rule emits_on_ok_result [where R = "\<lambda>y. snd y \<noteq> '''' \<longrightarrow> clMeta (fst y) = clMeta c"])
  show "emits (cluster_owned (meta_key (clMeta c))) (reconcileDependencies E c')" by (intro emits_intros) simp_all
next
  fix s y s'
  assume "run_state (reconcileDependencies E c') s = (Inr y, s')"
  then show "snd y \<noteq> '''' \<longrightarrow> clMeta (fst y) = clMeta c" by (simp add: dependencies_meta c')
next
  fix y :: "PeerDBCluster \<times> string"
  assume "snd y \<noteq> '''' \<longrightarrow> clMeta (fst y) = clMeta c"
  then show "emits (cluster_owned (meta_key (clMeta c))) (case y of (cluster1, configHash) \<Rightarrow>
      if configHash = '''' then ok (requeue_after 30) else reconcile_active E cluster1 configHash b)"
    using owned_active [OF owner, of "fst y" c] by (cases y) (simp add: emits_return)
qed

lemma owned_Reconcile:
  assumes owner: "owner_lib (elib E)"
    and keyed: "\<And>w ob w'. rGet (clusters E) req w = (Inr ob, w') \<Longrightarrow> meta_key (clMeta ob) = req"
  shows "emits (cluster_owned req) (Reconcile E req)"
  unfolding Reconcile_def
proof (rule emits_get_bind, goal_cases)
  case (3 c w w')
  show ?case
    unfolding sum.case reconcilePaused_def keyed [OF 3, symmetric]
    by (intro emits_bind_set_cond emits_if emits_bind emits_let owned_dependencies [OF owner with_condition_simps(1)])
      (intro emits_intros; simp)+
qed (auto intro!: emits_intros)

section \<open>The pool controllers\<close>

abbreviation worker_owned :: "NamespacedName \<Rightarrow> effect \<Rightarrow> bool" where
  "worker_owned \<equiv> owned_create (ccOwns WorkerPoolSetupWithManager) ''PeerDBWorkerPool''"

abbreviation snapshot_owned :: "NamespacedName \<Rightarrow> effect \<Rightarrow> bool" where
  "snapshot_owned \<equiv> owned_create (ccOwns SnapshotPoolSetupWithManager) ''PeerDBSnapshotPool''"

lemma owned_worker_apply:
  assumes "owned_create owns k n (ECreate (ODeployment d))"
  shows "emits (owned_create owns k n) (worker_apply E pool b d)"
  unfolding worker_apply_def using assms by (intro emits_intros) simp_all

lemma owned_snapshot_apply:
  assumes "owned_create owns k n (ECreate (OStatefulSet d))"
  shows "emits (owned_create owns k n) (snapshot_apply E pool b d)"
  unfolding snapshot_apply_def using assms by (intro emits_intros) simp_all

lemma owned_snapshot_service:
  assumes "owner_lib (elib E)"
  shows "emits (snapshot_owned (meta_key (snMeta pool))) (SnapshotReconcileService E pool)"
  unfolding SnapshotReconcileService_def Let_def on_ok_set_owner [OF assms pool_objects_unowned(5,6)]
  by (intro emits_create_or_update_of)
    (simp_all add: SnapshotPoolSetupWithManager_def meta_key_def NN_def pool_objects_unowned)

lemma owned_WorkerPoolReconcile:
  assumes owner: "owner_lib (elib E)"
    and keyed: "\<And>w ob w'. rGet (workerPools E) req w = (Inr ob, w') \<Longrightarrow> meta_key (wpMeta ob) = req"
  shows "emits (worker_owned req) (WorkerPoolReconcile E req)"
  unfolding WorkerPoolReconcile_def
proof (rule emits_get_bind, goal_cases)
  case (3 pool w w')
  show ?case
    unfolding sum.case Let_def on_ok_set_owner [OF owner pool_objects_unowned(1,2)] keyed [OF 3, symmetric]
    by (intro emits_intros owned_worker_apply)
      (simp_all add: WorkerPoolSetupWithManager_def meta_key_def NN_def pool_objects_unowned)
qed (auto intro!: emits_intros)

lemma owned_SnapshotPoolReconcile:
  assumes owner: "owner_lib (elib E)"
    and keyed: "\<And>w ob w'. rGet (snapshotPools E) req w = (Inr ob, w') \<Longrightarrow> meta_key (snMeta ob) = req"
  shows "emits (snapshot_owned req) (SnapshotPoolReconcile E req)"
  unfolding SnapshotPoolReconcile_def
proof (rule emits_get_bind, goal_cases)
  case (3 pool w w')
  show ?case
    unfolding sum.case Let_def on_ok_set_owner [OF owner pool_objects_unowned(3,4)] keyed [OF 3, symmetric]
    by (intro emits_bind emits_if emits_case_sum emits_on_ok owned_snapshot_service [OF owner] owned_snapshot_apply;
        (intro emits_intros)?)
      (simp_all add: SnapshotPoolSetupWithManager_def meta_key_def NN_def pool_objects_unowned)
qed (auto intro!: emits_intros)

section \<open>What the controllers create\<close>

text \<open>
  (C7) Every object a reconciliation creates will be found again: whatever the state of the cluster,
  whatever the server answers to any other call, each object the cluster, worker pool or snapshot pool
  controller creates is of a kind the controller watches with \<open>Owns\<close>, lies in the namespace of the
  reconciled resource and names that resource as its controller. So every event on it comes back as a
  request for the resource, and it is collected with it.
\<close>

theorem creations_owned:
  assumes owner: "owner_lib (elib E)"
    and c: "resource_store (clusters E) look_c (\<lambda>ob. meta_key (clMeta ob)) view_c"
    and w: "resource_store (workerPools E) look_w (\<lambda>ob. meta_key (wpMeta ob)) view_w"
    and s: "resource_store (snapshotPools E) look_s (\<lambda>ob. meta_key (snMeta ob)) view_s"
  shows "(\<exists>es. log (snd (run_state (Reconcile E req) st)) = log st @ es \<and>
       list_all (owned_create (ccOwns ClusterSetupWithManager) ''PeerDBCluster'' req) es) \<and>
     (\<exists>es. log (snd (run_state (WorkerPoolReconcile E req) st)) = log st @ es \<and>
       list_all (owned_create (ccOwns WorkerPoolSetupWithManager) ''PeerDBWorkerPool'' req) es) \<and>
     (\<exists>es. log (snd (run_state (SnapshotPoolReconcile E req) st)) = log st @ es \<and>
       list_all (owned_create (ccOwns SnapshotPoolSetupWithManager) ''PeerDBSnapshotPool'' req) es)"
  using resource_store.get_found [OF c] resource_store.get_found [OF w] resource_store.get_found [OF s]
  by (intro conjI emitsD owned_Reconcile [OF owner] owned_WorkerPoolReconcile [OF owner]
      owned_SnapshotPoolReconcile [OF owner]) blast+

lemma creations_owned_witness:
  "list_all (owned_create [KDeployment, KService, KConfigMap, KServiceAccount, KJob] ''PeerDBCluster'' (NN ''peerdb'' ''default''))
     (log (snd (run_state (Reconcile mem_env (NN ''peerdb'' ''default'')) (sys_with sample_cluster)))) \<and>
   list_all (owned_create [KStatefulSet, KService] ''PeerDBSnapshotPool'' (NN ''snapshots'' ''default''))
     (log (snd (run_state (SnapshotPoolReconcile mem_env (NN ''snapshots'' ''default'')) (sys_snapshot sample_cluster))))"
proof -
  have owner: "owner_lib (elib mem_env)" by (simp add: mem_owner.owner_lib_axioms)
  note stores = mem_stores(7,9,10) [folded mem_env_simps]
  have "log (sys_with sample_cluster) = []" "log (sys_snapshot sample_cluster) = []"
    by (simp_all add: sys_snapshot_def sys_with_def)
  with creations_owned [OF owner stores, of "NN ''peerdb'' ''default''" "sys_with sample_cluster"]
    creations_owned [OF owner stores, of "NN ''snapshots'' ''default''" "sys_snapshot sample_cluster"]
  show ?thesis by (auto simp: ClusterSetupWithManager_def SnapshotPoolSetupWithManager_def)
qed

end
