(* ===== verification/UpgradeProgress.thy ===== *)
theory UpgradeProgress
  imports Settled
begin

text \<open>
  Upgrades come to an end (internal/controller/peerdbcluster\_controller.go: \<open>reconcileUpgrade\<close>). Once
  the server holds what the phases wait for, every reconciliation advances the phase, and the number
  of reconciliations left is known from the phase; so the loop of reconciliations that the requeues
  drive terminates in Complete. The maintenance job phases are left only when their job succeeded.
\<close>

section \<open>The route of an upgrade\<close>

fun next_phase :: "bool \<Rightarrow> UpgradePhase \<Rightarrow> UpgradePhase" where
  "next_phase m UpgradePhaseBlocked = UpgradePhaseWaiting"
| "next_phase m UpgradePhaseWaiting = (if m then UpgradePhaseStartMaintenance else UpgradePhaseConfig)"
| "next_phase m UpgradePhaseStartMaintenance = UpgradePhaseConfig"
| "next_phase m UpgradePhaseConfig = UpgradePhaseInitJobs"
| "next_phase m UpgradePhaseInitJobs = UpgradePhaseFlowAPI"
| "next_phase m UpgradePhaseFlowAPI = UpgradePhaseServer"
| "next_phase m UpgradePhaseServer = UpgradePhaseUI"
| "next_phase m UpgradePhaseUI = (if m then UpgradePhaseEndMaintenance else UpgradePhaseComplete)"
| "next_phase m UpgradePhaseEndMaintenance = UpgradePhaseComplete"
| "next_phase m p = p"

fun steps_left :: "bool \<Rightarrow> UpgradePhase \<Rightarrow> nat" where
  "steps_left m UpgradePhaseBlocked = (if m then 9 else 7)"
| "steps_left m UpgradePhaseWaiting = (if m then 8 else 6)"
| "steps_left m UpgradePhaseStartMaintenance = (if m then 7 else 6)"
| "steps_left m UpgradePhaseConfig = (if m then 6 else 5)"
| "steps_left m UpgradePhaseInitJobs = (if m then 5 else 4)"
| "steps_left m UpgradePhaseFlowAPI = (if m then 4 else 3)"
| "steps_left m UpgradePhaseServer = (if m then 3 else 2)"
| "steps_left m UpgradePhaseUI = (if m then 2 else 1)"
| "steps_left m UpgradePhaseEndMaintenance = 1"
| "steps_left m p = 0"

lemma steps_left_next: "0 < steps_left m p \<Longrightarrow> steps_left m p = Suc (steps_left m (next_phase m p))"
  by (cases p) (simp_all split: if_splits)

lemma steps_left_zero: "steps_left m p = 0 \<longleftrightarrow> p = UpgradePhaseComplete \<or> (\<exists>x. p = OtherPhase x)"
  by (cases p) simp_all

lemma next_phase_step: "0 < steps_left m p \<Longrightarrow> phase_step m p (next_phase m p)"
  by (cases p) simp_all

text \<open>The phases an undisturbed upgrade goes through from a given one.\<close>

function route :: "bool \<Rightarrow> UpgradePhase \<Rightarrow> UpgradePhase list" where
  "route m p = (if steps_left m p = 0 then [p] else p # route m (next_phase m p))"
  by pat_completeness auto

termination
proof (relation "measure (\<lambda>(m, p). steps_left m p)", goal_cases)
  case (2 m p)
  then show ?case using steps_left_next [of m p] by simp
qed simp

declare route.simps [simp del]

lemma route_next: "0 < steps_left m p \<Longrightarrow> route m p = p # route m (next_phase m p)"
  by (subst route.simps) simp

lemma route_Cons: obtains r where "route m p = p # r"
  by (cases "steps_left m p = 0") (simp_all add: route.simps [of m p])

lemma length_route: "length (route m p) = Suc (steps_left m p)"
proof (induction m p rule: route.induct)
  case (1 m p)
  show ?case
  proof (cases "steps_left m p = 0")
    case True
    then show ?thesis by (simp add: route.simps [of m p])
  next
    case False
    with 1 show ?thesis by (simp add: route_next steps_left_next [of m p])
  qed
qed

lemma route_last:
  "(\<And>x. p \<noteq> OtherPhase x) \<Longrightarrow> last (route m p) = UpgradePhaseComplete"
proof (induction m p rule: route.induct)
  case (1 m p)
  show ?case
  proof (cases "steps_left m p = 0")
    case True
    with 1(2) have "p = UpgradePhaseComplete" by (auto simp: steps_left_zero)
    then show ?thesis by (simp add: route.simps)
  next
    case False
    have "next_phase m p \<noteq> OtherPhase x" for x using 1(2) False by (cases p) auto
    with 1(1) False length_route [of m "next_phase m p"] show ?thesis
      by (cases "route m (next_phase m p)") (simp_all add: route_next)
  qed
qed

section \<open>A cluster that may be upgraded\<close>

locale settled_cluster = settled_objects E c h W
  for E :: "'w env" and c :: PeerDBCluster and h :: string and W :: "'w \<Rightarrow> bool" +
  assumes policy: "upgrade_policy c \<noteq> UpgradePolicyManual"
    and window: "W w \<Longrightarrow> \<not> window_closed E c (nowOf E w)"
    and maintenance_jobs: "maintained c \<Longrightarrow>
      job_done E W (BuildStartMaintenanceJob c) \<and> job_done E W (BuildEndMaintenanceJob c)"

section \<open>The steps\<close>

text \<open>
  \<open>advanced R c p x\<close>: the outcome \<open>x\<close> of a step on \<open>c\<close> is in phase \<open>p\<close> and differs from \<open>c\<close> in nothing
  that decides later steps.
\<close>

definition advanced :: "lib \<Rightarrow> PeerDBCluster \<Rightarrow> UpgradePhase \<Rightarrow> PeerDBCluster \<times> Result \<Rightarrow> bool" where
  "advanced L c p x \<longleftrightarrow>
     clMeta (fst x) = clMeta c \<and> clSpec (fst x) = clSpec c \<and>
     map_option upPhase (csUpgrade (clStatus (fst x))) = Some p \<and>
     (dependencies_recovered L c \<longrightarrow> dependencies_recovered L (fst x))"

lemma component_step:
  assumes build: "component_builder build service sfx cmp"
    and L: "condition_lib (elib E)" "owner_lib (elib E)" "semantic_equality (elib E)"
    and settled: "component_settled E W (build (elib E) c h) (service c)"
    and u: "csUpgrade (clStatus c) = Some u"
  shows "achieves W (upgradePhaseComponent E c (build (elib E) c h) (service c) name nxt) (advanced (elib E) c nxt)"
  unfolding upgradePhaseComponent_def with_upgrade_def u option.case Let_def
  by (intro ends_on_ok [OF achieves_component [OF build L(2,3) settled]]
      ends_on_ok [OF achieves_get [OF conjunct1 [OF settled [unfolded component_settled_def]]]])
    (auto simp: advanced_def u dependencies_recovered_def condition_lib.cond_status_with [OF L(1)] condition_type_defs
      intro!: ends_intros)

lemma maintenance_step:
  assumes L: "condition_lib (elib E)" "owner_lib (elib E)"
    and j: "mOwnerReferences (jMeta j) = []" "mNamespace (jMeta j) = clNamespace c" "job_done E W j"
    and u: "csUpgrade (clStatus c) = Some u"
  shows "achieves W (upgradePhaseMaintenanceJob E c j name nxt) (advanced (elib E) c nxt)"
  unfolding upgradePhaseMaintenanceJob_def with_upgrade_def u option.case Let_def
  by (rule ends_own [OF L(2) j(1,2)], unfold owned_by_simps, rule ends_get [OF j(3) [unfolded job_done_def]])
    (auto simp: advanced_def u dependencies_recovered_def condition_lib.cond_status_with [OF L(1)] condition_type_defs
        intro!: ends_intros)

context settled_cluster
begin

lemma init_jobs_step:
  assumes same: "clMeta c' = clMeta c" "clSpec c' = clSpec c" and u: "csUpgrade (clStatus c') = Some u"
  shows "achieves W (upgradePhaseInitJobs E c') (advanced (elib E) c' UpgradePhaseFlowAPI)"
  unfolding upgradePhaseInitJobs_def
  by (rule ends_on_ok [OF achieves_init_jobs [OF same]]) (auto simp: advanced_def u dependencies_recovered_def
      condition_lib.cond_status_with [OF conditions] condition_type_defs intro!: ends_intros)

lemma waiting_step:
  assumes same: "clMeta c' = clMeta c" "clSpec c' = clSpec c" and u: "csUpgrade (clStatus c') = Some u"
    and deps: "dependencies_recovered (elib E) c'"
  shows "achieves W (upgradePhaseWaiting E c') (advanced (elib E) c' (next_phase (maintained c) UpgradePhaseWaiting))"
proof -
  have "\<not> dependencies_unhealthy (elib E) c'"
    using deps by (auto simp: dependencies_unhealthy_def dependencies_recovered_def)
  then show ?thesis
    unfolding upgradePhaseWaiting_def
    using policy window same(2) by (auto simp: builders_ignore_status [OF same] maintained_def advanced_def u
        dependencies_recovered_def intro!: ends_intros)
qed

lemma dispatch_step:
  assumes same: "clMeta c' = clMeta c" "clSpec c' = clSpec c" and u: "csUpgrade (clStatus c') = Some u"
    and deps: "dependencies_recovered (elib E) c'" and p: "upPhase u = p" "0 < steps_left (maintained c) p"
    and m: "p \<in> {UpgradePhaseStartMaintenance, UpgradePhaseEndMaintenance} \<Longrightarrow> maintained c"
  shows "achieves W (upgrade_dispatch E c' h p) (advanced (elib E) c' (next_phase (maintained c) p))"
proof (cases p)
  case UpgradePhaseWaiting
  then show ?thesis using waiting_step [OF same u deps] by (simp add: upgrade_dispatch_def)
next
  case UpgradePhaseBlocked
  with deps u show ?thesis
    by (auto simp: upgrade_dispatch_def upgradePhaseBlocked_def advanced_def dependencies_recovered_def
        condition_lib.cond_status_with [OF conditions] condition_type_defs intro!: ends_intros)
next
  case UpgradePhaseStartMaintenance
  with m maintenance_jobs show ?thesis
    unfolding upgrade_dispatch_def
    using maintenance_step [OF conditions owner maintenance_jobs_unowned(1,2), of W c'] u
    by (simp add: builders_ignore_status [OF same])
next
  case UpgradePhaseEndMaintenance
  with m maintenance_jobs show ?thesis
    unfolding upgrade_dispatch_def
    using maintenance_step [OF conditions owner maintenance_jobs_unowned(3,4), of W c'] u
    by (simp add: builders_ignore_status [OF same])
next
  case UpgradePhaseInitJobs
  then show ?thesis using init_jobs_step [OF same u] by (simp add: upgrade_dispatch_def)
next
  case UpgradePhaseFlowAPI
  then show ?thesis
    using component_step [OF flow_api.component_builder_axioms conditions owner equality _ u, of W h] flow_api
    by (simp add: upgrade_dispatch_def builders_ignore_status [OF same])
next
  case UpgradePhaseServer
  then show ?thesis
    using component_step [OF server.component_builder_axioms conditions owner equality _ u, of W h] server
    by (simp add: upgrade_dispatch_def builders_ignore_status [OF same])
next
  case UpgradePhaseUI
  then show ?thesis
    using component_step [OF ui.component_builder_axioms conditions owner equality _ u, of W h] ui same(2)
    by (simp add: upgrade_dispatch_def builders_ignore_status [OF same] maintained_def)
qed (use p u in \<open>auto simp: upgrade_dispatch_def advanced_def dependencies_recovered_def intro!: ends_intros\<close>)

lemma upgrade_step:
  assumes same: "clMeta c' = clMeta c" "clSpec c' = clSpec c" and u: "csUpgrade (clStatus c') = Some u"
    and deps: "dependencies_recovered (elib E) c'" and left: "0 < steps_left (maintained c) (upPhase u)"
    and m: "upPhase u \<in> {UpgradePhaseStartMaintenance, UpgradePhaseEndMaintenance} \<Longrightarrow> maintained c"
  shows "achieves W (reconcileUpgrade E c' h) (advanced (elib E) c' (next_phase (maintained c) (upPhase u)))"
  unfolding reconcileUpgrade_def with_upgrade_def u option.case
proof (rule ends_set_cond)
  fix t
  let ?c = "with_condition (elib E) t ConditionUpgradeInProgress ConditionTrue ReasonUpgradeInProgress
    (''Upgrading '' @ versions_text u @ '' (phase: '' @ phase_string (upPhase u) @ '')'') c'"
  have deps': "dependencies_recovered (elib E) ?c" and u': "csUpgrade (clStatus ?c) = Some u"
    using deps u by (simp_all add: dependencies_recovered_def condition_lib.cond_status_with [OF conditions] condition_type_defs)
  have "advanced (elib E) ?c p x \<Longrightarrow> advanced (elib E) c' p x" for p x
    using deps' by (simp add: advanced_def)
  with dispatch_step [OF _ _ u' deps' refl left m] same
  show "achieves W (upgrade_dispatch E ?c h (upPhase u)) (advanced (elib E) c' (next_phase (maintained c) (upPhase u)))"
    unfolding ends_def by (metis with_condition_simps(1,2))
qed

lemma on_route:
  "p \<in> {UpgradePhaseStartMaintenance, UpgradePhaseEndMaintenance} \<longrightarrow> m \<Longrightarrow>
     next_phase m p \<in> {UpgradePhaseStartMaintenance, UpgradePhaseEndMaintenance} \<Longrightarrow> m"
  by (cases p) (simp_all split: if_splits)

lemma drive_route:
  assumes "clMeta c' = clMeta c" "clSpec c' = clSpec c" "csUpgrade (clStatus c') = Some u" "W (world s)"
    and "dependencies_recovered (elib E) c'"
    and "upPhase u \<in> {UpgradePhaseStartMaintenance, UpgradePhaseEndMaintenance} \<Longrightarrow> maintained c"
    and "n = steps_left (maintained c) (upPhase u)"
  shows "map upPhase (drive E h n c' s us) = rev (tl (route (maintained c) (upPhase u))) @ map upPhase us"
  using assms
proof (induction n arbitrary: c' u s us)
  case 0
  then show ?case by (simp add: route.simps)
next
  case (Suc n)
  let ?m = "maintained c"
  have left: "0 < steps_left ?m (upPhase u)" using Suc.prems by simp
  from endsD [OF upgrade_step [OF Suc.prems(1-3,5) left Suc.prems(6)] Suc.prems(4)]
  obtain c2 res s2 where run: "run_state (reconcileUpgrade E c' h) s = (Inr (c2, res), s2)" and W: "W (world s2)"
    and adv: "advanced (elib E) c' (next_phase ?m (upPhase u)) (c2, res)" by auto
  from adv Suc.prems(1,2,5) obtain u2 where u2: "csUpgrade (clStatus c2) = Some u2"
    and p2: "upPhase u2 = next_phase ?m (upPhase u)" and c2: "clMeta c2 = clMeta c" "clSpec c2 = clSpec c"
      "dependencies_recovered (elib E) c2"
    by (auto simp: advanced_def)
  have n: "n = steps_left ?m (upPhase u2)"
    using steps_left_next [OF left] Suc.prems(7) p2 by simp
  have m: "upPhase u2 \<in> {UpgradePhaseStartMaintenance, UpgradePhaseEndMaintenance} \<Longrightarrow> ?m"
    unfolding p2 using on_route Suc.prems(6) by blast
  obtain r where r: "route ?m (upPhase u2) = upPhase u2 # r" by (rule route_Cons)
  from Suc.IH [OF c2(1,2) u2 W c2(3) m n, of "u2 # us"] run u2 r p2 left show ?case
    by (simp add: route_next)
qed

end

section \<open>Upgrades terminate\<close>

text \<open>
  (C5) Upgrades terminate: once the server holds what the phases wait for (init and maintenance jobs
  succeeded, the three Deployments applied and rolled out, their Services applied), the policy and
  the window admit the upgrade and the dependencies are healthy, the repeated reconciliations take
  the upgrade from any phase to Complete, in a number of reconciliations that the phase determines,
  at most nine, each of which makes exactly one step of the route.
\<close>

theorem upgrade_terminates:
  assumes settled: "settled_cluster E c h W" and W: "W (world s)"
    and u: "csUpgrade (clStatus c) = Some u" and known: "\<And>x. upPhase u \<noteq> OtherPhase x"
    and deps: "dependencies_recovered (elib E) c"
    and m: "upPhase u \<in> {UpgradePhaseStartMaintenance, UpgradePhaseEndMaintenance} \<Longrightarrow> maintained c"
  shows "let n = steps_left (maintained c) (upPhase u); us = drive E h n c s [u] in
     n \<le> 9 \<and> length us = Suc n \<and> upPhase (hd us) = UpgradePhaseComplete \<and>
     map upPhase us = rev (route (maintained c) (upPhase u))"
proof -
  let ?n = "steps_left (maintained c) (upPhase u)"
  obtain r where r: "route (maintained c) (upPhase u) = upPhase u # r" by (rule route_Cons)
  have phases: "map upPhase (drive E h ?n c s [u]) = rev (route (maintained c) (upPhase u))"
    using settled_cluster.drive_route [OF settled refl refl u W deps m refl, of "[u]"] by (simp add: r)
  moreover have "?n \<le> 9" by (cases "upPhase u") simp_all
  moreover have "length (drive E h ?n c s [u]) = Suc ?n"
    using arg_cong [OF phases, of length] by (simp add: length_route)
  moreover have "last (route (maintained c) (upPhase u)) = UpgradePhaseComplete"
    using known by (rule route_last)
  ultimately show ?thesis
    by (metis (no_types, lifting) Suc_le_length_iff hd_rev le_refl list.map_sel(1) list.discI)
qed

text \<open>The sample cluster in any phase of its upgrade, on the settled server.\<close>

lemma upgrading_simps [simp]:
  "clMeta (upgrading p c) = clMeta c" "clSpec (upgrading p c) = clSpec c"
  by (simp_all add: upgrading_def set_status_def)

interpretation sample_settled:
  settled_cluster mem_env "upgrading p sample_cluster" h "\<lambda>w. w = settled_world sample_cluster h"
proof -
  note ign = builders_ignore_status [OF upgrading_simps [of p sample_cluster]]
  have gates: "upgrade_policy sample_cluster = UpgradePolicyAutomatic" "\<not> window_closed mem_env sample_cluster t"
    "\<not> maintained sample_cluster" for t
    by (simp_all add: upgrade_policy_def window_closed_def maintained_def sample_defs)
  show "settled_cluster mem_env (upgrading p sample_cluster) h (\<lambda>w. w = settled_world sample_cluster h)"
    by (intro settled_cluster.intro settled_objects.intro settled_cluster_axioms.intro)
      (simp_all only: ign gates sample_objects.conditions sample_objects.owner sample_objects.equality sample_objects.ns_job sample_objects.sa_job
        sample_objects.flow_api sample_objects.server sample_objects.ui UpgradePolicy.distinct not_False_eq_True)
qed

lemma upgrade_terminates_witness:
  "let c = upgrading UpgradePhaseBlocked sample_cluster; s = \<lparr>world = settled_world sample_cluster ''h'', log = []\<rparr>;
       u = the (csUpgrade (clStatus c))
   in map upPhase (drive mem_env ''h'' 7 c s [u]) =
     [UpgradePhaseComplete, UpgradePhaseUI, UpgradePhaseServer, UpgradePhaseFlowAPI, UpgradePhaseInitJobs,
      UpgradePhaseConfig, UpgradePhaseWaiting, UpgradePhaseBlocked]"
proof -
  let ?c = "upgrading UpgradePhaseBlocked sample_cluster"
  let ?s = "\<lparr>world = settled_world sample_cluster ''h'', log = []\<rparr>"
  have u: "csUpgrade (clStatus ?c) = Some \<lparr>upFromVersion = ''v0.36.6'', upToVersion = ''v0.36.7'',
     upPhase = UpgradePhaseBlocked, upStartedAt = Some 0, upMessage = ''''\<rparr>"
    by (simp add: upgrading_def set_status_def)
  have c: "\<not> maintained ?c" "dependencies_recovered (elib mem_env) ?c"
    by (simp_all add: upgrading_def set_status_def maintained_def dependencies_recovered_def cond_status_def
        sample_defs mem_lib_def find_condition_def)
  show ?thesis
    using upgrade_terminates [OF sample_settled.settled_cluster_axioms [of UpgradePhaseBlocked "''h''"], of ?s, OF _ u _ c(2)] c(1)
    by (simp add: u route.simps Let_def)
qed

section \<open>The maintenance phases\<close>

text \<open>
  (C10) A maintenance phase is left only for the next one, and only when the server holds its job and
  that job succeeded; a job that does not exist is created, a failed one is deleted to be created
  again, and in both cases, as for a running one, the phase stays and the reconciliation asks to be
  called again after ten seconds.
\<close>

theorem maintenance_phase_gate:
  assumes store: "deletable_store (jobs E) look (\<lambda>x. meta_key (jMeta x)) view"
    and owner: "owner_lib (elib E)"
    and job: "mOwnerReferences (jMeta j) = []" "mNamespace (jMeta j) = clNamespace c"
    and run: "run_state (upgradePhaseMaintenanceJob E c j name nxt) s = (Inr (c', res), s')"
    and u: "csUpgrade (clStatus c) = Some u" and u': "csUpgrade (clStatus c') = Some u'"
  shows "case look (world s) (meta_key (jMeta j)) of
      None \<Rightarrow> upPhase u' = upPhase u \<and> res = requeue_after 10 \<and>
        (\<exists>j'. look (world s') (meta_key (jMeta j)) = Some j' \<and> view j' = view (j\<lparr>jMeta := owned_by c (jMeta j)\<rparr>))
    | Some j0 \<Rightarrow>
        (case job_outcome (jConditions j0) of
           JobSucceeded \<Rightarrow> upPhase u' = nxt \<and> RequeueAfter res = 0 \<and> look (world s') = look (world s)
         | JobBroken \<Rightarrow> upPhase u' = upPhase u \<and> res = requeue_after 10 \<and> look (world s') (meta_key (jMeta j)) = None
         | JobRunning \<Rightarrow> upPhase u' = upPhase u \<and> res = requeue_after 10 \<and> look (world s') = look (world s))"
proof -
  let ?k = "meta_key (jMeta j)"
  note st = deletable_store.axioms(1) [OF store]
  obtain g w1 where get: "rGet (jobs E) ?k (world s) = (g, w1)" by fastforce
  note unfolded = upgradePhaseMaintenanceJob_def with_upgrade_def kcall_defs Let_def
    owner_lib.set_owner_cluster [OF owner job]
  show ?thesis
  proof (cases g)
    case (Inl e)
    with run u get have e: "e = NotFound"
      by (auto simp: unfolded IsNotFound_def split: if_splits)
    with resource_store.get_missing [OF st] get Inl
    have none: "look (world s) ?k = None" "look w1 = look (world s)" by auto
    from run u get Inl e u' obtain j' where
      "rCreate (jobs E) (j\<lparr>jMeta := owned_by c (jMeta j)\<rparr>) w1 = (Inr j', world s')"
      "upPhase u' = upPhase u" "res = requeue_after 10"
      by (auto simp: unfolded IsNotFound_def split: prod.splits sum.splits)
    with resource_store.create_done [OF st] none show ?thesis by fastforce
  next
    case (Inr j0)
    with resource_store.get_found [OF st] get
    have j0: "look (world s) ?k = Some j0" "meta_key (jMeta j0) = ?k" "look w1 = look (world s)" by blast+
    show ?thesis
    proof (cases "job_outcome (jConditions j0)")
      case JobBroken
      with run u get Inr u' obtain d where "rDelete (jobs E) j0 w1 = (d, world s')" "d = Inr () \<or> d = Inl NotFound"
        "upPhase u' = upPhase u" "res = requeue_after 10"
        by (auto simp: unfolded IsNotFound_def split: prod.splits sum.splits if_splits)
      with deletable_store.delete_done [OF store, of j0 w1 "world s'"]
        deletable_store.delete_gone [OF store, of j0 w1 "world s'"] j0 JobBroken
      show ?thesis by auto
    qed (use run u get Inr u' j0 in \<open>auto simp: unfolded split: if_splits\<close>)
  qed
qed

text \<open>A server that holds the job of the StartMaintenance phase, finished.\<close>

definition sys_maintenance :: "PeerDBCluster \<Rightarrow> memw sys" where
  "sys_maintenance c = (sys_with c)\<lparr>world := (world (sys_with c))\<lparr>meJobs := [finished (BuildStartMaintenanceJob c)]\<rparr>\<rparr>"

lemma maintenance_phase_gate_witness:
  "let c = upgrading UpgradePhaseStartMaintenance sample_cluster;
       r = run_state (upgradePhaseMaintenanceJob mem_env c (BuildStartMaintenanceJob c) ''StartMaintenance'' UpgradePhaseConfig)
             (sys_maintenance c)
   in \<exists>c' res u'. fst r = Inr (c', res) \<and> csUpgrade (clStatus c') = Some u' \<and> upPhase u' = UpgradePhaseConfig \<and>
        RequeueAfter res = 0"
proof -
  let ?c = "upgrading UpgradePhaseStartMaintenance sample_cluster"
  let ?j = "BuildStartMaintenanceJob ?c"
  let ?r = "run_state (upgradePhaseMaintenanceJob mem_env ?c ?j ''StartMaintenance'' UpgradePhaseConfig) (sys_maintenance ?c)"
  have "(case fst ?r of Inl _ \<Rightarrow> False | Inr (c', _) \<Rightarrow> csUpgrade (clStatus c') \<noteq> None)" by code_simp
  then obtain c' res u' where run: "?r = (Inr (c', res), snd ?r)" and u': "csUpgrade (clStatus c') = Some u'"
    by (cases ?r) (auto split: sum.splits prod.splits)
  have u: "csUpgrade (clStatus ?c) = Some \<lparr>upFromVersion = ''v0.36.6'', upToVersion = ''v0.36.7'',
     upPhase = UpgradePhaseStartMaintenance, upStartedAt = Some 0, upMessage = ''''\<rparr>"
    by (simp add: upgrading_def set_status_def)
  have "mem_look job_slot (world (sys_maintenance ?c)) (meta_key (jMeta ?j)) = Some (finished ?j)"
    by (simp add: sys_maintenance_def mem_look_def job_slot_def slKey_def finished_def meta_key_def)
  moreover have "job_outcome (jConditions (finished ?j)) = JobSucceeded" by (simp add: finished_def)
  moreover have "fst ?r = Inr (c', res)" by (subst run) simp
  ultimately show ?thesis
    using maintenance_phase_gate [OF mem_job_deletes [folded mem_env_simps] mem_laws(2)
        maintenance_jobs_unowned(1,2) run u u'] u'
    unfolding Let_def by simp
qed

end
