(* ===== verification/SteadyState.thy ===== *)
theory SteadyState
  imports ClusterController Settled
begin

text \<open>
  The steady state of a cluster (internal/controller/peerdbcluster\_controller.go: \<open>Reconcile\<close> as a
  whole): when the server holds everything the operator asks for and no upgrade is due, a
  reconciliation changes no object and asks for no further call. What it does write is the status,
  because of the Reconciling condition.
\<close>

section \<open>Transition times\<close>

text \<open>
  \<open>meta.SetStatusCondition\<close> documents that \<open>LastTransitionTime\<close> is set to now when the status changes.
\<close>

locale transition_lib = condition_lib L for L :: lib +
  assumes flip: "FindStatusCondition L cs (cdType cd) = Some old \<Longrightarrow> cdStatus old \<noteq> cdStatus cd \<Longrightarrow>
    FindStatusCondition L (SetStatusCondition L t cs cd) (cdType cd) = Some (cd\<lparr>cdLastTransitionTime := t\<rparr>)"

definition cond_since :: "lib \<Rightarrow> PeerDBCluster \<Rightarrow> string \<Rightarrow> int option" where
  "cond_since L c T = map_option cdLastTransitionTime (FindStatusCondition L (csConditions (clStatus c)) T)"

lemma find_set_condition_flip:
  "find_condition cs (cdType cd) = Some old \<Longrightarrow> cdStatus old \<noteq> cdStatus cd \<Longrightarrow>
     find_condition (set_condition t cs cd) (cdType cd) = Some (cd\<lparr>cdLastTransitionTime := t\<rparr>)"
  by (induction cs) (auto simp: find_condition_def split: if_splits)

interpretation mem_transition: transition_lib mem_lib
  by unfold_locales (simp add: mem_lib_def find_set_condition_flip)

lemma cond_since_simps [simp]:
  "cond_since L (observe_generation c) T = cond_since L c T"
  "cond_since L (set_status (\<lambda>s. s\<lparr>csEndpoints := e\<rparr>) c) T = cond_since L c T"
  by (simp_all add: cond_since_def set_status_def)

context transition_lib
begin

lemma since_flip:
  assumes "cond_status L c T = Some st0" "st0 \<noteq> st"
  shows "cond_since L (with_condition L t T st rs ms c) T = Some t"
proof -
  let ?cd = "\<lparr>cdType = T, cdStatus = st, cdObservedGeneration = clGeneration c, cdLastTransitionTime = 0, cdReason = rs, cdMessage = ms\<rparr>"
  from assms obtain old where "FindStatusCondition L (csConditions (clStatus c)) (cdType ?cd) = Some old"
    "cdStatus old \<noteq> cdStatus ?cd"
    by (auto simp: cond_status_def)
  from flip [OF this, of t] show ?thesis
    by (simp add: cond_since_def with_condition_def set_status_def)
qed

lemma since_final:
  assumes "elib E = L" "cond_status L c ConditionReconciling = Some ConditionTrue"
  shows "cond_since L (observe_generation (fst (run_state (setFinalConditions E c i r b) s))) ConditionReconciling =
     Some (nowOf E (world s))"
proof -
  have "ConditionReconciling \<noteq> ConditionBackupSafe" "ConditionReconciling \<noteq> ConditionReady"
    by (simp_all add: condition_type_defs)
  with assms(2) show ?thesis
    unfolding run_setFinalConditions Let_def assms(1) fst_conv cond_since_simps
    by (intro since_flip [where ?st0.0 = ConditionTrue]) simp_all
qed

end

section \<open>A cluster in its steady state\<close>

text \<open>
  The server holds the cluster, its catalog secret, ServiceAccount and ConfigMap beside the settled
  control plane; the cluster is neither paused nor fenced, its last upgrade is complete and to the
  version it asks for. Status updates of the cluster are accepted.
\<close>

locale steady_cluster = settled_objects E c h W
  for E :: "'w env" and c :: PeerDBCluster and h :: string and W :: "'w \<Rightarrow> bool" +
  assumes stored: "serves W (clusters E) (meta_key (clMeta c)) (\<lambda>x. x = c)"
    and secret: "serves W (secrets E) (NN (sksName (catPasswordSecretRef (clCatalog c))) (clNamespace c))
      (\<lambda>x. ComputeConfigHash (cmData (BuildConfigMap c))
         (smap_of [(sksName (catPasswordSecretRef (clCatalog c)), mResourceVersion (scMeta x))]) = h)"
    and account: "BuildServiceAccount c = Some sa \<Longrightarrow>
      serves W (serviceAccounts E) (meta_key (saMeta sa)) (\<lambda>x. mAnnotations (saMeta x) = mAnnotations (saMeta sa) \<and> mLabels (saMeta x) = mLabels (saMeta sa))"
    and config: "serves W (configMaps E) (meta_key (cmMeta (BuildConfigMap c)))
      (\<lambda>x. cmData x = cmData (BuildConfigMap c))"
    and running: "\<not> clPaused (clSpec c)" "\<not> backup_in_progress (clMeta c)"
    and current: "\<exists>u. csUpgrade (clStatus c) = Some u \<and> upPhase u = UpgradePhaseComplete \<and>
      upToVersion u = clVersion (clSpec c)"
    and accepts: "W w \<Longrightarrow> clMeta ob = clMeta c \<Longrightarrow> \<exists>x w'. rStatusUpdate (clusters E) ob w = (Inr x, w')"

text \<open>The cluster object on its way through a reconciliation.\<close>

definition carried :: "lib \<Rightarrow> PeerDBCluster \<Rightarrow> PeerDBCluster \<Rightarrow> bool" where
  "carried L c c' \<longleftrightarrow> clMeta c' = clMeta c \<and> clSpec c' = clSpec c \<and>
     csUpgrade (clStatus c') = csUpgrade (clStatus c) \<and>
     cond_status L c' ConditionReconciling = Some ConditionTrue"

text \<open>What a reconciliation leaves behind as status, and how it gets there.\<close>

definition fresh_status :: "'w env \<Rightarrow> ('w \<Rightarrow> bool) \<Rightarrow> PeerDBCluster \<Rightarrow> PeerDBCluster \<Rightarrow> bool" where
  "fresh_status E W c c' \<longleftrightarrow> clMeta c' = clMeta c \<and> reports_ready (elib E) c' \<and>
     (transition_lib (elib E) \<longrightarrow> (\<exists>w. W w \<and> cond_since (elib E) c' ConditionReconciling = Some (nowOf E w)))"

definition status_tail :: "'w env \<Rightarrow> PeerDBCluster \<Rightarrow> PeerDBCluster \<Rightarrow> effect list \<Rightarrow> bool" where
  "status_tail E c c' t \<longleftrightarrow>
     (t = [] \<and> eqClusterStatus (elib E) (clStatus c) (clStatus c')) \<or>
     t = [EStatusUpdate (OCluster (c\<lparr>clStatus := clStatus c'\<rparr>))]"

context steady_cluster
begin

lemma dependencies_steady:
  assumes "carried (elib E) c c'"
  shows "achieves W (reconcileDependencies E c') (\<lambda>x. carried (elib E) c (fst x) \<and> snd x = h)"
proof -
  have same: "clMeta c' = clMeta c" "clSpec c' = clSpec c" using assms by (simp_all add: carried_def)
  show ?thesis
    unfolding reconcileDependencies_def Let_def builders_ignore_status [OF same] same
    by (rule ends_get [OF secret]) (use assms in \<open>auto simp: carried_def condition_lib.cond_status_with [OF conditions]
        condition_type_defs intro!: ends_intros\<close>)
qed

lemma shared_steady:
  assumes "carried (elib E) c c'"
  shows "achieves W (case BuildServiceAccount c' of None \<Rightarrow> ok () | Some sa \<Rightarrow> reconcileServiceAccount E c' sa) (\<lambda>_. True)"
    and "achieves W (reconcileConfigMap E c' (BuildConfigMap c')) (\<lambda>_. True)"
proof -
  have same: "clMeta c' = clMeta c" "clSpec c' = clSpec c" using assms by (simp_all add: carried_def)
  note ign = builders_ignore_status [OF same]
  show "achieves W (case BuildServiceAccount c' of None \<Rightarrow> ok () | Some sa \<Rightarrow> reconcileServiceAccount E c' sa) (\<lambda>_. True)"
  proof (cases "BuildServiceAccount c")
    case (Some sa)
    with shared_unowned(3) [of c sa] same have sa: "mOwnerReferences (saMeta sa) = []" "mNamespace (saMeta sa) = clNamespace c'"
      by simp_all
    show ?thesis
      unfolding ign Some option.case reconcileServiceAccount_def Let_def
      by (rule ends_own [OF owner sa], unfold owned_by_simps, rule achieves_create_or_update [OF account [OF Some]])
        (simp add: semantic_equality.patch_service_account_None [OF equality])
  qed (simp add: ign ends_ok)
  have cm: "mOwnerReferences (cmMeta (BuildConfigMap c)) = []" "mNamespace (cmMeta (BuildConfigMap c)) = clNamespace c'"
    by (simp_all add: shared_unowned same)
  show "achieves W (reconcileConfigMap E c' (BuildConfigMap c')) (\<lambda>_. True)"
    unfolding ign reconcileConfigMap_def Let_def
    by (rule ends_own [OF owner cm], unfold owned_by_simps, rule achieves_create_or_update [OF config])
      (simp add: semantic_equality.patch_config_map_None [OF equality])
qed

lemma lifecycle_steady:
  assumes "carried (elib E) c c'"
  shows "achieves W (reconcileUpgradeLifecycle E c' k False) (\<lambda>x. x = Continue c')"
proof -
  obtain u where "csUpgrade (clStatus c') = Some u" "upPhase u = UpgradePhaseComplete" "upToVersion u = clVersion (clSpec c')"
    using current assms by (auto simp: carried_def)
  then have "\<not> upgrade_due c'" "init_upgrade c' = c'" by (simp_all add: upgrade_due_def)
  with lifecycle_run [of E c' k] show ?thesis by (fastforce simp: ends_def)
qed

lemma init_steady:
  assumes "carried (elib E) c c'"
  shows "achieves W (reconcileInitJobsAndStatus E c' False) (\<lambda>x. snd x \<and> carried (elib E) c (fst x) \<and>
     cond_status (elib E) (fst x) ConditionInitialized = Some ConditionTrue)"
proof -
  have same: "clMeta c' = clMeta c" "clSpec c' = clSpec c" using assms by (simp_all add: carried_def)
  have "achieves W (if \<not> False then reconcileInitJobs E c' True else ok True) (\<lambda>b. b)"
    using achieves_init_jobs [OF same] by simp
  then show ?thesis
    unfolding reconcileInitJobsAndStatus_def
    by (rule ends_on_ok) (use assms in \<open>auto simp: carried_def condition_lib.cond_status_with [OF conditions]
        condition_type_defs intro!: ends_intros\<close>)
qed

lemma components_steady:
  assumes "carried (elib E) c c'" "cond_status (elib E) c' ConditionInitialized = Some ConditionTrue"
  shows "achieves W (reconcileComponentsAndStatus E c' h False) (\<lambda>x. snd x \<and> carried (elib E) c (fst x) \<and>
     cond_status (elib E) (fst x) ConditionInitialized = Some ConditionTrue \<and>
     cond_status (elib E) (fst x) ConditionComponentsReady = Some ConditionTrue)"
proof -
  have same: "clMeta c' = clMeta c" "clSpec c' = clSpec c" using assms by (simp_all add: carried_def)
  note ign = builders_ignore_status [OF same]
  have ready:
    "achieves W (reconcileDeploymentAndService E c' (BuildFlowAPIDeployment (elib E) c' h) (BuildFlowAPIService c') True) (\<lambda>b. b)"
    "achieves W (reconcileDeploymentAndService E c' (BuildPeerDBServerDeployment (elib E) c' h) (BuildPeerDBServerService c') True) (\<lambda>b. b)"
    "achieves W (reconcileDeploymentAndService E c' (BuildUIDeployment (elib E) c' h) (BuildUIService c') True) (\<lambda>b. b)"
    using achieves_component [OF flow_api.component_builder_axioms owner equality, of W c' h] flow_api
      achieves_component [OF server.component_builder_axioms owner equality, of W c' h] server
      achieves_component [OF ui.component_builder_axioms owner equality, of W c' h] ui
    by (simp_all add: ign)
  have "achieves W (on_ok (reconcileDeploymentAndService E c' (BuildFlowAPIDeployment (elib E) c' h) (BuildFlowAPIService c') True) (\<lambda>ready1.
      on_ok (reconcileDeploymentAndService E c' (BuildPeerDBServerDeployment (elib E) c' h) (BuildPeerDBServerService c') ready1) (\<lambda>ready2.
      reconcileDeploymentAndService E c' (BuildUIDeployment (elib E) c' h) (BuildUIService c') ready2))) (\<lambda>b. b)"
    by (rule ends_on_ok [OF ready(1)], simp, rule ends_on_ok [OF ready(2)], simp add: ready(3))
  then show ?thesis
    unfolding reconcileComponentsAndStatus_def if_False
    by (rule ends_on_ok) (use assms in \<open>auto simp: carried_def condition_lib.cond_status_with [OF conditions]
        condition_type_defs intro!: ends_intros\<close>)
qed

lemma update_steady:
  assumes "clMeta c' = clMeta c"
  shows "ends W (State_Monad.bind (updateStatus E c') (\<lambda>st. case st of
       Inl e \<Rightarrow> if IsConflict e then ok requeue else fail e
     | Inr _ \<Rightarrow> ok done_result)) (\<lambda>x _. x = done_result) (status_tail E c c')"
  unfolding ends_def
proof (intro allI impI)
  fix s :: "'w sys"
  assume "W (world s)"
  with stored obtain w1 where get: "rGet (clusters E) (meta_key (clMeta c)) (world s) = (Inr c, w1)" and "W w1"
    by (auto simp: serves_def)
  with accepts obtain x w2 where upd: "rStatusUpdate (clusters E) (c\<lparr>clStatus := clStatus c'\<rparr>) w1 = (Inr x, w2)"
    by fastforce
  show "\<exists>x s' es t. run_state (State_Monad.bind (updateStatus E c') (\<lambda>st. case st of
       Inl e \<Rightarrow> if IsConflict e then ok requeue else fail e | Inr _ \<Rightarrow> ok done_result)) s = (Inr x, s') \<and>
     x = done_result \<and> log s' = log s @ es @ t \<and> list_all observing es \<and> status_tail E c c' t"
    using get upd assms
    by (cases "eqClusterStatus (elib E) (clStatus c) (clStatus c')";
        simp add: updateStatus_def kcall_defs discard_def)
      (rule exI [of _ "[EGet KCluster (meta_key (clMeta c))]"], simp add: status_tail_def)+
qed

lemma standard_steady:
  assumes "carried (elib E) c c'"
  shows "ends W (standard_reconcile E c' h False) (\<lambda>x _. x = done_result)
    (\<lambda>t. \<exists>c3. fresh_status E W c c3 \<and> status_tail E c c3 t)"
  unfolding standard_reconcile_def
proof (rule ends_on_ok [OF init_steady [OF assms]], clarsimp, rule ends_on_ok [OF components_steady], assumption, assumption,
    clarsimp, rule ends_bind)
  fix c2 and s :: "'w sys"
  assume W: "W (world s)" and c2: "carried (elib E) c c2"
    "cond_status (elib E) c2 ConditionInitialized = Some ConditionTrue"
    "cond_status (elib E) c2 ConditionComponentsReady = Some ConditionTrue"
  let ?r = "run_state (setFinalConditions E c2 True True False) s"
  let ?c3 = "observe_generation (fst ?r)"
  from final_status_form [OF conditions c2(2,3), of False s] c2(1)
  have fresh: "fresh_status E W c ?c3"
    using transition_lib.since_final [of "elib E" E c2] W by (auto simp: fresh_status_def carried_def)
  have "ends W (State_Monad.bind (updateStatus E ?c3) (\<lambda>st. case st of
       Inl e \<Rightarrow> if IsConflict e then ok requeue else fail e
     | Inr _ \<Rightarrow> ok done_result)) (\<lambda>x _. x = done_result) (\<lambda>t. \<exists>c3. fresh_status E W c c3 \<and> status_tail E c c3 t)"
    using update_steady [of ?c3] fresh unfolding ends_def fresh_status_def by blast
  then show "\<exists>x s1 es. run_state (setFinalConditions E c2 True True False) s = (x, s1) \<and> W (world s1) \<and>
      log s1 = log s @ es \<and> list_all observing es \<and>
      ends W (State_Monad.bind (updateStatus E (observe_generation x)) (\<lambda>st. case st of
        Inl e \<Rightarrow> if IsConflict e then ok requeue else fail e
      | Inr _ \<Rightarrow> ok done_result)) (\<lambda>x _. x = done_result) (\<lambda>t. \<exists>c3. fresh_status E W c c3 \<and> status_tail E c c3 t)"
    using W by (intro exI [of _ "fst ?r"] exI [of _ "snd ?r"]) (auto simp: run_setFinalConditions Let_def)
qed

lemma reconcile_steady:
  "ends W (Reconcile E (meta_key (clMeta c))) (\<lambda>x _. x = done_result)
     (\<lambda>t. \<exists>c3. fresh_status E W c c3 \<and> status_tail E c c3 t)"
proof -
  have active: "ends W (reconcile_active E c1 h False) (\<lambda>x _. x = done_result)
      (\<lambda>t. \<exists>c3. fresh_status E W c c3 \<and> status_tail E c c3 t)" if c1: "carried (elib E) c c1" for c1
    unfolding reconcile_active_def
    by (rule ends_on_ok [OF shared_steady(1) [OF c1]], rule ends_on_ok [OF shared_steady(2) [OF c1]],
        rule ends_on_ok [OF lifecycle_steady [OF c1]]) (simp add: standard_steady [OF c1])
  have hash: "h \<noteq> ''''" if "W w" for w
    using secret that ComputeConfigHash_nonempty by (fastforce simp: serves_def)
  show ?thesis
    unfolding Reconcile_def
  proof (rule ends_get [OF stored], simp only: sum.case, rule ends_set_cond, goal_cases)
    case (1 ob w)
    let ?c = "with_condition (elib E) (nowOf E w) ConditionReconciling ConditionTrue ReasonReconciling ''Reconciliation in progress'' c"
    have c1: "carried (elib E) c ?c"
      by (simp add: carried_def condition_lib.cond_status_with [OF conditions])
    have "ends W (on_ok (reconcileDependencies E ?c) (\<lambda>(cluster1, configHash).
             if configHash = '''' then ok (requeue_after 30) else reconcile_active E cluster1 configHash False))
        (\<lambda>x _. x = done_result) (\<lambda>t. \<exists>c3. fresh_status E W c c3 \<and> status_tail E c c3 t)"
      by (rule ends_on_ok [OF dependencies_steady [OF c1]]) (use hash [OF 1(2)] active in auto)
    with running show ?case by simp
  qed
qed

end

section \<open>The steady state\<close>

text \<open>
  (C6) The steady state is quiet: when the server holds everything the operator asks for (the settled
  control plane, ServiceAccount, ConfigMap and secret) and no upgrade is due, a reconciliation ends
  with no further call requested, having created, updated and deleted nothing; all it may do after
  reading is one update of the cluster's status, which reports a ready cluster.
\<close>

theorem steady_state_quiet:
  assumes steady: "steady_cluster E c h W" and W: "W (world s)"
  shows "\<exists>es t s'. run_state (Reconcile E (meta_key (clMeta c))) s = (Inr done_result, s') \<and>
     log s' = log s @ es @ t \<and> list_all observing es \<and>
     (t = [] \<or> (\<exists>c'. t = [EStatusUpdate (OCluster c')] \<and> reports_ready (elib E) c' \<and>
        clSpec c' = clSpec c \<and> clMeta c' = clMeta c))"
proof -
  from endsD [OF steady_cluster.reconcile_steady [OF steady] W] obtain s' es t c3 where
    "run_state (Reconcile E (meta_key (clMeta c))) s = (Inr done_result, s')" "log s' = log s @ es @ t"
    "list_all observing es" and c3: "fresh_status E W c c3" "status_tail E c c3 t"
    by blast
  moreover have "reports_ready (elib E) (c\<lparr>clStatus := clStatus c3\<rparr>)"
    using c3(1) by (simp add: fresh_status_def reports_ready_def ready_at_def cond_status_def)
  ultimately show ?thesis
    using c3(2) by (intro exI [of _ es] exI [of _ t] exI [of _ s']) (auto simp: status_tail_def)
qed

text \<open>
  (C27) The status is written by every such reconciliation, although \<open>updateStatus\<close> skips unchanged
  statuses: \<open>Reconcile\<close> sets the Reconciling condition to true and then to false, so that its transition
  time becomes the present time, and the status differs from the stored one as soon as the clock has
  moved on.
\<close>

theorem steady_state_rewrites_status:
  assumes steady: "steady_cluster E c h W" and W: "W (world s)"
    and lib: "transition_lib (elib E)" "semantic_equality (elib E)"
    and clock: "\<And>w. W w \<Longrightarrow> nowOf E w = now"
    and moved: "cond_since (elib E) c ConditionReconciling \<noteq> Some now"
  shows "\<exists>es c' s'. run_state (Reconcile E (meta_key (clMeta c))) s = (Inr done_result, s') \<and>
     log s' = log s @ es @ [EStatusUpdate (OCluster c')] \<and>
     cond_since (elib E) c' ConditionReconciling = Some now"
proof -
  from endsD [OF steady_cluster.reconcile_steady [OF steady] W] obtain s' es t c3 where
    run: "run_state (Reconcile E (meta_key (clMeta c))) s = (Inr done_result, s')" "log s' = log s @ es @ t"
    and c3: "fresh_status E W c c3" "status_tail E c c3 t"
    by blast
  have now: "cond_since (elib E) c3 ConditionReconciling = Some now"
    using c3(1) lib(1) clock by (auto simp: fresh_status_def)
  with moved have "clStatus c3 \<noteq> clStatus c" by (auto simp: cond_since_def)
  with c3(2) have "t = [EStatusUpdate (OCluster (c\<lparr>clStatus := clStatus c3\<rparr>))]"
    by (simp add: status_tail_def semantic_equality.eq_cluster_status [OF lib(2)])
  with run now show ?thesis by (auto simp: cond_since_def)
qed

section \<open>An example\<close>

definition steady_sample :: PeerDBCluster where
  "steady_sample = set_status (\<lambda>s. s\<lparr>csUpgrade := Some \<lparr>upFromVersion = ''v0.36.6'', upToVersion = ''v0.36.7'',
     upPhase = UpgradePhaseComplete, upStartedAt = None, upMessage = ''''\<rparr>\<rparr>) sample_cluster"

definition steady_hash :: string where
  "steady_hash = ComputeConfigHash (cmData (BuildConfigMap sample_cluster)) (smap_of [(''peerdb-catalog'', ''7'')])"

definition steady_world :: memw where
  "steady_world = (settled_world sample_cluster steady_hash)\<lparr>meClusters := [steady_sample], meSecrets := [sample_secret],
     meConfigMaps := [BuildConfigMap sample_cluster],
     meServiceAccounts := (case BuildServiceAccount sample_cluster of None \<Rightarrow> [] | Some sa \<Rightarrow> [sa]), meNow := 60\<rparr>"

lemma steady_world_objects:
  "meClusters steady_world = [steady_sample]" "meSecrets steady_world = [sample_secret]"
  "meConfigMaps steady_world = [BuildConfigMap sample_cluster]" "meNow steady_world = 60"
  "meServiceAccounts steady_world = (case BuildServiceAccount sample_cluster of None \<Rightarrow> [] | Some sa \<Rightarrow> [sa])"
  by (simp_all add: steady_world_def)

lemma steady_sample_simps [simp]:
  "clMeta steady_sample = clMeta sample_cluster" "clSpec steady_sample = clSpec sample_cluster"
  by (simp_all add: steady_sample_def set_status_def)

interpretation sample_steady: steady_cluster mem_env steady_sample steady_hash "\<lambda>w. w = steady_world"
proof (intro steady_cluster.intro steady_cluster_axioms.intro)
  note ign = builders_ignore_status [OF steady_sample_simps]
  show "settled_objects mem_env steady_sample steady_hash (\<lambda>w. w = steady_world)"
    by (rule sample_objects_settled) (simp_all add: steady_world_def)
  show "serves (\<lambda>w. w = steady_world) (clusters mem_env) (meta_key (clMeta steady_sample)) (\<lambda>x. x = steady_sample)"
    by (simp add: serves_mem mem_look_def slKey_def cluster_slot_def steady_world_objects)
  show "serves (\<lambda>w. w = steady_world) (secrets mem_env)
      (NN (sksName (catPasswordSecretRef (clCatalog steady_sample))) (clNamespace steady_sample))
      (\<lambda>x. ComputeConfigHash (cmData (BuildConfigMap steady_sample))
         (smap_of [(sksName (catPasswordSecretRef (clCatalog steady_sample)), mResourceVersion (scMeta x))]) = steady_hash)"
    by (simp add: serves_mem mem_look_def slKey_def secret_slot_def steady_world_objects ign steady_hash_def)
      (simp add: sample_defs meta_key_def)
  show "serves (\<lambda>w. w = steady_world) (serviceAccounts mem_env) (meta_key (saMeta sa))
      (\<lambda>x. mAnnotations (saMeta x) = mAnnotations (saMeta sa) \<and> mLabels (saMeta x) = mLabels (saMeta sa))" if "BuildServiceAccount steady_sample = Some sa" for sa
    using that by (simp add: serves_mem mem_look_def slKey_def service_account_slot_def steady_world_objects ign)
  show "serves (\<lambda>w. w = steady_world) (configMaps mem_env) (meta_key (cmMeta (BuildConfigMap steady_sample)))
      (\<lambda>x. cmData x = cmData (BuildConfigMap steady_sample))"
    by (simp add: serves_mem mem_look_def slKey_def config_map_slot_def steady_world_objects ign)
  show "\<not> clPaused (clSpec steady_sample)" "\<not> backup_in_progress (clMeta steady_sample)"
    by (simp_all add: sample_defs backup_in_progress_def smap_get_def)
  show "\<exists>u. csUpgrade (clStatus steady_sample) = Some u \<and> upPhase u = UpgradePhaseComplete \<and>
      upToVersion u = clVersion (clSpec steady_sample)"
    by (simp add: steady_sample_def set_status_def sample_defs)
  show "\<exists>x w'. rStatusUpdate (clusters mem_env) ob w = (Inr x, w')"
    if "w = steady_world" "clMeta ob = clMeta steady_sample" for ob w
    using that by (simp add: mem_client_def mem_status_update_def mem_look_def slKey_def cluster_slot_def stale_def
        steady_world_objects split: prod.split)
qed

lemma steady_state_quiet_witness:
  "\<exists>es t s'. run_state (Reconcile mem_env (NN ''peerdb'' ''default'')) \<lparr>world = steady_world, log = []\<rparr> = (Inr done_result, s') \<and>
     log s' = es @ t \<and> list_all observing es \<and> length t \<le> 1"
proof -
  have key: "meta_key (clMeta steady_sample) = NN ''peerdb'' ''default''"
    by (simp add: sample_defs meta_key_def)
  from steady_state_quiet [OF sample_steady.steady_cluster_axioms, of "\<lparr>world = steady_world, log = []\<rparr>", unfolded key]
  obtain es t s' where run: "run_state (Reconcile mem_env (NN ''peerdb'' ''default'')) \<lparr>world = steady_world, log = []\<rparr> = (Inr done_result, s')"
    "log s' = es @ t" "list_all observing es" and "t = [] \<or> (\<exists>c'. t = [EStatusUpdate (OCluster c')])"
    by auto
  then have "length t \<le> 1" by auto
  with run show ?thesis by blast
qed

lemma steady_state_rewrites_status_witness:
  "\<exists>es c' s'. run_state (Reconcile mem_env (NN ''peerdb'' ''default'')) \<lparr>world = steady_world, log = []\<rparr> = (Inr done_result, s') \<and>
     log s' = es @ [EStatusUpdate (OCluster c')] \<and> cond_since mem_lib c' ConditionReconciling = Some 60"
proof -
  have key: "meta_key (clMeta steady_sample) = NN ''peerdb'' ''default''"
    by (simp add: sample_defs meta_key_def)
  have "cond_since (elib mem_env) steady_sample ConditionReconciling \<noteq> Some 60"
    by (simp add: cond_since_def steady_sample_def set_status_def sample_defs mem_lib_def find_condition_def)
  with steady_state_rewrites_status [OF sample_steady.steady_cluster_axioms _
      mem_transition.transition_lib_axioms [folded mem_env_simps] mem_laws(1),
      of "\<lparr>world = steady_world, log = []\<rparr>" 60]
  show ?thesis unfolding key by (simp add: steady_world_objects)
qed

section \<open>When a reconciliation is done\<close>

text \<open>
  (C15) A reconciliation of a cluster that was found and is not paused asks for no further call only
  when, at its end, the server holds under that name a cluster whose status says it is ready: Ready,
  Initialized and ComponentsReady true, Reconciling false, observed at the generation that was
  reconciled. Every other outcome is an error, an immediate requeue or a delayed one.
\<close>

theorem done_means_ready:
  assumes L: "condition_lib (elib E)" "semantic_equality (elib E)"
    and store: "status_store (clusters E) look (\<lambda>x. meta_key (clMeta x)) view clStatus"
    and get: "rGet (clusters E) req (world s) = (Inr c, w1)" and active: "\<not> clPaused (clSpec c)"
    and run: "run_state (Reconcile E req) s = (Inr done_result, s')"
  shows "\<exists>new. look (world s') req = Some new \<and>
     cond_status (elib E) new ConditionReady = Some ConditionTrue \<and>
     cond_status (elib E) new ConditionInitialized = Some ConditionTrue \<and>
     cond_status (elib E) new ConditionComponentsReady = Some ConditionTrue \<and>
     cond_status (elib E) new ConditionReconciling = Some ConditionFalse \<and>
     csObservedGeneration (clStatus new) = clGeneration c"
  using Reconcile_done [OF assms] by (simp add: ready_at_def)

lemma done_means_ready_witness:
  "\<exists>new. mem_look cluster_slot
       (world (snd (run_state (Reconcile mem_env (NN ''peerdb'' ''default'')) \<lparr>world = steady_world, log = []\<rparr>)))
       (NN ''peerdb'' ''default'') = Some new \<and>
     cond_status mem_lib new ConditionReady = Some ConditionTrue"
proof -
  let ?s = "\<lparr>world = steady_world, log = []\<rparr>"
  have key: "meta_key (clMeta steady_sample) = NN ''peerdb'' ''default''"
    by (simp add: sample_defs meta_key_def)
  from endsD [OF sample_steady.reconcile_steady, of ?s, unfolded key] obtain s' where
    run: "run_state (Reconcile mem_env (NN ''peerdb'' ''default'')) ?s = (Inr done_result, s')"
    by auto
  have get: "rGet (clusters mem_env) (NN ''peerdb'' ''default'') (world ?s) = (Inr steady_sample, world ?s)"
    by (simp add: mem_client_def mem_get_def mem_look_def slKey_def cluster_slot_def steady_world_objects key [simplified])
  have active: "\<not> clPaused (clSpec steady_sample)" by (simp add: sample_defs)
  from done_means_ready [OF mem_laws(3,1) mem_cluster_statuses [folded mem_env_simps] get active run]
  show ?thesis by (auto simp: run)
qed

section \<open>Rolling restarts\<close>

text \<open>
  Readiness is judged by the status a Deployment had before it is updated. So the reconciliation that
  starts a rolling restart (here for a new config hash: all three Deployments are updated) reports a
  ready cluster that is safe for a backup, and asks for no further call.
\<close>

definition restart_run :: "(api_error + Result) \<times> memw sys" where
  "restart_run = run_state (standard_reconcile mem_env sample_cluster ''new'' False) (sys_rolled_out sample_cluster ''old'')"

definition reported_conditions :: "effect list \<Rightarrow> (string \<times> ConditionStatus) list" where
  "reported_conditions es =
     concat (map (\<lambda>e. case e of
        EStatusUpdate (OCluster x) \<Rightarrow> map (\<lambda>d. (cdType d, cdStatus d)) (csConditions (clStatus x)) | _ \<Rightarrow> []) es)"

lemma restart_reported_safe:
  "(case restart_run of (r, s) \<Rightarrow>
      r = Inr done_result \<and>
      length (filter (\<lambda>e. case e of EUpdate (ODeployment d) \<Rightarrow> True | _ \<Rightarrow> False) (log s)) = 3 \<and>
      (ConditionReady, ConditionTrue) \<in> set (reported_conditions (log s)) \<and>
      (ConditionBackupSafe, ConditionTrue) \<in> set (reported_conditions (log s)))"
  by code_simp

end
