(* ===== verification/GoHeap.thy ===== *)
theory GoHeap
  imports Prelude
begin

text \<open>
  Go values in memory, for the code whose correctness is a matter of aliasing: the generated deep
  copies of the API types. A value is a scalar, a struct held by value, or a pointer, map or slice
  that refers to a cell of the heap. \<open>gty\<close> are the Go types the API structs are made of, \<open>tree\<close> is
  the pure value a Go value stands for (its contents, with all references followed), \<open>reach\<close> the
  cells it depends on. A copier is deep (\<open>deep_copier\<close>) when the copy has the same contents, depends
  on freshly allocated cells only, and no cell that existed before is changed. The rules show that the
  statement forms of generated copy functions preserve this contract.
\<close>

section \<open>Values, types and the heap\<close>

type_synonym addr = nat

datatype scalar = SStr string | SInt int | SBool bool

text \<open>
  A slice is a pointer to a backing array with an offset and a length; \<open>None\<close> is nil. A struct lists
  its fields in order.
\<close>

datatype gval =
    VPlain scalar
  | VPtr "addr option"
  | VMap "addr option"
  | VSlice "(addr \<times> nat \<times> nat) option"
  | VStruct "(string \<times> gval) list"

datatype cell = CObj gval | CArr "gval list" | CMap smap

record gheap =
  cells :: "addr \<Rightarrow> cell option"
  lim :: addr

datatype gty =
    TPlain
  | TPtr gty
  | TMap
  | TSlice gty
  | TStruct "(string \<times> gty) list"

definition alloc :: "cell \<Rightarrow> gheap \<Rightarrow> addr \<times> gheap" where
  "alloc x h = (lim h, h\<lparr>cells := (cells h)(lim h := Some x), lim := lim h + 1\<rparr>)"

definition store :: "addr \<Rightarrow> cell \<Rightarrow> gheap \<Rightarrow> gheap" where
  "store a x h = h\<lparr>cells := (cells h)(a := Some x)\<rparr>"

definition elems :: "gheap \<Rightarrow> addr \<times> nat \<times> nat \<Rightarrow> gval list option" where
  "elems h s =
     (case s of (a, off, n) \<Rightarrow>
        (case cells h a of
           Some (CArr xs) \<Rightarrow> if off + n \<le> length xs then Some (take n (drop off xs)) else None
         | _ \<Rightarrow> None))"

lemma store_simps [simp]:
  "cells (store a x h) b = (if b = a then Some x else cells h b)" "lim (store a x h) = lim h"
  by (simp_all add: store_def)

section \<open>Contents and reachable cells\<close>

datatype gtree =
    LPlain scalar
  | LNil
  | LPtr gtree
  | LMap smap
  | LSlice "gtree list"
  | LStruct "(string \<times> gtree) list"

text \<open>\<open>None\<close>: the value is not a value of the type in this heap.\<close>

fun tree :: "gty \<Rightarrow> gheap \<Rightarrow> gval \<Rightarrow> gtree option"
  and tree_fields :: "(string \<times> gty) list \<Rightarrow> gheap \<Rightarrow> (string \<times> gval) list \<Rightarrow> (string \<times> gtree) list option" where
  "tree TPlain h (VPlain s) = Some (LPlain s)"
| "tree (TPtr t) h (VPtr None) = Some LNil"
| "tree (TPtr t) h (VPtr (Some a)) =
     (case cells h a of Some (CObj v) \<Rightarrow> map_option LPtr (tree t h v) | _ \<Rightarrow> None)"
| "tree TMap h (VMap None) = Some LNil"
| "tree TMap h (VMap (Some a)) = (case cells h a of Some (CMap m) \<Rightarrow> Some (LMap m) | _ \<Rightarrow> None)"
| "tree (TSlice t) h (VSlice None) = Some LNil"
| "tree (TSlice t) h (VSlice (Some s)) =
     (case elems h s of Some xs \<Rightarrow> map_option LSlice (those (map (tree t h) xs)) | None \<Rightarrow> None)"
| "tree (TStruct ts) h (VStruct fs) = map_option LStruct (tree_fields ts h fs)"
| "tree _ _ _ = None"
| "tree_fields [] h [] = Some []"
| "tree_fields ((n, t) # ts) h ((m, v) # fs) =
     (if n = m
      then (case (tree t h v, tree_fields ts h fs) of
              (Some x, Some xs) \<Rightarrow> Some ((n, x) # xs) | _ \<Rightarrow> None)
      else None)"
| "tree_fields _ _ _ = None"

fun reach :: "gty \<Rightarrow> gheap \<Rightarrow> gval \<Rightarrow> addr set"
  and reach_fields :: "(string \<times> gty) list \<Rightarrow> gheap \<Rightarrow> (string \<times> gval) list \<Rightarrow> addr set" where
  "reach (TPtr t) h (VPtr (Some a)) =
     insert a (case cells h a of Some (CObj v) \<Rightarrow> reach t h v | _ \<Rightarrow> {})"
| "reach TMap h (VMap (Some a)) = {a}"
| "reach (TSlice t) h (VSlice (Some s)) =
     insert (fst s) (case elems h s of Some xs \<Rightarrow> \<Union> (set (map (reach t h) xs)) | None \<Rightarrow> {})"
| "reach (TStruct ts) h (VStruct fs) = reach_fields ts h fs"
| "reach _ _ _ = {}"
| "reach_fields ((n, t) # ts) h ((m, v) # fs) =
     (if n = m then reach t h v \<union> reach_fields ts h fs else {})"
| "reach_fields _ _ _ = {}"

text \<open>Types without references: an assignment copies them whole.\<close>

fun flat :: "gty \<Rightarrow> bool" where
  "flat TPlain = True"
| "flat (TStruct ts) = (\<forall>p \<in> set ts. flat (snd p))"
| "flat _ = False"

text \<open>Contents and reachable cells depend on the reachable cells only.\<close>

lemma elems_cong: "cells k (fst s) = cells h (fst s) \<Longrightarrow> elems k s = elems h s"
  by (cases s) (simp add: elems_def)

lemma frame:
  "\<forall>a \<in> reach t h v. cells k a = cells h a \<Longrightarrow> tree t k v = tree t h v \<and> reach t k v = reach t h v"
  "\<forall>a \<in> reach_fields ts h fs. cells k a = cells h a \<Longrightarrow>
     tree_fields ts k fs = tree_fields ts h fs \<and> reach_fields ts k fs = reach_fields ts h fs"
proof (induction t h v and ts h fs rule: tree_tree_fields.induct)
  case (3 t h a)
  then show ?case by (auto split: option.splits cell.splits)
next
  case (7 t h s)
  then have el: "elems k s = elems h s" by (auto intro: elems_cong)
  show ?case
  proof (cases "elems h s")
    case (Some xs)
    have "tree t k x = tree t h x \<and> reach t k x = reach t h x" if "x \<in> set xs" for x
      using 7 Some that by fastforce
    then have "map (tree t k) xs = map (tree t h) xs" "map (reach t k) xs = map (reach t h) xs"
      by simp_all
    with el Some show ?thesis by (simp del: map_eq_conv)
  qed (use el in simp)
qed (auto split: option.splits)

lemma flat_reach:
  "flat t \<Longrightarrow> reach t h v = {}"
  "\<forall>p \<in> set ts. flat (snd p) \<Longrightarrow> reach_fields ts h fs = {}"
  by (induction t h v and ts h fs rule: reach_reach_fields.induct) auto

section \<open>Copying\<close>

type_synonym copier = "gval \<Rightarrow> gheap \<Rightarrow> gval \<times> gheap"

text \<open>\<open>out = in\<close>.\<close>

definition plain :: copier where
  "plain v h = (v, h)"

text \<open>
  \<open>if *in != nil { *out = new(T); (*in).DeepCopyInto(*out) }\<close>, and \<open>**out = **in\<close> with \<open>plain\<close> for a
  scalar. A nil pointer was copied by the assignment of the struct. The new object starts as the
  shallow copy, which is how every \<open>DeepCopyInto\<close> begins.
\<close>

definition new_copy :: "copier \<Rightarrow> copier" where
  "new_copy c v h =
     (case v of
        VPtr (Some a) \<Rightarrow>
          (case cells h a of
             Some (CObj x) \<Rightarrow>
               (case alloc (CObj x) h of (b, h1) \<Rightarrow>
                  (case c x h1 of (y, h2) \<Rightarrow> (VPtr (Some b), store b (CObj y) h2)))
           | _ \<Rightarrow> (v, h))
      | _ \<Rightarrow> (v, h))"

text \<open>
  \<open>*out = make(map[string]string, len(*in)); for key, val := range *in { (*out)[key] = val }\<close>. The
  order of the range is unspecified; the loop fills the map the same in any order.
\<close>

definition fill_map :: "(string \<times> string) list \<Rightarrow> smap" where
  "fill_map kvs = fold (\<lambda>(key, val) m. fmupd key val m) kvs fmempty"

definition map_copy :: copier where
  "map_copy v h =
     (case v of
        VMap (Some a) \<Rightarrow>
          (case cells h a of
             Some (CMap m) \<Rightarrow>
               (case alloc (CMap (fill_map (sorted_list_of_fmap m))) h of (b, h1) \<Rightarrow> (VMap (Some b), h1))
           | _ \<Rightarrow> (v, h))
      | _ \<Rightarrow> (v, h))"

text \<open>
  \<open>*out = make([]T, len(*in)); for i := range *in { (*in)[i].DeepCopyInto(&(*out)[i]) }\<close>, and
  \<open>copy(*out, *in)\<close> with \<open>plain\<close>.
\<close>

fun copy_elems :: "copier \<Rightarrow> gval list \<Rightarrow> gheap \<Rightarrow> gval list \<times> gheap" where
  "copy_elems c [] h = ([], h)"
| "copy_elems c (x # xs) h =
     (case c x h of (y, h1) \<Rightarrow> (case copy_elems c xs h1 of (ys, h2) \<Rightarrow> (y # ys, h2)))"

definition slice_copy :: "copier \<Rightarrow> copier" where
  "slice_copy c v h =
     (case v of
        VSlice (Some s) \<Rightarrow>
          (case elems h s of
             Some xs \<Rightarrow>
               (case alloc (CArr xs) h of (b, h1) \<Rightarrow>
                  (case copy_elems c xs h1 of (ys, h2) \<Rightarrow>
                     (VSlice (Some (b, 0, length ys)), store b (CArr ys) h2)))
           | None \<Rightarrow> (v, h))
      | _ \<Rightarrow> (v, h))"

text \<open>
  \<open>func (in *T) DeepCopyInto(out *T)\<close>: \<open>*out = *in\<close>, then one statement for each listed field, in
  the order of the fields.
\<close>

fun copy_fields :: "(string \<times> copier) list \<Rightarrow> (string \<times> gval) list \<Rightarrow> gheap \<Rightarrow> (string \<times> gval) list \<times> gheap" where
  "copy_fields cs [] h = ([], h)"
| "copy_fields cs ((n, v) # fs) h =
     (case (case map_of cs n of Some c \<Rightarrow> c v h | None \<Rightarrow> (v, h)) of
        (y, h1) \<Rightarrow> (case copy_fields cs fs h1 of (ys, h2) \<Rightarrow> ((n, y) # ys, h2)))"

definition deep_copy_into :: "(string \<times> copier) list \<Rightarrow> copier" where
  "deep_copy_into cs v h =
     (case v of
        VStruct fs \<Rightarrow> (case copy_fields cs fs h of (gs, h') \<Rightarrow> (VStruct gs, h'))
      | _ \<Rightarrow> (v, h))"

section \<open>The contract of a deep copy\<close>

text \<open>A value of the type, all of whose cells are allocated.\<close>

definition valid :: "gty \<Rightarrow> gheap \<Rightarrow> gval \<Rightarrow> bool" where
  "valid t h v \<longleftrightarrow> tree t h v \<noteq> None \<and> reach t h v \<subseteq> {..<lim h}"

definition extends :: "gheap \<Rightarrow> gheap \<Rightarrow> bool" where
  "extends h h' \<longleftrightarrow> lim h \<le> lim h' \<and> (\<forall>a < lim h. cells h' a = cells h a)"

lemma extends_refl [simp]: "extends h h"
  by (simp add: extends_def)

lemma extends_trans [trans]: "extends h h' \<Longrightarrow> extends h' h'' \<Longrightarrow> extends h h''"
  by (simp add: extends_def)

lemma extends_lim: "extends h h' \<Longrightarrow> lim h \<le> lim h'"
  by (simp add: extends_def)

lemma extends_frame:
  assumes "extends h h'" "reach t h v \<subseteq> {..<lim h}"
  shows "tree t h' v = tree t h v" "reach t h' v = reach t h v"
  using assms frame(1) [of t h v h'] by (auto simp: extends_def)

lemma valid_extends: "extends h h' \<Longrightarrow> valid t h v \<Longrightarrow> valid t h' v"
  using extends_frame [of h h' t v] extends_lim [of h h'] by (auto simp: valid_def)

lemma extends_alloc: "alloc x h = (b, h') \<Longrightarrow> extends h h' \<and> b = lim h \<and> lim h' = Suc b \<and> cells h' b = Some x"
  by (auto simp: alloc_def extends_def)

locale deep_copier =
  fixes t :: gty and c :: copier
  assumes copies: "valid t h v \<Longrightarrow> c v h = (v', h') \<Longrightarrow>
    extends h h' \<and> tree t h' v' = tree t h v \<and> reach t h' v' \<subseteq> {lim h..<lim h'}"
begin

lemma copy_valid: "valid t h v \<Longrightarrow> c v h = (v', h') \<Longrightarrow> valid t h' v'"
  using copies [of h v v' h'] by (auto simp: valid_def)

text \<open>
  What the callers rely on: the copy keeps its contents whatever is written to the cells that existed
  before the copy, in particular to those of the original.
\<close>

lemma isolated:
  assumes "valid t h v" "c v h = (v', h')" "\<forall>a. lim h \<le> a \<and> a < lim h' \<longrightarrow> cells k a = cells h' a"
  shows "tree t k v' = tree t h v"
proof -
  from copies [OF assms(1,2)] assms(3) have "\<forall>a \<in> reach t h' v'. cells k a = cells h' a" by auto
  from frame(1) [OF this] copies [OF assms(1,2)] show ?thesis by simp
qed

lemma original_kept:
  assumes "valid t h v" "c v h = (v', h')" "\<forall>a < lim h. cells k a = cells h' a"
  shows "tree t k v = tree t h v"
proof -
  have "\<forall>a \<in> reach t h v. cells k a = cells h a"
    using assms copies [OF assms(1,2)] by (auto simp: valid_def extends_def)
  from frame(1) [OF this] show ?thesis by simp
qed

end

section \<open>The statement forms are deep\<close>

lemma deep_plain: "flat t \<Longrightarrow> deep_copier t plain"
  by unfold_locales (auto simp: plain_def flat_reach)

lemma valid_alloc:
  assumes "valid t h x" "alloc z h = (b, h1)"
  shows "valid t h1 x" "tree t h1 x = tree t h x"
  using assms extends_alloc [OF assms(2)] valid_extends [of h h1 t x] extends_frame(1) [of h h1 t x]
  by (simp_all add: valid_def)

lemma store_frame:
  assumes "b \<notin> reach t h y"
  shows "tree t (store b z h) y = tree t h y" "reach t (store b z h) y = reach t h y"
  using assms frame(1) [of t h y "store b z h"] by auto

lemma extends_store: "extends h h1 \<Longrightarrow> lim h \<le> b \<Longrightarrow> extends h (store b z h1)"
  by (auto simp: extends_def)

lemma deep_new_copy:
  assumes "deep_copier t c"
  shows "deep_copier (TPtr t) (new_copy c)"
proof (unfold_locales, goal_cases)
  case (1 h v v' h')
  show ?case
  proof (cases "\<exists>a. v = VPtr (Some a)")
    case True
    then obtain a where v: "v = VPtr (Some a)" by blast
    with 1(1) obtain x where x: "cells h a = Some (CObj x)" and "valid t h x"
      by (auto simp: valid_def split: option.splits cell.splits)
    obtain b h1 where al: "alloc (CObj x) h = (b, h1)" by fastforce
    obtain y h2 where cp: "c x h1 = (y, h2)" by fastforce
    note b = extends_alloc [OF al] and x1 = valid_alloc [OF \<open>valid t h x\<close> al]
    note c = deep_copier.copies [OF assms x1(1) cp]
    have "b \<notin> reach t h2 y" using b c by auto
    note y = store_frame [OF this, of "CObj y"]
    moreover have "v' = VPtr (Some b)" "h' = store b (CObj y) h2"
      using 1(2) v x al cp by (auto simp: new_copy_def)
    moreover have "extends h (store b (CObj y) h2)"
      using b c by (blast intro: extends_store extends_trans order_refl)
    ultimately show ?thesis using b c v x x1(2) by (auto simp: extends_def)
  next
    case False
    with 1 show ?thesis
      by (cases v) (auto simp: new_copy_def valid_def split: option.splits)
  qed
qed

lemma fmlookup_fill_map: "fmlookup (fold (\<lambda>(key, val) m. fmupd key val m) kvs m0) k =
    (case map_of (rev kvs) k of None \<Rightarrow> fmlookup m0 k | Some v \<Rightarrow> Some v)"
  by (induction kvs arbitrary: m0) (auto split: option.splits simp: map_add_def)

lemma fill_map_all: "fill_map (sorted_list_of_fmap m) = m"
proof (rule fmap_ext)
  fix k
  have "distinct (map fst (sorted_list_of_fmap m))" by (simp add: sorted_list_of_fmap_def comp_def sorted_list_of_fset.rep_eq)
  then have "map_of (rev (sorted_list_of_fmap m)) = map_of (sorted_list_of_fmap m)"
    by (subst map_of_inject_set) (simp_all add: rev_map [symmetric])
  then show "fmlookup (fill_map (sorted_list_of_fmap m)) k = fmlookup m k"
    by (simp add: fill_map_def fmlookup_fill_map map_of_sorted_list split: option.splits)
qed

lemma deep_map_copy: "deep_copier TMap map_copy"
proof (unfold_locales, goal_cases)
  case (1 h v v' h')
  show ?case
  proof (cases "\<exists>a. v = VMap (Some a)")
    case True
    with 1 obtain a m where v: "v = VMap (Some a)" and m: "cells h a = Some (CMap m)"
      by (auto simp: valid_def split: option.splits cell.splits)
    obtain b h1 where al: "alloc (CMap m) h = (b, h1)" by fastforce
    with 1(2) v m have "v' = VMap (Some b)" "h' = h1" by (auto simp: map_copy_def fill_map_all)
    with extends_alloc [OF al] v m show ?thesis by auto
  next
    case False
    with 1 show ?thesis by (cases v) (auto simp: map_copy_def valid_def split: option.splits)
  qed
qed

lemma those_map_defined: "those (map f xs) \<noteq> None \<longleftrightarrow> (\<forall>x \<in> set xs. f x \<noteq> None)"
  by (induction xs) (auto split: option.splits)

lemma copy_elems_deep:
  assumes "deep_copier t c"
  shows "\<forall>x \<in> set xs. valid t h x \<Longrightarrow> copy_elems c xs h = (ys, h') \<Longrightarrow>
    extends h h' \<and> map (tree t h') ys = map (tree t h) xs \<and> (\<forall>y \<in> set ys. reach t h' y \<subseteq> {lim h..<lim h'})"
proof (induction xs arbitrary: h ys)
  case (Cons x xs)
  obtain y h1 where y: "c x h = (y, h1)" by fastforce
  obtain zs where zs: "copy_elems c xs h1 = (zs, h')" and ys: "ys = y # zs"
    using Cons.prems(2) y by (auto split: prod.splits)
  have "valid t h x" using Cons.prems(1) by simp
  note cy = deep_copier.copies [OF assms this y]
  have "\<forall>x \<in> set xs. valid t h1 x" using Cons.prems(1) cy valid_extends by auto
  note IH = Cons.IH [OF this zs]
  have later: "tree t h1 z = tree t h z" if "z \<in> set xs" for z
    using that Cons.prems(1) cy extends_frame(1) by (auto simp: valid_def)
  have "reach t h1 y \<subseteq> {..<lim h1}" using cy by auto
  note keep = extends_frame [OF conjunct1 [OF IH] this]
  have "extends h h'" using cy IH extends_trans by blast
  with IH cy keep later ys extends_lim [of h h1] extends_lim [of h1 h'] show ?case by fastforce
qed simp

lemma deep_slice_copy:
  assumes "deep_copier t c"
  shows "deep_copier (TSlice t) (slice_copy c)"
proof (unfold_locales, goal_cases)
  case (1 h v v' h')
  show ?case
  proof (cases "\<exists>s. v = VSlice (Some s)")
    case True
    then obtain s where v: "v = VSlice (Some s)" by blast
    with 1(1) obtain xs where xs: "elems h s = Some xs" and "those (map (tree t h) xs) \<noteq> None"
      and "\<forall>x \<in> set xs. reach t h x \<subseteq> {..<lim h}"
      by (auto simp: valid_def UN_subset_iff split: option.splits)
    then have all: "\<forall>x \<in> set xs. valid t h x" by (simp only: those_map_defined valid_def) simp
    obtain b h1 where al: "alloc (CArr xs) h = (b, h1)" by fastforce
    obtain ys h2 where cp: "copy_elems c xs h1 = (ys, h2)" by fastforce
    note b = extends_alloc [OF al]
    have x1: "\<forall>x \<in> set xs. valid t h1 x" "map (tree t h1) xs = map (tree t h) xs"
      using all valid_alloc [OF _ al] by auto
    note c = copy_elems_deep [OF assms x1(1) cp]
    have "b \<notin> reach t h2 y" if "y \<in> set ys" for y using that b c by fastforce
    then have y: "map (tree t (store b (CArr ys) h2)) ys = map (tree t h2) ys"
      "\<And>y. y \<in> set ys \<Longrightarrow> reach t (store b (CArr ys) h2) y = reach t h2 y"
      using store_frame by auto
    moreover have "v' = VSlice (Some (b, 0, length ys))" "h' = store b (CArr ys) h2"
      using 1(2) v xs al cp by (auto simp: slice_copy_def)
    moreover have "extends h (store b (CArr ys) h2)"
      using b c by (blast intro: extends_store extends_trans order_refl)
    moreover have "elems (store b (CArr ys) h2) (b, 0, length ys) = Some ys" by (simp add: elems_def)
    ultimately show ?thesis using b c v xs x1(2) extends_lim [of h1 h2]
      by (auto simp del: map_eq_conv) (fastforce simp: UN_subset_iff)+
  next
    case False
    with 1 show ?thesis by (cases v) (auto simp: slice_copy_def valid_def split: option.splits)
  qed
qed

text \<open>A field with a statement is copied by it; a field without one was copied by \<open>*out = *in\<close>.\<close>

definition field_copier :: "(string \<times> copier) list \<Rightarrow> string \<Rightarrow> copier" where
  "field_copier cs n = (case map_of cs n of Some c \<Rightarrow> c | None \<Rightarrow> plain)"

lemma copy_fields_Cons:
  "copy_fields cs ((n, v) # fs) h =
     (case field_copier cs n v h of (y, h1) \<Rightarrow> (case copy_fields cs fs h1 of (ys, h2) \<Rightarrow> ((n, y) # ys, h2)))"
  by (simp add: field_copier_def plain_def split: option.splits)

lemma copy_fields_deep:
  "\<forall>p \<in> set ts. deep_copier (snd p) (field_copier cs (fst p)) \<Longrightarrow>
     tree_fields ts h fs \<noteq> None \<Longrightarrow> reach_fields ts h fs \<subseteq> {..<lim h} \<Longrightarrow> copy_fields cs fs h = (gs, h') \<Longrightarrow>
     extends h h' \<and> tree_fields ts h' gs = tree_fields ts h fs \<and> reach_fields ts h' gs \<subseteq> {lim h..<lim h'}"
proof (induction ts arbitrary: fs h gs)
  case Nil
  then show ?case by (cases fs) auto
next
  case (Cons p ts)
  obtain n t where p: "p = (n, t)" by fastforce
  with Cons.prems(2,3) obtain v fs' where fs: "fs = (n, v) # fs'" and v: "valid t h v"
    and fs': "tree_fields ts h fs' \<noteq> None" "reach_fields ts h fs' \<subseteq> {..<lim h}"
    by (cases "(ts, h, fs)" rule: tree_fields.cases; cases fs) (auto simp: valid_def split: if_splits option.splits)
  obtain y h1 where y: "field_copier cs n v h = (y, h1)" by fastforce
  obtain zs where zs: "copy_fields cs fs' h1 = (zs, h')" and gs: "gs = (n, y) # zs"
    using Cons.prems(4) y fs by (auto simp: copy_fields_Cons simp del: copy_fields.simps split: prod.splits)
  have "deep_copier t (field_copier cs n)" using Cons.prems(1) p by simp
  note cy = deep_copier.copies [OF this v y]
  then have agree: "\<forall>a \<in> reach_fields ts h fs'. cells h1 a = cells h a"
    using fs'(2) by (auto simp: extends_def)
  note later = frame(2) [OF agree]
  have "\<forall>p \<in> set ts. deep_copier (snd p) (field_copier cs (fst p))" using Cons.prems(1) by simp
  note IH = Cons.IH [OF this _ _ zs]
  have rest: "extends h1 h' \<and> tree_fields ts h' zs = tree_fields ts h fs' \<and> reach_fields ts h' zs \<subseteq> {lim h1..<lim h'}"
    using IH fs' later cy extends_lim [of h h1] lessThan_subset_iff [of "lim h" "lim h1"] by (metis subset_trans)
  have "reach t h1 y \<subseteq> {..<lim h1}" using cy by auto
  note keep = extends_frame [OF conjunct1 [OF rest] this]
  have "extends h h'" using cy rest extends_trans by blast
  with rest cy keep gs fs p extends_lim [of h h1] extends_lim [of h1 h'] show ?case by fastforce
qed

lemma deep_struct:
  assumes "\<forall>p \<in> set ts. deep_copier (snd p) (field_copier cs (fst p))"
  shows "deep_copier (TStruct ts) (deep_copy_into cs)"
proof (unfold_locales, goal_cases)
  case (1 h v v' h')
  then obtain fs where v: "v = VStruct fs" by (cases v) (auto simp: valid_def)
  obtain gs where gs: "copy_fields cs fs h = (gs, h')" and v': "v' = VStruct gs"
    using 1(2) v by (auto simp: deep_copy_into_def split: prod.splits)
  from copy_fields_deep [OF assms _ _ gs] 1(1) v v' show ?case by (auto simp: valid_def)
qed

text \<open>
  The copier that follows a type: the reference for the generated functions, which list the fields
  by hand.
\<close>

fun copy_of :: "gty \<Rightarrow> copier" where
  "copy_of TPlain = plain"
| "copy_of (TPtr t) = new_copy (copy_of t)"
| "copy_of TMap = map_copy"
| "copy_of (TSlice t) = slice_copy (copy_of t)"
| "copy_of (TStruct ts) = deep_copy_into (map (\<lambda>p. (fst p, copy_of (snd p))) ts)"

text \<open>Go's field names are distinct within a struct.\<close>

fun wf_type :: "gty \<Rightarrow> bool" where
  "wf_type (TPtr t) = wf_type t"
| "wf_type (TSlice t) = wf_type t"
| "wf_type (TStruct ts) = (distinct (map fst ts) \<and> (\<forall>p \<in> set ts. wf_type (snd p)))"
| "wf_type _ = True"

lemma map_of_copiers: "distinct (map fst ts) \<Longrightarrow> (n, t) \<in> set ts \<Longrightarrow> map_of (map (\<lambda>p. (fst p, f (snd p))) ts) n = Some (f t)"
  by (induction ts) (auto simp: rev_image_eqI)

lemma deep_copy_of: "wf_type t \<Longrightarrow> deep_copier t (copy_of t)"
proof (induction t rule: copy_of.induct)
  case (5 ts)
  have "deep_copier (snd p) (field_copier (map (\<lambda>p. (fst p, copy_of (snd p))) ts) (fst p))" if "p \<in> set ts" for p
    using that 5 map_of_copiers [of ts "fst p" "snd p" copy_of] by (simp add: field_copier_def)
  then show ?case by (simp add: deep_struct)
qed (simp_all add: deep_plain deep_new_copy deep_map_copy deep_slice_copy)

end
