(* ===== verification/ApiLayouts.thy ===== *)
theory ApiLayouts
  imports GoHeap
begin

text \<open>
  The API structs as they lie in memory: the struct declarations of
  api/v1alpha1/peerdbcluster\_types.go, peerdbworkerpool\_types.go and peerdbsnapshotpool\_types.go with
  every pointer, map and slice, over the memory model of GoHeap. ApiTypes has the same structs as
  pure values.
\<close>

section \<open>Structs outside the repository\<close>

datatype ext =
    XResourceRequirements | XObjectMeta | XListMeta | XTypeMeta | XCondition | XToleration
  | XAffinity | XEnvVar | XQuantity | XTime | XLocalObjectReference

text \<open>
  The layout of a struct, its \<open>DeepCopyInto\<close>, and the two that are copied by a \<open>DeepCopy\<close> call:
  \<open>resource.Quantity\<close> by value, \<open>metav1.Time\<close> through a pointer.
\<close>

record externals =
  layout :: "ext \<Rightarrow> gty"
  intoX :: "ext \<Rightarrow> copier"
  quantityDeepCopy :: copier
  timeDeepCopy :: copier

section \<open>Layouts of the API types\<close>

definition SecretKeySelector_layout :: "externals \<Rightarrow> gty" where
  "SecretKeySelector_layout X = TStruct
     [(''Name'', TPlain),
      (''Key'', TPlain)]"

definition ServiceSpec_layout :: "externals \<Rightarrow> gty" where
  "ServiceSpec_layout X = TStruct
     [(''Type'', TPlain),
      (''Port'', TPtr TPlain),
      (''Annotations'', TMap)]"

definition ServiceAccountConfig_layout :: "externals \<Rightarrow> gty" where
  "ServiceAccountConfig_layout X = TStruct
     [(''Create'', TPlain),
      (''Annotations'', TMap)]"

definition CatalogSpec_layout :: "externals \<Rightarrow> gty" where
  "CatalogSpec_layout X = TStruct
     [(''Host'', TPlain),
      (''Port'', TPlain),
      (''Database'', TPlain),
      (''User'', TPlain),
      (''PasswordSecretRef'', SecretKeySelector_layout X),
      (''SSLMode'', TPlain)]"

definition TemporalSpec_layout :: "externals \<Rightarrow> gty" where
  "TemporalSpec_layout X = TStruct
     [(''Address'', TPlain),
      (''Namespace'', TPlain),
      (''TLSSecretRef'', TPtr (SecretKeySelector_layout X))]"

definition DependenciesSpec_layout :: "externals \<Rightarrow> gty" where
  "DependenciesSpec_layout X = TStruct
     [(''Catalog'', CatalogSpec_layout X),
      (''Temporal'', TemporalSpec_layout X)]"

definition FlowAPISpec_layout :: "externals \<Rightarrow> gty" where
  "FlowAPISpec_layout X = TStruct
     [(''Image'', TPtr TPlain),
      (''Replicas'', TPtr TPlain),
      (''Resources'', TPtr (layout X XResourceRequirements)),
      (''Service'', TPtr (ServiceSpec_layout X))]"

definition PeerDBServerSpec_layout :: "externals \<Rightarrow> gty" where
  "PeerDBServerSpec_layout X = TStruct
     [(''Image'', TPtr TPlain),
      (''Replicas'', TPtr TPlain),
      (''Resources'', TPtr (layout X XResourceRequirements)),
      (''Service'', TPtr (ServiceSpec_layout X)),
      (''PasswordSecretRef'', TPtr (SecretKeySelector_layout X))]"

definition UISpec_layout :: "externals \<Rightarrow> gty" where
  "UISpec_layout X = TStruct
     [(''Image'', TPtr TPlain),
      (''Replicas'', TPtr TPlain),
      (''Resources'', TPtr (layout X XResourceRequirements)),
      (''Service'', TPtr (ServiceSpec_layout X)),
      (''PasswordSecretRef'', TPtr (SecretKeySelector_layout X)),
      (''NextAuthSecretRef'', TPtr (SecretKeySelector_layout X)),
      (''NextAuthURL'', TPtr TPlain)]"

definition AuthProxyCredentials_layout :: "externals \<Rightarrow> gty" where
  "AuthProxyCredentials_layout X = TStruct
     [(''Username'', TPlain),
      (''PasswordSecretRef'', SecretKeySelector_layout X)]"

definition AuthProxySpec_layout :: "externals \<Rightarrow> gty" where
  "AuthProxySpec_layout X = TStruct
     [(''Image'', TPtr TPlain),
      (''Replicas'', TPtr TPlain),
      (''Resources'', TPtr (layout X XResourceRequirements)),
      (''Service'', TPtr (ServiceSpec_layout X)),
      (''Credentials'', AuthProxyCredentials_layout X)]"

definition ComponentsSpec_layout :: "externals \<Rightarrow> gty" where
  "ComponentsSpec_layout X = TStruct
     [(''FlowAPI'', TPtr (FlowAPISpec_layout X)),
      (''PeerDBServer'', TPtr (PeerDBServerSpec_layout X)),
      (''UI'', TPtr (UISpec_layout X)),
      (''AuthProxy'', TPtr (AuthProxySpec_layout X))]"

definition InitJobSpec_layout :: "externals \<Rightarrow> gty" where
  "InitJobSpec_layout X = TStruct
     [(''Enabled'', TPtr TPlain),
      (''Image'', TPtr TPlain),
      (''BackoffLimit'', TPtr TPlain),
      (''Resources'', TPtr (layout X XResourceRequirements))]"

definition InitSpec_layout :: "externals \<Rightarrow> gty" where
  "InitSpec_layout X = TStruct
     [(''TemporalNamespaceRegistration'', TPtr (InitJobSpec_layout X)),
      (''TemporalSearchAttributes'', TPtr (InitJobSpec_layout X))]"

definition MaintenanceSpec_layout :: "externals \<Rightarrow> gty" where
  "MaintenanceSpec_layout X = TStruct
     [(''Image'', TPtr TPlain),
      (''BackoffLimit'', TPtr TPlain),
      (''Resources'', TPtr (layout X XResourceRequirements))]"

definition MaintenanceWindow_layout :: "externals \<Rightarrow> gty" where
  "MaintenanceWindow_layout X = TStruct
     [(''Start'', TPlain),
      (''End'', TPlain),
      (''TimeZone'', TPtr TPlain)]"

definition UpgradeStatus_layout :: "externals \<Rightarrow> gty" where
  "UpgradeStatus_layout X = TStruct
     [(''FromVersion'', TPlain),
      (''ToVersion'', TPlain),
      (''Phase'', TPlain),
      (''StartedAt'', TPtr (layout X XTime)),
      (''Message'', TPlain)]"

definition EndpointStatus_layout :: "externals \<Rightarrow> gty" where
  "EndpointStatus_layout X = TStruct
     [(''ServerAddress'', TPlain),
      (''UIAddress'', TPlain),
      (''FlowAPIAddress'', TPlain)]"

definition PeerDBClusterSpec_layout :: "externals \<Rightarrow> gty" where
  "PeerDBClusterSpec_layout X = TStruct
     [(''Version'', TPlain),
      (''ImagePullSecrets'', TSlice (layout X XLocalObjectReference)),
      (''ServiceAccount'', TPtr (ServiceAccountConfig_layout X)),
      (''Dependencies'', DependenciesSpec_layout X),
      (''Components'', TPtr (ComponentsSpec_layout X)),
      (''Init'', TPtr (InitSpec_layout X)),
      (''Paused'', TPlain),
      (''UpgradePolicy'', TPtr TPlain),
      (''MaintenanceWindow'', TPtr (MaintenanceWindow_layout X)),
      (''Maintenance'', TPtr (MaintenanceSpec_layout X))]"

definition PeerDBClusterStatus_layout :: "externals \<Rightarrow> gty" where
  "PeerDBClusterStatus_layout X = TStruct
     [(''ObservedGeneration'', TPlain),
      (''Conditions'', TSlice (layout X XCondition)),
      (''Endpoints'', TPtr (EndpointStatus_layout X)),
      (''Upgrade'', TPtr (UpgradeStatus_layout X))]"

definition PeerDBCluster_layout :: "externals \<Rightarrow> gty" where
  "PeerDBCluster_layout X = TStruct
     [(''TypeMeta'', layout X XTypeMeta),
      (''ObjectMeta'', layout X XObjectMeta),
      (''Spec'', PeerDBClusterSpec_layout X),
      (''Status'', PeerDBClusterStatus_layout X)]"

definition PeerDBClusterList_layout :: "externals \<Rightarrow> gty" where
  "PeerDBClusterList_layout X = TStruct
     [(''TypeMeta'', layout X XTypeMeta),
      (''ListMeta'', layout X XListMeta),
      (''Items'', TSlice (PeerDBCluster_layout X))]"

definition AutoscalingSpec_layout :: "externals \<Rightarrow> gty" where
  "AutoscalingSpec_layout X = TStruct
     [(''Enabled'', TPlain),
      (''MinReplicas'', TPtr TPlain),
      (''MaxReplicas'', TPlain),
      (''TargetCPUUtilization'', TPtr TPlain)]"

definition PeerDBWorkerPoolSpec_layout :: "externals \<Rightarrow> gty" where
  "PeerDBWorkerPoolSpec_layout X = TStruct
     [(''ClusterRef'', TPlain),
      (''Image'', TPlain),
      (''Replicas'', TPtr TPlain),
      (''Resources'', layout X XResourceRequirements),
      (''TemporalTaskQueue'', TPlain),
      (''Autoscaling'', TPtr (AutoscalingSpec_layout X)),
      (''NodeSelector'', TMap),
      (''Tolerations'', TSlice (layout X XToleration)),
      (''Affinity'', TPtr (layout X XAffinity)),
      (''ExtraEnv'', TSlice (layout X XEnvVar)),
      (''PodAnnotations'', TMap),
      (''PodLabels'', TMap)]"

definition PeerDBWorkerPoolStatus_layout :: "externals \<Rightarrow> gty" where
  "PeerDBWorkerPoolStatus_layout X = TStruct
     [(''ObservedGeneration'', TPlain),
      (''Replicas'', TPlain),
      (''ReadyReplicas'', TPlain),
      (''Conditions'', TSlice (layout X XCondition))]"

definition PeerDBWorkerPool_layout :: "externals \<Rightarrow> gty" where
  "PeerDBWorkerPool_layout X = TStruct
     [(''TypeMeta'', layout X XTypeMeta),
      (''ObjectMeta'', layout X XObjectMeta),
      (''Spec'', PeerDBWorkerPoolSpec_layout X),
      (''Status'', PeerDBWorkerPoolStatus_layout X)]"

definition PeerDBWorkerPoolList_layout :: "externals \<Rightarrow> gty" where
  "PeerDBWorkerPoolList_layout X = TStruct
     [(''TypeMeta'', layout X XTypeMeta),
      (''ListMeta'', layout X XListMeta),
      (''Items'', TSlice (PeerDBWorkerPool_layout X))]"

definition SnapshotPoolStorageSpec_layout :: "externals \<Rightarrow> gty" where
  "SnapshotPoolStorageSpec_layout X = TStruct
     [(''Size'', layout X XQuantity),
      (''StorageClassName'', TPtr TPlain)]"

definition PeerDBSnapshotPoolSpec_layout :: "externals \<Rightarrow> gty" where
  "PeerDBSnapshotPoolSpec_layout X = TStruct
     [(''ClusterRef'', TPlain),
      (''Image'', TPlain),
      (''Replicas'', TPtr TPlain),
      (''Resources'', layout X XResourceRequirements),
      (''Storage'', SnapshotPoolStorageSpec_layout X),
      (''TerminationGracePeriodSeconds'', TPtr TPlain),
      (''NodeSelector'', TMap),
      (''Tolerations'', TSlice (layout X XToleration)),
      (''Affinity'', TPtr (layout X XAffinity)),
      (''ExtraEnv'', TSlice (layout X XEnvVar)),
      (''PodAnnotations'', TMap),
      (''PodLabels'', TMap)]"

definition PeerDBSnapshotPoolStatus_layout :: "externals \<Rightarrow> gty" where
  "PeerDBSnapshotPoolStatus_layout X = TStruct
     [(''ObservedGeneration'', TPlain),
      (''Replicas'', TPlain),
      (''ReadyReplicas'', TPlain),
      (''Conditions'', TSlice (layout X XCondition))]"

definition PeerDBSnapshotPool_layout :: "externals \<Rightarrow> gty" where
  "PeerDBSnapshotPool_layout X = TStruct
     [(''TypeMeta'', layout X XTypeMeta),
      (''ObjectMeta'', layout X XObjectMeta),
      (''Spec'', PeerDBSnapshotPoolSpec_layout X),
      (''Status'', PeerDBSnapshotPoolStatus_layout X)]"

definition PeerDBSnapshotPoolList_layout :: "externals \<Rightarrow> gty" where
  "PeerDBSnapshotPoolList_layout X = TStruct
     [(''TypeMeta'', layout X XTypeMeta),
      (''ListMeta'', layout X XListMeta),
      (''Items'', TSlice (PeerDBSnapshotPool_layout X))]"

lemmas layout_defs =
  SecretKeySelector_layout_def
  ServiceSpec_layout_def
  ServiceAccountConfig_layout_def
  CatalogSpec_layout_def
  TemporalSpec_layout_def
  DependenciesSpec_layout_def
  FlowAPISpec_layout_def
  PeerDBServerSpec_layout_def
  UISpec_layout_def
  AuthProxyCredentials_layout_def
  AuthProxySpec_layout_def
  ComponentsSpec_layout_def
  InitJobSpec_layout_def
  InitSpec_layout_def
  MaintenanceSpec_layout_def
  MaintenanceWindow_layout_def
  UpgradeStatus_layout_def
  EndpointStatus_layout_def
  PeerDBClusterSpec_layout_def
  PeerDBClusterStatus_layout_def
  PeerDBCluster_layout_def
  PeerDBClusterList_layout_def
  AutoscalingSpec_layout_def
  PeerDBWorkerPoolSpec_layout_def
  PeerDBWorkerPoolStatus_layout_def
  PeerDBWorkerPool_layout_def
  PeerDBWorkerPoolList_layout_def
  SnapshotPoolStorageSpec_layout_def
  PeerDBSnapshotPoolSpec_layout_def
  PeerDBSnapshotPoolStatus_layout_def
  PeerDBSnapshotPool_layout_def
  PeerDBSnapshotPoolList_layout_def

end
