(* ===== verification/DeepCopy.thy ===== *)
theory DeepCopy
  imports ApiLayouts
begin

text \<open>
  The deep copies controller-gen generates for the API types (api/v1alpha1/zz\_generated.deepcopy.go),
  on the memory model of GoHeap and the layouts of ApiLayouts. The structs of
  k8s.io/api and k8s.io/apimachinery are parameters: their layouts are arbitrary, and of their copy
  functions only the contract \<open>deep_copier\<close> is assumed (locale \<open>external_copiers\<close>). The controllers
  take such copies as snapshots before they change a status in place.
\<close>

section \<open>The generated functions\<close>

text \<open>\<open>func (in *T) DeepCopy() *T\<close> is \<open>new_copy\<close> of \<open>DeepCopyInto\<close>: nil for nil, else a new object.\<close>

text \<open>\<open>if c := in.DeepCopy(); c != nil { return c }; return nil\<close>: no typed nil escapes as an object.\<close>

definition as_object :: "copier \<Rightarrow> copier" where
  "as_object c v h =
     (case c v h of
        (VPtr (Some a), h') \<Rightarrow> (VPtr (Some a), h')
      | (_, h') \<Rightarrow> (VPtr None, h'))"

definition SecretKeySelector_DeepCopyInto :: "externals \<Rightarrow> copier" where
  "SecretKeySelector_DeepCopyInto X = deep_copy_into
     []"

definition SecretKeySelector_DeepCopy :: "externals \<Rightarrow> copier" where
  "SecretKeySelector_DeepCopy X = new_copy (SecretKeySelector_DeepCopyInto X)"

definition ServiceSpec_DeepCopyInto :: "externals \<Rightarrow> copier" where
  "ServiceSpec_DeepCopyInto X = deep_copy_into
     [(''Port'', new_copy plain),
      (''Annotations'', map_copy)]"

definition ServiceSpec_DeepCopy :: "externals \<Rightarrow> copier" where
  "ServiceSpec_DeepCopy X = new_copy (ServiceSpec_DeepCopyInto X)"

definition ServiceAccountConfig_DeepCopyInto :: "externals \<Rightarrow> copier" where
  "ServiceAccountConfig_DeepCopyInto X = deep_copy_into
     [(''Annotations'', map_copy)]"

definition ServiceAccountConfig_DeepCopy :: "externals \<Rightarrow> copier" where
  "ServiceAccountConfig_DeepCopy X = new_copy (ServiceAccountConfig_DeepCopyInto X)"

definition CatalogSpec_DeepCopyInto :: "externals \<Rightarrow> copier" where
  "CatalogSpec_DeepCopyInto X = deep_copy_into
     [(''PasswordSecretRef'', plain)]"

definition CatalogSpec_DeepCopy :: "externals \<Rightarrow> copier" where
  "CatalogSpec_DeepCopy X = new_copy (CatalogSpec_DeepCopyInto X)"

definition TemporalSpec_DeepCopyInto :: "externals \<Rightarrow> copier" where
  "TemporalSpec_DeepCopyInto X = deep_copy_into
     [(''TLSSecretRef'', new_copy plain)]"

definition TemporalSpec_DeepCopy :: "externals \<Rightarrow> copier" where
  "TemporalSpec_DeepCopy X = new_copy (TemporalSpec_DeepCopyInto X)"

definition DependenciesSpec_DeepCopyInto :: "externals \<Rightarrow> copier" where
  "DependenciesSpec_DeepCopyInto X = deep_copy_into
     [(''Catalog'', plain),
      (''Temporal'', TemporalSpec_DeepCopyInto X)]"

definition DependenciesSpec_DeepCopy :: "externals \<Rightarrow> copier" where
  "DependenciesSpec_DeepCopy X = new_copy (DependenciesSpec_DeepCopyInto X)"

definition FlowAPISpec_DeepCopyInto :: "externals \<Rightarrow> copier" where
  "FlowAPISpec_DeepCopyInto X = deep_copy_into
     [(''Image'', new_copy plain),
      (''Replicas'', new_copy plain),
      (''Resources'', new_copy (intoX X XResourceRequirements)),
      (''Service'', new_copy (ServiceSpec_DeepCopyInto X))]"

definition FlowAPISpec_DeepCopy :: "externals \<Rightarrow> copier" where
  "FlowAPISpec_DeepCopy X = new_copy (FlowAPISpec_DeepCopyInto X)"

definition PeerDBServerSpec_DeepCopyInto :: "externals \<Rightarrow> copier" where
  "PeerDBServerSpec_DeepCopyInto X = deep_copy_into
     [(''Image'', new_copy plain),
      (''Replicas'', new_copy plain),
      (''Resources'', new_copy (intoX X XResourceRequirements)),
      (''Service'', new_copy (ServiceSpec_DeepCopyInto X)),
      (''PasswordSecretRef'', new_copy plain)]"

definition PeerDBServerSpec_DeepCopy :: "externals \<Rightarrow> copier" where
  "PeerDBServerSpec_DeepCopy X = new_copy (PeerDBServerSpec_DeepCopyInto X)"

definition UISpec_DeepCopyInto :: "externals \<Rightarrow> copier" where
  "UISpec_DeepCopyInto X = deep_copy_into
     [(''Image'', new_copy plain),
      (''Replicas'', new_copy plain),
      (''Resources'', new_copy (intoX X XResourceRequirements)),
      (''Service'', new_copy (ServiceSpec_DeepCopyInto X)),
      (''PasswordSecretRef'', new_copy plain),
      (''NextAuthSecretRef'', new_copy plain),
      (''NextAuthURL'', new_copy plain)]"

definition UISpec_DeepCopy :: "externals \<Rightarrow> copier" where
  "UISpec_DeepCopy X = new_copy (UISpec_DeepCopyInto X)"

definition AuthProxyCredentials_DeepCopyInto :: "externals \<Rightarrow> copier" where
  "AuthProxyCredentials_DeepCopyInto X = deep_copy_into
     [(''PasswordSecretRef'', plain)]"

definition AuthProxyCredentials_DeepCopy :: "externals \<Rightarrow> copier" where
  "AuthProxyCredentials_DeepCopy X = new_copy (AuthProxyCredentials_DeepCopyInto X)"

definition AuthProxySpec_DeepCopyInto :: "externals \<Rightarrow> copier" where
  "AuthProxySpec_DeepCopyInto X = deep_copy_into
     [(''Image'', new_copy plain),
      (''Replicas'', new_copy plain),
      (''Resources'', new_copy (intoX X XResourceRequirements)),
      (''Service'', new_copy (ServiceSpec_DeepCopyInto X)),
      (''Credentials'', plain)]"

definition AuthProxySpec_DeepCopy :: "externals \<Rightarrow> copier" where
  "AuthProxySpec_DeepCopy X = new_copy (AuthProxySpec_DeepCopyInto X)"

definition ComponentsSpec_DeepCopyInto :: "externals \<Rightarrow> copier" where
  "ComponentsSpec_DeepCopyInto X = deep_copy_into
     [(''FlowAPI'', new_copy (FlowAPISpec_DeepCopyInto X)),
      (''PeerDBServer'', new_copy (PeerDBServerSpec_DeepCopyInto X)),
      (''UI'', new_copy (UISpec_DeepCopyInto X)),
      (''AuthProxy'', new_copy (AuthProxySpec_DeepCopyInto X))]"

definition ComponentsSpec_DeepCopy :: "externals \<Rightarrow> copier" where
  "ComponentsSpec_DeepCopy X = new_copy (ComponentsSpec_DeepCopyInto X)"

definition InitJobSpec_DeepCopyInto :: "externals \<Rightarrow> copier" where
  "InitJobSpec_DeepCopyInto X = deep_copy_into
     [(''Enabled'', new_copy plain),
      (''Image'', new_copy plain),
      (''BackoffLimit'', new_copy plain),
      (''Resources'', new_copy (intoX X XResourceRequirements))]"

definition InitJobSpec_DeepCopy :: "externals \<Rightarrow> copier" where
  "InitJobSpec_DeepCopy X = new_copy (InitJobSpec_DeepCopyInto X)"

definition InitSpec_DeepCopyInto :: "externals \<Rightarrow> copier" where
  "InitSpec_DeepCopyInto X = deep_copy_into
     [(''TemporalNamespaceRegistration'', new_copy (InitJobSpec_DeepCopyInto X)),
      (''TemporalSearchAttributes'', new_copy (InitJobSpec_DeepCopyInto X))]"

definition InitSpec_DeepCopy :: "externals \<Rightarrow> copier" where
  "InitSpec_DeepCopy X = new_copy (InitSpec_DeepCopyInto X)"

definition MaintenanceSpec_DeepCopyInto :: "externals \<Rightarrow> copier" where
  "MaintenanceSpec_DeepCopyInto X = deep_copy_into
     [(''Image'', new_copy plain),
      (''BackoffLimit'', new_copy plain),
      (''Resources'', new_copy (intoX X XResourceRequirements))]"

definition MaintenanceSpec_DeepCopy :: "externals \<Rightarrow> copier" where
  "MaintenanceSpec_DeepCopy X = new_copy (MaintenanceSpec_DeepCopyInto X)"

definition MaintenanceWindow_DeepCopyInto :: "externals \<Rightarrow> copier" where
  "MaintenanceWindow_DeepCopyInto X = deep_copy_into
     [(''TimeZone'', new_copy plain)]"

definition MaintenanceWindow_DeepCopy :: "externals \<Rightarrow> copier" where
  "MaintenanceWindow_DeepCopy X = new_copy (MaintenanceWindow_DeepCopyInto X)"

definition UpgradeStatus_DeepCopyInto :: "externals \<Rightarrow> copier" where
  "UpgradeStatus_DeepCopyInto X = deep_copy_into
     [(''StartedAt'', timeDeepCopy X)]"

definition UpgradeStatus_DeepCopy :: "externals \<Rightarrow> copier" where
  "UpgradeStatus_DeepCopy X = new_copy (UpgradeStatus_DeepCopyInto X)"

definition EndpointStatus_DeepCopyInto :: "externals \<Rightarrow> copier" where
  "EndpointStatus_DeepCopyInto X = deep_copy_into
     []"

definition EndpointStatus_DeepCopy :: "externals \<Rightarrow> copier" where
  "EndpointStatus_DeepCopy X = new_copy (EndpointStatus_DeepCopyInto X)"

definition PeerDBClusterSpec_DeepCopyInto :: "externals \<Rightarrow> copier" where
  "PeerDBClusterSpec_DeepCopyInto X = deep_copy_into
     [(''ImagePullSecrets'', slice_copy plain),
      (''ServiceAccount'', new_copy (ServiceAccountConfig_DeepCopyInto X)),
      (''Dependencies'', DependenciesSpec_DeepCopyInto X),
      (''Components'', new_copy (ComponentsSpec_DeepCopyInto X)),
      (''Init'', new_copy (InitSpec_DeepCopyInto X)),
      (''UpgradePolicy'', new_copy plain),
      (''MaintenanceWindow'', new_copy (MaintenanceWindow_DeepCopyInto X)),
      (''Maintenance'', new_copy (MaintenanceSpec_DeepCopyInto X))]"

definition PeerDBClusterSpec_DeepCopy :: "externals \<Rightarrow> copier" where
  "PeerDBClusterSpec_DeepCopy X = new_copy (PeerDBClusterSpec_DeepCopyInto X)"

definition PeerDBClusterStatus_DeepCopyInto :: "externals \<Rightarrow> copier" where
  "PeerDBClusterStatus_DeepCopyInto X = deep_copy_into
     [(''Conditions'', slice_copy (intoX X XCondition)),
      (''Endpoints'', new_copy plain),
      (''Upgrade'', new_copy (UpgradeStatus_DeepCopyInto X))]"

definition PeerDBClusterStatus_DeepCopy :: "externals \<Rightarrow> copier" where
  "PeerDBClusterStatus_DeepCopy X = new_copy (PeerDBClusterStatus_DeepCopyInto X)"

definition PeerDBCluster_DeepCopyInto :: "externals \<Rightarrow> copier" where
  "PeerDBCluster_DeepCopyInto X = deep_copy_into
     [(''TypeMeta'', plain),
      (''ObjectMeta'', intoX X XObjectMeta),
      (''Spec'', PeerDBClusterSpec_DeepCopyInto X),
      (''Status'', PeerDBClusterStatus_DeepCopyInto X)]"

definition PeerDBCluster_DeepCopy :: "externals \<Rightarrow> copier" where
  "PeerDBCluster_DeepCopy X = new_copy (PeerDBCluster_DeepCopyInto X)"

definition PeerDBCluster_DeepCopyObject :: "externals \<Rightarrow> copier" where
  "PeerDBCluster_DeepCopyObject X = as_object (PeerDBCluster_DeepCopy X)"

definition PeerDBClusterList_DeepCopyInto :: "externals \<Rightarrow> copier" where
  "PeerDBClusterList_DeepCopyInto X = deep_copy_into
     [(''TypeMeta'', plain),
      (''ListMeta'', intoX X XListMeta),
      (''Items'', slice_copy (PeerDBCluster_DeepCopyInto X))]"

definition PeerDBClusterList_DeepCopy :: "externals \<Rightarrow> copier" where
  "PeerDBClusterList_DeepCopy X = new_copy (PeerDBClusterList_DeepCopyInto X)"

definition PeerDBClusterList_DeepCopyObject :: "externals \<Rightarrow> copier" where
  "PeerDBClusterList_DeepCopyObject X = as_object (PeerDBClusterList_DeepCopy X)"

definition AutoscalingSpec_DeepCopyInto :: "externals \<Rightarrow> copier" where
  "AutoscalingSpec_DeepCopyInto X = deep_copy_into
     [(''MinReplicas'', new_copy plain),
      (''TargetCPUUtilization'', new_copy plain)]"

definition AutoscalingSpec_DeepCopy :: "externals \<Rightarrow> copier" where
  "AutoscalingSpec_DeepCopy X = new_copy (AutoscalingSpec_DeepCopyInto X)"

definition PeerDBWorkerPoolSpec_DeepCopyInto :: "externals \<Rightarrow> copier" where
  "PeerDBWorkerPoolSpec_DeepCopyInto X = deep_copy_into
     [(''Replicas'', new_copy plain),
      (''Resources'', intoX X XResourceRequirements),
      (''Autoscaling'', new_copy (AutoscalingSpec_DeepCopyInto X)),
      (''NodeSelector'', map_copy),
      (''Tolerations'', slice_copy (intoX X XToleration)),
      (''Affinity'', new_copy (intoX X XAffinity)),
      (''ExtraEnv'', slice_copy (intoX X XEnvVar)),
      (''PodAnnotations'', map_copy),
      (''PodLabels'', map_copy)]"

definition PeerDBWorkerPoolSpec_DeepCopy :: "externals \<Rightarrow> copier" where
  "PeerDBWorkerPoolSpec_DeepCopy X = new_copy (PeerDBWorkerPoolSpec_DeepCopyInto X)"

definition PeerDBWorkerPoolStatus_DeepCopyInto :: "externals \<Rightarrow> copier" where
  "PeerDBWorkerPoolStatus_DeepCopyInto X = deep_copy_into
     [(''Conditions'', slice_copy (intoX X XCondition))]"

definition PeerDBWorkerPoolStatus_DeepCopy :: "externals \<Rightarrow> copier" where
  "PeerDBWorkerPoolStatus_DeepCopy X = new_copy (PeerDBWorkerPoolStatus_DeepCopyInto X)"

definition PeerDBWorkerPool_DeepCopyInto :: "externals \<Rightarrow> copier" where
  "PeerDBWorkerPool_DeepCopyInto X = deep_copy_into
     [(''TypeMeta'', plain),
      (''ObjectMeta'', intoX X XObjectMeta),
      (''Spec'', PeerDBWorkerPoolSpec_DeepCopyInto X),
      (''Status'', PeerDBWorkerPoolStatus_DeepCopyInto X)]"

definition PeerDBWorkerPool_DeepCopy :: "externals \<Rightarrow> copier" where
  "PeerDBWorkerPool_DeepCopy X = new_copy (PeerDBWorkerPool_DeepCopyInto X)"

definition PeerDBWorkerPool_DeepCopyObject :: "externals \<Rightarrow> copier" where
  "PeerDBWorkerPool_DeepCopyObject X = as_object (PeerDBWorkerPool_DeepCopy X)"

definition PeerDBWorkerPoolList_DeepCopyInto :: "externals \<Rightarrow> copier" where
  "PeerDBWorkerPoolList_DeepCopyInto X = deep_copy_into
     [(''TypeMeta'', plain),
      (''ListMeta'', intoX X XListMeta),
      (''Items'', slice_copy (PeerDBWorkerPool_DeepCopyInto X))]"

definition PeerDBWorkerPoolList_DeepCopy :: "externals \<Rightarrow> copier" where
  "PeerDBWorkerPoolList_DeepCopy X = new_copy (PeerDBWorkerPoolList_DeepCopyInto X)"

definition PeerDBWorkerPoolList_DeepCopyObject :: "externals \<Rightarrow> copier" where
  "PeerDBWorkerPoolList_DeepCopyObject X = as_object (PeerDBWorkerPoolList_DeepCopy X)"

definition SnapshotPoolStorageSpec_DeepCopyInto :: "externals \<Rightarrow> copier" where
  "SnapshotPoolStorageSpec_DeepCopyInto X = deep_copy_into
     [(''Size'', quantityDeepCopy X),
      (''StorageClassName'', new_copy plain)]"

definition SnapshotPoolStorageSpec_DeepCopy :: "externals \<Rightarrow> copier" where
  "SnapshotPoolStorageSpec_DeepCopy X = new_copy (SnapshotPoolStorageSpec_DeepCopyInto X)"

definition PeerDBSnapshotPoolSpec_DeepCopyInto :: "externals \<Rightarrow> copier" where
  "PeerDBSnapshotPoolSpec_DeepCopyInto X = deep_copy_into
     [(''Replicas'', new_copy plain),
      (''Resources'', intoX X XResourceRequirements),
      (''Storage'', SnapshotPoolStorageSpec_DeepCopyInto X),
      (''TerminationGracePeriodSeconds'', new_copy plain),
      (''NodeSelector'', map_copy),
      (''Tolerations'', slice_copy (intoX X XToleration)),
      (''Affinity'', new_copy (intoX X XAffinity)),
      (''ExtraEnv'', slice_copy (intoX X XEnvVar)),
      (''PodAnnotations'', map_copy),
      (''PodLabels'', map_copy)]"

definition PeerDBSnapshotPoolSpec_DeepCopy :: "externals \<Rightarrow> copier" where
  "PeerDBSnapshotPoolSpec_DeepCopy X = new_copy (PeerDBSnapshotPoolSpec_DeepCopyInto X)"

definition PeerDBSnapshotPoolStatus_DeepCopyInto :: "externals \<Rightarrow> copier" where
  "PeerDBSnapshotPoolStatus_DeepCopyInto X = deep_copy_into
     [(''Conditions'', slice_copy (intoX X XCondition))]"

definition PeerDBSnapshotPoolStatus_DeepCopy :: "externals \<Rightarrow> copier" where
  "PeerDBSnapshotPoolStatus_DeepCopy X = new_copy (PeerDBSnapshotPoolStatus_DeepCopyInto X)"

definition PeerDBSnapshotPool_DeepCopyInto :: "externals \<Rightarrow> copier" where
  "PeerDBSnapshotPool_DeepCopyInto X = deep_copy_into
     [(''TypeMeta'', plain),
      (''ObjectMeta'', intoX X XObjectMeta),
      (''Spec'', PeerDBSnapshotPoolSpec_DeepCopyInto X),
      (''Status'', PeerDBSnapshotPoolStatus_DeepCopyInto X)]"

definition PeerDBSnapshotPool_DeepCopy :: "externals \<Rightarrow> copier" where
  "PeerDBSnapshotPool_DeepCopy X = new_copy (PeerDBSnapshotPool_DeepCopyInto X)"

definition PeerDBSnapshotPool_DeepCopyObject :: "externals \<Rightarrow> copier" where
  "PeerDBSnapshotPool_DeepCopyObject X = as_object (PeerDBSnapshotPool_DeepCopy X)"

definition PeerDBSnapshotPoolList_DeepCopyInto :: "externals \<Rightarrow> copier" where
  "PeerDBSnapshotPoolList_DeepCopyInto X = deep_copy_into
     [(''TypeMeta'', plain),
      (''ListMeta'', intoX X XListMeta),
      (''Items'', slice_copy (PeerDBSnapshotPool_DeepCopyInto X))]"

definition PeerDBSnapshotPoolList_DeepCopy :: "externals \<Rightarrow> copier" where
  "PeerDBSnapshotPoolList_DeepCopy X = new_copy (PeerDBSnapshotPoolList_DeepCopyInto X)"

definition PeerDBSnapshotPoolList_DeepCopyObject :: "externals \<Rightarrow> copier" where
  "PeerDBSnapshotPoolList_DeepCopyObject X = as_object (PeerDBSnapshotPoolList_DeepCopy X)"

text \<open>All types with their layout and copy functions.\<close>

definition api_copiers :: "externals \<Rightarrow> (string \<times> gty \<times> copier \<times> copier) list" where
  "api_copiers X =
     [(''SecretKeySelector'', SecretKeySelector_layout X, SecretKeySelector_DeepCopyInto X, SecretKeySelector_DeepCopy X),
      (''ServiceSpec'', ServiceSpec_layout X, ServiceSpec_DeepCopyInto X, ServiceSpec_DeepCopy X),
      (''ServiceAccountConfig'', ServiceAccountConfig_layout X, ServiceAccountConfig_DeepCopyInto X, ServiceAccountConfig_DeepCopy X),
      (''CatalogSpec'', CatalogSpec_layout X, CatalogSpec_DeepCopyInto X, CatalogSpec_DeepCopy X),
      (''TemporalSpec'', TemporalSpec_layout X, TemporalSpec_DeepCopyInto X, TemporalSpec_DeepCopy X),
      (''DependenciesSpec'', DependenciesSpec_layout X, DependenciesSpec_DeepCopyInto X, DependenciesSpec_DeepCopy X),
      (''FlowAPISpec'', FlowAPISpec_layout X, FlowAPISpec_DeepCopyInto X, FlowAPISpec_DeepCopy X),
      (''PeerDBServerSpec'', PeerDBServerSpec_layout X, PeerDBServerSpec_DeepCopyInto X, PeerDBServerSpec_DeepCopy X),
      (''UISpec'', UISpec_layout X, UISpec_DeepCopyInto X, UISpec_DeepCopy X),
      (''AuthProxyCredentials'', AuthProxyCredentials_layout X, AuthProxyCredentials_DeepCopyInto X, AuthProxyCredentials_DeepCopy X),
      (''AuthProxySpec'', AuthProxySpec_layout X, AuthProxySpec_DeepCopyInto X, AuthProxySpec_DeepCopy X),
      (''ComponentsSpec'', ComponentsSpec_layout X, ComponentsSpec_DeepCopyInto X, ComponentsSpec_DeepCopy X),
      (''InitJobSpec'', InitJobSpec_layout X, InitJobSpec_DeepCopyInto X, InitJobSpec_DeepCopy X),
      (''InitSpec'', InitSpec_layout X, InitSpec_DeepCopyInto X, InitSpec_DeepCopy X),
      (''MaintenanceSpec'', MaintenanceSpec_layout X, MaintenanceSpec_DeepCopyInto X, MaintenanceSpec_DeepCopy X),
      (''MaintenanceWindow'', MaintenanceWindow_layout X, MaintenanceWindow_DeepCopyInto X, MaintenanceWindow_DeepCopy X),
      (''UpgradeStatus'', UpgradeStatus_layout X, UpgradeStatus_DeepCopyInto X, UpgradeStatus_DeepCopy X),
      (''EndpointStatus'', EndpointStatus_layout X, EndpointStatus_DeepCopyInto X, EndpointStatus_DeepCopy X),
      (''PeerDBClusterSpec'', PeerDBClusterSpec_layout X, PeerDBClusterSpec_DeepCopyInto X, PeerDBClusterSpec_DeepCopy X),
      (''PeerDBClusterStatus'', PeerDBClusterStatus_layout X, PeerDBClusterStatus_DeepCopyInto X, PeerDBClusterStatus_DeepCopy X),
      (''PeerDBCluster'', PeerDBCluster_layout X, PeerDBCluster_DeepCopyInto X, PeerDBCluster_DeepCopy X),
      (''PeerDBClusterList'', PeerDBClusterList_layout X, PeerDBClusterList_DeepCopyInto X, PeerDBClusterList_DeepCopy X),
      (''AutoscalingSpec'', AutoscalingSpec_layout X, AutoscalingSpec_DeepCopyInto X, AutoscalingSpec_DeepCopy X),
      (''PeerDBWorkerPoolSpec'', PeerDBWorkerPoolSpec_layout X, PeerDBWorkerPoolSpec_DeepCopyInto X, PeerDBWorkerPoolSpec_DeepCopy X),
      (''PeerDBWorkerPoolStatus'', PeerDBWorkerPoolStatus_layout X, PeerDBWorkerPoolStatus_DeepCopyInto X, PeerDBWorkerPoolStatus_DeepCopy X),
      (''PeerDBWorkerPool'', PeerDBWorkerPool_layout X, PeerDBWorkerPool_DeepCopyInto X, PeerDBWorkerPool_DeepCopy X),
      (''PeerDBWorkerPoolList'', PeerDBWorkerPoolList_layout X, PeerDBWorkerPoolList_DeepCopyInto X, PeerDBWorkerPoolList_DeepCopy X),
      (''SnapshotPoolStorageSpec'', SnapshotPoolStorageSpec_layout X, SnapshotPoolStorageSpec_DeepCopyInto X, SnapshotPoolStorageSpec_DeepCopy X),
      (''PeerDBSnapshotPoolSpec'', PeerDBSnapshotPoolSpec_layout X, PeerDBSnapshotPoolSpec_DeepCopyInto X, PeerDBSnapshotPoolSpec_DeepCopy X),
      (''PeerDBSnapshotPoolStatus'', PeerDBSnapshotPoolStatus_layout X, PeerDBSnapshotPoolStatus_DeepCopyInto X, PeerDBSnapshotPoolStatus_DeepCopy X),
      (''PeerDBSnapshotPool'', PeerDBSnapshotPool_layout X, PeerDBSnapshotPool_DeepCopyInto X, PeerDBSnapshotPool_DeepCopy X),
      (''PeerDBSnapshotPoolList'', PeerDBSnapshotPoolList_layout X, PeerDBSnapshotPoolList_DeepCopyInto X, PeerDBSnapshotPoolList_DeepCopy X)]"

lemmas into_defs =
  SecretKeySelector_DeepCopyInto_def
  ServiceSpec_DeepCopyInto_def
  ServiceAccountConfig_DeepCopyInto_def
  CatalogSpec_DeepCopyInto_def
  TemporalSpec_DeepCopyInto_def
  DependenciesSpec_DeepCopyInto_def
  FlowAPISpec_DeepCopyInto_def
  PeerDBServerSpec_DeepCopyInto_def
  UISpec_DeepCopyInto_def
  AuthProxyCredentials_DeepCopyInto_def
  AuthProxySpec_DeepCopyInto_def
  ComponentsSpec_DeepCopyInto_def
  InitJobSpec_DeepCopyInto_def
  InitSpec_DeepCopyInto_def
  MaintenanceSpec_DeepCopyInto_def
  MaintenanceWindow_DeepCopyInto_def
  UpgradeStatus_DeepCopyInto_def
  EndpointStatus_DeepCopyInto_def
  PeerDBClusterSpec_DeepCopyInto_def
  PeerDBClusterStatus_DeepCopyInto_def
  PeerDBCluster_DeepCopyInto_def
  PeerDBClusterList_DeepCopyInto_def
  AutoscalingSpec_DeepCopyInto_def
  PeerDBWorkerPoolSpec_DeepCopyInto_def
  PeerDBWorkerPoolStatus_DeepCopyInto_def
  PeerDBWorkerPool_DeepCopyInto_def
  PeerDBWorkerPoolList_DeepCopyInto_def
  SnapshotPoolStorageSpec_DeepCopyInto_def
  PeerDBSnapshotPoolSpec_DeepCopyInto_def
  PeerDBSnapshotPoolStatus_DeepCopyInto_def
  PeerDBSnapshotPool_DeepCopyInto_def
  PeerDBSnapshotPoolList_DeepCopyInto_def

lemmas copy_defs =
  SecretKeySelector_DeepCopy_def
  ServiceSpec_DeepCopy_def
  ServiceAccountConfig_DeepCopy_def
  CatalogSpec_DeepCopy_def
  TemporalSpec_DeepCopy_def
  DependenciesSpec_DeepCopy_def
  FlowAPISpec_DeepCopy_def
  PeerDBServerSpec_DeepCopy_def
  UISpec_DeepCopy_def
  AuthProxyCredentials_DeepCopy_def
  AuthProxySpec_DeepCopy_def
  ComponentsSpec_DeepCopy_def
  InitJobSpec_DeepCopy_def
  InitSpec_DeepCopy_def
  MaintenanceSpec_DeepCopy_def
  MaintenanceWindow_DeepCopy_def
  UpgradeStatus_DeepCopy_def
  EndpointStatus_DeepCopy_def
  PeerDBClusterSpec_DeepCopy_def
  PeerDBClusterStatus_DeepCopy_def
  PeerDBCluster_DeepCopy_def
  PeerDBClusterList_DeepCopy_def
  AutoscalingSpec_DeepCopy_def
  PeerDBWorkerPoolSpec_DeepCopy_def
  PeerDBWorkerPoolStatus_DeepCopy_def
  PeerDBWorkerPool_DeepCopy_def
  PeerDBWorkerPoolList_DeepCopy_def
  SnapshotPoolStorageSpec_DeepCopy_def
  PeerDBSnapshotPoolSpec_DeepCopy_def
  PeerDBSnapshotPoolStatus_DeepCopy_def
  PeerDBSnapshotPool_DeepCopy_def
  PeerDBSnapshotPoolList_DeepCopy_def

section \<open>Every copy is deep\<close>

text \<open>
  What the generated code relies on: the copy functions of the imported structs are deep, and the two
  structs it copies by assignment hold no references.
\<close>

locale external_copiers =
  fixes X :: externals
  assumes into_deep: "deep_copier (layout X e) (intoX X e)"
    and quantity_deep: "deep_copier (layout X XQuantity) (quantityDeepCopy X)"
    and time_deep: "deep_copier (TPtr (layout X XTime)) (timeDeepCopy X)"
    and flat_structs: "flat (layout X XTypeMeta)" "flat (layout X XLocalObjectReference)"
begin

lemmas copier_rules = deep_plain deep_new_copy deep_map_copy deep_slice_copy into_deep quantity_deep time_deep

lemma SecretKeySelector_deep: "deep_copier (SecretKeySelector_layout X) (SecretKeySelector_DeepCopyInto X)"
  unfolding SecretKeySelector_layout_def SecretKeySelector_DeepCopyInto_def
  by (rule deep_struct) (simp add: field_copier_def copier_rules flat_structs)

lemma ServiceSpec_deep: "deep_copier (ServiceSpec_layout X) (ServiceSpec_DeepCopyInto X)"
  unfolding ServiceSpec_layout_def ServiceSpec_DeepCopyInto_def
  by (rule deep_struct) (simp add: field_copier_def copier_rules flat_structs)

lemma ServiceAccountConfig_deep: "deep_copier (ServiceAccountConfig_layout X) (ServiceAccountConfig_DeepCopyInto X)"
  unfolding ServiceAccountConfig_layout_def ServiceAccountConfig_DeepCopyInto_def
  by (rule deep_struct) (simp add: field_copier_def copier_rules flat_structs)

lemma CatalogSpec_deep: "deep_copier (CatalogSpec_layout X) (CatalogSpec_DeepCopyInto X)"
  unfolding CatalogSpec_layout_def CatalogSpec_DeepCopyInto_def
  by (rule deep_struct) (simp add: field_copier_def copier_rules flat_structs SecretKeySelector_layout_def)

lemma TemporalSpec_deep: "deep_copier (TemporalSpec_layout X) (TemporalSpec_DeepCopyInto X)"
  unfolding TemporalSpec_layout_def TemporalSpec_DeepCopyInto_def
  by (rule deep_struct) (simp add: field_copier_def copier_rules flat_structs SecretKeySelector_layout_def)

lemma DependenciesSpec_deep: "deep_copier (DependenciesSpec_layout X) (DependenciesSpec_DeepCopyInto X)"
  unfolding DependenciesSpec_layout_def DependenciesSpec_DeepCopyInto_def
  by (rule deep_struct) (simp add: field_copier_def copier_rules flat_structs TemporalSpec_deep CatalogSpec_layout_def SecretKeySelector_layout_def)

lemma FlowAPISpec_deep: "deep_copier (FlowAPISpec_layout X) (FlowAPISpec_DeepCopyInto X)"
  unfolding FlowAPISpec_layout_def FlowAPISpec_DeepCopyInto_def
  by (rule deep_struct) (simp add: field_copier_def copier_rules flat_structs ServiceSpec_deep)

lemma PeerDBServerSpec_deep: "deep_copier (PeerDBServerSpec_layout X) (PeerDBServerSpec_DeepCopyInto X)"
  unfolding PeerDBServerSpec_layout_def PeerDBServerSpec_DeepCopyInto_def
  by (rule deep_struct) (simp add: field_copier_def copier_rules flat_structs ServiceSpec_deep SecretKeySelector_layout_def)

lemma UISpec_deep: "deep_copier (UISpec_layout X) (UISpec_DeepCopyInto X)"
  unfolding UISpec_layout_def UISpec_DeepCopyInto_def
  by (rule deep_struct) (simp add: field_copier_def copier_rules flat_structs ServiceSpec_deep SecretKeySelector_layout_def)

lemma AuthProxyCredentials_deep: "deep_copier (AuthProxyCredentials_layout X) (AuthProxyCredentials_DeepCopyInto X)"
  unfolding AuthProxyCredentials_layout_def AuthProxyCredentials_DeepCopyInto_def
  by (rule deep_struct) (simp add: field_copier_def copier_rules flat_structs SecretKeySelector_layout_def)

lemma AuthProxySpec_deep: "deep_copier (AuthProxySpec_layout X) (AuthProxySpec_DeepCopyInto X)"
  unfolding AuthProxySpec_layout_def AuthProxySpec_DeepCopyInto_def
  by (rule deep_struct) (simp add: field_copier_def copier_rules flat_structs ServiceSpec_deep AuthProxyCredentials_layout_def SecretKeySelector_layout_def)

lemma ComponentsSpec_deep: "deep_copier (ComponentsSpec_layout X) (ComponentsSpec_DeepCopyInto X)"
  unfolding ComponentsSpec_layout_def ComponentsSpec_DeepCopyInto_def
  by (rule deep_struct) (simp add: field_copier_def copier_rules flat_structs FlowAPISpec_deep PeerDBServerSpec_deep UISpec_deep AuthProxySpec_deep)

lemma InitJobSpec_deep: "deep_copier (InitJobSpec_layout X) (InitJobSpec_DeepCopyInto X)"
  unfolding InitJobSpec_layout_def InitJobSpec_DeepCopyInto_def
  by (rule deep_struct) (simp add: field_copier_def copier_rules flat_structs)

lemma InitSpec_deep: "deep_copier (InitSpec_layout X) (InitSpec_DeepCopyInto X)"
  unfolding InitSpec_layout_def InitSpec_DeepCopyInto_def
  by (rule deep_struct) (simp add: field_copier_def copier_rules flat_structs InitJobSpec_deep)

lemma MaintenanceSpec_deep: "deep_copier (MaintenanceSpec_layout X) (MaintenanceSpec_DeepCopyInto X)"
  unfolding MaintenanceSpec_layout_def MaintenanceSpec_DeepCopyInto_def
  by (rule deep_struct) (simp add: field_copier_def copier_rules flat_structs)

lemma MaintenanceWindow_deep: "deep_copier (MaintenanceWindow_layout X) (MaintenanceWindow_DeepCopyInto X)"
  unfolding MaintenanceWindow_layout_def MaintenanceWindow_DeepCopyInto_def
  by (rule deep_struct) (simp add: field_copier_def copier_rules flat_structs)

lemma UpgradeStatus_deep: "deep_copier (UpgradeStatus_layout X) (UpgradeStatus_DeepCopyInto X)"
  unfolding UpgradeStatus_layout_def UpgradeStatus_DeepCopyInto_def
  by (rule deep_struct) (simp add: field_copier_def copier_rules flat_structs)

lemma EndpointStatus_deep: "deep_copier (EndpointStatus_layout X) (EndpointStatus_DeepCopyInto X)"
  unfolding EndpointStatus_layout_def EndpointStatus_DeepCopyInto_def
  by (rule deep_struct) (simp add: field_copier_def copier_rules flat_structs)

lemma PeerDBClusterSpec_deep: "deep_copier (PeerDBClusterSpec_layout X) (PeerDBClusterSpec_DeepCopyInto X)"
  unfolding PeerDBClusterSpec_layout_def PeerDBClusterSpec_DeepCopyInto_def
  by (rule deep_struct) (simp add: field_copier_def copier_rules flat_structs ServiceAccountConfig_deep DependenciesSpec_deep ComponentsSpec_deep InitSpec_deep MaintenanceWindow_deep MaintenanceSpec_deep)

lemma PeerDBClusterStatus_deep: "deep_copier (PeerDBClusterStatus_layout X) (PeerDBClusterStatus_DeepCopyInto X)"
  unfolding PeerDBClusterStatus_layout_def PeerDBClusterStatus_DeepCopyInto_def
  by (rule deep_struct) (simp add: field_copier_def copier_rules flat_structs UpgradeStatus_deep EndpointStatus_layout_def)

lemma PeerDBCluster_deep: "deep_copier (PeerDBCluster_layout X) (PeerDBCluster_DeepCopyInto X)"
  unfolding PeerDBCluster_layout_def PeerDBCluster_DeepCopyInto_def
  by (rule deep_struct) (simp add: field_copier_def copier_rules flat_structs PeerDBClusterSpec_deep PeerDBClusterStatus_deep)

lemma PeerDBClusterList_deep: "deep_copier (PeerDBClusterList_layout X) (PeerDBClusterList_DeepCopyInto X)"
  unfolding PeerDBClusterList_layout_def PeerDBClusterList_DeepCopyInto_def
  by (rule deep_struct) (simp add: field_copier_def copier_rules flat_structs PeerDBCluster_deep)

lemma AutoscalingSpec_deep: "deep_copier (AutoscalingSpec_layout X) (AutoscalingSpec_DeepCopyInto X)"
  unfolding AutoscalingSpec_layout_def AutoscalingSpec_DeepCopyInto_def
  by (rule deep_struct) (simp add: field_copier_def copier_rules flat_structs)

lemma PeerDBWorkerPoolSpec_deep: "deep_copier (PeerDBWorkerPoolSpec_layout X) (PeerDBWorkerPoolSpec_DeepCopyInto X)"
  unfolding PeerDBWorkerPoolSpec_layout_def PeerDBWorkerPoolSpec_DeepCopyInto_def
  by (rule deep_struct) (simp add: field_copier_def copier_rules flat_structs AutoscalingSpec_deep)

lemma PeerDBWorkerPoolStatus_deep: "deep_copier (PeerDBWorkerPoolStatus_layout X) (PeerDBWorkerPoolStatus_DeepCopyInto X)"
  unfolding PeerDBWorkerPoolStatus_layout_def PeerDBWorkerPoolStatus_DeepCopyInto_def
  by (rule deep_struct) (simp add: field_copier_def copier_rules flat_structs)

lemma PeerDBWorkerPool_deep: "deep_copier (PeerDBWorkerPool_layout X) (PeerDBWorkerPool_DeepCopyInto X)"
  unfolding PeerDBWorkerPool_layout_def PeerDBWorkerPool_DeepCopyInto_def
  by (rule deep_struct) (simp add: field_copier_def copier_rules flat_structs PeerDBWorkerPoolSpec_deep PeerDBWorkerPoolStatus_deep)

lemma PeerDBWorkerPoolList_deep: "deep_copier (PeerDBWorkerPoolList_layout X) (PeerDBWorkerPoolList_DeepCopyInto X)"
  unfolding PeerDBWorkerPoolList_layout_def PeerDBWorkerPoolList_DeepCopyInto_def
  by (rule deep_struct) (simp add: field_copier_def copier_rules flat_structs PeerDBWorkerPool_deep)

lemma SnapshotPoolStorageSpec_deep: "deep_copier (SnapshotPoolStorageSpec_layout X) (SnapshotPoolStorageSpec_DeepCopyInto X)"
  unfolding SnapshotPoolStorageSpec_layout_def SnapshotPoolStorageSpec_DeepCopyInto_def
  by (rule deep_struct) (simp add: field_copier_def copier_rules flat_structs)

lemma PeerDBSnapshotPoolSpec_deep: "deep_copier (PeerDBSnapshotPoolSpec_layout X) (PeerDBSnapshotPoolSpec_DeepCopyInto X)"
  unfolding PeerDBSnapshotPoolSpec_layout_def PeerDBSnapshotPoolSpec_DeepCopyInto_def
  by (rule deep_struct) (simp add: field_copier_def copier_rules flat_structs SnapshotPoolStorageSpec_deep)

lemma PeerDBSnapshotPoolStatus_deep: "deep_copier (PeerDBSnapshotPoolStatus_layout X) (PeerDBSnapshotPoolStatus_DeepCopyInto X)"
  unfolding PeerDBSnapshotPoolStatus_layout_def PeerDBSnapshotPoolStatus_DeepCopyInto_def
  by (rule deep_struct) (simp add: field_copier_def copier_rules flat_structs)

lemma PeerDBSnapshotPool_deep: "deep_copier (PeerDBSnapshotPool_layout X) (PeerDBSnapshotPool_DeepCopyInto X)"
  unfolding PeerDBSnapshotPool_layout_def PeerDBSnapshotPool_DeepCopyInto_def
  by (rule deep_struct) (simp add: field_copier_def copier_rules flat_structs PeerDBSnapshotPoolSpec_deep PeerDBSnapshotPoolStatus_deep)

lemma PeerDBSnapshotPoolList_deep: "deep_copier (PeerDBSnapshotPoolList_layout X) (PeerDBSnapshotPoolList_DeepCopyInto X)"
  unfolding PeerDBSnapshotPoolList_layout_def PeerDBSnapshotPoolList_DeepCopyInto_def
  by (rule deep_struct) (simp add: field_copier_def copier_rules flat_structs PeerDBSnapshotPool_deep)

lemmas api_deep =
  SecretKeySelector_deep
  ServiceSpec_deep
  ServiceAccountConfig_deep
  CatalogSpec_deep
  TemporalSpec_deep
  DependenciesSpec_deep
  FlowAPISpec_deep
  PeerDBServerSpec_deep
  UISpec_deep
  AuthProxyCredentials_deep
  AuthProxySpec_deep
  ComponentsSpec_deep
  InitJobSpec_deep
  InitSpec_deep
  MaintenanceSpec_deep
  MaintenanceWindow_deep
  UpgradeStatus_deep
  EndpointStatus_deep
  PeerDBClusterSpec_deep
  PeerDBClusterStatus_deep
  PeerDBCluster_deep
  PeerDBClusterList_deep
  AutoscalingSpec_deep
  PeerDBWorkerPoolSpec_deep
  PeerDBWorkerPoolStatus_deep
  PeerDBWorkerPool_deep
  PeerDBWorkerPoolList_deep
  SnapshotPoolStorageSpec_deep
  PeerDBSnapshotPoolSpec_deep
  PeerDBSnapshotPoolStatus_deep
  PeerDBSnapshotPool_deep
  PeerDBSnapshotPoolList_deep

lemma api_copiers_deep: "list_all (\<lambda>(_, t, into, copy). deep_copier t into \<and> deep_copier (TPtr t) copy) (api_copiers X)"
  by (simp add: api_copiers_def copy_defs api_deep deep_new_copy)

end

text \<open>
  The contract can be met for all layouts with distinct field names, by copiers that follow the
  layout.
\<close>

definition ref_externals :: "(ext \<Rightarrow> gty) \<Rightarrow> externals" where
  "ref_externals L =
     \<lparr>layout = L, intoX = (\<lambda>e. copy_of (L e)), quantityDeepCopy = copy_of (L XQuantity),
      timeDeepCopy = copy_of (TPtr (L XTime))\<rparr>"

text \<open>
  Layouts for the examples, with the references the Kubernetes structs have where the operator uses
  them: the time of a condition, the seconds of a toleration, the labels of an object.
\<close>

definition sample_layout :: "ext \<Rightarrow> gty" where
  "sample_layout e =
     (case e of
        XCondition \<Rightarrow> TStruct [(''Type'', TPlain), (''Status'', TPlain), (''Reason'', TPlain), (''Message'', TPlain)]
      | XToleration \<Rightarrow> TStruct [(''Key'', TPlain), (''TolerationSeconds'', TPtr TPlain)]
      | XEnvVar \<Rightarrow> TStruct [(''Name'', TPlain), (''Value'', TPlain)]
      | XObjectMeta \<Rightarrow> TStruct [(''Name'', TPlain), (''Labels'', TMap), (''Annotations'', TMap)]
      | XTypeMeta \<Rightarrow> TStruct [(''Kind'', TPlain), (''APIVersion'', TPlain)]
      | XLocalObjectReference \<Rightarrow> TStruct [(''Name'', TPlain)]
      | _ \<Rightarrow> TStruct [])"

abbreviation sample_externals :: externals where
  "sample_externals \<equiv> ref_externals sample_layout"

interpretation ref_ext: external_copiers sample_externals
proof (rule external_copiers.intro)
  fix e
  have "wf_type (sample_layout e)" by (cases e) (simp_all add: sample_layout_def)
  then show "deep_copier (layout sample_externals e) (intoX sample_externals e)"
    by (simp add: ref_externals_def deep_copy_of)
next
  show "deep_copier (layout sample_externals XQuantity) (quantityDeepCopy sample_externals)"
    "deep_copier (TPtr (layout sample_externals XTime)) (timeDeepCopy sample_externals)"
    by (simp_all add: ref_externals_def sample_layout_def deep_copy_of deep_new_copy del: copy_of.simps(5))
qed (simp_all add: ref_externals_def sample_layout_def)

text \<open>
  (C8) Every generated copy function of the API types is deep: for a value of the type in memory,
  \<open>DeepCopyInto\<close> and \<open>DeepCopy\<close> produce a value with the same contents that refers to newly allocated
  cells only, and change no cell that was there before.
\<close>

theorem api_types_copied_deeply:
  assumes "external_copiers X"
  shows "list_all (\<lambda>(_, t, into, copy). deep_copier t into \<and> deep_copier (TPtr t) copy) (api_copiers X)"
  using assms by (rule external_copiers.api_copiers_deep)

lemma api_types_copied_deeply_witness:
  "deep_copier (PeerDBCluster_layout sample_externals) (PeerDBCluster_DeepCopyInto sample_externals)"
  using api_types_copied_deeply [OF ref_ext.external_copiers_axioms] by (simp add: api_copiers_def)

text \<open>
  (C25) A pool controller's snapshot of the status is safe: after \<open>statusSnapshot := pool.Status.DeepCopy()\<close>
  the snapshot keeps the contents the status had, whatever is then written to memory that existed
  before the call (the conditions are changed in place) and whatever is allocated; and writes to the
  snapshot do not show in the status.
\<close>

theorem status_snapshot_isolated:
  assumes ext: "external_copiers X"
    and copier: "(t, copy) \<in> {(PeerDBWorkerPoolStatus_layout X, PeerDBWorkerPoolStatus_DeepCopy X),
                             (PeerDBSnapshotPoolStatus_layout X, PeerDBSnapshotPoolStatus_DeepCopy X)}"
    and status: "valid (TPtr t) h p" and run: "copy p h = (q, h')"
  shows "(\<forall>k. (\<forall>a. lim h \<le> a \<and> a < lim h' \<longrightarrow> cells k a = cells h' a) \<longrightarrow> tree (TPtr t) k q = tree (TPtr t) h p) \<and>
         (\<forall>k. (\<forall>a < lim h. cells k a = cells h' a) \<longrightarrow> tree (TPtr t) k p = tree (TPtr t) h p)"
proof -
  have d: "deep_copier (TPtr t) copy"
    using copier external_copiers.api_deep [OF ext] by (auto simp: copy_defs intro: deep_new_copy)
  show ?thesis
    using deep_copier.isolated [OF d status run] deep_copier.original_kept [OF d status run] by blast
qed

text \<open>A status with one condition: the struct in cell 1, the array of its conditions in cell 0.\<close>

definition ready_condition :: "string \<Rightarrow> gval" where
  "ready_condition s = VStruct [(''Type'', VPlain (SStr ''Ready'')), (''Status'', VPlain (SStr s)),
     (''Reason'', VPlain (SStr ''AllReplicasReady'')), (''Message'', VPlain (SStr ''''))]"

definition status_value :: gval where
  "status_value = VStruct [(''ObservedGeneration'', VPlain (SInt 1)), (''Replicas'', VPlain (SInt 2)),
     (''ReadyReplicas'', VPlain (SInt 2)), (''Conditions'', VSlice (Some (0, 0, 1)))]"

definition status_heap :: gheap where
  "status_heap = \<lparr>cells = (\<lambda>_. None)(0 := Some (CArr [ready_condition ''True'']), 1 := Some (CObj status_value)),
     lim = 2\<rparr>"

text \<open>What \<open>SetStatusCondition\<close> does to a condition that is there: it overwrites the array element.\<close>

definition flip_condition :: "gheap \<Rightarrow> gheap" where
  "flip_condition h = store 0 (CArr [ready_condition ''False'']) h"

abbreviation worker_status :: gty where
  "worker_status \<equiv> PeerDBWorkerPoolStatus_layout sample_externals"

lemmas status_sample_defs =
  layout_defs ref_externals_def sample_layout_def flip_condition_def status_heap_def status_value_def
  ready_condition_def elems_def

lemma status_snapshot_isolated_witness:
  "case PeerDBWorkerPoolStatus_DeepCopy sample_externals (VPtr (Some 1)) status_heap of (q, h') \<Rightarrow>
     tree (TPtr worker_status) (flip_condition h') q = tree (TPtr worker_status) status_heap (VPtr (Some 1)) \<and>
     tree (TPtr worker_status) (flip_condition h') (VPtr (Some 1)) \<noteq>
       tree (TPtr worker_status) status_heap (VPtr (Some 1))"
proof -
  obtain q h' where run: "PeerDBWorkerPoolStatus_DeepCopy sample_externals (VPtr (Some 1)) status_heap = (q, h')"
    by fastforce
  have v: "valid (TPtr worker_status) status_heap (VPtr (Some 1))"
    by (simp add: valid_def status_sample_defs)
  have kept: "cells h' 1 = Some (CObj status_value)"
    using deep_copier.copies [OF deep_new_copy [OF ref_ext.PeerDBWorkerPoolStatus_deep] v, of q h'] run
    by (simp add: copy_defs extends_def status_heap_def)
  have "\<forall>a. lim status_heap \<le> a \<and> a < lim h' \<longrightarrow> cells (flip_condition h') a = cells h' a"
    by (simp add: flip_condition_def status_heap_def)
  then have "tree (TPtr worker_status) (flip_condition h') q = tree (TPtr worker_status) status_heap (VPtr (Some 1))"
    using status_snapshot_isolated [where t = worker_status and copy = "PeerDBWorkerPoolStatus_DeepCopy sample_externals", OF ref_ext.external_copiers_axioms _ v run] by blast
  moreover have "tree (TPtr worker_status) (flip_condition h') (VPtr (Some 1)) \<noteq>
      tree (TPtr worker_status) status_heap (VPtr (Some 1))"
    using kept by (simp add: status_sample_defs)
  ultimately show ?thesis unfolding run by blast
qed

text \<open>An assignment would not do: the shallow copy changes with the original.\<close>

lemma shallow_status_copy_shares:
  "tree worker_status (flip_condition status_heap) (fst (plain status_value status_heap)) \<noteq>
     tree worker_status status_heap status_value"
  by (simp add: plain_def status_sample_defs)

text \<open>\<open>DeepCopyObject\<close> returns what \<open>DeepCopy\<close> returns.\<close>

lemma as_object_new_copy: "valid (TPtr t) h v \<Longrightarrow> as_object (new_copy c) v h = new_copy c v h"
  by (cases v) (auto simp: as_object_def new_copy_def valid_def split: option.splits cell.splits prod.splits)

end
