(* ===== verification/Spec2Isabelle.thy ===== *)
theory Spec2Isabelle
  imports Webhooks Ownership UpgradeProgress SteadyState DeepCopy
begin

text \<open>
  A verification library for the PeerDB operator, a Kubernetes operator in Go that runs PeerDB
  clusters. This theory imports all the others and holds the properties that span components.

  \<^bold>\<open>The program.\<close> The operator serves three custom resources (src/api/v1alpha1): PeerDBCluster, the
  control plane of one PeerDB installation; PeerDBWorkerPool and PeerDBSnapshotPool, pools of
  workers that refer to a cluster. Admission webhooks default and validate them. One controller per
  resource (src/internal/controller) reconciles: it reads the resource, builds the Kubernetes objects
  that should exist (src/internal/resources), creates or updates them through the API server, and
  writes the resource's status. The cluster controller also drives version upgrades through a state
  machine kept in the status, holds back during backups, and respects pauses, upgrade policy and
  maintenance windows. The controllers share no memory; they interact through the API server and
  through annotations and versions of the cluster that the pool controllers read.

  \<^bold>\<open>Theories.\<close>
  \<^item> Prelude: fact collections, string maps (Go \<open>map[string]string\<close>), list lemmas.
  \<^item> GoStd, Sha256, GoFlags, GoHeap: what the sources use of Go: formatting, strings, regexp, time of
    day and zones, SHA-256 with hex encoding, the flag package with its parsers, and memory (cells,
    pointers, slices and maps, the copy statements); all executable.
  \<^item> KubeTypes, ApiTypes: the Kubernetes objects and the custom resources as records, field by
    field; condition types, reasons, upgrade phases and policies.
  \<^item> ApiLayouts, DeepCopy: the memory layouts of all API types and the generated copy functions
    (zz\_generated.deepcopy.go), statement by statement.
  \<^item> Runtime: the parameters of the model and its effects (see below); Reconciling: the result type,
    the API calls, the create-or-update pattern, the contract of a controller.
  \<^item> MemServer, Samples: a concrete API server and library that satisfy the assumed laws, and
    concrete resources, for witnesses.
  \<^item> VersionSkew (version\_skew.go), Webhooks (the three \<open>*_webhook.go\<close>).
  \<^item> Resources (labels, ConfigMap, ServiceAccount, config hash), ControlPlane (flow\_api.go,
    peerdb\_server.go, ui.go, init\_jobs.go, maintenance\_jobs.go), PoolWorkloads (flow\_worker.go,
    snapshot\_worker.go).
  \<^item> MaintenanceWindows, ClusterOps, Upgrade, ClusterController: peerdbcluster\_controller.go, from
    the pure checks over the operations on single objects and the upgrade phases to \<open>Reconcile\<close>.
  \<^item> Settled, UpgradeProgress, SteadyState: the same code on a server that holds what it asks for.
  \<^item> PoolCommon, WorkerPoolController, SnapshotPoolController: the two pool controllers.
  \<^item> Manager: cmd/main.go (flags, options, start-up), the SetupWithManager functions, webhook and
    scheme registration (groupversion\_info.go), metrics.go. Ownership: the watches of the manager
    against what the controllers create.

  \<^bold>\<open>How code becomes model.\<close> A Go struct is a record, a string enumeration a datatype with a
  constructor for other strings, a pointer an option. A function without effects is a HOL function
  of the same name. A function that calls the API server is a program of the state monad over the
  server's state (any type) and a log of effects; a fallible one yields \<open>api_error + 'a\<close>. A Go function
  that mutates its cluster argument or a flag returns the new value. Every early return is a branch.
  Events, metrics and API calls are effects in the log, in the order of the code; log lines are left
  out. Strings are byte strings. int32 and int64 values are int: the controllers copy, compare and
  print them and never add to them, so width does not matter there; where Go does arithmetic on them,
  in \<open>time.ParseDuration\<close>, the wrap-around is written out. Only the deep copies are about aliasing: they
  run over the heap of GoHeap, where a value is a tree with references and a copier a function from a
  value and a heap to a value and a heap.

  \<^bold>\<open>Parameters.\<close> The client, apimachinery's helpers, the clock and the time zones are fields of the
  record \<open>env\<close>. What a proof needs of them is a locale of Runtime: \<open>condition_lib\<close> (SetStatusCondition and
  FindStatusCondition), \<open>semantic_equality\<close> (Semantic.DeepEqual: equality at the types without
  quantities, and no more than reflexivity at pod templates and Deployment specs, since quantities are
  compared by value), \<open>owner_lib\<close> (SetControllerReference),
  \<open>aggregate_lib\<close> (ToAggregate), \<open>resource_store\<close>, \<open>status_store\<close>, \<open>deletable_store\<close> (a client whose reads are
  up to date and whose successful writes are stored, as far as the part \<open>view\<close> of an object goes; the
  theorems on workloads and jobs leave \<open>view\<close> open, as the server fills in defaults), and \<open>transition_lib\<close>
  of SteadyState (when SetStatusCondition renews a transition time). The theorems that name one of these have it as
  a hypothesis; all of them are interpreted on the server and library of MemServer. The safety theorems on effects (fencing, pausing,
  gates, permissions) assume none of the store laws: they hold for every behaviour of the server,
  including stale reads, conflicts and failures. The manager of controller-runtime, the flags of the
  logging library and the copy functions of other packages' types are parameters of Manager and
  DeepCopy; \<open>external_copiers\<close> states what the latter promise.

  \<^bold>\<open>What is shown.\<close>
  \<^item> Safety of reconciliation: backup fencing, pausing, the dependency gate, the upgrade gates, least
    privilege (ClusterController, the pool controllers, and the whole operator below); whatever is
    created is watched and owned (Ownership).
  \<^item> Upgrades: the code refines the inductive relation \<open>phase_step\<close>; completed upgrades went through all
    phases in order; a component's phase is left only when it is rolled out, a maintenance phase only
    when its job succeeded; the gates of Waiting. \<open>upgrade_terminates\<close>: on a settled server an upgrade
    ends in Complete after a number of reconciliations read off its phase.
    \<open>open_gates_fall_through\<close> and \<open>component_phase_skips_on_conflict\<close> show where the rollout itself does
    not keep to the order of the phases.
  \<^item> Applying objects: what the server holds after a successful ConfigMap, Service, Deployment, status
    or job operation; unmanaged fields survive, managed ones are set, and Deployments stay well-formed;
    failed jobs are retried; initialized means that every enabled job succeeded. In the steady state a
    whole reconciliation of a cluster writes no object; \<open>steady_state_rewrites_status\<close> shows that it writes
    the status, and \<open>restart_reported_safe\<close> that the one that starts a rolling restart reports a cluster
    safe for backup. \<open>worker_writes_exactly\<close> says when a worker pool writes its Deployment and its status;
    since whole pod templates are compared, defaults filled in by the server make it write each time.
  \<^item> Reporting: the truth tables of the final conditions and of the pools' Ready condition; a
    reconciliation is done only with a ready status stored; otherwise it asks for another call within a
    minute.
  \<^item> Builders: Services reach their own component and no other; selectors match pods (for pools,
    exactly when podLabels leave the selector keys alone); the config hash reaches every pod
    template and separates configurations up to digest collisions; defaulting agrees with the
    builders.
  \<^item> Webhooks and versions: idempotent defaulting, exact admission criteria, version extraction.
  \<^item> Copies: every generated copy function implements the abstract deep copy of its type (locale
    \<open>deep_copier\<close>), so snapshots of a status are isolated from later writes.
  \<^item> Start-up: all or nothing, in the order of the plan up to the first call that fails; the servers are
    hardened unless the command line names the flags that say otherwise; flags are read back as rendered.

  \<^bold>\<open>How effects and results are proved.\<close> Runtime has a rule for every construct of a program: \<open>emits P m\<close>
  (every effect satisfies \<open>P\<close>), \<open>results Q m\<close> (every value returned satisfies \<open>Q\<close>), and \<open>emits_on_ok_inv\<close>,
  which feeds the second into the first; Settled adds \<open>ends\<close> for programs that only read what is there.
  The definitions \<open>drive\<close> and \<open>upgrade_run\<close> (sequences of \<open>reconcileUpgrade\<close>) and \<open>operate\<close> (sequences of
  requests) stand for the work queue, which is not code of the repository.

  \<^bold>\<open>Termination and bounds.\<close> All definitions are total; recursion is structural, except for the digits
  of a number, which descend on the number, the terms of a duration, which descend on the rest of the
  string, and the route of an upgrade, which descends on the steps left. There is no fuel.

  \<^bold>\<open>Not modelled.\<close> Log output and the version variables it prints (version.go); what the manager does
  after its start (work queues, leader election, certificate watching), which is controller-runtime's.
  The pool and cluster controllers run concurrently in the real manager; the model runs one
  reconciliation at a time, and lets the server's state change arbitrarily at every call.
\<close>

section \<open>Defaulting and the resource builders\<close>

lemma override_default:
  "override (map_option (\<lambda>x. upd x) spec) fld dflt = override spec (\<lambda>x. fld (upd x)) dflt"
  by (simp add: override_def split: option.splits)

lemma default_catalog_simps:
  "catalog_port (default_catalog cat) = catalog_port cat"
  "catalog_ssl_mode (default_catalog cat) = catalog_ssl_mode cat"
  "catHost (default_catalog cat) = catHost cat" "catDatabase (default_catalog cat) = catDatabase cat"
  "catUser (default_catalog cat) = catUser cat"
  "catPasswordSecretRef (default_catalog cat) = catPasswordSecretRef cat"
  by (simp_all add: default_catalog_def catalog_port_def catalog_ssl_mode_def Let_def)

lemma default_cluster_simps:
  "clMeta (PeerDBClusterDefault c) = clMeta c"
  "clVersion (clSpec (PeerDBClusterDefault c)) = clVersion (clSpec c)"
  "clTemporal (PeerDBClusterDefault c) = clTemporal c"
  "clCatalog (PeerDBClusterDefault c) = default_catalog (clCatalog c)"
  "clInit (clSpec (PeerDBClusterDefault c)) = clInit (clSpec c)"
  "clMaintenance (clSpec (PeerDBClusterDefault c)) = clMaintenance (clSpec c)"
  "clComponents (clSpec (PeerDBClusterDefault c)) = map_option default_components (clComponents (clSpec c))"
  by (simp_all add: PeerDBClusterDefault_def Let_def split: option.splits)

lemma default_component_specs:
  "flow_api_spec (PeerDBClusterDefault c) =
     map_option (\<lambda>x. x\<lparr>faReplicas := default_int 1 (faReplicas x)\<rparr>) (flow_api_spec c)"
  "server_spec (PeerDBClusterDefault c) =
     map_option (\<lambda>x. x\<lparr>psvReplicas := default_int 1 (psvReplicas x)\<rparr>) (server_spec c)"
  "ui_spec (PeerDBClusterDefault c) =
     map_option (\<lambda>x. x\<lparr>uiReplicas := default_int 1 (uiReplicas x)\<rparr>) (ui_spec c)"
  by (cases "clComponents (clSpec c)"; simp add: default_cluster_simps default_components_def)+

text \<open>
  (C31) Admission defaulting and the resource builders agree on the defaults: everything the operator
  builds for a cluster (ConfigMap, Deployments, Services, jobs) is the same before and after the
  defaulting webhook, so a cluster admitted while the webhook was down is run the same way; and the
  ServiceAccount, which is created by default, differs in nothing either.
\<close>

theorem defaults_agree:
  "BuildConfigMap (PeerDBClusterDefault c) = BuildConfigMap c \<and>
   BuildFlowAPIDeployment L (PeerDBClusterDefault c) h = BuildFlowAPIDeployment L c h \<and>
   BuildPeerDBServerDeployment L (PeerDBClusterDefault c) h = BuildPeerDBServerDeployment L c h \<and>
   BuildUIDeployment L (PeerDBClusterDefault c) h = BuildUIDeployment L c h \<and>
   BuildFlowAPIService (PeerDBClusterDefault c) = BuildFlowAPIService c \<and>
   BuildPeerDBServerService (PeerDBClusterDefault c) = BuildPeerDBServerService c \<and>
   BuildUIService (PeerDBClusterDefault c) = BuildUIService c \<and>
   BuildNamespaceRegistrationJob (PeerDBClusterDefault c) = BuildNamespaceRegistrationJob c \<and>
   BuildSearchAttributeJob (PeerDBClusterDefault c) = BuildSearchAttributeJob c \<and>
   BuildStartMaintenanceJob (PeerDBClusterDefault c) = BuildStartMaintenanceJob c \<and>
   BuildEndMaintenanceJob (PeerDBClusterDefault c) = BuildEndMaintenanceJob c \<and>
   BuildServiceAccount (PeerDBClusterDefault c) = BuildServiceAccount c"
proof -
  have bind: "Option.bind (map_option f x) g = Option.bind x (\<lambda>y. g (f y))" for f g and x :: "'a option"
    by (cases x) simp_all
  have replicas: "override fa (\<lambda>x. default_int 1 (faReplicas x)) 1 = override fa faReplicas 1"
    "override sv (\<lambda>x. default_int 1 (psvReplicas x)) 1 = override sv psvReplicas 1"
    "override ui (\<lambda>x. default_int 1 (uiReplicas x)) 1 = override ui uiReplicas 1" for fa sv ui
    by (simp_all add: override_def default_int_def split: option.splits)
  have cfg: "BuildConfigMap (PeerDBClusterDefault c) = BuildConfigMap c"
    by (simp add: BuildConfigMap_def default_cluster_simps default_catalog_simps Let_def)
  have pieces: "config_env (PeerDBClusterDefault c) = config_env c"
    "catalog_password (PeerDBClusterDefault c) = catalog_password c"
    by (simp_all add: config_env_def catalog_password_def default_cluster_simps default_catalog_simps)
  have sa: "BuildServiceAccount (PeerDBClusterDefault c) = BuildServiceAccount c"
    by (simp add: BuildServiceAccount_def PeerDBClusterDefault_def Let_def split: option.splits)
  show ?thesis
    by (simp add: cfg sa build_defs Let_def pieces default_cluster_simps(1-6) default_component_specs
        override_default bind replicas)
qed

section \<open>Webhook and controllers on version skew\<close>

text \<open>
  The webhook and the pool controllers judge version skew alike: a pinned image is refused at
  admission exactly when the controllers would warn about it.
\<close>

lemma skew_checks_agree:
  "validateVersionSkew img version path = None \<longleftrightarrow> pool_skew img version = None"
  by (auto simp: validateVersionSkew_def pool_skew_def split: sum.splits if_splits)

section \<open>One config hash for all workloads\<close>

text \<open>
  (C32) Control plane and pools stamp the same config hash: when a pool's controller and the cluster's
  read the same catalog secret, under the name the cluster refers to, the hash a pool computes is the
  one \<open>reconcileDependencies\<close> computes, so a change of configuration rolls all workloads.
\<close>

theorem config_hash_shared:
  assumes secret: "rGet (secrets E) (NN (sksName (catPasswordSecretRef (clCatalog c))) (clNamespace c)) (world s) = (Inr sec, w1)"
    and name: "mName (scMeta sec) = sksName (catPasswordSecretRef (clCatalog c))"
  shows "\<exists>c'. fst (run_state (reconcileDependencies E c) s) =
           Inr (c', fst (run_state (computePoolConfigHash E c (clNamespace c)) s)) \<and>
         fst (run_state (computePoolConfigHash E c (clNamespace c)) s) \<noteq> ''''"
  using assms
  by (simp add: reconcileDependencies_def computePoolConfigHash_def kget_def Let_def ComputeConfigHash_nonempty)

lemma config_hash_shared_witness:
  "\<exists>c'. fst (run_state (reconcileDependencies mem_env sample_cluster) (sys_with sample_cluster)) =
     Inr (c', fst (run_state (computePoolConfigHash mem_env sample_cluster ''default'') (sys_with sample_cluster)))"
proof -
  have "rGet (secrets mem_env) (NN (sksName (catPasswordSecretRef (clCatalog sample_cluster))) (clNamespace sample_cluster))
      (world (sys_with sample_cluster)) = (Inr sample_secret, world (sys_with sample_cluster))"
    by (simp add: sys_with_def mem_defs secret_slot_def sample_defs meta_key_def)
  moreover have "mName (scMeta sample_secret) = sksName (catPasswordSecretRef (clCatalog sample_cluster))"
    and ns: "clNamespace sample_cluster = ''default''"
    by (simp_all add: sample_defs)
  ultimately show ?thesis
    using config_hash_shared [of mem_env sample_cluster "sys_with sample_cluster"] by (metis ns)
qed

section \<open>The operator as a whole\<close>

text \<open>
  The work queues of the three controllers, as one sequence of requests. Requests of different
  controllers may run at the same time; what is shown below is a property of every single effect, so
  it does not depend on how their calls interleave.
\<close>

datatype request = ForCluster NamespacedName | ForWorkerPool NamespacedName | ForSnapshotPool NamespacedName

fun handle :: "'w env \<Rightarrow> request \<Rightarrow> ('w, Result) gprog" where
  "handle E (ForCluster n) = Reconcile E n"
| "handle E (ForWorkerPool n) = WorkerPoolReconcile E n"
| "handle E (ForSnapshotPool n) = SnapshotPoolReconcile E n"

fun operate :: "'w env \<Rightarrow> request list \<Rightarrow> ('w, unit) prog" where
  "operate E [] = ret ()"
| "operate E (r # rs) = do { _ \<leftarrow> handle E r; operate E rs }"

definition operator_permitted :: "effect \<Rightarrow> bool" where
  "operator_permitted e \<longleftrightarrow> rbac_allows e \<or> worker_permitted e \<or> snapshot_permitted e"

lemma permitted_handle: "emits operator_permitted (handle E r)"
proof (cases r)
  case (ForCluster n)
  then show ?thesis
    by (auto simp: operator_permitted_def intro: emits_mono [OF cluster_controller.permits])
next
  case (ForWorkerPool n)
  then show ?thesis
    by (auto simp: operator_permitted_def intro: emits_mono [OF worker_controller.permits])
next
  case (ForSnapshotPool n)
  then show ?thesis
    by (auto simp: operator_permitted_def intro: emits_mono [OF snapshot_controller.permits])
qed

lemma permitted_operate: "emits operator_permitted (operate E rs)"
  by (induction rs) (auto intro!: emits_intros permitted_handle)

text \<open>
  (C23) However requests arrive and however the server answers, the operator never creates, updates or
  deletes a custom resource of its own or a Secret (it only writes the status of the former), and the
  only objects it ever deletes are Jobs.
\<close>

theorem operator_keeps_resources:
  "\<exists>es. log (snd (run_state (operate E rs) s)) = log s @ es \<and>
     list_all (\<lambda>e. writes e \<notin> {Some KCluster, Some KWorkerPool, Some KSnapshotPool, Some KSecret} \<and>
       (case e of EDelete ob \<Rightarrow> kind_of ob = KJob | _ \<Rightarrow> True)) es"
proof (rule emitsD, rule emits_mono [OF permitted_operate])
  fix e
  assume "operator_permitted e"
  then show "writes e \<notin> {Some KCluster, Some KWorkerPool, Some KSnapshotPool, Some KSecret} \<and>
      (case e of EDelete ob \<Rightarrow> kind_of ob = KJob | _ \<Rightarrow> True)"
    by (cases e) (auto simp: operator_permitted_def)
qed

section \<open>When the operator looks again\<close>

text \<open>A result that asks for another call at once, after at most a minute, or not at all.\<close>

definition timely :: "Result \<Rightarrow> bool" where
  "timely r \<longleftrightarrow> 0 \<le> RequeueAfter r \<and> RequeueAfter r \<le> seconds 60 \<and> (Requeue r \<longrightarrow> RequeueAfter r = 0)"

lemma timely_simps [simp]:
  "timely done_result" "timely requeue" "0 \<le> n \<Longrightarrow> n \<le> 60 \<Longrightarrow> timely (requeue_after n)"
  by (simp_all add: timely_def seconds_def)

lemma results_case_job [results_intros]:
  "results Q a \<Longrightarrow> results Q b \<Longrightarrow> results Q d \<Longrightarrow>
     results Q (case x of JobSucceeded \<Rightarrow> a | JobBroken \<Rightarrow> b | JobRunning \<Rightarrow> d)"
  by (cases x) auto

lemma results_with_upgrade [results_intros]: "(\<And>u. results Q (f u)) \<Longrightarrow> results Q (with_upgrade c f)"
  unfolding with_upgrade_def by (intro results_intros)

lemma timely_upgrade: "results (\<lambda>(c', r). timely r) (reconcileUpgrade E c h)"
proof -
  let ?Q = "\<lambda>(c' :: PeerDBCluster, r). timely r"
  have waiting: "results ?Q (upgradePhaseWaiting E c1)" for c1
    unfolding upgradePhaseWaiting_def by (intro results_intros) simp_all
  have blocked: "results ?Q (upgradePhaseBlocked E c1)" for c1
    unfolding upgradePhaseBlocked_def by (intro results_intros) simp_all
  have init_jobs: "results ?Q (upgradePhaseInitJobs E c1)" for c1
    unfolding upgradePhaseInitJobs_def by (intro results_intros) simp_all
  have component: "results ?Q (upgradePhaseComponent E c1 d sv name nxt)" for c1 d sv name nxt
    unfolding upgradePhaseComponent_def by (intro results_intros) simp_all
  have job: "results ?Q (upgradePhaseMaintenanceJob E c1 j name nxt)" for c1 j name nxt
    unfolding upgradePhaseMaintenanceJob_def by (intro results_intros) simp_all
  have "results ?Q (upgrade_dispatch E c1 h p)" for c1 p
    unfolding upgrade_dispatch_def by (cases p) (simp_all add: waiting blocked init_jobs component job results_ok)
  then show ?thesis
    unfolding reconcileUpgrade_def by (intro results_with_upgrade results_bind)
qed

lemma timely_lifecycle:
  "results (\<lambda>lc. case lc of Done r \<Rightarrow> timely r | Continue c' \<Rightarrow> True) (reconcileUpgradeLifecycle E c h b)"
  unfolding reconcileUpgradeLifecycle_def
  by (rule results_let, rule results_if, rule results_ok, simp, rule results_with_upgrade, intro results_let results_bind
      results_if results_ok results_on_ok_inv [OF timely_upgrade]) (auto intro!: results_intros)

lemma timely_cluster: "results timely (Reconcile E req)"
proof -
  have standard: "results timely (standard_reconcile E c h b)" for c h b
    unfolding standard_reconcile_def by (intro results_intros) simp_all
  have "results timely (reconcile_active E c h b)" for c h b
    unfolding reconcile_active_def
    by (intro results_on_ok results_on_ok_inv [OF timely_lifecycle])
      (auto simp: standard results_ok split: lifecycle.splits)
  then show ?thesis
    unfolding Reconcile_def reconcilePaused_def by (intro results_intros) simp_all
qed

lemma timely_handle: "results timely (handle E r)"
proof (cases r)
  case (ForCluster n)
  then show ?thesis by (simp add: timely_cluster)
next
  case (ForWorkerPool n)
  then show ?thesis
    unfolding ForWorkerPool handle.simps WorkerPoolReconcile_def worker_apply_def worker_report_def
    by (intro results_intros) simp_all
next
  case (ForSnapshotPool n)
  then show ?thesis
    unfolding ForSnapshotPool handle.simps SnapshotPoolReconcile_def snapshot_apply_def snapshot_report_def
    by (intro results_intros) simp_all
qed

text \<open>
  (C29) Whatever the server answers, a reconciliation that ends without an error asks to be called again
  at once, after at most 60 seconds, or not at all: no resource is left waiting longer for its next look,
  no delay is negative, and an immediate requeue never carries a delay.
\<close>

theorem requeue_bounded:
  assumes "run_state (handle E r) s = (Inr res, s')"
  shows "0 \<le> RequeueAfter res \<and> RequeueAfter res \<le> seconds 60 \<and> (Requeue res \<longrightarrow> RequeueAfter res = 0)"
  using resultsD [OF timely_handle assms] by (simp add: timely_def)

lemma requeue_bounded_witness:
  "\<exists>res s'. run_state (handle mem_env (ForCluster (NN ''peerdb'' ''default''))) \<lparr>world = steady_world, log = []\<rparr> = (Inr res, s') \<and>
     RequeueAfter res \<le> seconds 60"
proof -
  have key: "meta_key (clMeta steady_sample) = NN ''peerdb'' ''default''"
    by (simp add: sample_defs meta_key_def)
  from endsD [OF sample_steady.reconcile_steady, of "\<lparr>world = steady_world, log = []\<rparr>", unfolded key] obtain s' where
    run: "run_state (handle mem_env (ForCluster (NN ''peerdb'' ''default''))) \<lparr>world = steady_world, log = []\<rparr> = (Inr done_result, s')"
    by auto
  from requeue_bounded [OF run] run show ?thesis by blast
qed

section \<open>Settings without effect\<close>

text \<open>
  Fields of the API that have no effect on what is built: the image pull secrets of a cluster, the
  task queue of a worker pool and the resources of an init job.
\<close>

lemma settings_without_effect:
  "BuildFlowAPIDeployment L (c\<lparr>clSpec := (clSpec c)\<lparr>clImagePullSecrets := xs\<rparr>\<rparr>) h = BuildFlowAPIDeployment L c h"
  "BuildUIDeployment L (c\<lparr>clSpec := (clSpec c)\<lparr>clImagePullSecrets := xs\<rparr>\<rparr>) h = BuildUIDeployment L c h"
  "BuildServiceAccount (c\<lparr>clSpec := (clSpec c)\<lparr>clImagePullSecrets := xs\<rparr>\<rparr>) = BuildServiceAccount c"
  "BuildFlowWorkerDeployment L (p\<lparr>wpSpec := (wpSpec p)\<lparr>wsTemporalTaskQueue := q\<rparr>\<rparr>) c h = BuildFlowWorkerDeployment L p c h"
  "clInit (clSpec c) = Some i \<Longrightarrow> inTemporalSearchAttributes i = Some j \<Longrightarrow>
     BuildSearchAttributeJob (c\<lparr>clSpec := (clSpec c)\<lparr>clInit := Some (i\<lparr>inTemporalSearchAttributes := Some (j\<lparr>ijResources := r\<rparr>)\<rparr>)\<rparr>\<rparr>) =
     BuildSearchAttributeJob c"
  by (simp_all add: build_defs Let_def config_env_def catalog_password_def BuildServiceAccount_def override_def split: option.splits)

end
